(* ===== verification/Prelude.thy ===== *)
theory Prelude
  imports Main "HOL-Library.Word" "HOL-Library.List_Lexorder" "HOL-Library.Product_Lexorder"
begin

text \<open>
  Shared vocabulary of the development: the machine integers and byte arrays of the Rust sources,
  results with an early return, loops that stop at the first error, and the operations of
  \<^verbatim>\<open>Vec\<close> and of iterators that the components use (\<^verbatim>\<open>find\<close>, \<^verbatim>\<open>position\<close>, \<^verbatim>\<open>min_by_key\<close>,
  \<^verbatim>\<open>max_by_key\<close>, \<^verbatim>\<open>dedup_by_key\<close>, \<^verbatim>\<open>remove\<close>, assignment through a mutable reference), with the
  lemmas about them that the component proofs share.
\<close>

unbundle bit_operations_syntax

named_theorems result_simps \<open>when a sequence of checks succeeds\<close>
named_theorems vec_simps \<open>facts on the vector operations\<close>

section \<open>Machine integers\<close>

type_synonym u8 = "8 word"
type_synonym u16 = "16 word"
type_synonym u32 = "32 word"
type_synonym u64 = "64 word"

text \<open>
  An \<^verbatim>\<open>i64\<close> is an \<^typ>\<open>int\<close> between \<open>i64_min\<close> and \<open>i64_max\<close>, a \<^verbatim>\<open>usize\<close> is a \<^typ>\<open>nat\<close> that is at
  most \<open>usize_max\<close> (64-bit targets). The saturating operations write the bounds out.
\<close>

type_synonym i64 = int
type_synonym usize = nat

definition usize_max :: nat where
  "usize_max = 2 ^ 64 - 1"

definition i64_max :: int where
  "i64_max = 2 ^ 63 - 1"

definition i64_min :: int where
  "i64_min = - (2 ^ 63)"

definition clamp_i64 :: "int \<Rightarrow> i64" where
  "clamp_i64 x = max i64_min (min i64_max x)"

definition in_i64 :: "int \<Rightarrow> bool" where
  "in_i64 x \<longleftrightarrow> i64_min \<le> x \<and> x \<le> i64_max"

definition unsigned_abs :: "i64 \<Rightarrow> nat" where
  "unsigned_abs x = nat \<bar>x\<bar>"

definition sat_add :: "'a::len word \<Rightarrow> 'a word \<Rightarrow> 'a word" where
  "sat_add a b = (if unat a + unat b < 2 ^ LENGTH('a) then a + b else - 1)"

definition sat_sub :: "'a::len word \<Rightarrow> 'a word \<Rightarrow> 'a word" where
  "sat_sub a b = (if b \<le> a then a - b else 0)"

definition sat_mul :: "'a::len word \<Rightarrow> 'a word \<Rightarrow> 'a word" where
  "sat_mul a b = (if unat a * unat b < 2 ^ LENGTH('a) then a * b else - 1)"

definition usat :: "nat \<Rightarrow> usize" where
  "usat n = min n usize_max"

text \<open>Comparisons of a numeral with 1, which the library leaves open.\<close>

lemma word_numeral_cmp_1 [simp]:
  "(numeral a :: 'a::len word) \<le> 1 \<longleftrightarrow> unat (numeral a :: 'a word) \<le> 1"
  "1 \<le> (numeral a :: 'a::len word) \<longleftrightarrow> 1 \<le> unat (numeral a :: 'a word)"
  "(numeral a :: 'a::len word) < 1 \<longleftrightarrow> unat (numeral a :: 'a word) < 1"
  "1 < (numeral a :: 'a::len word) \<longleftrightarrow> 1 < unat (numeral a :: 'a word)"
  by (simp_all add: word_le_nat_alt word_less_nat_alt del: unsigned_numeral)

lemma unat_sat_add: "unat (sat_add a b) = min (unat a + unat b) (2 ^ LENGTH('a) - 1)"
  for a b :: "'a::len word"
proof (cases "unat a + unat b < 2 ^ LENGTH('a)")
  case True
  then show ?thesis
    by (simp add: sat_add_def unat_word_ariths)
next
  case False
  then show ?thesis
    by (simp add: sat_add_def unsigned_minus_1_eq_mask mask_eq_exp_minus_1)
qed

lemma unat_sat_sub: "unat (sat_sub a b) = unat a - unat b"
  for a b :: "'a::len word"
  by (simp add: sat_sub_def unat_sub word_le_nat_alt)

lemma unat_sat_mul: "unat (sat_mul a b) = min (unat a * unat b) (2 ^ LENGTH('a) - 1)"
  for a b :: "'a::len word"
proof (cases "unat a * unat b < 2 ^ LENGTH('a)")
  case True
  then show ?thesis
    by (simp add: sat_mul_def unat_word_ariths)
next
  case False
  then show ?thesis
    by (simp add: sat_mul_def unsigned_minus_1_eq_mask mask_eq_exp_minus_1)
qed

lemma sat_add_le_iff: "c \<le> sat_add a b \<longleftrightarrow> unat c \<le> unat a + unat b"
  for a b c :: "'a::len word"
proof -
  have "unat c \<le> 2 ^ LENGTH('a) - 1"
    using unsigned_less [of c, where ?'a = nat] by linarith
  then show ?thesis
    by (simp add: word_le_nat_alt unat_sat_add)
qed

lemma sat_add_ge: "a \<le> sat_add a b"
  by (simp add: sat_add_le_iff)

lemma in_i64_clamp: "in_i64 (clamp_i64 x)"
  by (simp add: in_i64_def clamp_i64_def i64_min_def i64_max_def)

lemma clamp_i64_id: "in_i64 x \<Longrightarrow> clamp_i64 x = x"
  by (simp add: in_i64_def clamp_i64_def)

lemma usat_id: "n \<le> usize_max \<Longrightarrow> usat n = n"
  by (simp add: usat_def)

lemma usat_mono: "m \<le> n \<Longrightarrow> usat m \<le> usat n"
  by (simp add: usat_def min_le_iff_disj)

section \<open>Fixed-size byte arrays\<close>

text \<open>\<^verbatim>\<open>[u8; N]\<close>: the byte lists of length \<open>N\<close>, ordered lexicographically as \<^verbatim>\<open>derive(Ord)\<close> orders them.\<close>

typedef (overloaded) 'n::len bytes = "{xs :: u8 list. length xs = LENGTH('n)}"
  morphisms as_bytes of_bytes
proof
  show "replicate LENGTH('n) 0 \<in> {xs :: u8 list. length xs = LENGTH('n)}"
    by simp
qed

declare as_bytes_inverse [code abstype]

lemma length_as_bytes [simp]: "length (as_bytes x) = LENGTH('n)"
  for x :: "'n::len bytes"
  using as_bytes [of x] by simp

definition filled :: "u8 \<Rightarrow> 'n::len bytes" where
  "filled b = of_bytes (replicate LENGTH('n) b)"

definition xor_bytes :: "'n::len bytes \<Rightarrow> 'n bytes \<Rightarrow> 'n bytes" where
  "xor_bytes x y = of_bytes (map2 (XOR) (as_bytes x) (as_bytes y))"

lemma as_bytes_filled [simp, code abstract]:
  "as_bytes (filled b :: 'n::len bytes) = replicate LENGTH('n) b"
  by (simp add: filled_def of_bytes_inverse)

lemma as_bytes_xor [simp, code abstract]:
  "as_bytes (xor_bytes x y) = map2 (XOR) (as_bytes x) (as_bytes y)"
  by (simp add: xor_bytes_def of_bytes_inverse)

lemma bytes_eq_iff: "x = y \<longleftrightarrow> as_bytes x = as_bytes y"
  by (simp add: as_bytes_inject)

instantiation bytes :: (len) equal
begin

definition equal_bytes :: "'a bytes \<Rightarrow> 'a bytes \<Rightarrow> bool" where
  "equal_bytes x y \<longleftrightarrow> as_bytes x = as_bytes y"

instance
  by standard (simp add: equal_bytes_def as_bytes_inject)

end

instantiation bytes :: (len) linorder
begin

definition less_eq_bytes :: "'a bytes \<Rightarrow> 'a bytes \<Rightarrow> bool" where
  "less_eq_bytes x y \<longleftrightarrow> as_bytes x \<le> as_bytes y"

definition less_bytes :: "'a bytes \<Rightarrow> 'a bytes \<Rightarrow> bool" where
  "less_bytes x y \<longleftrightarrow> as_bytes x < as_bytes y"

instance
  by standard (auto simp: less_eq_bytes_def less_bytes_def bytes_eq_iff)

end

lemma filled_eq_iff [simp]: "filled a = (filled b :: 'n::len bytes) \<longleftrightarrow> a = b"
  by (simp add: bytes_eq_iff)

lemma replicate_le_iff:
  "0 < n \<Longrightarrow> replicate n a \<le> replicate n b \<longleftrightarrow> a \<le> b" for a b :: "'a::linorder"
proof (induction n)
  case 0
  then show ?case by simp
next
  case (Suc n)
  then show ?case by (cases n) (auto simp: less_le_not_le)
qed

lemma filled_le_iff [simp]: "filled a \<le> (filled b :: 'n::len bytes) \<longleftrightarrow> a \<le> b"
  by (simp add: less_eq_bytes_def replicate_le_iff)

lemma filled_less_iff [simp]: "filled a < (filled b :: 'n::len bytes) \<longleftrightarrow> a < b"
  by (simp add: less_le_not_le)

lemma xor_filled [simp]: "xor_bytes (filled a) (filled b) = (filled (a XOR b) :: 'n::len bytes)"
  by (simp add: bytes_eq_iff zip_replicate)

lemma xor_bytes_self [simp]: "xor_bytes x x = filled 0"
  by (auto simp: bytes_eq_iff intro: nth_equalityI)

lemma xor_bytes_commute: "xor_bytes x y = xor_bytes y x"
  by (auto simp: bytes_eq_iff xor.commute intro: nth_equalityI)

lemma xor_bytes_assoc: "xor_bytes (xor_bytes x y) z = xor_bytes x (xor_bytes y z)"
  by (auto simp: bytes_eq_iff xor.assoc intro: nth_equalityI)

lemma xor_bytes_zero [simp]: "xor_bytes x (filled 0) = x"
  by (auto simp: bytes_eq_iff intro: nth_equalityI)

lemma xor_bytes_cancel_right: "xor_bytes x z = xor_bytes y z \<longleftrightarrow> x = y"
proof
  assume "xor_bytes x z = xor_bytes y z"
  then have "xor_bytes (xor_bytes x z) z = xor_bytes (xor_bytes y z) z"
    by simp
  then show "x = y"
    by (simp add: xor_bytes_assoc)
qed simp

lemma xor_bytes_eq_zero_iff: "xor_bytes x y = filled 0 \<longleftrightarrow> x = y"
  using xor_bytes_cancel_right [of x y y] by simp

section \<open>Results and early returns\<close>

text \<open>
  \<^verbatim>\<open>Result<T, E>\<close> is the sum type with \<^const>\<open>Inl\<close> for \<^verbatim>\<open>Err\<close>. A sequence of statements ending in
  \<^verbatim>\<open>?\<close> is \<open>all_ok\<close> of the list of their results: the first error is the result of the function. A
  \<^verbatim>\<open>for\<close> loop with mutable state and early returns is \<open>try_fold\<close>.
\<close>

abbreviation Ok :: "'e + unit" where
  "Ok \<equiv> Inr ()"

definition err_if :: "bool \<Rightarrow> 'e \<Rightarrow> 'e + unit" where
  "err_if c e = (if c then Inl e else Ok)"

fun all_ok :: "('e + unit) list \<Rightarrow> 'e + unit" where
  "all_ok [] = Ok"
| "all_ok (c # cs) = (case c of Inl e \<Rightarrow> Inl e | Inr _ \<Rightarrow> all_ok cs)"

definition if_some :: "'a option \<Rightarrow> ('a \<Rightarrow> 'e + unit) \<Rightarrow> 'e + unit" where
  "if_some v f = (case v of None \<Rightarrow> Ok | Some x \<Rightarrow> f x)"

definition is_some_and :: "'a option \<Rightarrow> ('a \<Rightarrow> bool) \<Rightarrow> bool" where
  "is_some_and v p \<longleftrightarrow> (case v of None \<Rightarrow> False | Some x \<Rightarrow> p x)"

fun try_fold :: "('s \<Rightarrow> 'a \<Rightarrow> 'e + 's) \<Rightarrow> 's \<Rightarrow> 'a list \<Rightarrow> 'e + 's" where
  "try_fold f s [] = Inr s"
| "try_fold f s (x # xs) = (case f s x of Inl e \<Rightarrow> Inl e | Inr s' \<Rightarrow> try_fold f s' xs)"

definition and_then :: "'e + 'a \<Rightarrow> ('a \<Rightarrow> 'e + 'b) \<Rightarrow> 'e + 'b" where
  "and_then r f = (case r of Inl e \<Rightarrow> Inl e | Inr x \<Rightarrow> f x)"

definition map_err :: "('e \<Rightarrow> 'f) \<Rightarrow> 'e + 'a \<Rightarrow> 'f + 'a" where
  "map_err f r = (case r of Inl e \<Rightarrow> Inl (f e) | Inr x \<Rightarrow> Inr x)"

fun is_err :: "'e + 'a \<Rightarrow> bool" where
  "is_err (Inl _) = True"
| "is_err (Inr _) = False"

lemma err_if_ok [simp, result_simps]: "err_if c e = Inr u \<longleftrightarrow> \<not> c"
  by (simp add: err_if_def)

lemma all_ok_Cons_iff [result_simps]: "all_ok (c # cs) = Inr u \<longleftrightarrow> c = Ok \<and> all_ok cs = Ok"
  by (auto split: sum.splits)

lemma all_ok_iff: "all_ok cs = Inr u \<longleftrightarrow> (\<forall>c\<in>set cs. c = Ok)"
  by (induction cs) (auto simp: all_ok_Cons_iff simp del: all_ok.simps(2))

lemma all_ok_map [result_simps]: "all_ok (map f xs) = Inr u \<longleftrightarrow> (\<forall>x\<in>set xs. f x = Ok)"
  by (simp add: all_ok_iff)

lemma all_ok_Nil_iff [result_simps]: "all_ok [] = Inr u"
  by simp

lemma if_some_ok [result_simps]: "if_some v f = Inr u \<longleftrightarrow> (\<forall>x. v = Some x \<longrightarrow> f x = Ok)"
  by (cases v) (auto simp: if_some_def)

lemma is_some_and_iff [result_simps]: "is_some_and v p \<longleftrightarrow> (\<exists>x. v = Some x \<and> p x)"
  by (cases v) (auto simp: is_some_and_def)

lemma and_then_ok [result_simps]:
  "and_then r f = Inr y \<longleftrightarrow> (\<exists>x. r = Inr x \<and> f x = Inr y)"
  by (cases r) (auto simp: and_then_def)

lemma map_err_ok [result_simps]: "map_err f r = Inr y \<longleftrightarrow> r = Inr y"
  by (cases r) (auto simp: map_err_def)

lemma not_is_err_iff [result_simps]: "\<not> is_err r \<longleftrightarrow> (\<exists>x. r = Inr x)"
  by (cases r) auto

lemma all_ok_Inl_in: "all_ok cs = Inl e \<Longrightarrow> Inl e \<in> set cs"
  by (induction cs) (auto split: sum.splits)

lemma try_fold_append:
  "try_fold f s (xs @ ys) = and_then (try_fold f s xs) (\<lambda>s'. try_fold f s' ys)"
  by (induction xs arbitrary: s) (auto simp: and_then_def split: sum.splits)

text \<open>
  A loop that inserts a key of every element into a \<^verbatim>\<open>HashSet\<close> and fails on a repeated key, with
  the other checks of its body before (\<open>pre\<close>) or after (\<open>post\<close>) the insertion.
\<close>

definition insert_step :: "('a \<Rightarrow> 'e + unit) \<Rightarrow> ('a \<Rightarrow> 'k) \<Rightarrow> 'e \<Rightarrow> ('a \<Rightarrow> 'e + unit) \<Rightarrow> 'k set \<Rightarrow> 'a \<Rightarrow> 'e + 'k set" where
  "insert_step pre key dup post seen x =
     and_then (pre x) (\<lambda>_. if key x \<in> seen then Inl dup
       else and_then (post x) (\<lambda>_. Inr (insert (key x) seen)))"

lemma try_fold_insert_step [result_simps]:
  "try_fold (insert_step pre key dup post) seen xs = Inr seen' \<longleftrightarrow>
     (\<forall>x\<in>set xs. pre x = Ok \<and> post x = Ok) \<and> distinct (map key xs) \<and>
     key ` set xs \<inter> seen = {} \<and> seen' = seen \<union> key ` set xs"
proof (induction xs arbitrary: seen)
  case Nil
  then show ?case by auto
next
  case (Cons x xs)
  have "try_fold (insert_step pre key dup post) seen (x # xs) = Inr seen' \<longleftrightarrow>
      pre x = Ok \<and> key x \<notin> seen \<and> post x = Ok \<and>
      try_fold (insert_step pre key dup post) (insert (key x) seen) xs = Inr seen'"
    by (auto simp: insert_step_def and_then_def split: sum.splits)
  then show ?case
    by (auto simp: Cons.IH)
qed

section \<open>Vectors and iterators\<close>

fun replace_first :: "('a \<Rightarrow> bool) \<Rightarrow> 'a \<Rightarrow> 'a list \<Rightarrow> 'a list" where
  "replace_first p y [] = []"
| "replace_first p y (x # xs) = (if p x then y # xs else x # replace_first p y xs)"

fun position :: "('a \<Rightarrow> bool) \<Rightarrow> 'a list \<Rightarrow> nat option" where
  "position p [] = None"
| "position p (x # xs) = (if p x then Some 0 else map_option Suc (position p xs))"

definition remove_at :: "nat \<Rightarrow> 'a list \<Rightarrow> 'a list" where
  "remove_at i xs = take i xs @ drop (Suc i) xs"

text \<open>\<^verbatim>\<open>min_by_key\<close> returns the first of several minimal elements, \<^verbatim>\<open>max_by_key\<close> the last maximal one.\<close>

fun min_by_key :: "('a \<Rightarrow> 'k::linorder) \<Rightarrow> 'a list \<Rightarrow> 'a option" where
  "min_by_key f [] = None"
| "min_by_key f (x # xs) =
     (case min_by_key f xs of None \<Rightarrow> Some x | Some y \<Rightarrow> if f x \<le> f y then Some x else Some y)"

fun max_by_key :: "('a \<Rightarrow> 'k::linorder) \<Rightarrow> 'a list \<Rightarrow> 'a option" where
  "max_by_key f [] = None"
| "max_by_key f (x # xs) =
     (case max_by_key f xs of None \<Rightarrow> Some x | Some y \<Rightarrow> if f y < f x then Some x else Some y)"

text \<open>\<^verbatim>\<open>Vec::dedup_by_key\<close> drops an element whose key is that of the element kept before it.\<close>

fun dedup_by_key :: "('a \<Rightarrow> 'k) \<Rightarrow> 'a list \<Rightarrow> 'a list" where
  "dedup_by_key f [] = []"
| "dedup_by_key f [x] = [x]"
| "dedup_by_key f (x # y # xs) =
     (if f x = f y then dedup_by_key f (x # xs) else x # dedup_by_key f (y # xs))"

lemma find_Some_iff_in: "find p xs = Some x \<Longrightarrow> x \<in> set xs \<and> p x"
  by (auto simp: find_Some_iff)

lemma find_None_iff_all: "find p xs = None \<longleftrightarrow> (\<forall>x\<in>set xs. \<not> p x)"
  by (auto simp: find_None_iff)

lemma length_replace_first [simp, vec_simps]: "length (replace_first p y xs) = length xs"
  by (induction xs) auto

lemma set_replace_first: "set (replace_first p y xs) \<subseteq> insert y (set xs)"
  by (induction xs) auto

lemma in_replace_first: "find p xs \<noteq> None \<Longrightarrow> y \<in> set (replace_first p y xs)"
  by (induction xs) auto

lemma map_key_replace_first:
  assumes "\<And>x. x \<in> set xs \<Longrightarrow> p x \<Longrightarrow> f x = f y"
  shows "map f (replace_first p y xs) = map f xs"
  using assms by (induction xs) auto

lemma replace_first_keeps: "x \<in> set xs \<Longrightarrow> \<not> p x \<Longrightarrow> x \<in> set (replace_first p y xs)"
  by (induction xs) auto

lemma position_Some_iff:
  "position p xs = Some i \<Longrightarrow> i < length xs \<and> p (xs ! i) \<and> (\<forall>j<i. \<not> p (xs ! j))"
proof (induction xs arbitrary: i)
  case Nil
  then show ?case by simp
next
  case (Cons x xs)
  then show ?case
    by (auto simp: nth_Cons less_Suc_eq_0_disj split: if_splits nat.splits)
qed

lemma position_None_iff: "position p xs = None \<longleftrightarrow> (\<forall>x\<in>set xs. \<not> p x)"
  by (induction xs) auto

lemma length_remove_at [vec_simps]: "i < length xs \<Longrightarrow> length (remove_at i xs) = length xs - 1"
  by (simp add: remove_at_def)

lemma set_remove_at: "set (remove_at i xs) \<subseteq> set xs"
  by (auto simp: remove_at_def dest: in_set_takeD in_set_dropD)

lemma map_remove_at: "map f (remove_at i xs) = remove_at i (map f xs)"
  by (simp add: remove_at_def take_map drop_map)

lemma distinct_remove_at: "distinct xs \<Longrightarrow> distinct (remove_at i xs)"
  by (auto simp: remove_at_def set_take_disj_set_drop_if_distinct)

lemma min_by_key_None_iff [simp]: "min_by_key f xs = None \<longleftrightarrow> xs = []"
  by (cases xs) (auto split: option.splits)

lemma min_by_key_SomeD: "min_by_key f xs = Some x \<Longrightarrow> x \<in> set xs \<and> (\<forall>y\<in>set xs. f x \<le> f y)"
proof (induction xs arbitrary: x)
  case Nil
  then show ?case by simp
next
  case (Cons z zs)
  then show ?case
    by (cases "min_by_key f zs") (fastforce split: if_splits)+
qed

lemma max_by_key_None_iff [simp]: "max_by_key f xs = None \<longleftrightarrow> xs = []"
  by (cases xs) (auto split: option.splits)

lemma max_by_key_SomeD: "max_by_key f xs = Some x \<Longrightarrow> x \<in> set xs \<and> (\<forall>y\<in>set xs. f y \<le> f x)"
proof (induction xs arbitrary: x)
  case Nil
  then show ?case by simp
next
  case (Cons z zs)
  then show ?case
    by (cases "max_by_key f zs") (fastforce split: if_splits)+
qed

lemma set_dedup_by_key: "set (dedup_by_key f xs) \<subseteq> set xs"
  by (induction f xs rule: dedup_by_key.induct) auto

lemma keys_dedup_by_key: "f ` set (dedup_by_key f xs) = f ` set xs"
  by (induction f xs rule: dedup_by_key.induct) auto

lemma sorted_dedup_by_key:
  "sorted (map g xs) \<Longrightarrow> sorted (map g (dedup_by_key f xs))"
proof (induction f xs rule: dedup_by_key.induct)
  case (3 f x y xs)
  show ?case
  proof (cases "f x = f y")
    case True
    with 3 show ?thesis by simp
  next
    case False
    have "g x \<le> g z" if "z \<in> set (dedup_by_key f (y # xs))" for z
      using that set_dedup_by_key [of f "y # xs"] "3.prems" by auto
    with False 3 show ?thesis by simp
  qed
qed simp_all

lemma distinct_dedup_by_key:
  assumes "sorted (map g xs)" and eq: "\<And>x y. f x = f y \<Longrightarrow> g x = g y" "\<And>x y. g x = g y \<Longrightarrow> f x = f y"
  shows "distinct (map f (dedup_by_key f xs))"
  using assms(1)
proof (induction "length xs" arbitrary: xs rule: less_induct)
  case less
  consider "xs = []" | x where "xs = [x]" | x y ys where "xs = x # y # ys"
    by (cases xs; cases "tl xs") auto
  then show ?case
  proof cases
    case (3 x y ys)
    show ?thesis
    proof (cases "f x = f y")
      case True
      with less 3 show ?thesis by simp
    next
      case False
      then have "g x \<noteq> g y"
        by (blast dest: eq(2))
      with less.prems 3 have "g x < g y"
        by (simp add: less_le)
      then have gt: "g x < g z" if "z \<in> set (y # ys)" for z
        using that less.prems 3 by (auto intro: less_le_trans)
      have "f x \<notin> f ` set (y # ys)"
      proof
        assume "f x \<in> f ` set (y # ys)"
        then obtain z where "z \<in> set (y # ys)" "f x = f z" by blast
        then show False using gt [of z] eq(1) [of x z] by simp
      qed
      moreover have "distinct (map f (dedup_by_key f (y # ys)))"
        using less 3 by simp
      ultimately show ?thesis
        using False 3 keys_dedup_by_key [of f "y # ys"] by simp
    qed
  qed simp_all
qed

lemma length_filter_replace_first:
  assumes "find p xs = Some x"
  shows "length (filter q (replace_first p y xs)) + (if q x then 1 else 0) =
    length (filter q xs) + (if q y then 1 else 0)"
  using assms by (induction xs) (auto split: if_splits)

end
