(* ===== verification/Compute_Types.thy ===== *)
theory Compute_Types
  imports Prelude
begin

text \<open>
  Identifiers and the compute (protocol 1.6) data of \<^verbatim>\<open>crates/protocol/src/types.rs\<close>. Every struct
  is a record whose fields carry a prefix for the struct, every enum a datatype in the source's
  order of variants. The \<^verbatim>\<open>fixed_id!\<close> newtypes are the byte arrays they wrap.
\<close>

section \<open>Identifiers\<close>

type_synonym NodeId = "32 bytes"
type_synonym JobId = "16 bytes"
type_synonym ArtifactId = "32 bytes"
type_synonym RequestId = "16 bytes"
type_synonym DhtKey = "32 bytes"

text \<open>
  BLAKE3 is a third-party function: it is the parameter \<open>blake3\<close> of the definitions below, from a
  message to its 32-byte digest. Feeding a hasher several parts hashes their concatenation.
\<close>

type_synonym hash_fn = "u8 list \<Rightarrow> 32 bytes"

definition ascii_bytes :: "string \<Rightarrow> u8 list" where
  "ascii_bytes s = map of_char s"

definition from_public_key :: "hash_fn \<Rightarrow> 32 bytes \<Rightarrow> NodeId" where
  "from_public_key blake3 public_key =
     blake3 (ascii_bytes ''intelligence-network/node-id/v1'' @ [0] @ as_bytes public_key)"

definition from_bytes_hashed :: "hash_fn \<Rightarrow> u8 list \<Rightarrow> ArtifactId" where
  "from_bytes_hashed blake3 bs = blake3 bs"

section \<open>Compute backends\<close>

datatype BackendKind =
    BK_Cpu
  | BK_Cuda
  | BK_Rocm
  | BK_Metal

datatype NumericFormat =
    NF_F32
  | NF_F16
  | NF_Bf16

datatype BackendHealth =
    BH_Ready
  | BH_Busy
  | BH_Degraded
  | BH_Unavailable

datatype ComputeFeature =
    CF_MatrixMultiply
  | CF_TensorParallel
  | CF_PipelineStage
  | CF_PeerToPeer
  | CF_UnifiedMemory
  | CF_DeterministicKernel

record BackendCapabilities =
  bc_kind :: BackendKind
  bc_runtime_version :: string
  bc_device_count :: u16
  bc_device_memory_bytes :: u64
  bc_available_memory_bytes :: u64
  bc_formats :: "NumericFormat list"
  bc_max_tensor_elements :: u64
  bc_features :: "ComputeFeature list"
  bc_device_architecture :: "string option"
  bc_driver_available :: bool
  bc_runtime_available :: bool
  bc_peer_to_peer :: bool
  bc_unified_memory :: bool
  bc_max_concurrent_tasks :: u16
  bc_safety_margin_permille :: u16
  bc_health :: BackendHealth
  bc_physical_verified :: bool
  bc_observed_successes :: u32
  bc_observed_failures :: u32

datatype ComputeTaskKind =
    CT_TensorForward
  | CT_TensorBackward
  | CT_PipelineForward
  | CT_PipelineBackward
  | CT_TrainingStep
  | CT_CapabilityChallenge

record ComputeRequirements =
  cr_task_kind :: ComputeTaskKind
  cr_required_backend :: "BackendKind option"
  cr_allowed_backends :: "BackendKind list"
  cr_required_formats :: "NumericFormat list"
  cr_required_memory_bytes :: u64
  cr_max_tensor_elements :: u64
  cr_required_features :: "ComputeFeature list"
  cr_kernel_id :: string
  cr_kernel_version :: u16
  cr_fallback_backends :: "BackendKind list"
  cr_fallback_allowed :: bool

record BackendAssignment =
  ba_task_kind :: ComputeTaskKind
  ba_worker :: NodeId
  ba_backend :: BackendKind
  ba_device_index :: u16
  ba_requirements :: ComputeRequirements

record CapabilityChallenge =
  cc_challenge_id :: RequestId
  cc_job_id :: JobId
  cc_worker :: NodeId
  cc_backend :: BackendKind
  cc_task_kind :: ComputeTaskKind
  cc_format :: NumericFormat
  cc_input_elements :: u32
  cc_seed :: u64
  cc_deadline_ms :: u32

record CapabilityChallengeResult =
  ccr_challenge_id :: RequestId
  ccr_worker :: NodeId
  ccr_backend :: BackendKind
  ccr_success :: bool
  ccr_output_hash :: ArtifactId
  ccr_elapsed_micros :: u64
  ccr_allocated_bytes :: u64
  ccr_health :: BackendHealth
  ccr_error :: "string option"

record CapabilityEvidenceRecord =
  cer_worker :: NodeId
  cer_backend :: BackendKind
  cer_observed_at :: u64
  cer_successful_challenges :: u32
  cer_failed_challenges :: u32
  cer_successful_tasks :: u32
  cer_failed_tasks :: u32
  cer_last_throughput_micros :: u64
  cer_last_error :: "string option"

end
