(* ===== verification/Protocol_Types.thy ===== *)
theory Protocol_Types
  imports Compute_Types
begin

text \<open>
  The peer, DHT, address, job and artifact data of \<^verbatim>\<open>crates/protocol/src/types.rs\<close>, with the
  functions defined beside them: version ranges, DHT keys, job states and their transitions.
\<close>

section \<open>Versions and resources\<close>

definition PROTOCOL_MAJOR :: u16 where
  "PROTOCOL_MAJOR = 1"

definition PROTOCOL_MINOR :: u16 where
  "PROTOCOL_MINOR = 6"

record VersionRange =
  vr_major :: u16
  vr_min_minor :: u16
  vr_max_minor :: u16

definition current_version :: VersionRange where
  "current_version = \<lparr>vr_major = PROTOCOL_MAJOR, vr_min_minor = 0, vr_max_minor = PROTOCOL_MINOR\<rparr>"

definition supports :: "VersionRange \<Rightarrow> u16 \<Rightarrow> u16 \<Rightarrow> bool" where
  "supports r major minor \<longleftrightarrow> vr_major r = major \<and> vr_min_minor r \<le> minor \<and> minor \<le> vr_max_minor r"

record MetadataEntry =
  me_key :: string
  me_value :: string

record ResourceLimits =
  rl_max_input_bytes :: u32
  rl_max_output_bytes :: u32
  rl_memory_bytes :: u64
  rl_cpu_millis :: u64

section \<open>Capabilities and peers\<close>

datatype CapabilityEvidence =
    CE_Claimed
  | CE_Observed u32 u32 u64
  | CE_Verified ArtifactId string u64

record Capability =
  cap_name :: string
  cap_version :: u16
  cap_model :: "string option"
  cap_resources :: ResourceLimits
  cap_evidence :: CapabilityEvidence
  cap_expires_at :: u64
  cap_metadata :: "MetadataEntry list"
  cap_compute_backends :: "BackendCapabilities list"

record PeerRecord =
  pr_node_id :: NodeId
  pr_public_key :: "32 bytes"
  pr_addresses :: "string list"
  pr_capabilities :: "Capability list"
  pr_announced_at :: u64
  pr_expires_at :: u64
  pr_observed_latency_ms :: "u32 option"

record SignedAnnouncement =
  sa_record :: PeerRecord
  sa_signature :: "u8 list"

record Hello =
  hello_nonce :: "16 bytes"
  hello_supported :: VersionRange
  hello_record :: PeerRecord
  hello_signature :: "u8 list"

record PeerExchange =
  px_peers :: "SignedAnnouncement list"

section \<open>DHT records and queries\<close>

datatype DhtNamespace =
    NS_Peer
  | NS_Capability
  | NS_Artifact
  | NS_Model
  | NS_Dataset
  | NS_Relay
  | NS_Evidence

definition tag :: "DhtNamespace \<Rightarrow> u8" where
  "tag ns = (case ns of NS_Peer \<Rightarrow> 1 | NS_Capability \<Rightarrow> 2 | NS_Artifact \<Rightarrow> 3 | NS_Model \<Rightarrow> 4
     | NS_Dataset \<Rightarrow> 5 | NS_Relay \<Rightarrow> 6 | NS_Evidence \<Rightarrow> 7)"

text \<open>The derived \<^verbatim>\<open>Ord\<close> follows the order of the variants, which is the order of the tags.\<close>

instantiation DhtNamespace :: linorder
begin

definition less_eq_DhtNamespace :: "DhtNamespace \<Rightarrow> DhtNamespace \<Rightarrow> bool" where
  "less_eq_DhtNamespace a b \<longleftrightarrow> tag a \<le> tag b"

definition less_DhtNamespace :: "DhtNamespace \<Rightarrow> DhtNamespace \<Rightarrow> bool" where
  "less_DhtNamespace a b \<longleftrightarrow> tag a < tag b"

instance
proof
  fix a b :: DhtNamespace
  show "a \<le> b \<Longrightarrow> b \<le> a \<Longrightarrow> a = b"
    by (cases a; cases b) (simp_all add: less_eq_DhtNamespace_def tag_def)
qed (auto simp: less_eq_DhtNamespace_def less_DhtNamespace_def)

end

definition for_name :: "hash_fn \<Rightarrow> DhtNamespace \<Rightarrow> string \<Rightarrow> DhtKey" where
  "for_name blake3 ns name =
     blake3 (ascii_bytes ''intelligence-network/dht-key/v1'' @ [0] @ [tag ns] @ ascii_bytes name)"

datatype ErrorCode =
    EC_Malformed
  | EC_UnsupportedVersion
  | EC_LimitExceeded
  | EC_Unauthorized
  | EC_NotFound
  | EC_Busy
  | EC_Duplicate
  | EC_PolicyDenied
  | EC_InvalidState
  | EC_Internal

record DhtRecord =
  dr_namespace :: DhtNamespace
  dr_key :: DhtKey
  dr_owner :: NodeId
  dr_owner_public_key :: "32 bytes"
  dr_sequence :: u64
  dr_expires_at :: u64
  dr_value :: "u8 list"
  dr_signature :: "u8 list"

datatype DhtRequestKind =
    DRQ_Ping
  | DRQ_FindNode DhtKey
  | DRQ_Get DhtNamespace DhtKey
  | DRQ_Put DhtRecord

record DhtRequest =
  drq_request_id :: RequestId
  drq_origin :: NodeId
  drq_request :: DhtRequestKind

datatype DhtResponseKind =
    DRS_Pong
  | DRS_Nodes "SignedAnnouncement list"
  | DRS_Records "DhtRecord list"
  | DRS_Stored
  | DRS_NotFound
  | DRS_Error ErrorCode string

record DhtResponse =
  drs_request_id :: RequestId
  drs_responder :: NodeId
  drs_response :: DhtResponseKind

section \<open>Addresses\<close>

datatype AddressTransport =
    QuicUdp

datatype AddressSource =
    AS_Configured
  | AS_Observed
  | AS_Learned
  | AS_Local
  | AS_Relay

datatype ReachabilityState =
    RS_PubliclyReachable
  | RS_DirectlyReachable
  | RS_NatUnknown
  | RS_NatRestricted
  | RS_RelayRequired
  | RS_Unreachable

record AddressRecord =
  ar_address :: string
  ar_transport :: AddressTransport
  ar_source :: AddressSource
  ar_expires_at :: u64
  ar_confidence :: u8
  ar_relay :: "NodeId option"

record AddressUpdate =
  au_node_id :: NodeId
  au_sequence :: u64
  au_addresses :: "AddressRecord list"
  au_signature :: "u8 list"

record AddressObservation =
  ao_subject :: NodeId
  ao_address :: string
  ao_observed_by :: NodeId
  ao_expires_at :: u64
  ao_nonce :: "16 bytes"
  ao_signature :: "u8 list"

section \<open>Jobs\<close>

datatype JobKind =
    JK_Inference
  | JK_Evaluation
  | JK_Training

record PrivacyPolicy =
  pp_allow_input_transfer :: bool
  pp_allow_output_persistence :: bool
  pp_require_trusted_peer :: bool

definition default_privacy :: PrivacyPolicy where
  "default_privacy = \<lparr>pp_allow_input_transfer = True, pp_allow_output_persistence = False,
     pp_require_trusted_peer = False\<rparr>"

record JobRequest =
  jr_job_id :: JobId
  jr_origin :: NodeId
  jr_kind :: JobKind
  jr_capability :: string
  jr_model :: "ArtifactId option"
  jr_input :: "u8 list"
  jr_deadline_ms :: u64
  jr_max_output_bytes :: u32
  jr_privacy :: PrivacyPolicy

datatype JobState =
    JS_Received
  | JS_Validated
  | JS_Admitted
  | JS_Queued
  | JS_Running
  | JS_Succeeded
  | JS_Rejected
  | JS_Cancelled
  | JS_TimedOut
  | JS_Failed

fun terminal :: "JobState \<Rightarrow> bool" where
  "terminal JS_Succeeded = True"
| "terminal JS_Rejected = True"
| "terminal JS_Cancelled = True"
| "terminal JS_TimedOut = True"
| "terminal JS_Failed = True"
| "terminal _ = False"

fun can_transition :: "JobState \<Rightarrow> JobState \<Rightarrow> bool" where
  "can_transition JS_Received next \<longleftrightarrow> next \<in> {JS_Validated, JS_Rejected}"
| "can_transition JS_Validated next \<longleftrightarrow> next \<in> {JS_Admitted, JS_Rejected}"
| "can_transition JS_Admitted next \<longleftrightarrow> next \<in> {JS_Queued, JS_Rejected, JS_Running}"
| "can_transition JS_Queued next \<longleftrightarrow> next \<in> {JS_Running, JS_Cancelled, JS_TimedOut, JS_Failed}"
| "can_transition JS_Running next \<longleftrightarrow> next \<in> {JS_Succeeded, JS_Cancelled, JS_TimedOut, JS_Failed}"
| "can_transition _ next \<longleftrightarrow> False"

record Evidence =
  ev_evaluator :: NodeId
  ev_evaluation_id :: ArtifactId
  ev_score :: i64
  ev_score_scale :: string
  ev_result_hash :: ArtifactId
  ev_observed_at :: u64
  ev_verified :: bool

datatype EvidenceKind =
    EK_JobCompleted
  | EK_Evaluation
  | EK_ObservedOnline
  | EK_ArtifactVerified
  | EK_Endorsement
  | EK_ProtocolViolation
  | EK_InvalidSignature
  | EK_ReplayAttempt
  | EK_Equivocation
  | EK_CorruptArtifact
  | EK_CorruptCheckpoint
  | EK_CapabilityFailure
  | EK_Timeout
  | EK_DhtPoisoning
  | EK_TrainingUpdateRejected
  | EK_ViolationReport

record SignedEvidence =
  se_issuer :: NodeId
  se_issuer_public_key :: "32 bytes"
  se_subject :: NodeId
  se_kind :: EvidenceKind
  se_sequence :: u64
  se_observed_at :: u64
  se_expires_at :: u64
  se_payload :: "u8 list"
  se_signature :: "u8 list"

datatype JobUpdateKind =
    JU_Accepted JobState
  | JU_Started
  | JU_Chunk u32 "u8 list"
  | JU_Succeeded "u8 list" ArtifactId "Evidence option"
  | JU_Rejected string string
  | JU_Cancelled
  | JU_TimedOut
  | JU_Failed string string

record JobUpdate =
  ju_job_id :: JobId
  ju_state :: JobState
  ju_sequence :: u32
  ju_update :: JobUpdateKind

record CancelJob =
  cj_job_id :: JobId
  cj_reason :: string

record ProtocolError =
  pe_code :: ErrorCode
  pe_message :: string

record Ping =
  ping_nonce :: "16 bytes"

section \<open>Artifacts, key rotation and relays\<close>

record ArtifactRequest =
  areq_artifact :: ArtifactId
  areq_offset :: u64
  areq_max_bytes :: u32

record ArtifactChunk =
  ac_artifact :: ArtifactId
  ac_offset :: u64
  ac_data :: "u8 list"
  ac_final_chunk :: bool

record ArtifactTransferRequest =
  atr_request_id :: RequestId
  atr_artifact :: ArtifactId
  atr_offset :: u64
  atr_max_bytes :: u32
  atr_expected_size :: u64
  atr_expected_hash :: ArtifactId

record ArtifactTransferChunk =
  atc_request_id :: RequestId
  atc_artifact :: ArtifactId
  atc_offset :: u64
  atc_total_size :: u64
  atc_data :: "u8 list"
  atc_final_chunk :: bool

record KeyRotation =
  kr_old_node_id :: NodeId
  kr_old_public_key :: "32 bytes"
  kr_new_node_id :: NodeId
  kr_new_public_key :: "32 bytes"
  kr_sequence :: u64
  kr_valid_from :: u64
  kr_valid_until :: u64
  kr_old_signature :: "u8 list"
  kr_new_signature :: "u8 list"

record RelayEnvelope =
  re_session_id :: RequestId
  re_origin :: NodeId
  re_origin_public_key :: "32 bytes"
  re_target :: NodeId
  re_payload :: "u8 list"
  re_signature :: "u8 list"

datatype ArtifactKind =
    AK_Model
  | AK_Dataset
  | AK_Checkpoint
  | AK_Evaluation
  | AK_Adapter

record ArtifactShard =
  ash_artifact :: ArtifactId
  ash_index :: u32
  ash_size :: u64

record ArtifactManifest =
  am_artifact :: ArtifactId
  am_kind :: ArtifactKind
  am_format :: string
  am_size :: u64
  am_hash :: ArtifactId
  am_shards :: "ArtifactShard list"
  am_owner :: "NodeId option"
  am_local_only :: bool

record ModelManifest =
  mm_artifact :: ArtifactId
  mm_identity :: string
  mm_format :: string
  mm_size :: u64
  mm_weights :: "ArtifactShard list"
  mm_capabilities :: "string list"
  mm_runtime_requirements :: "MetadataEntry list"
  mm_adapters :: "ArtifactId list"
  mm_local_path :: "string option"
  mm_local_only :: bool

datatype DataLocality =
    DL_LocalOnly
  | DL_Selective
  | DL_Streamable

record DatasetManifest =
  dm_artifact :: ArtifactId
  dm_identity :: string
  dm_format :: string
  dm_size :: u64
  dm_shards :: "ArtifactShard list"
  dm_locality :: DataLocality
  dm_sample_policy :: string

record CheckpointManifest =
  cm_artifact :: ArtifactId
  cm_model :: ArtifactId
  cm_parent :: "ArtifactId option"
  cm_step :: u64
  cm_complete_weights :: bool
  cm_complete_optimizer :: bool
  cm_complete_scheduler :: bool
  cm_complete_rng :: bool
  cm_workers :: u16
  cm_hash :: ArtifactId

datatype SyncMode =
    SM_Synchronous
  | SM_BoundedStaleness
  | SM_Asynchronous

record TrainingPlan =
  tp_model :: ArtifactId
  tp_dataset :: ArtifactId
  tp_checkpoint :: "ArtifactId option"
  tp_workers :: u16
  tp_sync :: SyncMode
  tp_max_steps :: u64
  tp_checkpoint_every :: u64
  tp_evaluation_capability :: "string option"

end
