(* ===== verification/Training_Types.thy ===== *)
theory Training_Types
  imports Protocol_Types
begin

text \<open>
  The protocol 1.3 training data of \<^verbatim>\<open>crates/protocol/src/types.rs\<close>: starts, windows, updates,
  aggregates, replicated state, elections and checkpoints.
\<close>

definition TRAINING_SCALE :: i64 where
  "TRAINING_SCALE = 1000000"

datatype TrainingExecution =
    TE_Windowed
  | TE_AutonomousLocalSgd

record TrainingSample =
  sample_feature :: i64
  sample_target :: i64

record TrainingShardAssignment =
  tsa_shard_id :: u16
  tsa_group_id :: u16
  tsa_owners :: "NodeId list"
  tsa_replicas :: "NodeId list"
  tsa_generation :: u64
  tsa_state_hash :: ArtifactId

record TrainingGroup =
  tg_group_id :: u16
  tg_shard_id :: u16
  tg_members :: "NodeId list"
  tg_aggregator :: NodeId

record TrainingStart =
  tst_job_id :: JobId
  tst_coordinator :: NodeId
  tst_term :: u64
  tst_membership_epoch :: u64
  tst_branch :: ArtifactId
  tst_plan_hash :: ArtifactId
  tst_max_windows :: u64
  tst_local_steps :: u16
  tst_max_staleness :: u16
  tst_checkpoint_every :: u64
  tst_execution :: TrainingExecution
  tst_model_state_bytes :: u64
  tst_shard_state_bytes :: u64
  tst_participants :: "NodeId list"
  tst_groups :: "TrainingGroup list"
  tst_shards :: "TrainingShardAssignment list"
  tst_assignment :: TrainingShardAssignment
  tst_initial_value :: i64
  tst_initial_optimizer :: i64
  tst_samples :: "TrainingSample list"

record TrainingWindow =
  tw_job_id :: JobId
  tw_coordinator :: NodeId
  tw_term :: u64
  tw_membership_epoch :: u64
  tw_branch :: ArtifactId
  tw_window :: u64
  tw_group_id :: u16
  tw_shard_id :: u16
  tw_aggregator :: NodeId
  tw_members :: "NodeId list"
  tw_base_generation :: u64
  tw_local_steps :: u16
  tw_max_staleness :: u16

record TrainingUpdate =
  tu_job_id :: JobId
  tu_worker :: NodeId
  tu_term :: u64
  tu_membership_epoch :: u64
  tu_branch :: ArtifactId
  tu_window :: u64
  tu_shard_id :: u16
  tu_base_generation :: u64
  tu_update_sequence :: u64
  tu_value :: i64
  tu_optimizer :: i64
  tu_loss :: i64
  tu_samples :: u32

record TrainingAggregate =
  ta_job_id :: JobId
  ta_aggregator :: NodeId
  ta_term :: u64
  ta_membership_epoch :: u64
  ta_branch :: ArtifactId
  ta_window :: u64
  ta_group_id :: u16
  ta_shard_id :: u16
  ta_generation :: u64
  ta_value :: i64
  ta_optimizer :: i64
  ta_loss :: i64
  ta_contributors :: "NodeId list"
  ta_state_artifact :: ArtifactId
  ta_replicas :: "NodeId list"

record TrainingShardState =
  tss_job_id :: JobId
  tss_owner :: NodeId
  tss_term :: u64
  tss_membership_epoch :: u64
  tss_branch :: ArtifactId
  tss_shard_id :: u16
  tss_generation :: u64
  tss_value :: i64
  tss_optimizer :: i64
  tss_state_hash :: ArtifactId

record TrainingShardSummary =
  tsum_shard_id :: u16
  tsum_generation :: u64
  tsum_state_hash :: ArtifactId
  tsum_providers :: "NodeId list"

record TrainingState =
  ts_job_id :: JobId
  ts_coordinator :: NodeId
  ts_term :: u64
  ts_membership_epoch :: u64
  ts_branch :: ArtifactId
  ts_window :: u64
  ts_checkpoint_generation :: u64
  ts_checkpoint :: "ArtifactId option"
  ts_shards :: "TrainingShardSummary list"

datatype TrainingAckKind =
    TA_Start
  | TA_State u64 ArtifactId
  | TA_Checkpoint ArtifactId
  | TA_Vote NodeId u64 u64 bool

record TrainingAck =
  tack_job_id :: JobId
  tack_peer :: NodeId
  tack_term :: u64
  tack_kind :: TrainingAckKind

record TrainingElection =
  te_job_id :: JobId
  te_candidate :: NodeId
  te_term :: u64
  te_membership_epoch :: u64
  te_branch :: ArtifactId
  te_last_window :: u64
  te_last_state_hash :: ArtifactId

record TrainingCheckpointShard =
  tcs_shard_id :: u16
  tcs_artifact :: ArtifactId
  tcs_generation :: u64
  tcs_providers :: "NodeId list"

record TrainingCheckpointManifest =
  tcm_job_id :: JobId
  tcm_model_generation :: u64
  tcm_optimizer_generation :: u64
  tcm_membership_epoch :: u64
  tcm_term :: u64
  tcm_checkpoint_generation :: u64
  tcm_parent :: "ArtifactId option"
  tcm_shards :: "TrainingCheckpointShard list"
  tcm_dataset_progress :: "(u16 \<times> u64) list"
  tcm_hash :: ArtifactId

record TrainingCheckpointOffer =
  tco_job_id :: JobId
  tco_creator :: NodeId
  tco_term :: u64
  tco_checkpoint_generation :: u64
  tco_shard_id :: u16
  tco_artifact :: ArtifactId

record TrainingCheckpointCommit =
  tcc_job_id :: JobId
  tcc_coordinator :: NodeId
  tcc_term :: u64
  tcc_membership_epoch :: u64
  tcc_branch :: ArtifactId
  tcc_manifest :: TrainingCheckpointManifest
  tcc_quorum :: "NodeId list"

datatype TrainingMessage =
    TM_Start TrainingStart
  | TM_Window TrainingWindow
  | TM_Update TrainingUpdate
  | TM_Aggregate TrainingAggregate
  | TM_ShardState TrainingShardState
  | TM_State TrainingState
  | TM_Ack TrainingAck
  | TM_Election TrainingElection
  | TM_CheckpointOffer TrainingCheckpointOffer
  | TM_CheckpointCommit TrainingCheckpointCommit

end
