(* ===== verification/Fabric_Types.thy ===== *)
theory Fabric_Types
  imports Protocol_Types
begin

text \<open>
  The protocol 1.4 and 1.5 training-fabric data of \<^verbatim>\<open>crates/protocol/src/types.rs\<close>: plans, shard
  ownership, state records, migrations and the execution graph with its integrated-job records.
\<close>

section \<open>Plans, shards and state records\<close>

datatype V4SupportLevel =
    SL_Supported
  | SL_Experimental
  | SL_Unsupported

datatype V4AcceleratorFamily =
    AF_Cpu
  | AF_Cuda
  | AF_Rocm
  | AF_Metal

datatype V4NumericalFormat =
    VF_F32
  | VF_F64
  | VF_F16
  | VF_Bf16
  | VF_I8

record V4AcceleratorCapability =
  vac_family :: V4AcceleratorFamily
  vac_device_model :: string
  vac_device_count :: u16
  vac_memory_bytes :: u64
  vac_formats :: "V4NumericalFormat list"
  vac_runtime :: string
  vac_runtime_version :: string
  vac_physical_verified :: bool

record V4WorkerCapability =
  vwc_node :: NodeId
  vwc_accelerator :: V4AcceleratorCapability
  vwc_memory_bytes :: u64
  vwc_compute_units :: u32
  vwc_rtt_ms :: u32
  vwc_bandwidth_mbps :: u32
  vwc_reliability_permille :: u16
  vwc_backends :: "BackendCapabilities list"

datatype V4ParallelismStrategy =
    PS_LocalSgd
  | PS_TensorParallel
  | PS_PipelineParallel
  | PS_Hybrid

datatype V4ShardLifecycle =
    LC_Assigned
  | LC_Transferring
  | LC_Verified
  | LC_Active
  | LC_Replicating
  | LC_Draining
  | LC_Retired
  | LC_Failed

record V4AggregationGroup =
  vag_group_id :: u16
  vag_members :: "NodeId list"
  vag_aggregator :: NodeId
  vag_parent :: "NodeId option"

record V4ShardOwnership =
  vso_shard_id :: u16
  vso_model_generation :: u64
  vso_owners :: "NodeId list"
  vso_replicas :: "NodeId list"
  vso_ownership_generation :: u64
  vso_content_hash :: ArtifactId
  vso_state_bytes :: u64
  vso_memory_bytes :: u64
  vso_runtime_requirement :: string
  vso_lifecycle :: V4ShardLifecycle

record V4TrainingPlan =
  vp_job_id :: JobId
  vp_proposer :: NodeId
  vp_plan_generation :: u64
  vp_model_generation :: u64
  vp_training_epoch :: u64
  vp_membership_epoch :: u64
  vp_coordination_term :: u64
  vp_branch :: ArtifactId
  vp_strategy :: V4ParallelismStrategy
  vp_support :: V4SupportLevel
  vp_workers :: "NodeId list"
  vp_groups :: "V4AggregationGroup list"
  vp_shards :: "V4ShardOwnership list"
  vp_tensor_degree :: u16
  vp_pipeline_stages :: u16
  vp_local_steps :: u16
  vp_max_staleness :: u16
  vp_checkpoint_replication :: u16
  vp_data_locality :: DataLocality
  vp_accelerator :: "V4AcceleratorCapability option"
  vp_worker_capabilities :: "V4WorkerCapability list"
  vp_rationale :: string
  vp_plan_hash :: ArtifactId
  vp_parent_plan_hash :: "ArtifactId option"
  vp_compute_requirements :: "ComputeRequirements list"
  vp_backend_assignments :: "BackendAssignment list"

datatype V4TrainingPhase =
    TP_Planned
  | TP_Running
  | TP_Reconfiguring
  | TP_Paused
  | TP_Committed
  | TP_Failed

record V4TrainingStateRecord =
  vts_job_id :: JobId
  vts_coordinator :: NodeId
  vts_plan_hash :: ArtifactId
  vts_plan_generation :: u64
  vts_training_epoch :: u64
  vts_membership_epoch :: u64
  vts_coordination_term :: u64
  vts_optimizer_generation :: u64
  vts_checkpoint_generation :: u64
  vts_branch :: ArtifactId
  vts_phase :: V4TrainingPhase
  vts_workers :: "NodeId list"
  vts_shards :: "V4ShardOwnership list"
  vts_data_progress :: "u64 list"
  vts_checkpoint :: "ArtifactId option"
  vts_state_hash :: ArtifactId

datatype V4StateAckKind =
    SAK_TrainingState
  | SAK_OptimizerShard
  | SAK_Checkpoint

record V4OptimizerShardRecord =
  vos_job_id :: JobId
  vos_plan_generation :: u64
  vos_model_generation :: u64
  vos_optimizer_generation :: u64
  vos_shard_id :: u16
  vos_owner :: NodeId
  vos_replicas :: "NodeId list"
  vos_content_hash :: ArtifactId
  vos_state_bytes :: u64
  vos_state_hash :: ArtifactId

record V4CheckpointRecord =
  vck_job_id :: JobId
  vck_plan_generation :: u64
  vck_model_generation :: u64
  vck_optimizer_generation :: u64
  vck_membership_epoch :: u64
  vck_checkpoint_generation :: u64
  vck_branch :: ArtifactId
  vck_parent :: "ArtifactId option"
  vck_shard_hashes :: "ArtifactId list"
  vck_providers :: "NodeId list"
  vck_complete :: bool
  vck_manifest_hash :: ArtifactId

record V4StateAck =
  vsa_job_id :: JobId
  vsa_plan_generation :: u64
  vsa_generation :: u64
  vsa_kind :: V4StateAckKind
  vsa_state_hash :: ArtifactId
  vsa_accepted :: bool

section \<open>Shard migration and plan acknowledgements\<close>

datatype V4ShardMigrationPhase =
    MP_Prepare
  | MP_Commit
  | MP_Abort

record V4ShardMigration =
  vsm_job_id :: JobId
  vsm_plan_generation :: u64
  vsm_shard_id :: u16
  vsm_from :: NodeId
  vsm_to :: NodeId
  vsm_ownership_generation :: u64
  vsm_content_hash :: ArtifactId
  vsm_state :: "u8 list"
  vsm_phase :: V4ShardMigrationPhase

record V4ShardMigrationAck =
  vsma_job_id :: JobId
  vsma_plan_generation :: u64
  vsma_shard_id :: u16
  vsma_owner :: NodeId
  vsma_ownership_generation :: u64
  vsma_content_hash :: ArtifactId
  vsma_verified :: bool
  vsma_phase :: V4ShardMigrationPhase

record V4ShardMigrationRequest =
  vsmq_request_id :: JobId
  vsmq_job_id :: JobId
  vsmq_proposer :: NodeId
  vsmq_proposal_hash :: ArtifactId
  vsmq_plan_generation :: u64
  vsmq_shard_id :: u16
  vsmq_from :: NodeId
  vsmq_to :: NodeId
  vsmq_ownership_generation :: u64
  vsmq_content_hash :: ArtifactId
  vsmq_reply_to :: NodeId

record V4ShardMigrationResult =
  vsmr_request_id :: JobId
  vsmr_job_id :: JobId
  vsmr_plan_generation :: u64
  vsmr_shard_id :: u16
  vsmr_from :: NodeId
  vsmr_to :: NodeId
  vsmr_ownership_generation :: u64
  vsmr_content_hash :: ArtifactId
  vsmr_accepted :: bool
  vsmr_reason :: string

record V4PlanProposalAck =
  vppa_job_id :: JobId
  vppa_plan_generation :: u64
  vppa_proposal_hash :: ArtifactId
  vppa_accepted :: bool
  vppa_reason :: string

record V4PlanAck =
  vpa_job_id :: JobId
  vpa_plan_generation :: u64
  vpa_plan_hash :: ArtifactId
  vpa_accepted :: bool
  vpa_reason :: string

section \<open>The execution graph and integrated jobs\<close>

record V4TensorGroup =
  vtg_group_id :: u16
  vtg_members :: "NodeId list"
  vtg_shard_ids :: "u16 list"
  vtg_generation :: u64

record V4PipelineStageAssignment =
  vps_stage_id :: u16
  vps_worker :: NodeId
  vps_replicas :: "NodeId list"
  vps_generation :: u64

record V4OptimizerPlacement =
  vop_shard_id :: u16
  vop_owner :: NodeId
  vop_replicas :: "NodeId list"
  vop_generation :: u64

record V4ExecutionGraph =
  vg_job_id :: JobId
  vg_graph_generation :: u64
  vg_parent_graph_generation :: "u64 option"
  vg_proposer :: NodeId
  vg_coordinator :: NodeId
  vg_reply_to :: NodeId
  vg_plan_hash :: ArtifactId
  vg_branch :: ArtifactId
  vg_training_epoch :: u64
  vg_membership_epoch :: u64
  vg_coordination_term :: u64
  vg_optimizer_generation :: u64
  vg_checkpoint_generation :: u64
  vg_workers :: "NodeId list"
  vg_retired_workers :: "NodeId list"
  vg_tensor_groups :: "V4TensorGroup list"
  vg_pipeline_stages :: "V4PipelineStageAssignment list"
  vg_aggregation_groups :: "V4AggregationGroup list"
  vg_shards :: "V4ShardOwnership list"
  vg_optimizer_shards :: "V4OptimizerPlacement list"
  vg_collective_generation :: u64
  vg_local_steps :: u16
  vg_max_staleness :: u16
  vg_checkpoint_replication :: u16
  vg_strategy :: V4ParallelismStrategy
  vg_election_certificate :: "NodeId list"
  vg_backend_assignments :: "BackendAssignment list"
  vg_graph_hash :: ArtifactId

datatype V4IntegratedPhase =
    IP_Preparing
  | IP_Running
  | IP_Reconfiguring
  | IP_Partitioned
  | IP_Committed
  | IP_Failed

record V4IntegratedStateRecord =
  vis_job_id :: JobId
  vis_graph_generation :: u64
  vis_plan_hash :: ArtifactId
  vis_branch :: ArtifactId
  vis_coordinator :: NodeId
  vis_phase :: V4IntegratedPhase
  vis_window :: u64
  vis_target_windows :: u64
  vis_initial_loss_micros :: i64
  vis_current_loss_micros :: i64
  vis_checkpoint_generation :: u64
  vis_model_generation :: u64
  vis_optimizer_generation :: u64
  vis_membership_epoch :: u64
  vis_collective_generation :: u64
  vis_recovery_count :: u32
  vis_state_hash :: ArtifactId

record V4IntegratedStart =
  vist_request_id :: JobId
  vist_graph :: V4ExecutionGraph
  vist_plan :: V4TrainingPlan
  vist_windows :: u64
  vist_checkpoint_every :: u64
  vist_reply_to :: NodeId

record V4IntegratedAck =
  via_job_id :: JobId
  via_graph_generation :: u64
  via_worker :: NodeId
  via_accepted :: bool
  via_reason :: string

record V4IntegratedStateAck =
  visa_job_id :: JobId
  visa_graph_generation :: u64
  visa_state_hash :: ArtifactId
  visa_worker :: NodeId
  visa_accepted :: bool

record V4IntegratedProbe =
  vpr_request_id :: JobId
  vpr_job_id :: JobId
  vpr_graph_generation :: u64
  vpr_graph_hash :: ArtifactId
  vpr_state_hash :: ArtifactId
  vpr_requester :: NodeId

record V4IntegratedProbeAck =
  vpra_request_id :: JobId
  vpra_job_id :: JobId
  vpra_graph_generation :: u64
  vpra_responder :: NodeId
  vpra_accepted :: bool

record V4IntegratedElectionRequest =
  vier_request_id :: JobId
  vier_job_id :: JobId
  vier_graph_generation :: u64
  vier_graph_hash :: ArtifactId
  vier_branch :: ArtifactId
  vier_state_hash :: ArtifactId
  vier_term :: u64
  vier_candidate :: NodeId

record V4IntegratedElectionVote =
  viev_job_id :: JobId
  viev_graph_generation :: u64
  viev_graph_hash :: ArtifactId
  viev_term :: u64
  viev_candidate :: NodeId
  viev_voter :: NodeId
  viev_granted :: bool
  viev_reason :: string

record V4IntegratedResult =
  vir_request_id :: JobId
  vir_job_id :: JobId
  vir_graph_generation :: u64
  vir_windows_completed :: u64
  vir_initial_loss_micros :: i64
  vir_final_loss_micros :: i64
  vir_tensor_steps :: u64
  vir_pipeline_steps :: u64
  vir_collective_rounds :: u64
  vir_checkpoint_generations :: u64
  vir_graph_reconfigurations :: u64
  vir_coordinator_replacements :: u64
  vir_shard_recoveries :: u64
  vir_tensor_recoveries :: u64
  vir_pipeline_recoveries :: u64
  vir_optimizer_recoveries :: u64
  vir_checkpoint_recoveries :: u64
  vir_max_update_fanin :: u16
  vir_all_updates_to_one_coordinator :: bool
  vir_single_optimizer_authority :: bool
  vir_single_checkpoint_authority :: bool
  vir_global_step_barrier :: bool
  vir_model_must_fit_one_worker :: bool
  vir_target_reached :: bool
  vir_branch_reconciled :: bool
  vir_phase :: V4IntegratedPhase
  vir_backend_tasks :: u64
  vir_backend_replans :: u64
  vir_backend_fallbacks :: u64
  vir_backend_portable_checkpoint :: bool

end
