(* ===== verification/Fabric_Data_Types.thy ===== *)
theory Fabric_Data_Types
  imports Protocol_Types
begin

text \<open>
  The data-plane records of the training fabric in \<^verbatim>\<open>crates/protocol/src/types.rs\<close>: tensor and
  pipeline requests, collectives, branches, robust aggregation and replicas.
\<close>

section \<open>Tensor and pipeline requests\<close>

record V4TensorInstall =
  vti_job_id :: JobId
  vti_plan_generation :: u64
  vti_model_generation :: u64
  vti_shard_id :: u16
  vti_rows :: u16
  vti_cols :: u16
  vti_row_offset :: u16
  vti_weights :: "i64 list"
  vti_state_hash :: ArtifactId

record V4TensorInstallAck =
  vtia_job_id :: JobId
  vtia_plan_generation :: u64
  vtia_shard_id :: u16
  vtia_state_hash :: ArtifactId
  vtia_accepted :: bool

record V4TensorForward =
  vtf_request_id :: JobId
  vtf_job_id :: JobId
  vtf_plan_generation :: u64
  vtf_model_generation :: u64
  vtf_shard_id :: u16
  vtf_sequence :: u64
  vtf_input :: "i64 list"

record V4TensorForwardResult =
  vtfr_request_id :: JobId
  vtfr_job_id :: JobId
  vtfr_plan_generation :: u64
  vtfr_shard_id :: u16
  vtfr_sequence :: u64
  vtfr_output :: "i64 list"
  vtfr_state_hash :: ArtifactId

record V4TensorBackward =
  vtb_request_id :: JobId
  vtb_job_id :: JobId
  vtb_plan_generation :: u64
  vtb_model_generation :: u64
  vtb_shard_id :: u16
  vtb_sequence :: u64
  vtb_input :: "i64 list"
  vtb_upstream :: "i64 list"
  vtb_learning_rate_micros :: i64

record V4TensorBackwardResult =
  vtbr_request_id :: JobId
  vtbr_job_id :: JobId
  vtbr_plan_generation :: u64
  vtbr_shard_id :: u16
  vtbr_sequence :: u64
  vtbr_weight_gradient :: "i64 list"
  vtbr_input_gradient :: "i64 list"
  vtbr_state_hash :: ArtifactId
  vtbr_state_generation :: u64
  vtbr_optimizer_state_hash :: "ArtifactId option"
  vtbr_optimizer_state_generation :: u64

record V4PipelineInstall =
  vpi_job_id :: JobId
  vpi_plan_generation :: u64
  vpi_stage_id :: u16
  vpi_stage_count :: u16
  vpi_coefficient :: i64
  vpi_bias :: i64
  vpi_state_hash :: ArtifactId

record V4PipelineInstallAck =
  vpia_job_id :: JobId
  vpia_plan_generation :: u64
  vpia_stage_id :: u16
  vpia_state_hash :: ArtifactId
  vpia_accepted :: bool

record V4PipelineForward =
  vpf_request_id :: JobId
  vpf_job_id :: JobId
  vpf_plan_generation :: u64
  vpf_stage_id :: u16
  vpf_stage_count :: u16
  vpf_microbatch :: u32
  vpf_activation :: "i64 list"
  vpf_next_stage :: "NodeId option"
  vpf_reply_to :: NodeId
  vpf_deadline_ms :: u64

record V4PipelineForwardResult =
  vpfr_request_id :: JobId
  vpfr_job_id :: JobId
  vpfr_plan_generation :: u64
  vpfr_microbatch :: u32
  vpfr_stage_id :: u16
  vpfr_activation :: "i64 list"
  vpfr_state_hash :: ArtifactId

record V4PipelineBackward =
  vpb_request_id :: JobId
  vpb_job_id :: JobId
  vpb_plan_generation :: u64
  vpb_stage_id :: u16
  vpb_stage_count :: u16
  vpb_microbatch :: u32
  vpb_gradient :: "i64 list"
  vpb_previous_stage :: "NodeId option"
  vpb_reply_to :: NodeId
  vpb_deadline_ms :: u64

record V4PipelineBackwardResult =
  vpbr_request_id :: JobId
  vpbr_job_id :: JobId
  vpbr_plan_generation :: u64
  vpbr_microbatch :: u32
  vpbr_stage_id :: u16
  vpbr_gradient :: "i64 list"
  vpbr_state_hash :: ArtifactId

section \<open>Collectives, branches and robust aggregation\<close>

record V4CollectiveContribute =
  vcc_request_id :: JobId
  vcc_job_id :: JobId
  vcc_plan_generation :: u64
  vcc_generation :: u64
  vcc_group_id :: u16
  vcc_contributor :: NodeId
  vcc_aggregator :: NodeId
  vcc_parent :: "NodeId option"
  vcc_expected_contributors :: u16
  vcc_expected_groups :: u16
  vcc_values :: "i64 list"
  vcc_reply_to :: NodeId

record V4CollectiveAggregate =
  vca_request_id :: JobId
  vca_job_id :: JobId
  vca_plan_generation :: u64
  vca_generation :: u64
  vca_group_id :: u16
  vca_aggregator :: NodeId
  vca_values :: "i64 list"
  vca_contributors :: u16
  vca_expected_groups :: u16
  vca_reply_to :: NodeId

record V4CollectiveResult =
  vcr_request_id :: JobId
  vcr_job_id :: JobId
  vcr_plan_generation :: u64
  vcr_generation :: u64
  vcr_values :: "i64 list"
  vcr_group_count :: u16
  vcr_max_fan_in :: u16
  vcr_contributor_bytes :: u64
  vcr_root_received_bytes :: u64

record V4TrainingBranch =
  vtbn_job_id :: JobId
  vtbn_branch :: ArtifactId
  vtbn_parent_generation :: u64
  vtbn_model_generation :: u64
  vtbn_optimizer_generation :: u64
  vtbn_dataset_progress :: u64
  vtbn_plan_generation :: u64
  vtbn_created_by :: NodeId

datatype V4ReconciliationPolicy =
    RP_AbortBranch
  | RP_SelectBranch
  | RP_AverageCompatibleState
  | RP_MergeLocalSgdState
  | RP_ManualOperatorRequired

record V4ReconcileRequest =
  vrq_request_id :: JobId
  vrq_job_id :: JobId
  vrq_plan_generation :: u64
  vrq_left :: V4TrainingBranch
  vrq_right :: V4TrainingBranch
  vrq_policy :: V4ReconciliationPolicy
  vrq_left_value :: i64
  vrq_right_value :: i64

record V4ReconcileResult =
  vrr_request_id :: JobId
  vrr_job_id :: JobId
  vrr_plan_generation :: u64
  vrr_accepted :: bool
  vrr_branch :: "ArtifactId option"
  vrr_merged_value :: "i64 option"
  vrr_reason :: string

datatype V4ByzantinePolicy =
    BP_Mean
  | BP_ClippedMean
  | BP_TrimmedMean
  | BP_CoordinateMedian

record V4ByzantineUpdate =
  vbu_request_id :: JobId
  vbu_job_id :: JobId
  vbu_plan_generation :: u64
  vbu_generation :: u64
  vbu_worker :: NodeId
  vbu_aggregator :: NodeId
  vbu_sequence :: u64
  vbu_values :: "i64 list"
  vbu_policy :: V4ByzantinePolicy
  vbu_expected_updates :: u16
  vbu_reply_to :: NodeId

record V4ByzantineResult =
  vbr_request_id :: JobId
  vbr_job_id :: JobId
  vbr_plan_generation :: u64
  vbr_generation :: u64
  vbr_policy :: V4ByzantinePolicy
  vbr_aggregate :: "i64 list"
  vbr_accepted_workers :: "NodeId list"
  vbr_rejected_workers :: "NodeId list"
  vbr_robust :: bool

section \<open>Replicas\<close>

record V4TensorReplica =
  vtr_job_id :: JobId
  vtr_plan_generation :: u64
  vtr_model_generation :: u64
  vtr_shard_id :: u16
  vtr_rows :: u16
  vtr_cols :: u16
  vtr_row_offset :: u16
  vtr_weights :: "i64 list"
  vtr_state_hash :: ArtifactId
  vtr_state_generation :: u64
  vtr_last_sequence :: u64
  vtr_ownership_generation :: u64
  vtr_source :: NodeId

record V4TensorReplicaAck =
  vtra_job_id :: JobId
  vtra_plan_generation :: u64
  vtra_shard_id :: u16
  vtra_state_hash :: ArtifactId
  vtra_state_generation :: u64
  vtra_accepted :: bool

record V4OptimizerStateInstall =
  vosi_job_id :: JobId
  vosi_plan_generation :: u64
  vosi_model_generation :: u64
  vosi_optimizer_generation :: u64
  vosi_shard_id :: u16
  vosi_values :: "i64 list"
  vosi_state_hash :: ArtifactId
  vosi_state_generation :: u64
  vosi_sequence :: u64
  vosi_last_sequence :: u64
  vosi_source :: NodeId

record V4OptimizerStateAck =
  vosa_job_id :: JobId
  vosa_plan_generation :: u64
  vosa_optimizer_generation :: u64
  vosa_shard_id :: u16
  vosa_state_hash :: ArtifactId
  vosa_state_generation :: u64
  vosa_accepted :: bool

end
