(* ===== verification/Messages.thy ===== *)
theory Messages
  imports Training_Types Fabric_Types Fabric_Data_Types
begin

text \<open>
  The message enums of \<^verbatim>\<open>crates/protocol/src/types.rs\<close> with \<^verbatim>\<open>Message::kind\<close> and
  \<^verbatim>\<open>TrainingV4Message::minimum_minor\<close>.
\<close>

datatype TrainingV4Message =
    V4_Plan V4TrainingPlan
  | V4_StateRecord V4TrainingStateRecord
  | V4_OptimizerShard V4OptimizerShardRecord
  | V4_CheckpointRecord V4CheckpointRecord
  | V4_StateAck V4StateAck
  | V4_ShardMigration V4ShardMigration
  | V4_ShardMigrationAck V4ShardMigrationAck
  | V4_TensorInstall V4TensorInstall
  | V4_TensorInstallAck V4TensorInstallAck
  | V4_TensorForward V4TensorForward
  | V4_TensorForwardResult V4TensorForwardResult
  | V4_TensorBackward V4TensorBackward
  | V4_TensorBackwardResult V4TensorBackwardResult
  | V4_PipelineInstall V4PipelineInstall
  | V4_PipelineInstallAck V4PipelineInstallAck
  | V4_PipelineForward V4PipelineForward
  | V4_PipelineForwardResult V4PipelineForwardResult
  | V4_PipelineBackward V4PipelineBackward
  | V4_PipelineBackwardResult V4PipelineBackwardResult
  | V4_CollectiveContribute V4CollectiveContribute
  | V4_CollectiveAggregate V4CollectiveAggregate
  | V4_CollectiveResult V4CollectiveResult
  | V4_Branch V4TrainingBranch
  | V4_Reconcile V4ReconcileRequest
  | V4_ReconcileResult V4ReconcileResult
  | V4_ByzantineUpdate V4ByzantineUpdate
  | V4_ByzantineResult V4ByzantineResult
  | V4_PlanAck V4PlanAck
  | V4_PlanProposal V4TrainingPlan
  | V4_PlanProposalAck V4PlanProposalAck
  | V4_ShardMigrationRequest V4ShardMigrationRequest
  | V4_ShardMigrationResult V4ShardMigrationResult
  | V4_IntegratedStart V4IntegratedStart
  | V4_IntegratedAck V4IntegratedAck
  | V4_IntegratedState V4IntegratedStateRecord
  | V4_IntegratedStateAck V4IntegratedStateAck
  | V4_IntegratedElectionRequest V4IntegratedElectionRequest
  | V4_IntegratedElectionVote V4IntegratedElectionVote
  | V4_IntegratedResult V4IntegratedResult
  | V4_TensorReplica V4TensorReplica
  | V4_TensorReplicaAck V4TensorReplicaAck
  | V4_OptimizerStateInstall V4OptimizerStateInstall
  | V4_OptimizerStateAck V4OptimizerStateAck
  | V4_IntegratedProbe V4IntegratedProbe
  | V4_IntegratedProbeAck V4IntegratedProbeAck

datatype TrainingV5Message =
    V5_CapabilityChallenge CapabilityChallenge
  | V5_CapabilityChallengeResult CapabilityChallengeResult
  | V5_CapabilityEvidence CapabilityEvidenceRecord

datatype Message =
    M_Hello Hello
  | M_PeerExchange PeerExchange
  | M_Announcement SignedAnnouncement
  | M_JobRequest JobRequest
  | M_JobUpdate JobUpdate
  | M_CancelJob CancelJob
  | M_ArtifactRequest ArtifactRequest
  | M_ArtifactChunk ArtifactChunk
  | M_Ping Ping
  | M_Pong Ping
  | M_Goodbye "string option"
  | M_Error ProtocolError
  | M_AddressUpdate AddressUpdate
  | M_AddressObservation AddressObservation
  | M_ArtifactTransferRequest ArtifactTransferRequest
  | M_ArtifactTransferChunk ArtifactTransferChunk
  | M_KeyRotation KeyRotation
  | M_RelayEnvelope RelayEnvelope
  | M_DhtRequest DhtRequest
  | M_DhtResponse DhtResponse
  | M_Training TrainingMessage
  | M_TrainingV4 TrainingV4Message
  | M_TrainingV5 TrainingV5Message

text \<open>The numbers the frame header carries.\<close>

fun kind :: "Message \<Rightarrow> u16" where
  "kind (M_Hello _) = 1"
| "kind (M_PeerExchange _) = 2"
| "kind (M_Announcement _) = 3"
| "kind (M_JobRequest _) = 4"
| "kind (M_JobUpdate _) = 5"
| "kind (M_CancelJob _) = 6"
| "kind (M_ArtifactRequest _) = 7"
| "kind (M_ArtifactChunk _) = 8"
| "kind (M_Ping _) = 9"
| "kind (M_Pong _) = 10"
| "kind (M_Goodbye _) = 11"
| "kind (M_Error _) = 12"
| "kind (M_AddressUpdate _) = 13"
| "kind (M_AddressObservation _) = 14"
| "kind (M_ArtifactTransferRequest _) = 15"
| "kind (M_ArtifactTransferChunk _) = 16"
| "kind (M_KeyRotation _) = 17"
| "kind (M_RelayEnvelope _) = 18"
| "kind (M_DhtRequest _) = 19"
| "kind (M_DhtResponse _) = 20"
| "kind (M_Training _) = 21"
| "kind (M_TrainingV4 _) = 22"
| "kind (M_TrainingV5 _) = 23"

text \<open>
  The least protocol minor a fabric message may be sent at. The guarded arms of the source come
  first, so a start or plan that carries backend bindings needs 1.6.
\<close>

definition plan_uses_backends :: "V4TrainingPlan \<Rightarrow> bool" where
  "plan_uses_backends plan \<longleftrightarrow> vp_backend_assignments plan \<noteq> [] \<or> vp_compute_requirements plan \<noteq> []
     \<or> (\<exists>worker \<in> set (vp_worker_capabilities plan). vwc_backends worker \<noteq> [])"

fun minimum_minor :: "TrainingV4Message \<Rightarrow> u16" where
  "minimum_minor (V4_IntegratedStart start) =
     (if vg_backend_assignments (vist_graph start) \<noteq> []
        \<or> vp_backend_assignments (vist_plan start) \<noteq> []
        \<or> vp_compute_requirements (vist_plan start) \<noteq> [] then 6 else 5)"
| "minimum_minor (V4_IntegratedAck _) = 5"
| "minimum_minor (V4_IntegratedState _) = 5"
| "minimum_minor (V4_IntegratedStateAck _) = 5"
| "minimum_minor (V4_IntegratedElectionRequest _) = 5"
| "minimum_minor (V4_IntegratedElectionVote _) = 5"
| "minimum_minor (V4_IntegratedResult _) = 5"
| "minimum_minor (V4_IntegratedProbe _) = 5"
| "minimum_minor (V4_IntegratedProbeAck _) = 5"
| "minimum_minor (V4_TensorBackwardResult _) = 5"
| "minimum_minor (V4_TensorReplica _) = 5"
| "minimum_minor (V4_TensorReplicaAck _) = 5"
| "minimum_minor (V4_OptimizerStateInstall _) = 5"
| "minimum_minor (V4_OptimizerStateAck _) = 5"
| "minimum_minor (V4_Plan plan) = (if plan_uses_backends plan then 6 else 4)"
| "minimum_minor (V4_PlanProposal plan) = (if plan_uses_backends plan then 6 else 4)"
| "minimum_minor _ = 4"

lemma kind_range: "1 \<le> kind m \<and> kind m \<le> 23"
  by (cases m) simp_all

lemma minimum_minor_range: "4 \<le> minimum_minor t \<and> minimum_minor t \<le> 6"
  by (cases t rule: minimum_minor.cases) simp_all

end
