(* ===== verification/Validation.thy ===== *)
theory Validation
  imports Messages
begin

text \<open>
  The bounds of \<^verbatim>\<open>crates/protocol/src/validation.rs\<close> and its checks of peers, addresses, jobs,
  artifacts, DHT traffic and manifests. A check returns the first error of the source's order of
  checks. The checks of identities take the hash function \<open>blake3\<close> that \<^verbatim>\<open>NodeId::from_public_key\<close>
  uses.
\<close>

section \<open>Bounds\<close>

definition MAX_FRAME_SIZE :: usize where "MAX_FRAME_SIZE = 1024 * 1024"
definition MAX_STRING_LEN :: usize where "MAX_STRING_LEN = 256"
definition MAX_ADDRESS_LEN :: usize where "MAX_ADDRESS_LEN = 256"
definition MAX_CAPABILITIES :: usize where "MAX_CAPABILITIES = 64"
definition MAX_PEERS :: usize where "MAX_PEERS = 128"
definition MAX_METADATA :: usize where "MAX_METADATA = 32"
definition MAX_JOB_INPUT :: usize where "MAX_JOB_INPUT = 64 * 1024"
definition MAX_JOB_OUTPUT :: usize where "MAX_JOB_OUTPUT = 1024 * 1024"
definition MAX_ARTIFACT_CHUNK :: usize where "MAX_ARTIFACT_CHUNK = 256 * 1024"
definition MAX_ARTIFACT_SHARDS :: usize where "MAX_ARTIFACT_SHARDS = 4096"
definition MAX_ADDRESSES :: usize where "MAX_ADDRESSES = 16"
definition MAX_RELAY_PAYLOAD :: usize where "MAX_RELAY_PAYLOAD = 512 * 1024"
definition MAX_DHT_RECORD_VALUE :: usize where "MAX_DHT_RECORD_VALUE = 8 * 1024"
definition MAX_DHT_RECORDS :: usize where "MAX_DHT_RECORDS = 64"
definition MAX_DHT_CONTACTS :: usize where "MAX_DHT_CONTACTS = 64"
definition MAX_EVIDENCE_PAYLOAD :: usize where "MAX_EVIDENCE_PAYLOAD = 8 * 1024"
definition MAX_TRAINING_WORKERS :: usize where "MAX_TRAINING_WORKERS = 64"
definition MAX_TRAINING_GROUPS :: usize where "MAX_TRAINING_GROUPS = 32"
definition MAX_TRAINING_SAMPLES :: usize where "MAX_TRAINING_SAMPLES = 256"
definition MAX_TRAINING_CONTRIBUTORS :: usize where "MAX_TRAINING_CONTRIBUTORS = 64"
definition MAX_TRAINING_SHARDS :: usize where "MAX_TRAINING_SHARDS = 64"
definition MAX_TRAINING_REPLICAS :: usize where "MAX_TRAINING_REPLICAS = 16"
definition MAX_TRAINING_STATE_BYTES :: u64 where "MAX_TRAINING_STATE_BYTES = 2 ^ 40"
definition MAX_V4_VECTOR :: usize where "MAX_V4_VECTOR = 128"
definition MAX_V4_BYTES :: usize where "MAX_V4_BYTES = 64 * 1024"
definition MAX_V4_STAGES :: usize where "MAX_V4_STAGES = 16"
definition MAX_V4_GROUPS :: usize where "MAX_V4_GROUPS = 32"
definition MAX_V4_PLAN_WORKERS :: usize where "MAX_V4_PLAN_WORKERS = 64"
definition MAX_V5_BACKENDS :: usize where "MAX_V5_BACKENDS = 8"
definition MAX_V5_FEATURES :: usize where "MAX_V5_FEATURES = 16"
definition MAX_V5_FORMATS :: usize where "MAX_V5_FORMATS = 8"
definition MAX_V5_ASSIGNMENTS :: usize where "MAX_V5_ASSIGNMENTS = 128"
definition MAX_V5_REQUIREMENTS :: usize where "MAX_V5_REQUIREMENTS = 64"

lemmas max_defs = MAX_FRAME_SIZE_def MAX_STRING_LEN_def MAX_ADDRESS_LEN_def MAX_CAPABILITIES_def
  MAX_PEERS_def MAX_METADATA_def MAX_JOB_INPUT_def MAX_JOB_OUTPUT_def MAX_ARTIFACT_CHUNK_def
  MAX_ARTIFACT_SHARDS_def MAX_ADDRESSES_def MAX_RELAY_PAYLOAD_def MAX_DHT_RECORD_VALUE_def
  MAX_DHT_RECORDS_def MAX_DHT_CONTACTS_def MAX_EVIDENCE_PAYLOAD_def MAX_TRAINING_WORKERS_def
  MAX_TRAINING_GROUPS_def MAX_TRAINING_SAMPLES_def MAX_TRAINING_CONTRIBUTORS_def
  MAX_TRAINING_SHARDS_def MAX_TRAINING_REPLICAS_def MAX_TRAINING_STATE_BYTES_def MAX_V4_VECTOR_def
  MAX_V4_BYTES_def MAX_V4_STAGES_def MAX_V4_GROUPS_def MAX_V4_PLAN_WORKERS_def MAX_V5_BACKENDS_def
  MAX_V5_FEATURES_def MAX_V5_FORMATS_def MAX_V5_ASSIGNMENTS_def MAX_V5_REQUIREMENTS_def

datatype ValidationError =
    TooLong string nat
  | TooMany string nat
  | Empty string
  | Invalid string
  | Oversized string

type_synonym check = "ValidationError + unit"

section \<open>Elementary checks\<close>

definition string_check :: "string \<Rightarrow> string \<Rightarrow> check" where
  "string_check v field = all_ok [
     err_if (v = []) (Empty field),
     err_if (length v > MAX_STRING_LEN) (TooLong field MAX_STRING_LEN)]"

definition bytes_check :: "u8 list \<Rightarrow> usize \<Rightarrow> string \<Rightarrow> check" where
  "bytes_check v mx field = err_if (length v > mx) (Oversized field)"

definition signature_check :: "u8 list \<Rightarrow> string \<Rightarrow> check" where
  "signature_check v field = err_if (length v \<noteq> 64) (Invalid field)"

definition node_id_check :: "NodeId \<Rightarrow> string \<Rightarrow> check" where
  "node_id_check v field = err_if (v = filled 0) (Invalid field)"

definition artifact_id_check :: "ArtifactId \<Rightarrow> string \<Rightarrow> check" where
  "artifact_id_check v field = err_if (v = filled 0) (Invalid field)"

definition training_job_id_check :: "JobId \<Rightarrow> string \<Rightarrow> check" where
  "training_job_id_check v field = err_if (v = filled 0) (Invalid field)"

text \<open>A \<^verbatim>\<open>HashSet\<close> collected from a list has as many elements as the list iff nothing repeats.\<close>

definition has_duplicates :: "'a list \<Rightarrow> bool" where
  "has_duplicates xs \<longleftrightarrow> card (set xs) \<noteq> length xs"

lemma has_duplicates_iff [simp]: "has_duplicates xs \<longleftrightarrow> \<not> distinct xs"
  by (metis card_distinct distinct_card has_duplicates_def)

lemma elementary_checks [result_simps]:
  "string_check v f = Inr u \<longleftrightarrow> v \<noteq> [] \<and> length v \<le> MAX_STRING_LEN"
  "bytes_check b m f = Inr u \<longleftrightarrow> length b \<le> m"
  "signature_check b f = Inr u \<longleftrightarrow> length b = 64"
  "node_id_check n f = Inr u \<longleftrightarrow> n \<noteq> filled 0"
  "artifact_id_check a f = Inr u \<longleftrightarrow> a \<noteq> filled 0"
  "training_job_id_check j f = Inr u \<longleftrightarrow> j \<noteq> filled 0"
  by (auto simp: string_check_def bytes_check_def signature_check_def node_id_check_def
      artifact_id_check_def training_job_id_check_def result_simps simp del: all_ok.simps)

section \<open>Compute capabilities\<close>

definition backend_capabilities_check :: "BackendCapabilities \<Rightarrow> string \<Rightarrow> check" where
  "backend_capabilities_check v field = all_ok [
     string_check (bc_runtime_version v) field,
     err_if (bc_device_count v = 0 \<or> bc_device_memory_bytes v = 0
       \<or> bc_available_memory_bytes v > sat_mul (bc_device_memory_bytes v) (ucast (bc_device_count v))
       \<or> bc_available_memory_bytes v = 0 \<or> bc_formats v = [] \<or> length (bc_formats v) > MAX_V5_FORMATS
       \<or> bc_max_tensor_elements v = 0 \<or> length (bc_features v) > MAX_V5_FEATURES
       \<or> bc_max_concurrent_tasks v = 0 \<or> bc_safety_margin_permille v > 500
       \<or> bc_observed_successes v > 1000000 \<or> bc_observed_failures v > 1000000) (Invalid field),
     if_some (bc_device_architecture v) (\<lambda>architecture. string_check architecture field),
     err_if (has_duplicates (bc_features v) \<or> has_duplicates (bc_formats v)) (Invalid field),
     err_if (bc_physical_verified v \<and> (\<not> bc_driver_available v \<or> \<not> bc_runtime_available v))
       (Invalid field)]"

definition compute_requirements_check :: "ComputeRequirements \<Rightarrow> string \<Rightarrow> check" where
  "compute_requirements_check v field = all_ok [
     err_if (cr_required_memory_bytes v = 0 \<or> cr_max_tensor_elements v = 0 \<or> cr_kernel_version v = 0
       \<or> length (cr_allowed_backends v) > MAX_V5_BACKENDS
       \<or> length (cr_fallback_backends v) > MAX_V5_BACKENDS
       \<or> cr_required_formats v = [] \<or> length (cr_required_formats v) > MAX_V5_FORMATS
       \<or> length (cr_required_features v) > MAX_V5_FEATURES) (Invalid field),
     string_check (cr_kernel_id v) field,
     all_ok (map (\<lambda>backends. err_if (has_duplicates backends) (Invalid field))
       [cr_allowed_backends v, cr_fallback_backends v]),
     err_if (cr_required_backend v = None \<and> cr_allowed_backends v = []) (Invalid field),
     if_some (cr_required_backend v) (\<lambda>required.
       err_if (cr_allowed_backends v \<noteq> [] \<and> required \<notin> set (cr_allowed_backends v)) (Invalid field)),
     err_if (has_duplicates (cr_required_formats v) \<or> has_duplicates (cr_required_features v))
       (Invalid field),
     err_if (\<not> cr_fallback_allowed v \<and> cr_fallback_backends v \<noteq> []) (Invalid field)]"

section \<open>Peers and addresses\<close>

definition capability_check :: "Capability \<Rightarrow> check" where
  "capability_check c = all_ok [
     string_check (cap_name c) ''capability.name'',
     err_if (cap_version c = 0) (Invalid ''capability.version''),
     err_if (length (cap_name c) > 128) (TooLong ''capability.name'' 128),
     if_some (cap_model c) (\<lambda>model. string_check model ''capability.model''),
     err_if (length (cap_metadata c) > MAX_METADATA) (TooMany ''capability.metadata'' MAX_METADATA),
     all_ok (map (\<lambda>entry. all_ok [string_check (me_key entry) ''capability.metadata.key'',
         string_check (me_value entry) ''capability.metadata.value'']) (cap_metadata c)),
     err_if (length (cap_compute_backends c) > MAX_V5_BACKENDS)
       (TooMany ''capability.compute_backends'' MAX_V5_BACKENDS),
     and_then (try_fold (insert_step (\<lambda>_. Ok) bc_kind (Invalid ''capability.compute_backends'')
         (\<lambda>backend. backend_capabilities_check backend ''capability.compute_backend''))
         {} (cap_compute_backends c)) (\<lambda>_. Ok),
     err_if (rl_max_input_bytes (cap_resources c) = 0
       \<or> unat (rl_max_input_bytes (cap_resources c)) > MAX_JOB_INPUT
       \<or> rl_max_output_bytes (cap_resources c) = 0
       \<or> unat (rl_max_output_bytes (cap_resources c)) > MAX_JOB_OUTPUT
       \<or> rl_memory_bytes (cap_resources c) = 0 \<or> rl_cpu_millis (cap_resources c) = 0)
       (Invalid ''capability.resources''),
     (case cap_evidence c of CE_Claimed \<Rightarrow> Ok | CE_Observed _ _ _ \<Rightarrow> Ok
      | CE_Verified _ score_basis _ \<Rightarrow> string_check score_basis ''capability.evidence.score_basis'')]"

definition peer_check :: "PeerRecord \<Rightarrow> check" where
  "peer_check p = all_ok [
     err_if (length (pr_addresses p) > 8) (TooMany ''peer.addresses'' 8),
     all_ok (map (\<lambda>address. err_if (address = [] \<or> length address > MAX_ADDRESS_LEN)
         (TooLong ''peer.address'' MAX_ADDRESS_LEN)) (pr_addresses p)),
     err_if (length (pr_capabilities p) > MAX_CAPABILITIES)
       (TooMany ''peer.capabilities'' MAX_CAPABILITIES),
     all_ok (map capability_check (pr_capabilities p)),
     err_if (pr_expires_at p < pr_announced_at p) (Invalid ''peer.expiry'')]"

definition address_record_check :: "AddressRecord \<Rightarrow> check" where
  "address_record_check a = all_ok [
     err_if (ar_address a = [] \<or> length (ar_address a) > MAX_ADDRESS_LEN)
       (TooLong ''address.address'' MAX_ADDRESS_LEN),
     err_if (ar_expires_at a = 0 \<or> ar_confidence a > 100) (Invalid ''address.metadata'')]"

definition SignedAnnouncement_validate :: "SignedAnnouncement \<Rightarrow> check" where
  "SignedAnnouncement_validate v = all_ok [
     peer_check (sa_record v), signature_check (sa_signature v) ''announcement.signature'']"

definition Hello_validate :: "Hello \<Rightarrow> check" where
  "Hello_validate v = all_ok [
     peer_check (hello_record v), signature_check (hello_signature v) ''hello.signature'']"

definition PeerExchange_validate :: "PeerExchange \<Rightarrow> check" where
  "PeerExchange_validate v = all_ok [
     err_if (length (px_peers v) > MAX_PEERS) (TooMany ''peer_exchange.peers'' MAX_PEERS),
     all_ok (map SignedAnnouncement_validate (px_peers v))]"

definition AddressUpdate_validate :: "AddressUpdate \<Rightarrow> check" where
  "AddressUpdate_validate v = all_ok [
     err_if (au_sequence v = 0) (Invalid ''address_update.sequence''),
     err_if (length (au_addresses v) > MAX_ADDRESSES) (TooMany ''address_update.addresses'' MAX_ADDRESSES),
     all_ok (map address_record_check (au_addresses v)),
     signature_check (au_signature v) ''address_update.signature'']"

definition AddressObservation_validate :: "AddressObservation \<Rightarrow> check" where
  "AddressObservation_validate v = all_ok [
     err_if (ao_address v = [] \<or> length (ao_address v) > MAX_ADDRESS_LEN)
       (TooLong ''address_observation.address'' MAX_ADDRESS_LEN),
     err_if (ao_expires_at v = 0) (Invalid ''address_observation.expires_at''),
     signature_check (ao_signature v) ''address_observation.signature'']"

section \<open>Jobs\<close>

definition JobRequest_validate :: "JobRequest \<Rightarrow> check" where
  "JobRequest_validate v = all_ok [
     string_check (jr_capability v) ''job.capability'',
     err_if (length (jr_capability v) > 128) (TooLong ''job.capability'' 128),
     bytes_check (jr_input v) MAX_JOB_INPUT ''job.input'',
     err_if (jr_deadline_ms v = 0 \<or> jr_deadline_ms v > 24 * 60 * 60 * 1000) (Invalid ''job.deadline_ms''),
     err_if (jr_max_output_bytes v = 0 \<or> unat (jr_max_output_bytes v) > MAX_JOB_OUTPUT)
       (Invalid ''job.max_output_bytes'')]"

definition state_matches :: "JobUpdate \<Rightarrow> bool" where
  "state_matches v = (case ju_update v of
       JU_Accepted state \<Rightarrow> state = ju_state v
     | JU_Started \<Rightarrow> ju_state v = JS_Running
     | JU_Chunk _ _ \<Rightarrow> ju_state v = JS_Running
     | JU_Succeeded _ _ _ \<Rightarrow> ju_state v = JS_Succeeded
     | JU_Rejected _ _ \<Rightarrow> ju_state v = JS_Rejected
     | JU_Cancelled \<Rightarrow> ju_state v = JS_Cancelled
     | JU_TimedOut \<Rightarrow> ju_state v = JS_TimedOut
     | JU_Failed _ _ \<Rightarrow> ju_state v = JS_Failed)"

definition JobUpdate_validate :: "JobUpdate \<Rightarrow> check" where
  "JobUpdate_validate v = all_ok [
     err_if (ju_sequence v = 0) (Invalid ''job.sequence''),
     err_if (\<not> state_matches v) (Invalid ''job.state_update''),
     (case ju_update v of
        JU_Chunk _ dat \<Rightarrow> bytes_check dat MAX_ARTIFACT_CHUNK ''job.chunk''
      | JU_Succeeded out _ evidence \<Rightarrow> all_ok [
          bytes_check out MAX_JOB_OUTPUT ''job.output'',
          if_some evidence (\<lambda>e. string_check (ev_score_scale e) ''evidence.score_scale'')]
      | JU_Rejected code message \<Rightarrow> all_ok [
          string_check code ''job.error.code'', string_check message ''job.error.message'']
      | JU_Failed code message \<Rightarrow> all_ok [
          string_check code ''job.error.code'', string_check message ''job.error.message'']
      | _ \<Rightarrow> Ok)]"

section \<open>Artifacts, rotations and relays\<close>

definition ArtifactRequest_validate :: "ArtifactRequest \<Rightarrow> check" where
  "ArtifactRequest_validate v =
     err_if (areq_max_bytes v = 0 \<or> unat (areq_max_bytes v) > MAX_ARTIFACT_CHUNK)
       (Invalid ''artifact_request.max_bytes'')"

definition ArtifactChunk_validate :: "ArtifactChunk \<Rightarrow> check" where
  "ArtifactChunk_validate v = bytes_check (ac_data v) MAX_ARTIFACT_CHUNK ''artifact_chunk.data''"

definition ArtifactTransferRequest_validate :: "ArtifactTransferRequest \<Rightarrow> check" where
  "ArtifactTransferRequest_validate v =
     err_if (atr_max_bytes v = 0 \<or> unat (atr_max_bytes v) > MAX_ARTIFACT_CHUNK)
       (Invalid ''artifact_transfer_request.max_bytes'')"

definition ArtifactTransferChunk_validate :: "ArtifactTransferChunk \<Rightarrow> check" where
  "ArtifactTransferChunk_validate v = all_ok [
     err_if (atc_total_size v = 0 \<or> atc_offset v > atc_total_size v) (Invalid ''artifact_transfer_chunk.range''),
     bytes_check (atc_data v) MAX_ARTIFACT_CHUNK ''artifact_transfer_chunk.data'',
     err_if (atc_data v = [] \<and> \<not> atc_final_chunk v) (Invalid ''artifact_transfer_chunk.data''),
     err_if (sat_add (atc_offset v) (of_nat (length (atc_data v))) > atc_total_size v)
       (Invalid ''artifact_transfer_chunk.range'')]"

definition KeyRotation_validate :: "hash_fn \<Rightarrow> KeyRotation \<Rightarrow> check" where
  "KeyRotation_validate blake3 v = all_ok [
     err_if (kr_old_node_id v = kr_new_node_id v
       \<or> kr_old_node_id v \<noteq> from_public_key blake3 (kr_old_public_key v)
       \<or> kr_new_node_id v \<noteq> from_public_key blake3 (kr_new_public_key v)
       \<or> kr_sequence v = 0 \<or> kr_valid_from v = 0 \<or> kr_valid_until v < kr_valid_from v)
       (Invalid ''key_rotation.identity_or_validity''),
     signature_check (kr_old_signature v) ''key_rotation.old_signature'',
     signature_check (kr_new_signature v) ''key_rotation.new_signature'']"

definition RelayEnvelope_validate :: "hash_fn \<Rightarrow> RelayEnvelope \<Rightarrow> check" where
  "RelayEnvelope_validate blake3 v = all_ok [
     err_if (re_origin v \<noteq> from_public_key blake3 (re_origin_public_key v) \<or> re_origin v = re_target v
       \<or> re_payload v = [] \<or> length (re_payload v) > MAX_RELAY_PAYLOAD)
       (Invalid ''relay_envelope.identity_or_payload''),
     signature_check (re_signature v) ''relay_envelope.signature'']"

definition manifest_shards_check :: "ArtifactShard list \<Rightarrow> string \<Rightarrow> check" where
  "manifest_shards_check shards field =
     err_if (length shards > MAX_ARTIFACT_SHARDS) (TooMany field MAX_ARTIFACT_SHARDS)"

definition ArtifactManifest_validate :: "ArtifactManifest \<Rightarrow> check" where
  "ArtifactManifest_validate v = all_ok [
     string_check (am_format v) ''artifact.format'', manifest_shards_check (am_shards v) ''artifact.shards'']"

definition ModelManifest_validate :: "ModelManifest \<Rightarrow> check" where
  "ModelManifest_validate v = all_ok [
     string_check (mm_identity v) ''model.identity'',
     string_check (mm_format v) ''model.format'',
     manifest_shards_check (mm_weights v) ''model.weights'',
     err_if (length (mm_adapters v) > MAX_CAPABILITIES) (TooMany ''model.adapters'' MAX_CAPABILITIES),
     err_if (length (mm_capabilities v) > MAX_CAPABILITIES) (TooMany ''model.capabilities'' MAX_CAPABILITIES),
     all_ok (map (\<lambda>item. string_check item ''model.capability'') (mm_capabilities v)),
     err_if (length (mm_runtime_requirements v) > MAX_METADATA)
       (TooMany ''model.runtime_requirements'' MAX_METADATA),
     all_ok (map (\<lambda>item. all_ok [string_check (me_key item) ''model.runtime_requirement.key'',
       string_check (me_value item) ''model.runtime_requirement.value'']) (mm_runtime_requirements v)),
     if_some (mm_local_path v) (\<lambda>path. string_check path ''model.local_path'')]"

definition DatasetManifest_validate :: "DatasetManifest \<Rightarrow> check" where
  "DatasetManifest_validate v = all_ok [
     string_check (dm_identity v) ''dataset.identity'',
     string_check (dm_format v) ''dataset.format'',
     string_check (dm_sample_policy v) ''dataset.sample_policy'',
     manifest_shards_check (dm_shards v) ''dataset.shards'']"

definition CheckpointManifest_validate :: "CheckpointManifest \<Rightarrow> check" where
  "CheckpointManifest_validate v =
     err_if (\<not> cm_complete_weights v) (Invalid ''checkpoint.complete_weights'')"

definition TrainingPlan_validate :: "TrainingPlan \<Rightarrow> check" where
  "TrainingPlan_validate v = all_ok [
     err_if (tp_workers v = 0 \<or> tp_workers v > 1024 \<or> tp_max_steps v = 0 \<or> tp_checkpoint_every v = 0)
       (Invalid ''training.plan.bounds''),
     if_some (tp_evaluation_capability v) (\<lambda>c. string_check c ''training.evaluation_capability'')]"

section \<open>DHT traffic, evidence and protocol errors\<close>

definition DhtRecord_validate :: "hash_fn \<Rightarrow> DhtRecord \<Rightarrow> check" where
  "DhtRecord_validate blake3 r = all_ok [
     err_if (dr_owner r \<noteq> from_public_key blake3 (dr_owner_public_key r) \<or> dr_expires_at r = 0
       \<or> length (dr_value r) > MAX_DHT_RECORD_VALUE) (Invalid ''dht.record.identity_or_value''),
     signature_check (dr_signature r) ''dht.record.signature'']"

definition DhtRequest_validate :: "hash_fn \<Rightarrow> DhtRequest \<Rightarrow> check" where
  "DhtRequest_validate blake3 v = (case drq_request v of
       DRQ_Ping \<Rightarrow> Ok | DRQ_FindNode _ \<Rightarrow> Ok | DRQ_Get _ _ \<Rightarrow> Ok
     | DRQ_Put rec \<Rightarrow> DhtRecord_validate blake3 rec)"

definition DhtResponse_validate :: "hash_fn \<Rightarrow> DhtResponse \<Rightarrow> check" where
  "DhtResponse_validate blake3 v = (case drs_response v of
       DRS_Nodes contacts \<Rightarrow> all_ok [
         err_if (length contacts > MAX_DHT_CONTACTS) (TooMany ''dht.response.contacts'' MAX_DHT_CONTACTS),
         all_ok (map SignedAnnouncement_validate contacts)]
     | DRS_Records recs \<Rightarrow> all_ok [
         err_if (length recs > MAX_DHT_RECORDS) (TooMany ''dht.response.records'' MAX_DHT_RECORDS),
         all_ok (map (DhtRecord_validate blake3) recs)]
     | DRS_Error _ message \<Rightarrow> string_check message ''dht.error.message''
     | DRS_Pong \<Rightarrow> Ok | DRS_Stored \<Rightarrow> Ok | DRS_NotFound \<Rightarrow> Ok)"

definition SignedEvidence_validate :: "hash_fn \<Rightarrow> SignedEvidence \<Rightarrow> check" where
  "SignedEvidence_validate blake3 v = all_ok [
     err_if (se_issuer v \<noteq> from_public_key blake3 (se_issuer_public_key v) \<or> se_expires_at v < se_observed_at v)
       (Invalid ''evidence.identity_or_validity''),
     err_if (length (se_payload v) > MAX_EVIDENCE_PAYLOAD) (Oversized ''evidence.payload''),
     signature_check (se_signature v) ''evidence.signature'']"

definition ProtocolError_validate :: "ProtocolError \<Rightarrow> check" where
  "ProtocolError_validate v = string_check (pe_message v) ''protocol_error.message''"

end
