(* ===== verification/Training_Validation.thy ===== *)
theory Training_Validation
  imports Validation
begin

text \<open>
  The checks of the protocol 1.3 training messages and of the 1.6 compute messages in
  \<^verbatim>\<open>crates/protocol/src/validation.rs\<close>.
\<close>

section \<open>Node lists\<close>

definition training_nodes_check :: "NodeId list \<Rightarrow> string \<Rightarrow> usize \<Rightarrow> check" where
  "training_nodes_check nodes field mx = all_ok [
     err_if (nodes = [] \<or> length nodes > mx) (TooMany field mx),
     and_then (try_fold (insert_step (\<lambda>node. node_id_check node field) id (Invalid field) (\<lambda>_. Ok)) {} nodes)
       (\<lambda>_. Ok)]"

lemma training_nodes_check_ok [result_simps]:
  "training_nodes_check nodes f mx = Inr u \<longleftrightarrow>
     nodes \<noteq> [] \<and> length nodes \<le> mx \<and> distinct nodes \<and> filled 0 \<notin> set nodes"
  by (auto simp: training_nodes_check_def result_simps simp del: all_ok.simps)

section \<open>Protocol 1.3 messages\<close>

definition training_assignment_check :: "TrainingShardAssignment \<Rightarrow> check" where
  "training_assignment_check a = all_ok [
     training_nodes_check (tsa_owners a) ''training.shard.owners'' MAX_TRAINING_WORKERS,
     training_nodes_check (tsa_replicas a) ''training.shard.replicas'' MAX_TRAINING_REPLICAS,
     artifact_id_check (tsa_state_hash a) ''training.shard.state_hash'']"

definition training_start_check :: "TrainingStart \<Rightarrow> check" where
  "training_start_check v = all_ok [
     training_job_id_check (tst_job_id v) ''training.start.job_id'',
     node_id_check (tst_coordinator v) ''training.start.coordinator'',
     artifact_id_check (tst_branch v) ''training.start.branch'',
     artifact_id_check (tst_plan_hash v) ''training.start.plan_hash'',
     err_if (tst_term v = 0 \<or> tst_membership_epoch v = 0 \<or> tst_max_windows v = 0
       \<or> tst_local_steps v = 0 \<or> tst_local_steps v > 1024 \<or> tst_max_staleness v > 1024
       \<or> tst_checkpoint_every v = 0) (Invalid ''training.start.generation''),
     err_if (tst_model_state_bytes v > MAX_TRAINING_STATE_BYTES
       \<or> tst_shard_state_bytes v > MAX_TRAINING_STATE_BYTES
       \<or> (tst_model_state_bytes v > 0 \<and>
           (tst_shard_state_bytes v = 0 \<or> tst_shard_state_bytes v > tst_model_state_bytes v)))
       (Invalid ''training.start.state_bytes''),
     training_nodes_check (tst_participants v) ''training.start.participants'' MAX_TRAINING_WORKERS,
     err_if (tst_groups v = [] \<or> length (tst_groups v) > MAX_TRAINING_GROUPS)
       (TooMany ''training.start.groups'' MAX_TRAINING_GROUPS),
     err_if (tst_shards v = [] \<or> length (tst_shards v) > MAX_TRAINING_SHARDS)
       (TooMany ''training.start.shards'' MAX_TRAINING_SHARDS),
     err_if (tst_samples v = [] \<or> length (tst_samples v) > MAX_TRAINING_SAMPLES)
       (TooMany ''training.start.samples'' MAX_TRAINING_SAMPLES),
     training_assignment_check (tst_assignment v)]"

definition training_window_check :: "TrainingWindow \<Rightarrow> check" where
  "training_window_check v = all_ok [
     training_job_id_check (tw_job_id v) ''training.window.job_id'',
     node_id_check (tw_coordinator v) ''training.window.coordinator'',
     node_id_check (tw_aggregator v) ''training.window.aggregator'',
     artifact_id_check (tw_branch v) ''training.window.branch'',
     err_if (tw_term v = 0 \<or> tw_membership_epoch v = 0 \<or> tw_local_steps v = 0)
       (Invalid ''training.window.generation''),
     training_nodes_check (tw_members v) ''training.window.members'' MAX_TRAINING_WORKERS]"

definition training_update_check :: "TrainingUpdate \<Rightarrow> check" where
  "training_update_check v = all_ok [
     training_job_id_check (tu_job_id v) ''training.update.job_id'',
     node_id_check (tu_worker v) ''training.update.worker'',
     artifact_id_check (tu_branch v) ''training.update.branch'',
     err_if (tu_term v = 0 \<or> tu_membership_epoch v = 0 \<or> tu_update_sequence v = 0 \<or> tu_samples v = 0
       \<or> unsigned_abs (tu_value v) > 1000000000 \<or> unsigned_abs (tu_optimizer v) > 1000000000
       \<or> unsigned_abs (tu_loss v) > 1000000000) (Invalid ''training.update.bounds'')]"

definition training_aggregate_check :: "TrainingAggregate \<Rightarrow> check" where
  "training_aggregate_check v = all_ok [
     training_job_id_check (ta_job_id v) ''training.aggregate.job_id'',
     node_id_check (ta_aggregator v) ''training.aggregate.aggregator'',
     artifact_id_check (ta_branch v) ''training.aggregate.branch'',
     artifact_id_check (ta_state_artifact v) ''training.aggregate.state_artifact'',
     err_if (ta_term v = 0 \<or> ta_membership_epoch v = 0 \<or> ta_generation v = 0)
       (Invalid ''training.aggregate.generation''),
     err_if (unsigned_abs (ta_value v) > 1000000000 \<or> unsigned_abs (ta_optimizer v) > 1000000000
       \<or> unsigned_abs (ta_loss v) > 1000000000) (Invalid ''training.aggregate.bounds''),
     training_nodes_check (ta_contributors v) ''training.aggregate.contributors'' MAX_TRAINING_CONTRIBUTORS,
     training_nodes_check (ta_replicas v) ''training.aggregate.replicas'' MAX_TRAINING_REPLICAS]"

definition training_state_check :: "TrainingState \<Rightarrow> check" where
  "training_state_check v = all_ok [
     training_job_id_check (ts_job_id v) ''training.state.job_id'',
     node_id_check (ts_coordinator v) ''training.state.coordinator'',
     artifact_id_check (ts_branch v) ''training.state.branch'',
     err_if (ts_term v = 0 \<or> ts_membership_epoch v = 0) (Invalid ''training.state.generation''),
     err_if (ts_shards v = [] \<or> length (ts_shards v) > MAX_TRAINING_SHARDS)
       (TooMany ''training.state.shards'' MAX_TRAINING_SHARDS),
     and_then (try_fold (insert_step (\<lambda>_. Ok) tsum_shard_id (Invalid ''training.state.shard_id'')
       (\<lambda>shard. all_ok [
         artifact_id_check (tsum_state_hash shard) ''training.state.shard_hash'',
         training_nodes_check (tsum_providers shard) ''training.state.providers'' MAX_TRAINING_REPLICAS]))
       {} (ts_shards v)) (\<lambda>_. Ok),
     if_some (ts_checkpoint v) (\<lambda>checkpoint. artifact_id_check checkpoint ''training.state.checkpoint'')]"

definition training_election_check :: "TrainingElection \<Rightarrow> check" where
  "training_election_check v = all_ok [
     training_job_id_check (te_job_id v) ''training.election.job_id'',
     node_id_check (te_candidate v) ''training.election.candidate'',
     artifact_id_check (te_branch v) ''training.election.branch'',
     err_if (te_term v = 0 \<or> te_membership_epoch v = 0) (Invalid ''training.election.generation'')]"

definition training_checkpoint_offer_check :: "TrainingCheckpointOffer \<Rightarrow> check" where
  "training_checkpoint_offer_check v = all_ok [
     training_job_id_check (tco_job_id v) ''training.checkpoint.job_id'',
     node_id_check (tco_creator v) ''training.checkpoint.creator'',
     artifact_id_check (tco_artifact v) ''training.checkpoint.artifact'',
     err_if (tco_term v = 0 \<or> tco_checkpoint_generation v = 0) (Invalid ''training.checkpoint.generation'')]"

definition training_checkpoint_commit_check :: "TrainingCheckpointCommit \<Rightarrow> check" where
  "training_checkpoint_commit_check v = all_ok [
     training_job_id_check (tcc_job_id v) ''training.commit.job_id'',
     node_id_check (tcc_coordinator v) ''training.commit.coordinator'',
     artifact_id_check (tcc_branch v) ''training.commit.branch'',
     err_if (tcc_term v = 0 \<or> tcc_membership_epoch v = 0 \<or> tcc_quorum v = [])
       (Invalid ''training.commit.generation''),
     err_if (tcm_job_id (tcc_manifest v) \<noteq> tcc_job_id v
       \<or> tcm_membership_epoch (tcc_manifest v) \<noteq> tcc_membership_epoch v
       \<or> tcm_term (tcc_manifest v) > tcc_term v
       \<or> tcm_checkpoint_generation (tcc_manifest v) = 0) (Invalid ''training.commit.manifest_lineage''),
     training_nodes_check (tcc_quorum v) ''training.commit.quorum'' MAX_TRAINING_WORKERS,
     err_if (tcm_shards (tcc_manifest v) = [] \<or> length (tcm_shards (tcc_manifest v)) > MAX_TRAINING_SHARDS)
       (TooMany ''training.commit.shards'' MAX_TRAINING_SHARDS),
     all_ok (map (\<lambda>shard. all_ok [
       artifact_id_check (tcs_artifact shard) ''training.commit.shard_artifact'',
       err_if (tcs_generation shard = 0) (Invalid ''training.commit.shard_generation''),
       training_nodes_check (tcs_providers shard) ''training.commit.shard_providers'' MAX_TRAINING_REPLICAS])
       (tcm_shards (tcc_manifest v))),
     artifact_id_check (tcm_hash (tcc_manifest v)) ''training.commit.manifest_hash'']"

definition training_ack_check :: "TrainingAck \<Rightarrow> check" where
  "training_ack_check v = all_ok [
     training_job_id_check (tack_job_id v) ''training.ack.job_id'',
     node_id_check (tack_peer v) ''training.ack.peer'',
     err_if (tack_term v = 0) (Invalid ''training.ack.term'')]"

definition training_shard_state_check :: "TrainingShardState \<Rightarrow> check" where
  "training_shard_state_check v = all_ok [
     training_job_id_check (tss_job_id v) ''training.shard_state.job_id'',
     node_id_check (tss_owner v) ''training.shard_state.owner'',
     artifact_id_check (tss_branch v) ''training.shard_state.branch'',
     err_if (tss_term v = 0 \<or> tss_membership_epoch v = 0 \<or> tss_generation v = 0
       \<or> unsigned_abs (tss_value v) > 1000000000 \<or> unsigned_abs (tss_optimizer v) > 1000000000)
       (Invalid ''training.shard_state.bounds''),
     artifact_id_check (tss_state_hash v) ''training.shard_state.hash'']"

fun training_message_check :: "TrainingMessage \<Rightarrow> check" where
  "training_message_check (TM_Start v) = training_start_check v"
| "training_message_check (TM_Window v) = training_window_check v"
| "training_message_check (TM_Update v) = training_update_check v"
| "training_message_check (TM_Aggregate v) = training_aggregate_check v"
| "training_message_check (TM_ShardState v) = training_shard_state_check v"
| "training_message_check (TM_State v) = training_state_check v"
| "training_message_check (TM_Ack v) = training_ack_check v"
| "training_message_check (TM_Election v) = training_election_check v"
| "training_message_check (TM_CheckpointOffer v) = training_checkpoint_offer_check v"
| "training_message_check (TM_CheckpointCommit v) = training_checkpoint_commit_check v"

section \<open>Protocol 1.6 compute messages\<close>

definition v5_challenge_check :: "CapabilityChallenge \<Rightarrow> check" where
  "v5_challenge_check v =
     err_if (cc_challenge_id v = filled 0 \<or> cc_job_id v = filled 0 \<or> cc_worker v = filled 0
       \<or> cc_task_kind v \<noteq> CT_CapabilityChallenge \<or> cc_input_elements v = 0
       \<or> cc_input_elements v > of_nat MAX_V4_VECTOR \<or> cc_deadline_ms v = 0 \<or> cc_deadline_ms v > 120000)
       (Invalid ''v5.challenge.bounds'')"

definition v5_challenge_result_check :: "CapabilityChallengeResult \<Rightarrow> check" where
  "v5_challenge_result_check v = all_ok [
     err_if (ccr_challenge_id v = filled 0 \<or> ccr_worker v = filled 0 \<or> ccr_elapsed_micros v = 0
       \<or> ccr_allocated_bytes v > MAX_TRAINING_STATE_BYTES) (Invalid ''v5.challenge_result.bounds''),
     if_some (ccr_error v) (\<lambda>error. string_check error ''v5.challenge_result.error'')]"

definition v5_evidence_check :: "CapabilityEvidenceRecord \<Rightarrow> check" where
  "v5_evidence_check v = all_ok [
     err_if (cer_worker v = filled 0 \<or> cer_observed_at v = 0 \<or> cer_last_throughput_micros v = 0
       \<or> cer_successful_challenges v > 1000000 \<or> cer_failed_challenges v > 1000000
       \<or> cer_successful_tasks v > 1000000 \<or> cer_failed_tasks v > 1000000)
       (Invalid ''v5.evidence.bounds''),
     if_some (cer_last_error v) (\<lambda>error. string_check error ''v5.evidence.error'')]"

fun training_v5_message_check :: "TrainingV5Message \<Rightarrow> check" where
  "training_v5_message_check (V5_CapabilityChallenge v) = v5_challenge_check v"
| "training_v5_message_check (V5_CapabilityChallengeResult v) = v5_challenge_result_check v"
| "training_v5_message_check (V5_CapabilityEvidence v) = v5_evidence_check v"

end
