(* ===== verification/Fabric_Validation.thy ===== *)
theory Fabric_Validation
  imports Training_Validation
begin

text \<open>
  The checks of training plans and execution graphs in \<^verbatim>\<open>crates/protocol/src/validation.rs\<close>
  (\<^verbatim>\<open>v4_plan\<close>, \<^verbatim>\<open>v4_execution_graph\<close> and the helpers they call), with the topology facts an accepted
  plan or graph carries.
\<close>

section \<open>Lists of nodes, vectors and hash sets\<close>

definition v4_node_list_check :: "NodeId list \<Rightarrow> string \<Rightarrow> usize \<Rightarrow> check" where
  "v4_node_list_check nodes field mx = all_ok [
     err_if (nodes = []) (Empty field),
     err_if (length nodes > mx) (TooMany field mx),
     and_then (try_fold (insert_step (\<lambda>node. node_id_check node field) id (Invalid field) (\<lambda>_. Ok)) {} nodes)
       (\<lambda>_. Ok)]"

definition v4_vector_check :: "i64 list \<Rightarrow> string \<Rightarrow> check" where
  "v4_vector_check vals field = all_ok [
     err_if (vals = []) (Empty field),
     err_if (length vals > MAX_V4_VECTOR) (TooMany field MAX_V4_VECTOR),
     err_if (\<exists>v \<in> set vals. unsigned_abs v > 1000000000) (Invalid field)]"

definition v4_hash_check :: "ArtifactId \<Rightarrow> string \<Rightarrow> check" where
  "v4_hash_check v field = artifact_id_check v field"

lemma v4_list_checks [result_simps]:
  "v4_node_list_check nodes f mx = Inr u \<longleftrightarrow>
     nodes \<noteq> [] \<and> length nodes \<le> mx \<and> distinct nodes \<and> filled 0 \<notin> set nodes"
  "v4_vector_check vals f = Inr u \<longleftrightarrow>
     vals \<noteq> [] \<and> length vals \<le> MAX_V4_VECTOR \<and> (\<forall>v\<in>set vals. unsigned_abs v \<le> 1000000000)"
  "v4_hash_check h f = Inr u \<longleftrightarrow> h \<noteq> filled 0"
  by (auto simp: v4_node_list_check_def v4_vector_check_def v4_hash_check_def result_simps
      simp del: all_ok.simps)

text \<open>Inserting the elements of a list into a \<^verbatim>\<open>HashSet\<close>, \<^const>\<open>None\<close> when one is already there.\<close>

fun insert_fresh :: "'a set \<Rightarrow> 'a list \<Rightarrow> 'a set option" where
  "insert_fresh seen [] = Some seen"
| "insert_fresh seen (x # xs) = (if x \<in> seen then None else insert_fresh (insert x seen) xs)"

lemma insert_fresh_Some_iff [result_simps]:
  "insert_fresh seen xs = Some seen' \<longleftrightarrow>
     distinct xs \<and> set xs \<inter> seen = {} \<and> seen' = seen \<union> set xs"
  by (induction xs arbitrary: seen) auto

section \<open>Backend assignments\<close>

definition backend_assignment_check ::
  "BackendAssignment \<Rightarrow> NodeId set \<Rightarrow> V4WorkerCapability list \<Rightarrow> string \<Rightarrow> check" where
  "backend_assignment_check v worker_set capabilities field = all_ok [
     node_id_check (ba_worker v) field,
     err_if (ba_worker v \<notin> worker_set \<or> ba_device_index v > 1024) (Invalid field),
     compute_requirements_check (ba_requirements v) field,
     err_if (cr_required_backend (ba_requirements v) \<noteq> Some (ba_backend v)
       \<and> ba_backend v \<notin> set (cr_allowed_backends (ba_requirements v))) (Invalid field),
     (case find (\<lambda>worker. vwc_node worker = ba_worker v) capabilities of
        None \<Rightarrow> Inl (Invalid field)
      | Some worker \<Rightarrow>
         (case find (\<lambda>backend. bc_kind backend = ba_backend v) (vwc_backends worker) of
            None \<Rightarrow> Inl (Invalid field)
          | Some backend \<Rightarrow>
             err_if (\<not> bc_runtime_available backend \<or> bc_health backend = BH_Unavailable
               \<or> (bc_observed_failures backend > 0 \<and> bc_observed_successes backend = 0)
               \<or> ba_device_index v \<ge> bc_device_count backend
               \<or> (\<exists>fmt \<in> set (cr_required_formats (ba_requirements v)). fmt \<notin> set (bc_formats backend))
               \<or> cr_required_memory_bytes (ba_requirements v) >
                   sat_mul (bc_available_memory_bytes backend)
                     (ucast (sat_sub 1000 (bc_safety_margin_permille backend))) div 1000
               \<or> cr_max_tensor_elements (ba_requirements v) > bc_max_tensor_elements backend
               \<or> (\<exists>feature \<in> set (cr_required_features (ba_requirements v)).
                   feature \<notin> set (bc_features backend))) (Invalid field)))]"

section \<open>Training plans\<close>

fun strategy_shape_valid :: "V4TrainingPlan \<Rightarrow> bool" where
  "strategy_shape_valid v = (case vp_strategy v of
       PS_LocalSgd \<Rightarrow> vp_tensor_degree v = 0 \<and> vp_pipeline_stages v = 0
     | PS_TensorParallel \<Rightarrow> vp_tensor_degree v \<ge> 2 \<and> vp_pipeline_stages v = 0
     | PS_PipelineParallel \<Rightarrow> vp_tensor_degree v = 0 \<and> vp_pipeline_stages v = 2
     | PS_Hybrid \<Rightarrow> vp_tensor_degree v = 2 \<and> vp_pipeline_stages v = 2)"

fun support_matches_strategy :: "V4TrainingPlan \<Rightarrow> bool" where
  "support_matches_strategy v = (case vp_strategy v of
       PS_LocalSgd \<Rightarrow> vp_support v = SL_Supported
     | PS_TensorParallel \<Rightarrow> vp_support v = SL_Supported \<and> vp_tensor_degree v = 2
     | PS_PipelineParallel \<Rightarrow> vp_support v = SL_Supported \<and> vp_pipeline_stages v = 2
     | PS_Hybrid \<Rightarrow> vp_support v = SL_Experimental \<and> vp_tensor_degree v = 2 \<and> vp_pipeline_stages v = 2)"

definition plan_capability_step ::
  "V4TrainingPlan \<Rightarrow> NodeId set \<Rightarrow> V4WorkerCapability \<Rightarrow> ValidationError + NodeId set" where
  "plan_capability_step v seen c = insert_step
     (\<lambda>c. all_ok [
        node_id_check (vwc_node c) ''v4.plan.worker_capability.node'',
        err_if (vwc_node c \<notin> set (vp_workers v)) (Invalid ''v4.plan.worker_capability'')])
     vwc_node (Invalid ''v4.plan.worker_capability'')
     (\<lambda>c. all_ok [
        err_if (vwc_memory_bytes c = 0 \<or> vwc_compute_units c = 0 \<or> vwc_reliability_permille c > 1000)
          (Invalid ''v4.plan.worker_capability''),
        err_if (vac_device_count (vwc_accelerator c) = 0 \<or> vac_memory_bytes (vwc_accelerator c) = 0
          \<or> vac_formats (vwc_accelerator c) = []) (Invalid ''v4.plan.worker_accelerator''),
        err_if (length (vwc_backends c) > MAX_V5_BACKENDS)
          (TooMany ''v5.plan.worker_backends'' MAX_V5_BACKENDS),
        all_ok (map (\<lambda>b. backend_capabilities_check b ''v5.plan.backend_capabilities'') (vwc_backends c))])
     seen c"

definition plan_group_step :: "V4TrainingPlan \<Rightarrow> u16 set \<times> NodeId set \<Rightarrow> V4AggregationGroup \<Rightarrow>
    ValidationError + (u16 set \<times> NodeId set)" where
  "plan_group_step v s g = (case s of (group_ids, grouped) \<Rightarrow>
     and_then (all_ok [
       err_if (vag_members g = [] \<or> length (vag_members g) > MAX_V4_PLAN_WORKERS)
         (TooMany ''v4.plan.group.members'' MAX_V4_PLAN_WORKERS),
       v4_node_list_check (vag_members g) ''v4.plan.group.members'' MAX_V4_PLAN_WORKERS,
       err_if (vag_group_id g \<in> group_ids \<or> (\<exists>m \<in> set (vag_members g). m \<notin> set (vp_workers v)))
         (Invalid ''v4.plan.group.topology'')])
     (\<lambda>_. case insert_fresh grouped (vag_members g) of
        None \<Rightarrow> Inl (Invalid ''v4.plan.group.topology'')
      | Some grouped' \<Rightarrow>
         if vag_aggregator g \<notin> set (vag_members g)
           \<or> is_some_and (vag_parent g) (\<lambda>parent. parent \<notin> set (vp_workers v))
           \<or> is_some_and (vag_parent g) (\<lambda>parent. parent \<in> set (vag_members g))
         then Inl (Invalid ''v4.plan.group.topology'')
         else Inr (insert (vag_group_id g) group_ids, grouped')))"

definition plan_shard_check :: "V4TrainingPlan \<Rightarrow> V4ShardOwnership \<Rightarrow> check" where
  "plan_shard_check v s = all_ok [
     err_if (vso_model_generation s = 0 \<or> vso_ownership_generation s = 0 \<or> vso_state_bytes s = 0
       \<or> vso_memory_bytes s = 0 \<or> vso_state_bytes s > MAX_TRAINING_STATE_BYTES
       \<or> vso_memory_bytes s > MAX_TRAINING_STATE_BYTES) (Invalid ''v4.plan.shard.generation''),
     err_if (length (vso_owners s) \<noteq> 1) (Invalid ''v4.plan.shard.owners''),
     v4_node_list_check (vso_owners s) ''v4.plan.shard.owners'' MAX_V4_PLAN_WORKERS,
     err_if (\<exists>node \<in> set (vso_owners s @ vso_replicas s). node \<notin> set (vp_workers v))
       (Invalid ''v4.plan.shard.worker''),
     err_if (length (vso_replicas s) > MAX_TRAINING_REPLICAS)
       (TooMany ''v4.plan.shard.replicas'' MAX_TRAINING_REPLICAS),
     err_if (\<exists>replica \<in> set (vso_replicas s). replica \<in> set (vso_owners s))
       (Invalid ''v4.plan.shard.replica_owner_overlap''),
     (if vso_replicas s \<noteq> []
      then v4_node_list_check (vso_replicas s) ''v4.plan.shard.replicas'' MAX_TRAINING_REPLICAS else Ok),
     v4_hash_check (vso_content_hash s) ''v4.plan.shard.hash'',
     string_check (vso_runtime_requirement s) ''v4.plan.shard.runtime'']"

definition v4_plan_check :: "V4TrainingPlan \<Rightarrow> check" where
  "v4_plan_check v = all_ok [
     training_job_id_check (vp_job_id v) ''v4.plan.job_id'',
     node_id_check (vp_proposer v) ''v4.plan.proposer'',
     artifact_id_check (vp_branch v) ''v4.plan.branch'',
     artifact_id_check (vp_plan_hash v) ''v4.plan.hash'',
     err_if (\<not> strategy_shape_valid v \<or> \<not> support_matches_strategy v) (Invalid ''v4.plan.strategy''),
     err_if (vp_plan_generation v = 0 \<or> vp_model_generation v = 0 \<or> vp_training_epoch v = 0
       \<or> vp_membership_epoch v = 0 \<or> vp_coordination_term v = 0 \<or> vp_local_steps v = 0
       \<or> vp_local_steps v > 1024 \<or> vp_max_staleness v > 1024 \<or> vp_checkpoint_replication v = 0
       \<or> vp_checkpoint_replication v > 16 \<or> vp_tensor_degree v > of_nat MAX_V4_STAGES
       \<or> vp_pipeline_stages v > of_nat MAX_V4_STAGES) (Invalid ''v4.plan.generation''),
     err_if (\<not> (2 \<le> length (vp_workers v) \<and> length (vp_workers v) \<le> MAX_V4_PLAN_WORKERS))
       (Invalid ''v4.plan.workers''),
     v4_node_list_check (vp_workers v) ''v4.plan.workers'' MAX_V4_PLAN_WORKERS,
     err_if (length (vp_worker_capabilities v) \<noteq> length (vp_workers v))
       (Invalid ''v4.plan.worker_capabilities''),
     and_then (try_fold (plan_capability_step v) {} (vp_worker_capabilities v)) (\<lambda>_. Ok),
     err_if (vp_groups v = [] \<or> length (vp_groups v) > MAX_V4_GROUPS) (TooMany ''v4.plan.groups'' MAX_V4_GROUPS),
     and_then (try_fold (plan_group_step v) ({}, {}) (vp_groups v))
       (\<lambda>(_, grouped). err_if (grouped \<noteq> set (vp_workers v)) (Invalid ''v4.plan.group.coverage'')),
     err_if (vp_shards v = [] \<or> length (vp_shards v) > MAX_TRAINING_SHARDS)
       (TooMany ''v4.plan.shards'' MAX_TRAINING_SHARDS),
     and_then (try_fold (insert_step (\<lambda>_. Ok) vso_shard_id (Invalid ''v4.plan.shard.id'')
       (plan_shard_check v)) {} (vp_shards v)) (\<lambda>_. Ok),
     if_some (vp_accelerator v) (\<lambda>a. all_ok [
       string_check (vac_device_model a) ''v4.plan.accelerator.model'',
       string_check (vac_runtime a) ''v4.plan.accelerator.runtime'',
       string_check (vac_runtime_version a) ''v4.plan.accelerator.runtime_version'',
       err_if (vac_device_count a = 0 \<or> vac_memory_bytes a = 0 \<or> vac_formats a = []
         \<or> length (vac_formats a) > 8) (Invalid ''v4.plan.accelerator'')]),
     if_some (vp_parent_plan_hash v) (\<lambda>parent. all_ok [
       v4_hash_check parent ''v4.plan.parent_hash'',
       err_if (parent = vp_plan_hash v) (Invalid ''v4.plan.parent_hash'')]),
     err_if (length (vp_compute_requirements v) > MAX_V5_REQUIREMENTS)
       (TooMany ''v5.plan.compute_requirements'' MAX_V5_REQUIREMENTS),
     all_ok (map (\<lambda>r. compute_requirements_check r ''v5.plan.compute_requirement'')
       (vp_compute_requirements v)),
     err_if (length (vp_backend_assignments v) > MAX_V5_ASSIGNMENTS)
       (TooMany ''v5.plan.backend_assignments'' MAX_V5_ASSIGNMENTS),
     all_ok (map (\<lambda>a. backend_assignment_check a (set (vp_workers v)) (vp_worker_capabilities v)
       ''v5.plan.backend_assignment'') (vp_backend_assignments v)),
     string_check (vp_rationale v) ''v4.plan.rationale'']"

section \<open>Execution graphs\<close>

definition graph_group_step :: "V4ExecutionGraph \<Rightarrow> u16 set \<times> NodeId set \<Rightarrow> V4AggregationGroup \<Rightarrow>
    ValidationError + (u16 set \<times> NodeId set)" where
  "graph_group_step v s g = (case s of (group_ids, grouped) \<Rightarrow>
     and_then (err_if (vag_group_id g \<in> group_ids \<or> vag_members g = []
         \<or> \<not> (\<forall>m \<in> set (vag_members g). m \<in> set (vg_workers v))) (Invalid ''v4.graph.aggregation_group''))
     (\<lambda>_. case insert_fresh grouped (vag_members g) of
        None \<Rightarrow> Inl (Invalid ''v4.graph.aggregation_group'')
      | Some grouped' \<Rightarrow>
         if vag_aggregator g \<notin> set (vag_members g)
           \<or> is_some_and (vag_parent g) (\<lambda>parent. parent \<notin> set (vg_workers v))
         then Inl (Invalid ''v4.graph.aggregation_group'')
         else and_then (v4_node_list_check (vag_members g) ''v4.graph.aggregation_group.members''
                MAX_V4_PLAN_WORKERS) (\<lambda>_. Inr (insert (vag_group_id g) group_ids, grouped'))))"

definition tensor_group_step :: "V4ExecutionGraph \<Rightarrow> u16 set \<times> u16 set \<Rightarrow> V4TensorGroup \<Rightarrow>
    ValidationError + (u16 set \<times> u16 set)" where
  "tensor_group_step v s g = (case s of (group_ids, shards) \<Rightarrow>
     and_then (err_if (vtg_group_id g \<in> group_ids \<or> length (vtg_members g) < 2
         \<or> length (vtg_members g) > MAX_V4_PLAN_WORKERS \<or> vtg_shard_ids g = [] \<or> vtg_generation g = 0
         \<or> \<not> (\<forall>m \<in> set (vtg_members g). m \<in> set (vg_workers v))) (Invalid ''v4.graph.tensor_group''))
     (\<lambda>_. case insert_fresh shards (vtg_shard_ids g) of
        None \<Rightarrow> Inl (Invalid ''v4.graph.tensor_group'')
      | Some shards' \<Rightarrow> and_then (v4_node_list_check (vtg_members g) ''v4.graph.tensor_group.members''
          MAX_V4_PLAN_WORKERS) (\<lambda>_. Inr (insert (vtg_group_id g) group_ids, shards'))))"

definition pipeline_stage_check :: "V4ExecutionGraph \<Rightarrow> V4PipelineStageAssignment \<Rightarrow> check" where
  "pipeline_stage_check v s = all_ok [
     err_if (vps_generation s = 0 \<or> vps_worker s \<notin> set (vg_workers v)
       \<or> length (vps_replicas s) > MAX_TRAINING_REPLICAS \<or> vps_worker s \<in> set (vps_replicas s)
       \<or> (\<exists>replica \<in> set (vps_replicas s). replica \<notin> set (vg_workers v)))
       (Invalid ''v4.graph.pipeline_stage''),
     (if vps_replicas s \<noteq> []
      then v4_node_list_check (vps_replicas s) ''v4.graph.pipeline_stage.replicas'' MAX_TRAINING_REPLICAS
      else Ok)]"

definition graph_shard_check :: "V4ExecutionGraph \<Rightarrow> V4ShardOwnership \<Rightarrow> check" where
  "graph_shard_check v s = all_ok [
     err_if (length (vso_owners s) \<noteq> 1 \<or> vso_model_generation s = 0 \<or> vso_ownership_generation s = 0
       \<or> vso_state_bytes s = 0 \<or> vso_memory_bytes s = 0
       \<or> \<not> (\<forall>owner \<in> set (vso_owners s). owner \<in> set (vg_workers v))
       \<or> length (vso_replicas s) > MAX_TRAINING_REPLICAS
       \<or> (\<exists>replica \<in> set (vso_replicas s). replica \<notin> set (vg_workers v) \<or> replica \<in> set (vso_owners s)))
       (Invalid ''v4.graph.shard''),
     v4_hash_check (vso_content_hash s) ''v4.graph.shard.hash'']"

definition optimizer_placement_check :: "V4ExecutionGraph \<Rightarrow> u16 set \<Rightarrow> V4OptimizerPlacement \<Rightarrow> check" where
  "optimizer_placement_check v shard_ids p =
     err_if (vop_generation p = 0 \<or> vop_shard_id p \<notin> shard_ids \<or> vop_owner p \<notin> set (vg_workers v)
       \<or> length (vop_replicas p) > MAX_TRAINING_REPLICAS \<or> vop_owner p \<in> set (vop_replicas p)
       \<or> (\<exists>replica \<in> set (vop_replicas p). replica \<notin> set (vg_workers v)))
       (Invalid ''v4.graph.optimizer_shard'')"

definition v4_execution_graph_check :: "V4ExecutionGraph \<Rightarrow> check" where
  "v4_execution_graph_check v = all_ok [
     training_job_id_check (vg_job_id v) ''v4.graph.job_id'',
     node_id_check (vg_proposer v) ''v4.graph.proposer'',
     node_id_check (vg_coordinator v) ''v4.graph.coordinator'',
     node_id_check (vg_reply_to v) ''v4.graph.reply_to'',
     v4_hash_check (vg_plan_hash v) ''v4.graph.plan_hash'',
     v4_hash_check (vg_branch v) ''v4.graph.branch'',
     v4_hash_check (vg_graph_hash v) ''v4.graph.hash'',
     err_if (vg_graph_generation v = 0
       \<or> is_some_and (vg_parent_graph_generation v) (\<lambda>parent. parent = 0 \<or> parent \<ge> vg_graph_generation v)
       \<or> vg_training_epoch v = 0 \<or> vg_membership_epoch v = 0 \<or> vg_coordination_term v = 0
       \<or> vg_optimizer_generation v = 0 \<or> vg_checkpoint_generation v = 0 \<or> vg_collective_generation v = 0
       \<or> vg_local_steps v = 0 \<or> vg_local_steps v > 1024 \<or> vg_max_staleness v > 1024
       \<or> vg_checkpoint_replication v = 0 \<or> vg_checkpoint_replication v > 16)
       (Invalid ''v4.graph.generation''),
     err_if (\<not> (2 \<le> length (vg_workers v) \<and> length (vg_workers v) \<le> MAX_V4_PLAN_WORKERS))
       (Invalid ''v4.graph.workers''),
     v4_node_list_check (vg_workers v) ''v4.graph.workers'' MAX_V4_PLAN_WORKERS,
     err_if (vg_proposer v \<notin> set (vg_workers v) \<or> vg_coordinator v \<notin> set (vg_workers v))
       (Invalid ''v4.graph.role_worker''),
     err_if (length (vg_retired_workers v) > MAX_V4_PLAN_WORKERS \<or> has_duplicates (vg_retired_workers v)
       \<or> (\<exists>worker \<in> set (vg_retired_workers v). worker \<in> set (vg_workers v)))
       (Invalid ''v4.graph.retired_workers''),
     err_if (length (vg_election_certificate v) > MAX_V4_PLAN_WORKERS
       \<or> has_duplicates (vg_election_certificate v)) (Invalid ''v4.graph.election_certificate''),
     err_if (vg_aggregation_groups v = [] \<or> length (vg_aggregation_groups v) > MAX_V4_GROUPS)
       (TooMany ''v4.graph.aggregation_groups'' MAX_V4_GROUPS),
     and_then (try_fold (graph_group_step v) ({}, {}) (vg_aggregation_groups v))
       (\<lambda>(_, grouped). err_if (grouped \<noteq> set (vg_workers v)) (Invalid ''v4.graph.aggregation_group.coverage'')),
     err_if (length (vg_tensor_groups v) > MAX_V4_GROUPS) (TooMany ''v4.graph.tensor_groups'' MAX_V4_GROUPS),
     and_then (try_fold (tensor_group_step v) ({}, {}) (vg_tensor_groups v)) (\<lambda>_. Ok),
     err_if (length (vg_pipeline_stages v) > MAX_V4_STAGES) (TooMany ''v4.graph.pipeline_stages'' MAX_V4_STAGES),
     and_then (try_fold (insert_step (\<lambda>_. Ok) vps_stage_id (Invalid ''v4.graph.pipeline_stage'')
       (pipeline_stage_check v)) {} (vg_pipeline_stages v)) (\<lambda>_. Ok),
     err_if (vg_shards v = [] \<or> length (vg_shards v) > MAX_TRAINING_SHARDS)
       (TooMany ''v4.graph.shards'' MAX_TRAINING_SHARDS),
     and_then (try_fold (insert_step (\<lambda>_. Ok) vso_shard_id (Invalid ''v4.graph.shard'')
       (graph_shard_check v)) {} (vg_shards v))
       (\<lambda>shard_ids. all_ok [
          err_if (vg_optimizer_shards v = [] \<or> length (vg_optimizer_shards v) > MAX_TRAINING_SHARDS)
            (TooMany ''v4.graph.optimizer_shards'' MAX_TRAINING_SHARDS),
          and_then (try_fold (insert_step (\<lambda>_. Ok) vop_shard_id (Invalid ''v4.graph.optimizer_shard'')
            (optimizer_placement_check v shard_ids)) {} (vg_optimizer_shards v)) (\<lambda>_. Ok)]),
     err_if (length (vg_backend_assignments v) > MAX_V5_ASSIGNMENTS)
       (TooMany ''v5.graph.backend_assignments'' MAX_V5_ASSIGNMENTS),
     all_ok (map (\<lambda>a. all_ok [
       compute_requirements_check (ba_requirements a) ''v5.graph.backend_requirement'',
       node_id_check (ba_worker a) ''v5.graph.backend_worker'',
       err_if (ba_worker a \<notin> set (vg_workers v) \<or> ba_device_index a > 1024)
         (Invalid ''v5.graph.backend_assignment'')]) (vg_backend_assignments v))]"

end
