(* ===== verification/Message_Validation.thy ===== *)
theory Message_Validation
  imports Fabric_Validation
begin

text \<open>
  The remaining fabric checks of \<^verbatim>\<open>crates/protocol/src/validation.rs\<close> and \<^verbatim>\<open>Message::validate\<close>, the
  check every frame passes on its way in and out.
\<close>

section \<open>Integrated jobs\<close>

definition v4_integrated_state_check :: "V4IntegratedStateRecord \<Rightarrow> check" where
  "v4_integrated_state_check v = all_ok [
     training_job_id_check (vis_job_id v) ''v4.integrated_state.job_id'',
     v4_hash_check (vis_plan_hash v) ''v4.integrated_state.plan_hash'',
     v4_hash_check (vis_branch v) ''v4.integrated_state.branch'',
     v4_hash_check (vis_state_hash v) ''v4.integrated_state.hash'',
     node_id_check (vis_coordinator v) ''v4.integrated_state.coordinator'',
     err_if (vis_graph_generation v = 0 \<or> vis_target_windows v = 0 \<or> vis_target_windows v > 4096
       \<or> vis_window v > vis_target_windows v \<or> vis_checkpoint_generation v = 0
       \<or> vis_model_generation v = 0 \<or> vis_optimizer_generation v = 0 \<or> vis_membership_epoch v = 0
       \<or> vis_collective_generation v = 0) (Invalid ''v4.integrated_state.generation'')]"

definition v4_integrated_start_check :: "V4IntegratedStart \<Rightarrow> check" where
  "v4_integrated_start_check v = all_ok [
     training_job_id_check (vist_request_id v) ''v4.integrated_start.request_id'',
     node_id_check (vist_reply_to v) ''v4.integrated_start.reply_to'',
     err_if (vist_windows v = 0 \<or> vist_windows v > 4096 \<or> vist_checkpoint_every v = 0)
       (Invalid ''v4.integrated_start.bounds''),
     err_if (vg_job_id (vist_graph v) \<noteq> vp_job_id (vist_plan v)
       \<or> vg_plan_hash (vist_graph v) \<noteq> vp_plan_hash (vist_plan v)
       \<or> vg_strategy (vist_graph v) \<noteq> vp_strategy (vist_plan v)
       \<or> vg_graph_generation (vist_graph v) = 0 \<or> is_err (v4_plan_check (vist_plan v))
       \<or> is_err (v4_execution_graph_check (vist_graph v))) (Invalid ''v4.integrated_start.graph'')]"

definition v4_integrated_ack_check :: "V4IntegratedAck \<Rightarrow> check" where
  "v4_integrated_ack_check v = all_ok [
     training_job_id_check (via_job_id v) ''v4.integrated_ack.job_id'',
     node_id_check (via_worker v) ''v4.integrated_ack.worker'',
     err_if (via_graph_generation v = 0) (Invalid ''v4.integrated_ack.generation''),
     string_check (via_reason v) ''v4.integrated_ack.reason'']"

definition v4_integrated_state_ack_check :: "V4IntegratedStateAck \<Rightarrow> check" where
  "v4_integrated_state_ack_check v = all_ok [
     training_job_id_check (visa_job_id v) ''v4.integrated_state_ack.job_id'',
     node_id_check (visa_worker v) ''v4.integrated_state_ack.worker'',
     v4_hash_check (visa_state_hash v) ''v4.integrated_state_ack.hash'',
     err_if (visa_graph_generation v = 0) (Invalid ''v4.integrated_state_ack.generation'')]"

definition v4_integrated_probe_check :: "V4IntegratedProbe \<Rightarrow> check" where
  "v4_integrated_probe_check v = all_ok [
     training_job_id_check (vpr_request_id v) ''v4.integrated_probe.request_id'',
     training_job_id_check (vpr_job_id v) ''v4.integrated_probe.job_id'',
     node_id_check (vpr_requester v) ''v4.integrated_probe.requester'',
     v4_hash_check (vpr_graph_hash v) ''v4.integrated_probe.graph_hash'',
     v4_hash_check (vpr_state_hash v) ''v4.integrated_probe.state_hash'',
     err_if (vpr_graph_generation v = 0) (Invalid ''v4.integrated_probe.generation'')]"

definition v4_integrated_probe_ack_check :: "V4IntegratedProbeAck \<Rightarrow> check" where
  "v4_integrated_probe_ack_check v = all_ok [
     training_job_id_check (vpra_request_id v) ''v4.integrated_probe_ack.request_id'',
     training_job_id_check (vpra_job_id v) ''v4.integrated_probe_ack.job_id'',
     node_id_check (vpra_responder v) ''v4.integrated_probe_ack.responder'',
     err_if (vpra_graph_generation v = 0) (Invalid ''v4.integrated_probe_ack.generation'')]"

definition v4_integrated_election_request_check :: "V4IntegratedElectionRequest \<Rightarrow> check" where
  "v4_integrated_election_request_check v = all_ok [
     training_job_id_check (vier_request_id v) ''v4.integrated_election.request_id'',
     training_job_id_check (vier_job_id v) ''v4.integrated_election.job_id'',
     node_id_check (vier_candidate v) ''v4.integrated_election.candidate'',
     v4_hash_check (vier_graph_hash v) ''v4.integrated_election.graph_hash'',
     v4_hash_check (vier_branch v) ''v4.integrated_election.branch'',
     v4_hash_check (vier_state_hash v) ''v4.integrated_election.state_hash'',
     err_if (vier_graph_generation v = 0 \<or> vier_term v = 0) (Invalid ''v4.integrated_election.generation'')]"

definition v4_integrated_election_vote_check :: "V4IntegratedElectionVote \<Rightarrow> check" where
  "v4_integrated_election_vote_check v = all_ok [
     training_job_id_check (viev_job_id v) ''v4.integrated_election_vote.job_id'',
     node_id_check (viev_candidate v) ''v4.integrated_election_vote.candidate'',
     node_id_check (viev_voter v) ''v4.integrated_election_vote.voter'',
     v4_hash_check (viev_graph_hash v) ''v4.integrated_election_vote.graph_hash'',
     err_if (viev_graph_generation v = 0 \<or> viev_term v = 0)
       (Invalid ''v4.integrated_election_vote.generation''),
     string_check (viev_reason v) ''v4.integrated_election_vote.reason'']"

definition v4_integrated_result_check :: "V4IntegratedResult \<Rightarrow> check" where
  "v4_integrated_result_check v = all_ok [
     training_job_id_check (vir_request_id v) ''v4.integrated_result.request_id'',
     training_job_id_check (vir_job_id v) ''v4.integrated_result.job_id'',
     err_if (vir_graph_generation v = 0 \<or> vir_windows_completed v > 4096)
       (Invalid ''v4.integrated_result.generation'')]"

section \<open>Replicas, state records and checkpoints\<close>

definition v4_tensor_replica_check :: "V4TensorReplica \<Rightarrow> check" where
  "v4_tensor_replica_check v = all_ok [
     training_job_id_check (vtr_job_id v) ''v4.tensor_replica.job_id'',
     node_id_check (vtr_source v) ''v4.tensor_replica.source'',
     v4_hash_check (vtr_state_hash v) ''v4.tensor_replica.hash'',
     err_if (vtr_plan_generation v = 0 \<or> vtr_model_generation v = 0 \<or> vtr_state_generation v = 0
       \<or> vtr_ownership_generation v = 0 \<or> vtr_rows v = 0 \<or> vtr_cols v = 0
       \<or> unat (vtr_rows v) * unat (vtr_cols v) \<noteq> length (vtr_weights v)
       \<or> length (vtr_weights v) > MAX_V4_VECTOR * MAX_V4_VECTOR
       \<or> unat (vtr_row_offset v) + unat (vtr_rows v) > MAX_V4_VECTOR
       \<or> (\<exists>weight \<in> set (vtr_weights v). unsigned_abs weight > 1000000000))
       (Invalid ''v4.tensor_replica.shape'')]"

definition v4_tensor_replica_ack_check :: "V4TensorReplicaAck \<Rightarrow> check" where
  "v4_tensor_replica_ack_check v = all_ok [
     training_job_id_check (vtra_job_id v) ''v4.tensor_replica_ack.job_id'',
     v4_hash_check (vtra_state_hash v) ''v4.tensor_replica_ack.hash'',
     err_if (vtra_plan_generation v = 0 \<or> vtra_state_generation v = 0)
       (Invalid ''v4.tensor_replica_ack.generation'')]"

definition v4_optimizer_state_install_check :: "V4OptimizerStateInstall \<Rightarrow> check" where
  "v4_optimizer_state_install_check v = all_ok [
     training_job_id_check (vosi_job_id v) ''v4.optimizer_state.job_id'',
     node_id_check (vosi_source v) ''v4.optimizer_state.source'',
     v4_hash_check (vosi_state_hash v) ''v4.optimizer_state.hash'',
     err_if (vosi_plan_generation v = 0 \<or> vosi_model_generation v = 0 \<or> vosi_optimizer_generation v = 0
       \<or> vosi_state_generation v = 0 \<or> vosi_sequence v = 0 \<or> vosi_values v = [])
       (Invalid ''v4.optimizer_state.generation''),
     v4_vector_check (vosi_values v) ''v4.optimizer_state.values'']"

definition v4_optimizer_state_ack_check :: "V4OptimizerStateAck \<Rightarrow> check" where
  "v4_optimizer_state_ack_check v = all_ok [
     training_job_id_check (vosa_job_id v) ''v4.optimizer_state_ack.job_id'',
     v4_hash_check (vosa_state_hash v) ''v4.optimizer_state_ack.hash'',
     err_if (vosa_plan_generation v = 0 \<or> vosa_optimizer_generation v = 0 \<or> vosa_state_generation v = 0)
       (Invalid ''v4.optimizer_state_ack.generation'')]"

definition state_shard_check :: "V4TrainingStateRecord \<Rightarrow> V4ShardOwnership \<Rightarrow> check" where
  "state_shard_check v s = all_ok [
     err_if (\<exists>node \<in> set (vso_owners s @ vso_replicas s). node \<notin> set (vts_workers v))
       (Invalid ''v4.state.shard.worker''),
     err_if (length (vso_owners s) \<noteq> 1) (Invalid ''v4.state.shard.owners''),
     v4_node_list_check (vso_owners s) ''v4.state.shard.owners'' MAX_V4_PLAN_WORKERS,
     err_if (length (vso_replicas s) > MAX_TRAINING_REPLICAS)
       (TooMany ''v4.state.shard.replicas'' MAX_TRAINING_REPLICAS),
     err_if (\<exists>replica \<in> set (vso_replicas s). replica \<in> set (vso_owners s))
       (Invalid ''v4.state.shard.replica_owner_overlap''),
     v4_hash_check (vso_content_hash s) ''v4.state.shard.hash'']"

definition v4_training_state_check :: "V4TrainingStateRecord \<Rightarrow> check" where
  "v4_training_state_check v = all_ok [
     training_job_id_check (vts_job_id v) ''v4.state.job_id'',
     node_id_check (vts_coordinator v) ''v4.state.coordinator'',
     v4_hash_check (vts_plan_hash v) ''v4.state.plan_hash'',
     v4_hash_check (vts_branch v) ''v4.state.branch'',
     v4_hash_check (vts_state_hash v) ''v4.state.hash'',
     err_if (vts_plan_generation v = 0 \<or> vts_training_epoch v = 0 \<or> vts_membership_epoch v = 0
       \<or> vts_coordination_term v = 0 \<or> vts_optimizer_generation v = 0 \<or> vts_checkpoint_generation v = 0)
       (Invalid ''v4.state.generation''),
     err_if (\<not> (2 \<le> length (vts_workers v) \<and> length (vts_workers v) \<le> MAX_V4_PLAN_WORKERS))
       (Invalid ''v4.state.workers''),
     v4_node_list_check (vts_workers v) ''v4.state.workers'' MAX_V4_PLAN_WORKERS,
     err_if (vts_shards v = [] \<or> length (vts_shards v) > MAX_TRAINING_SHARDS)
       (TooMany ''v4.state.shards'' MAX_TRAINING_SHARDS),
     err_if (length (vts_data_progress v) > MAX_V4_PLAN_WORKERS
       \<or> (vts_data_progress v \<noteq> [] \<and> length (vts_data_progress v) \<noteq> length (vts_workers v)))
       (TooMany ''v4.state.data_progress'' MAX_V4_PLAN_WORKERS),
     and_then (try_fold (insert_step (\<lambda>_. Ok) vso_shard_id (Invalid ''v4.state.shard.worker'')
       (state_shard_check v)) {} (vts_shards v)) (\<lambda>_. Ok),
     if_some (vts_checkpoint v) (\<lambda>checkpoint. v4_hash_check checkpoint ''v4.state.checkpoint'')]"

definition v4_optimizer_shard_check :: "V4OptimizerShardRecord \<Rightarrow> check" where
  "v4_optimizer_shard_check v = all_ok [
     training_job_id_check (vos_job_id v) ''v4.optimizer.job_id'',
     node_id_check (vos_owner v) ''v4.optimizer.owner'',
     v4_hash_check (vos_content_hash v) ''v4.optimizer.content_hash'',
     v4_hash_check (vos_state_hash v) ''v4.optimizer.state_hash'',
     err_if (vos_plan_generation v = 0 \<or> vos_model_generation v = 0 \<or> vos_optimizer_generation v = 0
       \<or> vos_state_bytes v = 0 \<or> vos_state_bytes v > MAX_TRAINING_STATE_BYTES
       \<or> length (vos_replicas v) > MAX_TRAINING_REPLICAS \<or> vos_owner v \<in> set (vos_replicas v))
       (Invalid ''v4.optimizer.bounds''),
     (if vos_replicas v \<noteq> []
      then v4_node_list_check (vos_replicas v) ''v4.optimizer.replicas'' MAX_TRAINING_REPLICAS else Ok)]"

definition v4_checkpoint_check :: "V4CheckpointRecord \<Rightarrow> check" where
  "v4_checkpoint_check v = all_ok [
     training_job_id_check (vck_job_id v) ''v4.checkpoint.job_id'',
     v4_hash_check (vck_branch v) ''v4.checkpoint.branch'',
     v4_hash_check (vck_manifest_hash v) ''v4.checkpoint.manifest_hash'',
     err_if (vck_plan_generation v = 0 \<or> vck_model_generation v = 0 \<or> vck_optimizer_generation v = 0
       \<or> vck_membership_epoch v = 0 \<or> vck_checkpoint_generation v = 0 \<or> vck_shard_hashes v = []
       \<or> length (vck_shard_hashes v) > MAX_TRAINING_SHARDS) (Invalid ''v4.checkpoint.generation''),
     all_ok (map (\<lambda>h. v4_hash_check h ''v4.checkpoint.shard_hash'') (vck_shard_hashes v)),
     v4_node_list_check (vck_providers v) ''v4.checkpoint.providers'' MAX_V4_PLAN_WORKERS,
     err_if (vck_complete v \<and> vck_providers v = []) (Invalid ''v4.checkpoint.providers''),
     if_some (vck_parent v) (\<lambda>parent. v4_hash_check parent ''v4.checkpoint.parent'')]"

definition v4_state_ack_check :: "V4StateAck \<Rightarrow> check" where
  "v4_state_ack_check v = all_ok [
     training_job_id_check (vsa_job_id v) ''v4.state_ack.job_id'',
     v4_hash_check (vsa_state_hash v) ''v4.state_ack.hash'',
     err_if (vsa_plan_generation v = 0 \<or> vsa_generation v = 0) (Invalid ''v4.state_ack.generation'')]"

section \<open>Shard migration and plan acknowledgements\<close>

definition v4_shard_migration_check :: "V4ShardMigration \<Rightarrow> check" where
  "v4_shard_migration_check v = all_ok [
     training_job_id_check (vsm_job_id v) ''v4.migration.job_id'',
     node_id_check (vsm_from v) ''v4.migration.from'',
     node_id_check (vsm_to v) ''v4.migration.to'',
     v4_hash_check (vsm_content_hash v) ''v4.migration.hash'',
     err_if (vsm_plan_generation v = 0 \<or> vsm_ownership_generation v = 0 \<or> vsm_from v = vsm_to v
       \<or> length (vsm_state v) > MAX_V4_BYTES) (Invalid ''v4.migration.bounds''),
     err_if (vsm_phase v = MP_Prepare \<and> vsm_state v = []) (Empty ''v4.migration.prepare_state''),
     err_if (vsm_phase v \<noteq> MP_Prepare \<and> vsm_state v \<noteq> []) (Invalid ''v4.migration.commit_state'')]"

definition v4_shard_migration_ack_check :: "V4ShardMigrationAck \<Rightarrow> check" where
  "v4_shard_migration_ack_check v = all_ok [
     training_job_id_check (vsma_job_id v) ''v4.migration_ack.job_id'',
     node_id_check (vsma_owner v) ''v4.migration_ack.owner'',
     v4_hash_check (vsma_content_hash v) ''v4.migration_ack.hash'',
     err_if (vsma_plan_generation v = 0 \<or> vsma_ownership_generation v = 0)
       (Invalid ''v4.migration_ack.generation'')]"

definition v4_shard_migration_request_check :: "V4ShardMigrationRequest \<Rightarrow> check" where
  "v4_shard_migration_request_check v = all_ok [
     training_job_id_check (vsmq_request_id v) ''v4.migration_request.request_id'',
     training_job_id_check (vsmq_job_id v) ''v4.migration_request.job_id'',
     node_id_check (vsmq_proposer v) ''v4.migration_request.proposer'',
     node_id_check (vsmq_from v) ''v4.migration_request.from'',
     node_id_check (vsmq_to v) ''v4.migration_request.to'',
     node_id_check (vsmq_reply_to v) ''v4.migration_request.reply_to'',
     v4_hash_check (vsmq_proposal_hash v) ''v4.migration_request.proposal_hash'',
     v4_hash_check (vsmq_content_hash v) ''v4.migration_request.content_hash'',
     err_if (vsmq_plan_generation v = 0 \<or> vsmq_ownership_generation v = 0 \<or> vsmq_from v = vsmq_to v
       \<or> vsmq_reply_to v \<noteq> vsmq_proposer v) (Invalid ''v4.migration_request.authorization'')]"

definition v4_shard_migration_result_check :: "V4ShardMigrationResult \<Rightarrow> check" where
  "v4_shard_migration_result_check v = all_ok [
     training_job_id_check (vsmr_request_id v) ''v4.migration_result.request_id'',
     training_job_id_check (vsmr_job_id v) ''v4.migration_result.job_id'',
     node_id_check (vsmr_from v) ''v4.migration_result.from'',
     node_id_check (vsmr_to v) ''v4.migration_result.to'',
     v4_hash_check (vsmr_content_hash v) ''v4.migration_result.hash'',
     err_if (vsmr_plan_generation v = 0 \<or> vsmr_ownership_generation v = 0)
       (Invalid ''v4.migration_result.generation''),
     string_check (vsmr_reason v) ''v4.migration_result.reason'']"

definition v4_plan_proposal_ack_check :: "V4PlanProposalAck \<Rightarrow> check" where
  "v4_plan_proposal_ack_check v = all_ok [
     training_job_id_check (vppa_job_id v) ''v4.plan_proposal_ack.job_id'',
     v4_hash_check (vppa_proposal_hash v) ''v4.plan_proposal_ack.hash'',
     err_if (vppa_plan_generation v = 0) (Invalid ''v4.plan_proposal_ack.generation''),
     string_check (vppa_reason v) ''v4.plan_proposal_ack.reason'']"

definition v4_plan_ack_check :: "V4PlanAck \<Rightarrow> check" where
  "v4_plan_ack_check v = all_ok [
     training_job_id_check (vpa_job_id v) ''v4.plan_ack.job_id'',
     v4_hash_check (vpa_plan_hash v) ''v4.plan_ack.hash'',
     err_if (vpa_plan_generation v = 0) (Invalid ''v4.plan_ack.generation''),
     string_check (vpa_reason v) ''v4.plan_ack.reason'']"


section \<open>Tensor and pipeline requests\<close>

definition v4_tensor_install_check :: "V4TensorInstall \<Rightarrow> check" where
  "v4_tensor_install_check v = all_ok [
     training_job_id_check (vti_job_id v) ''v4.tensor_install.job_id'',
     v4_hash_check (vti_state_hash v) ''v4.tensor_install.hash'',
     err_if (vti_plan_generation v = 0 \<or> vti_model_generation v = 0 \<or> vti_rows v = 0 \<or> vti_cols v = 0
       \<or> unat (vti_rows v) * unat (vti_cols v) \<noteq> length (vti_weights v)
       \<or> length (vti_weights v) > MAX_V4_VECTOR * MAX_V4_VECTOR
       \<or> unat (vti_row_offset v) + unat (vti_rows v) > MAX_V4_VECTOR)
       (Invalid ''v4.tensor_install.shape''),
     err_if (\<exists>weight \<in> set (vti_weights v). unsigned_abs weight > 1000000000)
       (Invalid ''v4.tensor_install.weights'')]"

definition v4_tensor_install_ack_check :: "V4TensorInstallAck \<Rightarrow> check" where
  "v4_tensor_install_ack_check v = all_ok [
     training_job_id_check (vtia_job_id v) ''v4.tensor_install_ack.job_id'',
     v4_hash_check (vtia_state_hash v) ''v4.tensor_install_ack.hash'',
     err_if (vtia_plan_generation v = 0) (Invalid ''v4.tensor_install_ack.generation'')]"

definition v4_tensor_forward_check :: "V4TensorForward \<Rightarrow> check" where
  "v4_tensor_forward_check v = all_ok [
     training_job_id_check (vtf_job_id v) ''v4.tensor_forward.job_id'',
     training_job_id_check (vtf_request_id v) ''v4.tensor_forward.request_id'',
     err_if (vtf_plan_generation v = 0 \<or> vtf_model_generation v = 0 \<or> vtf_sequence v = 0)
       (Invalid ''v4.tensor_forward.generation''),
     v4_vector_check (vtf_input v) ''v4.tensor_forward.input'']"

definition v4_tensor_forward_result_check :: "V4TensorForwardResult \<Rightarrow> check" where
  "v4_tensor_forward_result_check v = all_ok [
     training_job_id_check (vtfr_job_id v) ''v4.tensor_forward_result.job_id'',
     training_job_id_check (vtfr_request_id v) ''v4.tensor_forward_result.request_id'',
     v4_hash_check (vtfr_state_hash v) ''v4.tensor_forward_result.hash'',
     err_if (vtfr_plan_generation v = 0 \<or> vtfr_sequence v = 0) (Invalid ''v4.tensor_forward_result.generation''),
     v4_vector_check (vtfr_output v) ''v4.tensor_forward_result.output'']"

definition v4_tensor_backward_check :: "V4TensorBackward \<Rightarrow> check" where
  "v4_tensor_backward_check v = all_ok [
     training_job_id_check (vtb_job_id v) ''v4.tensor_backward.job_id'',
     training_job_id_check (vtb_request_id v) ''v4.tensor_backward.request_id'',
     err_if (vtb_plan_generation v = 0 \<or> vtb_model_generation v = 0 \<or> vtb_sequence v = 0
       \<or> vtb_learning_rate_micros v \<le> 0 \<or> vtb_learning_rate_micros v > 1000000)
       (Invalid ''v4.tensor_backward.generation''),
     v4_vector_check (vtb_input v) ''v4.tensor_backward.input'',
     v4_vector_check (vtb_upstream v) ''v4.tensor_backward.upstream'']"

definition v4_tensor_backward_result_check :: "V4TensorBackwardResult \<Rightarrow> check" where
  "v4_tensor_backward_result_check v = all_ok [
     training_job_id_check (vtbr_job_id v) ''v4.tensor_backward_result.job_id'',
     training_job_id_check (vtbr_request_id v) ''v4.tensor_backward_result.request_id'',
     v4_hash_check (vtbr_state_hash v) ''v4.tensor_backward_result.hash'',
     err_if (vtbr_plan_generation v = 0 \<or> vtbr_sequence v = 0 \<or> vtbr_state_generation v = 0)
       (Invalid ''v4.tensor_backward_result.generation''),
     v4_vector_check (vtbr_weight_gradient v) ''v4.tensor_backward_result.weight_gradient'',
     v4_vector_check (vtbr_input_gradient v) ''v4.tensor_backward_result.input_gradient'',
     (case vtbr_optimizer_state_hash v of
        Some hash \<Rightarrow> all_ok [
          v4_hash_check hash ''v4.tensor_backward_result.optimizer_hash'',
          err_if (vtbr_optimizer_state_generation v = 0)
            (Invalid ''v4.tensor_backward_result.optimizer_generation'')]
      | None \<Rightarrow> err_if (vtbr_optimizer_state_generation v \<noteq> 0)
          (Invalid ''v4.tensor_backward_result.optimizer_hash''))]"

definition v4_pipeline_install_check :: "V4PipelineInstall \<Rightarrow> check" where
  "v4_pipeline_install_check v = all_ok [
     training_job_id_check (vpi_job_id v) ''v4.pipeline_install.job_id'',
     v4_hash_check (vpi_state_hash v) ''v4.pipeline_install.hash'',
     err_if (vpi_plan_generation v = 0 \<or> vpi_stage_count v < 2 \<or> vpi_stage_count v > of_nat MAX_V4_STAGES
       \<or> vpi_stage_id v \<ge> vpi_stage_count v \<or> unsigned_abs (vpi_coefficient v) > 1000000000
       \<or> unsigned_abs (vpi_bias v) > 1000000000) (Invalid ''v4.pipeline_install.stage'')]"

definition v4_pipeline_install_ack_check :: "V4PipelineInstallAck \<Rightarrow> check" where
  "v4_pipeline_install_ack_check v = all_ok [
     training_job_id_check (vpia_job_id v) ''v4.pipeline_install_ack.job_id'',
     v4_hash_check (vpia_state_hash v) ''v4.pipeline_install_ack.hash'',
     err_if (vpia_plan_generation v = 0 \<or> vpia_stage_id v \<ge> of_nat MAX_V4_STAGES)
       (Invalid ''v4.pipeline_install_ack.stage'')]"

definition v4_pipeline_forward_check :: "V4PipelineForward \<Rightarrow> check" where
  "v4_pipeline_forward_check v = all_ok [
     training_job_id_check (vpf_job_id v) ''v4.pipeline_forward.job_id'',
     training_job_id_check (vpf_request_id v) ''v4.pipeline_forward.request_id'',
     err_if (vpf_plan_generation v = 0 \<or> vpf_stage_count v < 2 \<or> vpf_stage_count v > of_nat MAX_V4_STAGES
       \<or> vpf_stage_id v \<ge> vpf_stage_count v \<or> vpf_deadline_ms v = 0 \<or> vpf_deadline_ms v > 300000)
       (Invalid ''v4.pipeline_forward.stage''),
     v4_vector_check (vpf_activation v) ''v4.pipeline_forward.activation'']"

definition v4_pipeline_forward_result_check :: "V4PipelineForwardResult \<Rightarrow> check" where
  "v4_pipeline_forward_result_check v = all_ok [
     training_job_id_check (vpfr_job_id v) ''v4.pipeline_forward_result.job_id'',
     training_job_id_check (vpfr_request_id v) ''v4.pipeline_forward_result.request_id'',
     err_if (vpfr_plan_generation v = 0 \<or> vpfr_stage_id v \<ge> of_nat MAX_V4_STAGES)
       (Invalid ''v4.pipeline_forward_result.stage''),
     v4_vector_check (vpfr_activation v) ''v4.pipeline_forward_result.activation'',
     v4_hash_check (vpfr_state_hash v) ''v4.pipeline_forward_result.hash'']"

definition v4_pipeline_backward_check :: "V4PipelineBackward \<Rightarrow> check" where
  "v4_pipeline_backward_check v = all_ok [
     training_job_id_check (vpb_job_id v) ''v4.pipeline_backward.job_id'',
     training_job_id_check (vpb_request_id v) ''v4.pipeline_backward.request_id'',
     err_if (vpb_plan_generation v = 0 \<or> vpb_stage_count v < 2 \<or> vpb_stage_count v > of_nat MAX_V4_STAGES
       \<or> vpb_stage_id v \<ge> vpb_stage_count v \<or> vpb_deadline_ms v = 0 \<or> vpb_deadline_ms v > 300000)
       (Invalid ''v4.pipeline_backward.stage''),
     v4_vector_check (vpb_gradient v) ''v4.pipeline_backward.gradient'']"

definition v4_pipeline_backward_result_check :: "V4PipelineBackwardResult \<Rightarrow> check" where
  "v4_pipeline_backward_result_check v = all_ok [
     training_job_id_check (vpbr_job_id v) ''v4.pipeline_backward_result.job_id'',
     training_job_id_check (vpbr_request_id v) ''v4.pipeline_backward_result.request_id'',
     err_if (vpbr_plan_generation v = 0 \<or> vpbr_stage_id v \<ge> of_nat MAX_V4_STAGES)
       (Invalid ''v4.pipeline_backward_result.stage''),
     v4_vector_check (vpbr_gradient v) ''v4.pipeline_backward_result.gradient'',
     v4_hash_check (vpbr_state_hash v) ''v4.pipeline_backward_result.hash'']"

section \<open>Collectives, branches and robust aggregation\<close>

definition v4_collective_contribute_check :: "V4CollectiveContribute \<Rightarrow> check" where
  "v4_collective_contribute_check v = all_ok [
     training_job_id_check (vcc_job_id v) ''v4.collective.job_id'',
     training_job_id_check (vcc_request_id v) ''v4.collective.request_id'',
     node_id_check (vcc_contributor v) ''v4.collective.contributor'',
     node_id_check (vcc_aggregator v) ''v4.collective.aggregator'',
     if_some (vcc_parent v) (\<lambda>parent. node_id_check parent ''v4.collective.parent''),
     node_id_check (vcc_reply_to v) ''v4.collective.reply_to'',
     err_if (vcc_plan_generation v = 0 \<or> vcc_generation v = 0 \<or> vcc_group_id v \<ge> vcc_expected_groups v
       \<or> vcc_expected_contributors v = 0 \<or> vcc_expected_contributors v > of_nat MAX_V4_PLAN_WORKERS
       \<or> vcc_expected_groups v = 0 \<or> vcc_expected_groups v > of_nat MAX_V4_GROUPS)
       (Invalid ''v4.collective.generation''),
     v4_vector_check (vcc_values v) ''v4.collective.values'']"

definition v4_collective_aggregate_check :: "V4CollectiveAggregate \<Rightarrow> check" where
  "v4_collective_aggregate_check v = all_ok [
     training_job_id_check (vca_job_id v) ''v4.collective_aggregate.job_id'',
     training_job_id_check (vca_request_id v) ''v4.collective_aggregate.request_id'',
     node_id_check (vca_aggregator v) ''v4.collective_aggregate.aggregator'',
     node_id_check (vca_reply_to v) ''v4.collective_aggregate.reply_to'',
     err_if (vca_plan_generation v = 0 \<or> vca_generation v = 0 \<or> vca_group_id v \<ge> vca_expected_groups v
       \<or> vca_contributors v = 0 \<or> vca_expected_groups v = 0 \<or> vca_expected_groups v > of_nat MAX_V4_GROUPS)
       (Invalid ''v4.collective_aggregate.generation''),
     v4_vector_check (vca_values v) ''v4.collective_aggregate.values'']"

definition v4_collective_result_check :: "V4CollectiveResult \<Rightarrow> check" where
  "v4_collective_result_check v = all_ok [
     training_job_id_check (vcr_job_id v) ''v4.collective_result.job_id'',
     training_job_id_check (vcr_request_id v) ''v4.collective_result.request_id'',
     err_if (vcr_plan_generation v = 0 \<or> vcr_generation v = 0 \<or> vcr_group_count v = 0
       \<or> vcr_max_fan_in v = 0 \<or> vcr_root_received_bytes v > vcr_contributor_bytes v)
       (Invalid ''v4.collective_result.generation''),
     v4_vector_check (vcr_values v) ''v4.collective_result.values'']"

definition v4_branch_check :: "V4TrainingBranch \<Rightarrow> check" where
  "v4_branch_check v = all_ok [
     training_job_id_check (vtbn_job_id v) ''v4.branch.job_id'',
     node_id_check (vtbn_created_by v) ''v4.branch.created_by'',
     artifact_id_check (vtbn_branch v) ''v4.branch.id'',
     err_if (vtbn_parent_generation v = 0 \<or> vtbn_model_generation v = 0 \<or> vtbn_optimizer_generation v = 0
       \<or> vtbn_plan_generation v = 0) (Invalid ''v4.branch.generation'')]"

definition v4_reconcile_check :: "V4ReconcileRequest \<Rightarrow> check" where
  "v4_reconcile_check v = all_ok [
     training_job_id_check (vrq_job_id v) ''v4.reconcile.job_id'',
     training_job_id_check (vrq_request_id v) ''v4.reconcile.request_id'',
     err_if (vrq_plan_generation v = 0) (Invalid ''v4.reconcile.plan_generation''),
     v4_branch_check (vrq_left v),
     v4_branch_check (vrq_right v),
     err_if (vtbn_job_id (vrq_left v) \<noteq> vtbn_job_id (vrq_right v)
       \<or> vtbn_parent_generation (vrq_left v) \<noteq> vtbn_parent_generation (vrq_right v)
       \<or> vtbn_model_generation (vrq_left v) \<noteq> vtbn_model_generation (vrq_right v)
       \<or> vtbn_plan_generation (vrq_left v) \<noteq> vtbn_plan_generation (vrq_right v)
       \<or> vtbn_branch (vrq_left v) = vtbn_branch (vrq_right v)) (Invalid ''v4.reconcile.branch_lineage''),
     err_if (unsigned_abs (vrq_left_value v) > 1000000000 \<or> unsigned_abs (vrq_right_value v) > 1000000000)
       (Invalid ''v4.reconcile.values'')]"

definition v4_reconcile_result_check :: "V4ReconcileResult \<Rightarrow> check" where
  "v4_reconcile_result_check v = all_ok [
     training_job_id_check (vrr_job_id v) ''v4.reconcile_result.job_id'',
     training_job_id_check (vrr_request_id v) ''v4.reconcile_result.request_id'',
     err_if (vrr_plan_generation v = 0) (Invalid ''v4.reconcile_result.plan_generation''),
     if_some (vrr_branch v) (\<lambda>branch. artifact_id_check branch ''v4.reconcile_result.branch''),
     string_check (vrr_reason v) ''v4.reconcile_result.reason'']"

definition v4_byzantine_update_check :: "V4ByzantineUpdate \<Rightarrow> check" where
  "v4_byzantine_update_check v = all_ok [
     training_job_id_check (vbu_job_id v) ''v4.byzantine.job_id'',
     training_job_id_check (vbu_request_id v) ''v4.byzantine.request_id'',
     node_id_check (vbu_worker v) ''v4.byzantine.worker'',
     node_id_check (vbu_aggregator v) ''v4.byzantine.aggregator'',
     node_id_check (vbu_reply_to v) ''v4.byzantine.reply_to'',
     err_if (vbu_plan_generation v = 0 \<or> vbu_generation v = 0 \<or> vbu_sequence v = 0
       \<or> vbu_expected_updates v = 0 \<or> vbu_expected_updates v > of_nat MAX_V4_PLAN_WORKERS)
       (Invalid ''v4.byzantine.generation''),
     v4_vector_check (vbu_values v) ''v4.byzantine.values'']"

definition v4_byzantine_result_check :: "V4ByzantineResult \<Rightarrow> check" where
  "v4_byzantine_result_check v = all_ok [
     training_job_id_check (vbr_job_id v) ''v4.byzantine_result.job_id'',
     training_job_id_check (vbr_request_id v) ''v4.byzantine_result.request_id'',
     err_if (vbr_plan_generation v = 0 \<or> vbr_generation v = 0) (Invalid ''v4.byzantine_result.generation''),
     v4_vector_check (vbr_aggregate v) ''v4.byzantine_result.aggregate'',
     v4_node_list_check (vbr_accepted_workers v) ''v4.byzantine_result.accepted_workers'' MAX_V4_PLAN_WORKERS,
     v4_node_list_check (vbr_rejected_workers v) ''v4.byzantine_result.rejected_workers'' MAX_V4_PLAN_WORKERS,
     err_if ((\<exists>worker \<in> set (vbr_accepted_workers v). worker \<in> set (vbr_rejected_workers v))
       \<or> length (vbr_accepted_workers v) + length (vbr_rejected_workers v) > MAX_V4_PLAN_WORKERS
       \<or> vbr_robust v = (vbr_policy v = BP_Mean)) (Invalid ''v4.byzantine_result.workers'')]"

section \<open>Dispatch\<close>

fun training_v4_message_check :: "TrainingV4Message \<Rightarrow> check" where
  "training_v4_message_check (V4_Plan v) = v4_plan_check v"
| "training_v4_message_check (V4_PlanAck v) = v4_plan_ack_check v"
| "training_v4_message_check (V4_PlanProposal v) = v4_plan_check v"
| "training_v4_message_check (V4_PlanProposalAck v) = v4_plan_proposal_ack_check v"
| "training_v4_message_check (V4_StateRecord v) = v4_training_state_check v"
| "training_v4_message_check (V4_OptimizerShard v) = v4_optimizer_shard_check v"
| "training_v4_message_check (V4_CheckpointRecord v) = v4_checkpoint_check v"
| "training_v4_message_check (V4_StateAck v) = v4_state_ack_check v"
| "training_v4_message_check (V4_ShardMigration v) = v4_shard_migration_check v"
| "training_v4_message_check (V4_ShardMigrationAck v) = v4_shard_migration_ack_check v"
| "training_v4_message_check (V4_ShardMigrationRequest v) = v4_shard_migration_request_check v"
| "training_v4_message_check (V4_ShardMigrationResult v) = v4_shard_migration_result_check v"
| "training_v4_message_check (V4_TensorInstall v) = v4_tensor_install_check v"
| "training_v4_message_check (V4_TensorInstallAck v) = v4_tensor_install_ack_check v"
| "training_v4_message_check (V4_TensorForward v) = v4_tensor_forward_check v"
| "training_v4_message_check (V4_TensorForwardResult v) = v4_tensor_forward_result_check v"
| "training_v4_message_check (V4_TensorBackward v) = v4_tensor_backward_check v"
| "training_v4_message_check (V4_TensorBackwardResult v) = v4_tensor_backward_result_check v"
| "training_v4_message_check (V4_PipelineInstall v) = v4_pipeline_install_check v"
| "training_v4_message_check (V4_PipelineInstallAck v) = v4_pipeline_install_ack_check v"
| "training_v4_message_check (V4_PipelineForward v) = v4_pipeline_forward_check v"
| "training_v4_message_check (V4_PipelineForwardResult v) = v4_pipeline_forward_result_check v"
| "training_v4_message_check (V4_PipelineBackward v) = v4_pipeline_backward_check v"
| "training_v4_message_check (V4_PipelineBackwardResult v) = v4_pipeline_backward_result_check v"
| "training_v4_message_check (V4_CollectiveContribute v) = v4_collective_contribute_check v"
| "training_v4_message_check (V4_CollectiveAggregate v) = v4_collective_aggregate_check v"
| "training_v4_message_check (V4_CollectiveResult v) = v4_collective_result_check v"
| "training_v4_message_check (V4_Branch v) = v4_branch_check v"
| "training_v4_message_check (V4_Reconcile v) = v4_reconcile_check v"
| "training_v4_message_check (V4_ReconcileResult v) = v4_reconcile_result_check v"
| "training_v4_message_check (V4_ByzantineUpdate v) = v4_byzantine_update_check v"
| "training_v4_message_check (V4_ByzantineResult v) = v4_byzantine_result_check v"
| "training_v4_message_check (V4_IntegratedStart v) = v4_integrated_start_check v"
| "training_v4_message_check (V4_IntegratedAck v) = v4_integrated_ack_check v"
| "training_v4_message_check (V4_IntegratedState v) = v4_integrated_state_check v"
| "training_v4_message_check (V4_IntegratedStateAck v) = v4_integrated_state_ack_check v"
| "training_v4_message_check (V4_IntegratedProbe v) = v4_integrated_probe_check v"
| "training_v4_message_check (V4_IntegratedProbeAck v) = v4_integrated_probe_ack_check v"
| "training_v4_message_check (V4_IntegratedElectionRequest v) = v4_integrated_election_request_check v"
| "training_v4_message_check (V4_IntegratedElectionVote v) = v4_integrated_election_vote_check v"
| "training_v4_message_check (V4_IntegratedResult v) = v4_integrated_result_check v"
| "training_v4_message_check (V4_TensorReplica v) = v4_tensor_replica_check v"
| "training_v4_message_check (V4_TensorReplicaAck v) = v4_tensor_replica_ack_check v"
| "training_v4_message_check (V4_OptimizerStateInstall v) = v4_optimizer_state_install_check v"
| "training_v4_message_check (V4_OptimizerStateAck v) = v4_optimizer_state_ack_check v"

fun Message_validate :: "hash_fn \<Rightarrow> Message \<Rightarrow> check" where
  "Message_validate blake3 (M_Hello v) = Hello_validate v"
| "Message_validate blake3 (M_PeerExchange v) = PeerExchange_validate v"
| "Message_validate blake3 (M_Announcement v) = SignedAnnouncement_validate v"
| "Message_validate blake3 (M_JobRequest v) = JobRequest_validate v"
| "Message_validate blake3 (M_JobUpdate v) = JobUpdate_validate v"
| "Message_validate blake3 (M_CancelJob v) = string_check (cj_reason v) ''cancel.reason''"
| "Message_validate blake3 (M_ArtifactRequest v) = ArtifactRequest_validate v"
| "Message_validate blake3 (M_ArtifactChunk v) = ArtifactChunk_validate v"
| "Message_validate blake3 (M_Ping _) = Ok"
| "Message_validate blake3 (M_Pong _) = Ok"
| "Message_validate blake3 (M_Goodbye reason) = if_some reason (\<lambda>v. string_check v ''goodbye.reason'')"
| "Message_validate blake3 (M_Error v) = ProtocolError_validate v"
| "Message_validate blake3 (M_AddressUpdate v) = AddressUpdate_validate v"
| "Message_validate blake3 (M_AddressObservation v) = AddressObservation_validate v"
| "Message_validate blake3 (M_ArtifactTransferRequest v) = ArtifactTransferRequest_validate v"
| "Message_validate blake3 (M_ArtifactTransferChunk v) = ArtifactTransferChunk_validate v"
| "Message_validate blake3 (M_KeyRotation v) = KeyRotation_validate blake3 v"
| "Message_validate blake3 (M_RelayEnvelope v) = RelayEnvelope_validate blake3 v"
| "Message_validate blake3 (M_DhtRequest v) = DhtRequest_validate blake3 v"
| "Message_validate blake3 (M_DhtResponse v) = DhtResponse_validate blake3 v"
| "Message_validate blake3 (M_Training v) = training_message_check v"
| "Message_validate blake3 (M_TrainingV4 v) = training_v4_message_check v"
| "Message_validate blake3 (M_TrainingV5 v) = training_v5_message_check v"

end
