(* ===== verification/Number_Format.thy ===== *)
theory Number_Format
  imports Prelude "HOL-Library.Signed_Division"
begin

text \<open>
  Integer division and casts of \<^verbatim>\<open>i64\<close> and \<^verbatim>\<open>i128\<close> arithmetic, and the decimal text of an integer that
  \<^verbatim>\<open>format!\<close> writes, and little-endian byte strings. Division truncates towards zero; a cast to \<^verbatim>\<open>i64\<close> keeps the low 64 bits.
\<close>

definition wrap_i64 :: "int \<Rightarrow> i64" where
  "wrap_i64 x = (x + 2 ^ 63) mod 2 ^ 64 - 2 ^ 63"

definition clamp :: "int \<Rightarrow> int \<Rightarrow> int \<Rightarrow> int" where
  "clamp lo hi x = (if x < lo then lo else if hi < x then hi else x)"

fun decimal :: "nat \<Rightarrow> string" where
  "decimal n = (if n < 10 then [char_of (48 + n)] else decimal (n div 10) @ [char_of (48 + n mod 10)])"

declare decimal.simps [simp del]

lemma in_i64_wrap: "in_i64 (wrap_i64 x)"
  by (simp add: in_i64_def wrap_i64_def i64_min_def i64_max_def)

lemma wrap_i64_id: "in_i64 x \<Longrightarrow> wrap_i64 x = x"
  by (simp add: in_i64_def wrap_i64_def i64_min_def i64_max_def)

lemma in_i64_between: "in_i64 lo \<Longrightarrow> in_i64 hi \<Longrightarrow> lo \<le> x \<Longrightarrow> x \<le> hi \<Longrightarrow> in_i64 x"
  by (simp add: in_i64_def)

lemma in_i64_uminus: "in_i64 x \<Longrightarrow> 0 < x \<Longrightarrow> in_i64 (- x)"
  by (simp add: in_i64_def i64_min_def i64_max_def)

lemma clamp_between: "lo \<le> hi \<Longrightarrow> lo \<le> clamp lo hi x \<and> clamp lo hi x \<le> hi"
  by (simp add: clamp_def)

lemma clamp_id: "lo \<le> x \<Longrightarrow> x \<le> hi \<Longrightarrow> clamp lo hi x = x"
  by (simp add: clamp_def)

text \<open>A truncated quotient stays between integers that bound the exact one.\<close>

lemma sdiv_between:
  fixes a lo hi n :: int
  assumes "0 < n" "n * lo \<le> a" "a \<le> n * hi"
  shows "lo \<le> a sdiv n \<and> a sdiv n \<le> hi"
proof -
  have quotient: "a sdiv n = (if 0 \<le> a then a div n else - (- a div n))"
    using assms(1) by (simp add: signed_divide_int_def sgn_if)
  have up: "x \<le> b div n" if "n * x \<le> b" for x b
    using zdiv_mono1 [OF that assms(1)] assms(1) by simp
  have down: "b div n \<le> x" if "b \<le> n * x" for x b
    using zdiv_mono1 [OF that assms(1)] assms(1) by simp
  show ?thesis
    using up [of lo a] down [of a hi] up [of "- hi" "- a"] down [of "- a" "- lo"] assms(2,3)
    by (auto simp: quotient)
qed

lemma sum_list_between:
  fixes xs :: "int list"
  assumes "\<forall>x\<in>set xs. lo \<le> x \<and> x \<le> hi"
  shows "int (length xs) * lo \<le> sum_list xs \<and> sum_list xs \<le> int (length xs) * hi"
  using assms by (induction xs) (auto simp: algebra_simps)

text \<open>The truncated mean of integers stays between bounds on them.\<close>

lemma mean_between:
  fixes xs :: "int list"
  assumes "xs \<noteq> []" "\<forall>x\<in>set xs. lo \<le> x \<and> x \<le> hi"
  shows "lo \<le> sum_list xs sdiv int (length xs) \<and> sum_list xs sdiv int (length xs) \<le> hi"
  using assms sum_list_between [OF assms(2)] by (intro sdiv_between) simp_all

section \<open>Little-endian integers\<close>

definition to_le_bytes :: "nat \<Rightarrow> 'a::len word \<Rightarrow> u8 list" where
  "to_le_bytes n w = map (\<lambda>i. ucast (drop_bit (8 * i) w)) [0..<n]"

definition from_le_bytes :: "u8 list \<Rightarrow> 'a::len word" where
  "from_le_bytes bs = foldr (\<lambda>b acc. ucast b OR push_bit 8 acc) bs 0"

lemma length_to_le_bytes [simp]: "length (to_le_bytes n w) = n"
  by (simp add: to_le_bytes_def)

lemma bit_from_le_bytes:
  "bit (from_le_bytes bs :: 'a::len word) k \<longleftrightarrow>
     k < LENGTH('a) \<and> k div 8 < length bs \<and> bit (bs ! (k div 8)) (k mod 8)"
proof (induction bs arbitrary: k)
  case Nil
  then show ?case by (simp add: from_le_bytes_def)
next
  case (Cons b bs)
  have step: "from_le_bytes (b # bs) = (ucast b OR push_bit 8 (from_le_bytes bs) :: 'a word)"
    by (simp add: from_le_bytes_def)
  show ?case
  proof (cases "k < 8")
    case True
    then show ?thesis by (auto simp: step bit_simps)
  next
    case False
    then have "\<not> bit b k" and "k div 8 = Suc ((k - 8) div 8)" and "k mod 8 = (k - 8) mod 8"
      by (auto dest: bit_imp_le_length simp: le_div_geq le_mod_geq)
    then show ?thesis using False Cons.IH [of "k - 8"] by (auto simp: step bit_simps)
  qed
qed

lemma from_to_le_bytes:
  assumes "LENGTH('a) = 8 * n"
  shows "from_le_bytes (to_le_bytes n w) = (w :: 'a::len word)"
proof (rule bit_word_eqI)
  fix k assume "k < LENGTH('a)"
  then have "k div 8 < n" using assms by auto
  then show "bit (from_le_bytes (to_le_bytes n w) :: 'a word) k = bit w k"
    using \<open>k < LENGTH('a)\<close>
    by (auto simp: bit_from_le_bytes to_le_bytes_def bit_simps)
qed

end
