(* ===== verification/Codec.thy ===== *)
theory Codec
  imports Message_Validation Number_Format
begin

text \<open>
  The frame codec of \<^verbatim>\<open>crates/protocol/src/codec.rs\<close>: the sixteen byte header, the kind numbers, and
  encoding and decoding of whole frames. The payload serialiser (\<^verbatim>\<open>postcard::to_allocvec\<close> and
  \<^verbatim>\<open>postcard::from_bytes\<close>) is a pair of parameters of the definitions.
\<close>

section \<open>Kinds and headers\<close>

definition FRAME_MAGIC :: "u8 list" where
  "FRAME_MAGIC = ascii_bytes ''INP1''"

definition FRAME_HEADER_SIZE :: usize where
  "FRAME_HEADER_SIZE = 16"

datatype FrameKind =
    FK_Hello
  | FK_PeerExchange
  | FK_Announcement
  | FK_JobRequest
  | FK_JobUpdate
  | FK_CancelJob
  | FK_ArtifactRequest
  | FK_ArtifactChunk
  | FK_Ping
  | FK_Pong
  | FK_Goodbye
  | FK_Error
  | FK_AddressUpdate
  | FK_AddressObservation
  | FK_ArtifactTransferRequest
  | FK_ArtifactTransferChunk
  | FK_KeyRotation
  | FK_RelayEnvelope
  | FK_DhtRequest
  | FK_DhtResponse
  | FK_Training
  | FK_TrainingV4
  | FK_TrainingV5

text \<open>The \<^verbatim>\<open>repr(u16)\<close> discriminants, as the cast \<^verbatim>\<open>kind as u16\<close> reads them.\<close>

fun discriminant :: "FrameKind \<Rightarrow> u16" where
  "discriminant FK_Hello = 1"
| "discriminant FK_PeerExchange = 2"
| "discriminant FK_Announcement = 3"
| "discriminant FK_JobRequest = 4"
| "discriminant FK_JobUpdate = 5"
| "discriminant FK_CancelJob = 6"
| "discriminant FK_ArtifactRequest = 7"
| "discriminant FK_ArtifactChunk = 8"
| "discriminant FK_Ping = 9"
| "discriminant FK_Pong = 10"
| "discriminant FK_Goodbye = 11"
| "discriminant FK_Error = 12"
| "discriminant FK_AddressUpdate = 13"
| "discriminant FK_AddressObservation = 14"
| "discriminant FK_ArtifactTransferRequest = 15"
| "discriminant FK_ArtifactTransferChunk = 16"
| "discriminant FK_KeyRotation = 17"
| "discriminant FK_RelayEnvelope = 18"
| "discriminant FK_DhtRequest = 19"
| "discriminant FK_DhtResponse = 20"
| "discriminant FK_Training = 21"
| "discriminant FK_TrainingV4 = 22"
| "discriminant FK_TrainingV5 = 23"

record FrameHeader =
  fh_major :: u16
  fh_minor :: u16
  fh_kind :: FrameKind
  fh_payload_len :: u32

text \<open>\<open>'p\<close> is the type of \<^verbatim>\<open>postcard::Error\<close>.\<close>

datatype 'p CodecError =
    BadMagic
  | UnsupportedVersion u16 u16
  | UnknownKind u16
  | FrameTooLarge usize usize
  | LengthMismatch usize usize
  | Serialize 'p
  | ValidationFailed ValidationError
  | KindMismatch FrameKind FrameKind

definition FrameKind_try_from :: "u16 \<Rightarrow> 'p CodecError + FrameKind" where
  "FrameKind_try_from v =
    (if v = 1 then Inr FK_Hello
     else if v = 2 then Inr FK_PeerExchange
     else if v = 3 then Inr FK_Announcement
     else if v = 4 then Inr FK_JobRequest
     else if v = 5 then Inr FK_JobUpdate
     else if v = 6 then Inr FK_CancelJob
     else if v = 7 then Inr FK_ArtifactRequest
     else if v = 8 then Inr FK_ArtifactChunk
     else if v = 9 then Inr FK_Ping
     else if v = 10 then Inr FK_Pong
     else if v = 11 then Inr FK_Goodbye
     else if v = 12 then Inr FK_Error
     else if v = 13 then Inr FK_AddressUpdate
     else if v = 14 then Inr FK_AddressObservation
     else if v = 15 then Inr FK_ArtifactTransferRequest
     else if v = 16 then Inr FK_ArtifactTransferChunk
     else if v = 17 then Inr FK_KeyRotation
     else if v = 18 then Inr FK_RelayEnvelope
     else if v = 19 then Inr FK_DhtRequest
     else if v = 20 then Inr FK_DhtResponse
     else if v = 21 then Inr FK_Training
     else if v = 22 then Inr FK_TrainingV4
     else if v = 23 then Inr FK_TrainingV5
     else Inl (UnknownKind v))"

definition FrameHeader_encode :: "FrameHeader \<Rightarrow> u8 list" where
  "FrameHeader_encode h = FRAME_MAGIC @ to_le_bytes 2 (fh_major h) @ to_le_bytes 2 (fh_minor h)
     @ to_le_bytes 2 (discriminant (fh_kind h)) @ to_le_bytes 2 (0 :: u16)
     @ to_le_bytes 4 (fh_payload_len h)"

definition FrameHeader_decode :: "u8 list \<Rightarrow> usize \<Rightarrow> 'p CodecError + FrameHeader" where
  "FrameHeader_decode bytes max_frame_size =
    (if take 4 bytes \<noteq> FRAME_MAGIC then Inl BadMagic
     else
       let major = from_le_bytes [bytes ! 4, bytes ! 5];
           minor = from_le_bytes [bytes ! 6, bytes ! 7]
       in if major \<noteq> PROTOCOL_MAJOR \<or> minor > PROTOCOL_MINOR then Inl (UnsupportedVersion major minor)
       else and_then (FrameKind_try_from (from_le_bytes [bytes ! 8, bytes ! 9])) (\<lambda>kind.
         let payload_len = from_le_bytes [bytes ! 12, bytes ! 13, bytes ! 14, bytes ! 15];
             frame_size = usat (FRAME_HEADER_SIZE + unat payload_len)
         in if frame_size > max_frame_size then Inl (FrameTooLarge frame_size max_frame_size)
         else Inr \<lparr>fh_major = major, fh_minor = minor, fh_kind = kind, fh_payload_len = payload_len\<rparr>))"

section \<open>Frames\<close>

definition version_gate :: "Message \<Rightarrow> u16 \<Rightarrow> bool" where
  "version_gate m minor \<longleftrightarrow>
     (minor = 0 \<and> kind m \<ge> 13) \<or> (minor < 2 \<and> kind m \<ge> 19) \<or> (minor < 3 \<and> kind m \<ge> 21)
     \<or> (minor < 4 \<and> kind m \<ge> 22) \<or> (minor < 6 \<and> kind m \<ge> 23)
     \<or> (case m of M_TrainingV4 training \<Rightarrow> minor < minimum_minor training | _ \<Rightarrow> False)"

definition encode_message_at_version :: "hash_fn \<Rightarrow> (Message \<Rightarrow> 'p + u8 list) \<Rightarrow>
    Message \<Rightarrow> usize \<Rightarrow> u16 \<Rightarrow> u16 \<Rightarrow> 'p CodecError + u8 list" where
  "encode_message_at_version blake3 to_allocvec m max_frame_size major minor =
    (if major \<noteq> PROTOCOL_MAJOR \<or> minor > PROTOCOL_MINOR then Inl (UnsupportedVersion major minor)
     else and_then (map_err ValidationFailed (Message_validate blake3 m)) (\<lambda>_.
       if version_gate m minor then Inl (UnsupportedVersion major minor)
       else and_then (map_err Serialize (to_allocvec m)) (\<lambda>payload.
         let frame_size = usat (FRAME_HEADER_SIZE + length payload)
         in if frame_size > max_frame_size then Inl (FrameTooLarge frame_size max_frame_size)
         else and_then (FrameKind_try_from (kind m)) (\<lambda>k.
           Inr (FrameHeader_encode \<lparr>fh_major = major, fh_minor = minor, fh_kind = k,
                  fh_payload_len = of_nat (length payload)\<rparr> @ payload)))))"

definition encode_message :: "hash_fn \<Rightarrow> (Message \<Rightarrow> 'p + u8 list) \<Rightarrow> Message \<Rightarrow> usize \<Rightarrow>
    'p CodecError + u8 list" where
  "encode_message blake3 to_allocvec m max_frame_size =
     encode_message_at_version blake3 to_allocvec m max_frame_size PROTOCOL_MAJOR PROTOCOL_MINOR"

definition decode_frame :: "hash_fn \<Rightarrow> (u8 list \<Rightarrow> 'p + Message) \<Rightarrow> u8 list \<Rightarrow> usize \<Rightarrow>
    'p CodecError + Message" where
  "decode_frame blake3 from_bytes frame max_frame_size =
    (if length frame < FRAME_HEADER_SIZE then Inl (LengthMismatch FRAME_HEADER_SIZE (length frame))
     else and_then (FrameHeader_decode (take FRAME_HEADER_SIZE frame) max_frame_size) (\<lambda>header.
       let payload = drop FRAME_HEADER_SIZE frame
       in if length payload \<noteq> unat (fh_payload_len header)
          then Inl (LengthMismatch (unat (fh_payload_len header)) (length payload))
          else and_then (map_err Serialize (from_bytes payload)) (\<lambda>m.
            and_then (FrameKind_try_from (kind m)) (\<lambda>actual.
              if actual \<noteq> fh_kind header then Inl (KindMismatch (fh_kind header) actual)
              else and_then (map_err ValidationFailed (Message_validate blake3 m)) (\<lambda>_. Inr m)))))"

section \<open>Correctness of the header\<close>

lemma try_from_discriminant [simp]: "FrameKind_try_from (discriminant k) = Inr k"
  by (cases k) (simp_all add: FrameKind_try_from_def)

lemma try_from_Inr_iff [result_simps]: "FrameKind_try_from v = Inr k \<longleftrightarrow> v = discriminant k"
  by (cases k) (auto simp: FrameKind_try_from_def split: if_splits)

lemma try_from_kind: "\<exists>k. FrameKind_try_from (kind m) = Inr k \<and> discriminant k = kind m"
  by (cases m) (simp_all add: FrameKind_try_from_def)

lemma length_FrameHeader_encode [simp]: "length (FrameHeader_encode h) = FRAME_HEADER_SIZE"
  by (simp add: FrameHeader_encode_def FRAME_HEADER_SIZE_def FRAME_MAGIC_def ascii_bytes_def)

lemma list_of_length_2: "length xs = 2 \<Longrightarrow> [xs ! 0, xs ! 1] = xs"
  by (auto simp: numeral_2_eq_2 length_Suc_conv)

lemma list_of_length_4: "length xs = 4 \<Longrightarrow> [xs ! 0, xs ! 1, xs ! 2, xs ! 3] = xs"
  by (auto simp: numeral_eq_Suc length_Suc_conv)

lemma FrameHeader_encode_fields:
  "take 4 (FrameHeader_encode h) = FRAME_MAGIC"
  "from_le_bytes [FrameHeader_encode h ! 4, FrameHeader_encode h ! 5] = fh_major h"
  "from_le_bytes [FrameHeader_encode h ! 6, FrameHeader_encode h ! 7] = fh_minor h"
  "from_le_bytes [FrameHeader_encode h ! 8, FrameHeader_encode h ! 9] = discriminant (fh_kind h)"
  "from_le_bytes [FrameHeader_encode h ! 12, FrameHeader_encode h ! 13, FrameHeader_encode h ! 14,
     FrameHeader_encode h ! 15] = fh_payload_len h"
proof -
  have magic: "length FRAME_MAGIC = 4" by (simp add: FRAME_MAGIC_def ascii_bytes_def)
  have two: "from_le_bytes [to_le_bytes 2 w ! 0, to_le_bytes 2 w ! Suc 0] = w" for w :: u16
    using list_of_length_2 [of "to_le_bytes 2 w"] by (simp add: from_to_le_bytes)
  have four: "from_le_bytes [to_le_bytes 4 w ! 0, to_le_bytes 4 w ! Suc 0, to_le_bytes 4 w ! 2,
      to_le_bytes 4 w ! 3] = w" for w :: u32
    using list_of_length_4 [of "to_le_bytes 4 w"] by (simp add: from_to_le_bytes)
  show "take 4 (FrameHeader_encode h) = FRAME_MAGIC"
    by (simp add: FrameHeader_encode_def magic)
  show "from_le_bytes [FrameHeader_encode h ! 4, FrameHeader_encode h ! 5] = fh_major h"
    "from_le_bytes [FrameHeader_encode h ! 6, FrameHeader_encode h ! 7] = fh_minor h"
    "from_le_bytes [FrameHeader_encode h ! 8, FrameHeader_encode h ! 9] = discriminant (fh_kind h)"
    "from_le_bytes [FrameHeader_encode h ! 12, FrameHeader_encode h ! 13, FrameHeader_encode h ! 14,
       FrameHeader_encode h ! 15] = fh_payload_len h"
    by (simp_all add: FrameHeader_encode_def nth_append magic two four)
qed

lemma FrameHeader_decode_encode:
  assumes "fh_major h = PROTOCOL_MAJOR" and "fh_minor h \<le> PROTOCOL_MINOR"
    and "usat (FRAME_HEADER_SIZE + unat (fh_payload_len h)) \<le> max_frame_size"
  shows "FrameHeader_decode (FrameHeader_encode h) max_frame_size = Inr h"
  using assms
  by (simp add: FrameHeader_decode_def FrameHeader_encode_fields and_then_def Let_def
      linorder_not_less)

section \<open>Correctness of frames\<close>

lemma encode_ok_iff:
  "encode_message_at_version blake3 ser m mx major minor = Inr frame \<longleftrightarrow>
     major = PROTOCOL_MAJOR \<and> minor \<le> PROTOCOL_MINOR \<and> Message_validate blake3 m = Ok
     \<and> \<not> version_gate m minor
     \<and> (\<exists>payload k. ser m = Inr payload \<and> usat (FRAME_HEADER_SIZE + length payload) \<le> mx
          \<and> kind m = discriminant k
          \<and> frame = FrameHeader_encode \<lparr>fh_major = major, fh_minor = minor, fh_kind = k,
              fh_payload_len = of_nat (length payload)\<rparr> @ payload)"
  by (auto simp: encode_message_at_version_def result_simps Let_def linorder_not_less)

lemma decode_ok_iff:
  "decode_frame blake3 de frame mx = Inr m \<longleftrightarrow>
     FRAME_HEADER_SIZE \<le> length frame
     \<and> (\<exists>h. FrameHeader_decode (take FRAME_HEADER_SIZE frame) mx = (Inr h :: 'p CodecError + FrameHeader)
          \<and> length frame = FRAME_HEADER_SIZE + unat (fh_payload_len h)
          \<and> de (drop FRAME_HEADER_SIZE frame) = (Inr m :: 'p + Message)
          \<and> kind m = discriminant (fh_kind h) \<and> Message_validate blake3 m = Ok)"
  by (auto simp: decode_frame_def result_simps Let_def linorder_not_less)

lemma header_decode_ok_iff:
  "FrameHeader_decode bytes mx = Inr h \<longleftrightarrow>
     take 4 bytes = FRAME_MAGIC \<and> fh_major h = PROTOCOL_MAJOR \<and> fh_minor h \<le> PROTOCOL_MINOR
     \<and> FRAME_HEADER_SIZE + unat (fh_payload_len h) \<le> mx
     \<and> fh_major h = from_le_bytes [bytes ! 4, bytes ! 5] \<and> fh_minor h = from_le_bytes [bytes ! 6, bytes ! 7]
     \<and> discriminant (fh_kind h) = from_le_bytes [bytes ! 8, bytes ! 9]
     \<and> fh_payload_len h = from_le_bytes [bytes ! 12, bytes ! 13, bytes ! 14, bytes ! 15]"
proof -
  have size: "usat (FRAME_HEADER_SIZE + unat n) = FRAME_HEADER_SIZE + unat n" for n :: u32
    using unsigned_less [of n, where ?'a = nat]
    by (intro usat_id) (simp add: FRAME_HEADER_SIZE_def usize_max_def)
  show ?thesis
    by (cases h) (auto simp: FrameHeader_decode_def result_simps Let_def size linorder_not_less)
qed

text \<open>The protocol minor that introduced a message.\<close>

definition required_minor :: "Message \<Rightarrow> u16" where
  "required_minor m = (if kind m \<le> 12 then 0 else if kind m \<le> 18 then 1 else if kind m \<le> 20 then 2
     else case m of M_TrainingV4 training \<Rightarrow> minimum_minor training | M_TrainingV5 _ \<Rightarrow> 6 | _ \<Rightarrow> 3)"

lemma word16_less_numerals:
  "(minor :: u16) < 1 \<longleftrightarrow> minor = 0"
  by (simp add: word_less_nat_alt unat_eq_zero)

lemma version_gate_iff: "version_gate m minor \<longleftrightarrow> minor < required_minor m"
proof (cases m)
  case (M_TrainingV4 training)
  have "4 \<le> minimum_minor training" using minimum_minor_range by blast
  then have "minor < minimum_minor training" if "minor < 4" using that by (rule order.strict_trans2 [rotated])
  moreover have "minor < 4" if "minor < 3 \<or> minor < 2 \<or> minor = 0"
    using that by (auto simp: word_less_nat_alt)
  ultimately show ?thesis using M_TrainingV4 by (auto simp: version_gate_def required_minor_def)
next
  case (M_TrainingV5 training)
  then show ?thesis by (auto simp: version_gate_def required_minor_def word_less_nat_alt)
next
  case (M_Training training)
  then show ?thesis by (auto simp: version_gate_def required_minor_def word_less_nat_alt)
qed (auto simp: version_gate_def required_minor_def word_less_nat_alt unat_eq_zero)

section \<open>Properties\<close>

text \<open>C5: a frame the codec produced decodes, under the same frame limit, to the message it was made from,
  whenever the serialiser's own decoding inverts its encoding and the limit is below four gibibytes.\<close>

theorem frame_roundtrip:
  assumes postcard: "\<And>m bytes. to_allocvec m = Inr bytes \<Longrightarrow> from_bytes bytes = Inr m"
    and "encode_message_at_version blake3 to_allocvec m max_frame_size major minor = Inr frame"
    and "max_frame_size < 2 ^ 32"
  shows "decode_frame blake3 from_bytes frame max_frame_size = Inr m"
proof -
  obtain payload k where enc: "major = PROTOCOL_MAJOR" "minor \<le> PROTOCOL_MINOR" "Message_validate blake3 m = Ok"
    "to_allocvec m = Inr payload" "usat (FRAME_HEADER_SIZE + length payload) \<le> max_frame_size"
    "kind m = discriminant k"
    "frame = FrameHeader_encode \<lparr>fh_major = major, fh_minor = minor, fh_kind = k,
       fh_payload_len = of_nat (length payload)\<rparr> @ payload"
    using assms(2) unfolding encode_ok_iff by blast
  have "length payload < 2 ^ 32"
    using enc(5) assms(3) by (auto simp: usat_def usize_max_def FRAME_HEADER_SIZE_def min_def split: if_splits)
  then have len: "unat (of_nat (length payload) :: u32) = length payload"
    by (simp add: unsigned_of_nat take_bit_nat_eq_self)
  with enc show ?thesis
    unfolding decode_ok_iff by (auto simp: FrameHeader_decode_encode postcard)
qed

definition sample_ping :: Message where
  "sample_ping = M_Ping \<lparr>ping_nonce = filled 7\<rparr>"

theorem frame_roundtrip_witness:
  "\<exists>frame. encode_message_at_version (\<lambda>_. filled 0)
      (\<lambda>m. if m = sample_ping then Inr [9] else Inl ()) sample_ping 64 PROTOCOL_MAJOR 0 = Inr frame
    \<and> decode_frame (\<lambda>_. filled 0) (\<lambda>_. Inr sample_ping :: unit + Message) frame 64 = Inr sample_ping"
proof -
  let ?ser = "\<lambda>m. if m = sample_ping then Inr [9] else Inl ()"
  obtain frame where "encode_message_at_version (\<lambda>_. filled 0) ?ser sample_ping 64 PROTOCOL_MAJOR 0 = Inr frame"
    by (simp add: encode_message_at_version_def sample_ping_def version_gate_def FrameKind_try_from_def
        map_err_def and_then_def usat_def usize_max_def FRAME_HEADER_SIZE_def)
  moreover from this have "decode_frame (\<lambda>_. filled 0) (\<lambda>_. Inr sample_ping) frame 64 = Inr sample_ping"
    by (intro frame_roundtrip [where to_allocvec = ?ser]) (auto split: if_splits)
  ultimately show ?thesis by blast
qed

text \<open>C22: whatever bytes arrive, a decoded message passed validation, its frame carries the magic, a version
  this node speaks and the message's own kind, declares exactly the bytes it has, and fits the limit.\<close>

theorem decode_accepts_only_valid:
  assumes "decode_frame blake3 from_bytes frame max_frame_size = Inr m"
  shows "Message_validate blake3 m = Ok \<and> length frame \<le> max_frame_size
    \<and> take 4 frame = FRAME_MAGIC
    \<and> from_le_bytes [frame ! 4, frame ! 5] = PROTOCOL_MAJOR
    \<and> from_le_bytes [frame ! 6, frame ! 7] \<le> PROTOCOL_MINOR
    \<and> from_le_bytes [frame ! 8, frame ! 9] = kind m
    \<and> unat (from_le_bytes [frame ! 12, frame ! 13, frame ! 14, frame ! 15] :: u32) + 16 = length frame"
  using assms unfolding decode_ok_iff header_decode_ok_iff
  by (auto simp: FRAME_HEADER_SIZE_def)

theorem decode_accepts_only_valid_witness:
  "Message_validate (\<lambda>_. filled 0) sample_ping = Ok \<and>
   decode_frame (\<lambda>_. filled 0) (\<lambda>_. Inr sample_ping :: unit + Message)
     (ascii_bytes ''INP1'' @ [1, 0, 6, 0, 9, 0, 0, 0, 1, 0, 0, 0, 42]) 64 = Inr sample_ping"
proof -
  have "decode_frame (\<lambda>_. filled 0) (\<lambda>_. Inr sample_ping :: unit + Message)
     (ascii_bytes ''INP1'' @ [1, 0, 6, 0, 9, 0, 0, 0, 1, 0, 0, 0, 42]) 64 = Inr sample_ping"
    unfolding decode_ok_iff header_decode_ok_iff
    by (auto simp: ascii_bytes_def FRAME_MAGIC_def FRAME_HEADER_SIZE_def from_le_bytes_def PROTOCOL_MAJOR_def
        PROTOCOL_MINOR_def sample_ping_def
        intro!: exI [of _ "\<lparr>fh_major = 1, fh_minor = 6, fh_kind = FK_Ping, fh_payload_len = 1\<rparr>"])
  from this decode_accepts_only_valid [OF this] show ?thesis by blast
qed

text \<open>A valid message is refused at a protocol minor exactly when the minor is older than the message.\<close>

theorem encode_gates_by_minor:
  assumes "minor \<le> PROTOCOL_MINOR" and "Message_validate blake3 m = Ok"
  shows "encode_message_at_version blake3 to_allocvec m max_frame_size PROTOCOL_MAJOR minor
      = Inl (UnsupportedVersion PROTOCOL_MAJOR minor) \<longleftrightarrow> minor < required_minor m"
proof -
  obtain k where "FrameKind_try_from (kind m) = (Inr k :: 'a CodecError + FrameKind)"
    using try_from_kind by blast
  then show ?thesis
    using assms by (auto simp: encode_message_at_version_def version_gate_iff and_then_def map_err_def Let_def
        split: sum.splits)
qed

definition sample_dht_ping :: Message where
  "sample_dht_ping = M_DhtRequest \<lparr>drq_request_id = filled 3, drq_origin = filled 4, drq_request = DRQ_Ping\<rparr>"

text \<open>A valid message whose payload leaves room for the header is always encoded at the current version,
  to a frame of exactly sixteen bytes more than the payload.\<close>

theorem encode_succeeds:
  assumes "Message_validate blake3 m = Ok" and "to_allocvec m = Inr payload"
    and "length payload + 16 \<le> max_frame_size" and "max_frame_size \<le> usize_max"
  shows "\<exists>frame. encode_message blake3 to_allocvec m max_frame_size = Inr frame
    \<and> length frame = length payload + 16 \<and> drop 16 frame = payload"
proof -
  obtain k where k: "kind m = discriminant k" using try_from_kind [of m] by metis
  have "\<not> PROTOCOL_MINOR < required_minor m"
    using minimum_minor_range by (auto simp: required_minor_def PROTOCOL_MINOR_def not_less split: Message.split)
  then have gate: "\<not> version_gate m PROTOCOL_MINOR" by (simp add: version_gate_iff)
  have "usat (FRAME_HEADER_SIZE + length payload) \<le> max_frame_size"
    using assms(3) by (simp add: usat_def FRAME_HEADER_SIZE_def)
  then have "encode_message blake3 to_allocvec m max_frame_size = Inr (FrameHeader_encode
      \<lparr>fh_major = PROTOCOL_MAJOR, fh_minor = PROTOCOL_MINOR, fh_kind = k,
       fh_payload_len = of_nat (length payload)\<rparr> @ payload)"
    using assms k gate unfolding encode_message_def encode_ok_iff by auto
  then show ?thesis by (simp add: FRAME_HEADER_SIZE_def)
qed

end
