(* ===== verification/Effects.thy ===== *)
theory Effects
  imports Prelude
begin

text \<open>
  Operations on a state that may fail: a step returns the new state and an error or a value, \<open>try_then\<close> is the
  operator \<^verbatim>\<open>?\<close> between two of them, \<open>checked\<close> the operator after a check that leaves the state alone. A predicate on
  the state passes through such a composition by the rules of \<open>post_intros\<close>.
\<close>

section \<open>Steps that may fail\<close>

definition try_then :: "'s \<times> ('e + 'a) \<Rightarrow> ('s \<Rightarrow> 'a \<Rightarrow> 's \<times> ('e + 'b)) \<Rightarrow> 's \<times> ('e + 'b)" where
  "try_then r f = (case r of (s, Inl e) \<Rightarrow> (s, Inl e) | (s, Inr x) \<Rightarrow> f s x)"

text \<open>A check that does not touch the state, followed by the rest of the function.\<close>

definition checked :: "'e + 'a \<Rightarrow> 's \<Rightarrow> ('a \<Rightarrow> 's \<times> ('e + 'b)) \<Rightarrow> 's \<times> ('e + 'b)" where
  "checked r s f = (case r of Inl e \<Rightarrow> (s, Inl e) | Inr x \<Rightarrow> f x)"

section \<open>Predicates on the state a step returns\<close>

definition post :: "('s \<Rightarrow> bool) \<Rightarrow> 's \<times> 'r \<Rightarrow> bool" where
  "post I r \<longleftrightarrow> I (fst r)"

named_theorems post_intros \<open>how a predicate on the state passes through the composition of steps\<close>

lemma post_pair [post_intros]: "I s \<Longrightarrow> post I (s, r)"
  by (simp add: post_def)

lemma post_try_then [post_intros]:
  "post I r \<Longrightarrow> (\<And>s x. I s \<Longrightarrow> post I (f s x)) \<Longrightarrow> post I (try_then r f)"
  by (auto simp: post_def try_then_def split: prod.splits sum.splits)

lemma post_checked [post_intros]: "I s \<Longrightarrow> (\<And>x. post I (f x)) \<Longrightarrow> post I (checked r s f)"
  by (auto simp: post_def checked_def split: sum.splits)

lemma post_checked_eq: "I s \<Longrightarrow> (\<And>x. r = Inr x \<Longrightarrow> post I (f x)) \<Longrightarrow> post I (checked r s f)"
  by (auto simp: post_def checked_def split: sum.splits)

lemma post_try_then_from:
  "post G r \<Longrightarrow> (\<And>s. G s \<Longrightarrow> I s) \<Longrightarrow> (\<And>s x. G s \<Longrightarrow> post I (f s x)) \<Longrightarrow> post I (try_then r f)"
  by (auto simp: post_def try_then_def split: prod.splits sum.splits)

lemma post_if [post_intros]: "(c \<Longrightarrow> post I a) \<Longrightarrow> (\<not> c \<Longrightarrow> post I b) \<Longrightarrow> post I (if c then a else b)"
  by simp

lemma post_option [post_intros]:
  "post I a \<Longrightarrow> (\<And>x. post I (f x)) \<Longrightarrow> post I (case v of None \<Rightarrow> a | Some x \<Rightarrow> f x)"
  by (cases v) simp_all

lemma post_sum [post_intros]:
  "(\<And>e. post I (f e)) \<Longrightarrow> (\<And>x. post I (g x)) \<Longrightarrow> post I (case v of Inl e \<Rightarrow> f e | Inr x \<Rightarrow> g x)"
  by (cases v) simp_all

lemma post_let [post_intros]: "(\<And>x. post I (f x)) \<Longrightarrow> post I (let x = v in f x)"
  by simp

lemma post_let_node: "I v \<Longrightarrow> (\<And>x. I x \<Longrightarrow> post I (f x)) \<Longrightarrow> post I (let x = v in f x)"
  by simp

lemma post_bool [post_intros]: "post I a \<Longrightarrow> post I b \<Longrightarrow> post I (case v of True \<Rightarrow> a | False \<Rightarrow> b)"
  by (cases v) simp_all

lemma post_case_node: "post I r \<Longrightarrow> (\<And>s x. I s \<Longrightarrow> post I (f s x)) \<Longrightarrow> post I (case r of (s, x) \<Rightarrow> f s x)"
  by (cases r) (simp add: post_def)

lemma post_case_pair: "(\<And>s x. post I (f s x)) \<Longrightarrow> post I (case r of (s, x) \<Rightarrow> f s x)"
  by (cases r) simp

lemma post_fst: "post I r \<Longrightarrow> I (fst r)"
  by (simp add: post_def)

end
