(* ===== verification/Socket_Addr.thy ===== *)
theory Socket_Addr
  imports Prelude "HOL-Library.Monad_Syntax"
begin

text \<open>
  The parser behind \<^verbatim>\<open>str::parse::<SocketAddr>()\<close> of the standard library, which the routing table and
  the relay policy apply to peer addresses: dotted IPv4 without leading zeros, bracketed IPv6 with
  compression, embedded IPv4 and scope, and a decimal port. A reader returns its value and the
  unread rest, and \<^const>\<open>None\<close> consumes nothing, as \<^verbatim>\<open>read_atomically\<close> has it.
\<close>

type_synonym u128 = "128 word"
type_synonym 'a reader = "string \<Rightarrow> ('a \<times> string) option"

datatype IpAddr = IP_V4 u32 | IP_V6 u128

section \<open>Numbers and separators\<close>

definition to_digit :: "int \<Rightarrow> char \<Rightarrow> int option" where
  "to_digit radix c =
    (let n = of_char c :: int;
         d = (if 48 \<le> n \<and> n \<le> 57 then Some (n - 48)
              else if 97 \<le> n \<and> n \<le> 122 then Some (n - 87)
              else if 65 \<le> n \<and> n \<le> 90 then Some (n - 55) else None)
     in case d of None \<Rightarrow> None | Some v \<Rightarrow> if v < radix then Some v else None)"

fun read_digits :: "int \<Rightarrow> string \<Rightarrow> int list \<times> string" where
  "read_digits radix [] = ([], [])"
| "read_digits radix (c # s) = (case to_digit radix c of
     None \<Rightarrow> ([], c # s)
   | Some d \<Rightarrow> (case read_digits radix s of (ds, rest) \<Rightarrow> (d # ds, rest)))"

text \<open>
  \<^verbatim>\<open>read_number\<close>: \<open>limit\<close> is the greatest value of the result type. Checked arithmetic fails on the way
  exactly when the whole number exceeds it.
\<close>

definition read_number :: "int \<Rightarrow> nat option \<Rightarrow> bool \<Rightarrow> int \<Rightarrow> int reader" where
  "read_number radix max_digits allow_zero_prefix limit s =
    (case read_digits radix s of (ds, rest) \<Rightarrow>
       let v = foldl (\<lambda>acc d. acc * radix + d) 0 ds
       in if ds = [] \<or> is_some_and max_digits (\<lambda>m. length ds > m)
             \<or> (\<not> allow_zero_prefix \<and> hd ds = 0 \<and> length ds > 1) \<or> v > limit
          then None else Some (v, rest))"

fun read_given_char :: "char \<Rightarrow> string \<Rightarrow> string option" where
  "read_given_char c [] = None"
| "read_given_char c (x # s) = (if x = c then Some s else None)"

definition read_separator :: "char \<Rightarrow> nat \<Rightarrow> 'a reader \<Rightarrow> 'a reader" where
  "read_separator sep index inner s =
     (if index > 0 then read_given_char sep s \<bind> inner else inner s)"

section \<open>Addresses\<close>

definition read_ipv4_addr :: "(int \<times> int \<times> int \<times> int) reader" where
  "read_ipv4_addr s = do {
     (a, s) \<leftarrow> read_number 10 (Some 3) False 255 s;
     (b, s) \<leftarrow> read_separator CHR ''.'' 1 (read_number 10 (Some 3) False 255) s;
     (c, s) \<leftarrow> read_separator CHR ''.'' 2 (read_number 10 (Some 3) False 255) s;
     (d, s) \<leftarrow> read_separator CHR ''.'' 3 (read_number 10 (Some 3) False 255) s;
     Some ((a, b, c, d), s) }"

function read_groups :: "nat \<Rightarrow> nat \<Rightarrow> string \<Rightarrow> int list \<times> bool \<times> string" where
  "read_groups limit i s =
    (if i \<ge> limit then ([], False, s)
     else case (if i < limit - 1 then read_separator CHR '':'' i read_ipv4_addr s else None) of
       Some ((a, b, c, d), rest) \<Rightarrow> ([a * 256 + b, c * 256 + d], True, rest)
     | None \<Rightarrow> (case read_separator CHR '':'' i (read_number 16 (Some 4) True 65535) s of
         None \<Rightarrow> ([], False, s)
       | Some (g, rest) \<Rightarrow>
           (case read_groups limit (Suc i) rest of (gs, v4, rest') \<Rightarrow> (g # gs, v4, rest'))))"
  by pat_completeness auto
termination
  by (relation "measure (\<lambda>(limit, i, s). limit - i)") auto

declare read_groups.simps [simp del]

definition read_ipv6_addr :: "int list reader" where
  "read_ipv6_addr s =
    (case read_groups 8 0 s of (head, head_ipv4, s1) \<Rightarrow>
       if length head = 8 then Some (head, s1)
       else if head_ipv4 then None
       else do {
         s2 \<leftarrow> read_given_char CHR '':'' s1;
         s3 \<leftarrow> read_given_char CHR '':'' s2;
         (case read_groups (8 - (length head + 1)) 0 s3 of (tail, _, s4) \<Rightarrow>
            Some (head @ replicate (8 - length head - length tail) 0 @ tail, s4)) })"

definition read_port :: "int reader" where
  "read_port s = read_given_char CHR '':'' s \<bind> read_number 10 None True 65535"

definition read_scope_id :: "int reader" where
  "read_scope_id s = read_given_char CHR ''%'' s \<bind> read_number 10 None True 4294967295"

definition read_socket_addr_v4 :: "(IpAddr \<times> int) reader" where
  "read_socket_addr_v4 s = do {
     ((a, b, c, d), s) \<leftarrow> read_ipv4_addr s;
     (port, s) \<leftarrow> read_port s;
     Some ((IP_V4 (of_int (((a * 256 + b) * 256 + c) * 256 + d)), port), s) }"

definition read_socket_addr_v6 :: "(IpAddr \<times> int) reader" where
  "read_socket_addr_v6 s = do {
     s \<leftarrow> read_given_char CHR ''['' s;
     (groups, s) \<leftarrow> read_ipv6_addr s;
     s \<leftarrow> Some (case read_scope_id s of None \<Rightarrow> s | Some (_, rest) \<Rightarrow> rest);
     s \<leftarrow> read_given_char CHR '']'' s;
     (port, s) \<leftarrow> read_port s;
     Some ((IP_V6 (of_int (foldl (\<lambda>acc g. acc * 65536 + g) 0 groups)), port), s) }"

definition parse_socket_addr :: "string \<Rightarrow> (IpAddr \<times> int) option" where
  "parse_socket_addr s =
    (case (case read_socket_addr_v4 s of Some r \<Rightarrow> Some r | None \<Rightarrow> read_socket_addr_v6 s) of
       Some (addr, []) \<Rightarrow> Some addr
     | _ \<Rightarrow> None)"

section \<open>Examples\<close>

lemma parse_socket_addr_examples:
  "parse_socket_addr ''10.1.2.3:80'' = Some (IP_V4 0x0A010203, 80)"
  "parse_socket_addr ''[2001:db8::1]:443'' = Some (IP_V6 0x20010DB8000000000000000000000001, 443)"
  "parse_socket_addr ''[::ffff:1.2.3.4%7]:0'' = Some (IP_V6 0xFFFF01020304, 0)"
  "parse_socket_addr ''10.1.2.03:80'' = None"
  "parse_socket_addr ''10.1.2.3:65536'' = None"
  "parse_socket_addr ''10.1.2.3'' = None"
  by code_simp+

end
