(* ===== verification/Step_System.thy ===== *)
theory Step_System
  imports Main
begin

text \<open>
  The contract the stateful components share: a component has operations on its state, an invariant
  that holds of a fresh state, and every operation keeps it. The locale gives the invariant after any
  sequence of operations; each component interprets it with its own operations. In a \<open>guarded_system\<close> the
  invariant is kept by the operations that meet a condition.
\<close>

locale guarded_system =
  fixes step :: "'op \<Rightarrow> 's \<Rightarrow> 's"
    and invariant :: "'s \<Rightarrow> bool"
    and guard :: "'op \<Rightarrow> bool"
  assumes guarded_step: "invariant s \<Longrightarrow> guard op \<Longrightarrow> invariant (step op s)"
begin

lemma fold_keeps: "invariant s \<Longrightarrow> \<forall>op\<in>set ops. guard op \<Longrightarrow> invariant (fold step ops s)"
  by (induction ops arbitrary: s) (auto intro: guarded_step)

end

text \<open>The case without a condition on the operations.\<close>

locale step_system =
  fixes step :: "'op \<Rightarrow> 's \<Rightarrow> 's"
    and invariant :: "'s \<Rightarrow> bool"
  assumes step_keeps: "invariant s \<Longrightarrow> invariant (step op s)"
begin

definition run :: "'op list \<Rightarrow> 's \<Rightarrow> 's" where
  "run ops s = fold step ops s"

lemma run_keeps: "invariant s \<Longrightarrow> invariant (run ops s)"
  unfolding run_def by (induction ops arbitrary: s) (auto intro: step_keeps)

lemma run_append: "run (ops @ ops') s = run ops' (run ops s)"
  by (simp add: run_def)

end

sublocale step_system \<subseteq> free: guarded_system step invariant "\<lambda>_. True"
  by unfold_locales (rule step_keeps)

text \<open>A preorder on states that every operation climbs, such as the age of what is stored.\<close>

locale monotone_system = step_system +
  fixes rel :: "'b \<Rightarrow> 'b \<Rightarrow> bool"
  assumes rel_refl: "invariant s \<Longrightarrow> rel s s"
    and rel_trans: "rel s t \<Longrightarrow> rel t u \<Longrightarrow> rel s u"
    and step_climbs: "invariant s \<Longrightarrow> rel s (step op s)"
begin

lemma run_climbs: "invariant s \<Longrightarrow> rel s (run ops s)"
proof (induction ops arbitrary: s)
  case Nil
  then show ?case by (simp add: run_def rel_refl)
next
  case (Cons op ops)
  have "rel (step op s) (run ops (step op s))"
    using Cons step_keeps by blast
  then have "rel s (run ops (step op s))"
    using Cons.prems step_climbs rel_trans by blast
  then show ?case by (simp add: run_def)
qed

end

end
