(* ===== verification/Dht_Table.thy ===== *)
theory Dht_Table
  imports Validation Socket_Addr Step_System
begin

text \<open>
  The routing table of \<^verbatim>\<open>crates/network/src/dht.rs\<close> (\<^verbatim>\<open>DhtTable\<close>) with the XOR metric: 256 buckets of
  at most \<open>k\<close> contacts, a replacement cache and at most sixteen protected contacts.
\<close>

section \<open>The XOR metric\<close>

definition xor_distance :: "NodeId \<Rightarrow> NodeId \<Rightarrow> 32 bytes" where
  "xor_distance left right = xor_bytes left right"

definition leading_zeros :: "u8 \<Rightarrow> nat" where
  "leading_zeros b = length (takeWhile (\<lambda>i. \<not> bit b i) (rev [0..<8]))"

fun first_set_bit :: "nat \<Rightarrow> u8 list \<Rightarrow> nat" where
  "first_set_bit index [] = 0"
| "first_set_bit index (byte # bytes) =
     (if byte \<noteq> 0 then 255 - (index * 8 + leading_zeros byte) else first_set_bit (Suc index) bytes)"

definition bucket_index :: "NodeId \<Rightarrow> NodeId \<Rightarrow> nat" where
  "bucket_index left right = first_set_bit 0 (as_bytes (xor_distance left right))"

section \<open>Contacts\<close>

definition address_prefix :: "SignedAnnouncement \<Rightarrow> u128" where
  "address_prefix contact = (case pr_addresses (sa_record contact) of
     [] \<Rightarrow> 0
   | address # _ \<Rightarrow> (case parse_socket_addr address of
       None \<Rightarrow> 0
     | Some (IP_V4 v, _) \<Rightarrow> drop_bit 8 (ucast v)
     | Some (IP_V6 v, _) \<Rightarrow> drop_bit 64 v))"

definition fresher :: "PeerRecord \<Rightarrow> PeerRecord \<Rightarrow> bool" where
  "fresher previous next \<longleftrightarrow> pr_announced_at next > pr_announced_at previous
     \<or> (pr_announced_at next = pr_announced_at previous \<and> pr_expires_at next \<ge> pr_expires_at previous)"

abbreviation contact_id :: "SignedAnnouncement \<Rightarrow> NodeId" where
  "contact_id c \<equiv> pr_node_id (sa_record c)"

abbreviation live_contact :: "u64 \<Rightarrow> SignedAnnouncement \<Rightarrow> bool" where
  "live_contact now c \<equiv> pr_expires_at (sa_record c) \<ge> now"

text \<open>
  The update the three lists of the table share: \<^const>\<open>None\<close> when the identity is not in the list,
  otherwise the list with the contact replaced when the new record is fresher, and whether it was.
\<close>

definition refresh :: "SignedAnnouncement list \<Rightarrow> SignedAnnouncement \<Rightarrow> (SignedAnnouncement list \<times> bool) option" where
  "refresh contacts contact =
    (case find (\<lambda>item. contact_id item = contact_id contact) contacts of
       None \<Rightarrow> None
     | Some existing \<Rightarrow>
         if fresher (sa_record existing) (sa_record contact)
         then Some (replace_first (\<lambda>item. contact_id item = contact_id contact) contact contacts, True)
         else Some (contacts, False))"

section \<open>The table\<close>

definition DEFAULT_K :: usize where "DEFAULT_K = 20"
definition DEFAULT_REPLACEMENT_CACHE :: usize where "DEFAULT_REPLACEMENT_CACHE = 32"
definition MAX_CONTACTS_PER_SOURCE_PREFIX :: usize where "MAX_CONTACTS_PER_SOURCE_PREFIX = 4"

record DhtTableStats =
  dts_bucket_count :: usize
  dts_populated_buckets :: usize
  dts_contacts :: usize
  dts_replacement_contacts :: usize
  dts_protected_contacts :: usize

record DhtTable =
  dt_local :: NodeId
  dt_k :: usize
  dt_replacement_limit :: usize
  dt_buckets :: "SignedAnnouncement list list"
  dt_replacements :: "SignedAnnouncement list"
  dt_protected :: "SignedAnnouncement list"

definition DhtTable_new :: "NodeId \<Rightarrow> usize \<Rightarrow> usize \<Rightarrow> DhtTable" where
  "DhtTable_new lcl k replacement_limit = \<lparr>dt_local = lcl, dt_k = max k 1,
     dt_replacement_limit = replacement_limit, dt_buckets = replicate 256 [],
     dt_replacements = [], dt_protected = []\<rparr>"

definition add_replacement :: "DhtTable \<Rightarrow> SignedAnnouncement \<Rightarrow> DhtTable \<times> bool" where
  "add_replacement t contact =
    (case refresh (dt_replacements t) contact of
       Some (replacements, updated) \<Rightarrow> (t\<lparr>dt_replacements := replacements\<rparr>, updated)
     | None \<Rightarrow>
         if dt_replacement_limit t = 0 then (t, False)
         else let pushed = dt_replacements t @ [contact]
              in (t\<lparr>dt_replacements :=
                    (if length pushed > dt_replacement_limit t then remove_at 0 pushed else pushed)\<rparr>, False))"

definition same_source :: "SignedAnnouncement list \<Rightarrow> u128 \<Rightarrow> nat" where
  "same_source bucket source = length (filter (\<lambda>item. address_prefix item = source) bucket)"

text \<open>The place of the oldest contact of another source prefix.\<close>

definition victim :: "SignedAnnouncement list \<Rightarrow> u128 \<Rightarrow> nat option" where
  "victim bucket source = map_option fst
     (min_by_key (\<lambda>(_, item). pr_announced_at (sa_record item))
       (filter (\<lambda>(_, item). address_prefix item \<noteq> source) (enumerate 0 bucket)))"

definition DhtTable_insert :: "DhtTable \<Rightarrow> SignedAnnouncement \<Rightarrow> u64 \<Rightarrow> DhtTable \<times> bool" where
  "DhtTable_insert t contact now =
    (let id = contact_id contact in
     if id = dt_local t \<or> pr_expires_at (sa_record contact) < now then (t, False)
     else let index = bucket_index (dt_local t) id; bucket = dt_buckets t ! index in
       case refresh (dt_protected t) contact of
         Some (protected, updated) \<Rightarrow> (t\<lparr>dt_protected := protected\<rparr>, updated)
       | None \<Rightarrow> (case refresh bucket contact of
           Some (bucket', updated) \<Rightarrow> (t\<lparr>dt_buckets := (dt_buckets t)[index := bucket']\<rparr>, updated)
         | None \<Rightarrow>
             let source = address_prefix contact in
             if length bucket < dt_k t then
               if same_source bucket source < MAX_CONTACTS_PER_SOURCE_PREFIX
               then (t\<lparr>dt_buckets := (dt_buckets t)[index := bucket @ [contact]]\<rparr>, True)
               else add_replacement t contact
             else if same_source bucket source < (dt_k t + 1) div 2 then
               (case victim bucket source of
                  Some i \<Rightarrow> (t\<lparr>dt_buckets := (dt_buckets t)[index := bucket[i := contact]]\<rparr>, True)
                | None \<Rightarrow> add_replacement t contact)
             else add_replacement t contact))"

definition DhtTable_protect :: "DhtTable \<Rightarrow> SignedAnnouncement \<Rightarrow> u64 \<Rightarrow> DhtTable \<times> bool" where
  "DhtTable_protect t contact now =
    (if contact_id contact = dt_local t \<or> pr_expires_at (sa_record contact) < now then (t, False)
     else case refresh (dt_protected t) contact of
       Some (protected, updated) \<Rightarrow> (t\<lparr>dt_protected := protected\<rparr>, updated)
     | None \<Rightarrow>
         let kept = (if length (dt_protected t) \<ge> 16
                     then remove_at 0 (sort_key (\<lambda>item. pr_expires_at (sa_record item)) (dt_protected t))
                     else dt_protected t)
         in (t\<lparr>dt_protected := kept @ [contact]\<rparr>, True))"

definition DhtTable_expire :: "DhtTable \<Rightarrow> u64 \<Rightarrow> DhtTable" where
  "DhtTable_expire t now = t\<lparr>
     dt_buckets := map (filter (live_contact now)) (dt_buckets t),
     dt_replacements := filter (live_contact now) (dt_replacements t),
     dt_protected := filter (live_contact now) (dt_protected t)\<rparr>"

definition live_contacts :: "DhtTable \<Rightarrow> u64 \<Rightarrow> SignedAnnouncement list" where
  "live_contacts t now =
     filter (live_contact now) (concat (dt_buckets t) @ dt_replacements t @ dt_protected t)"

definition DhtTable_closest :: "DhtTable \<Rightarrow> DhtKey \<Rightarrow> usize \<Rightarrow> u64 \<Rightarrow> SignedAnnouncement list" where
  "DhtTable_closest t target limit now =
     take limit (dedup_by_key contact_id
       (sort_key (\<lambda>contact. xor_distance (contact_id contact) target) (live_contacts t now)))"

text \<open>
  The two passes of \<^verbatim>\<open>closest_diverse\<close>: one contact for each source, then whatever is left in order,
  both up to the limit. \<open>key\<close> and \<open>id_of\<close> are the source and the identity, so that the record store
  can use the same two loops.
\<close>

fun select_sources :: "('a \<Rightarrow> 's) \<Rightarrow> usize \<Rightarrow> 's set \<Rightarrow> 'a list \<Rightarrow> 'a list \<Rightarrow> 'a list" where
  "select_sources key limit sources selected [] = selected"
| "select_sources key limit sources selected (x # xs) =
     (if length selected \<ge> limit then selected
      else if key x \<in> sources then select_sources key limit sources selected xs
      else select_sources key limit (insert (key x) sources) (selected @ [x]) xs)"

fun select_rest :: "('a \<Rightarrow> 'i) \<Rightarrow> usize \<Rightarrow> 'a list \<Rightarrow> 'a list \<Rightarrow> 'a list" where
  "select_rest id_of limit selected [] = selected"
| "select_rest id_of limit selected (x # xs) =
     (if length selected \<ge> limit then selected
      else if \<exists>y \<in> set selected. id_of y = id_of x then select_rest id_of limit selected xs
      else select_rest id_of limit (selected @ [x]) xs)"

definition DhtTable_closest_diverse :: "DhtTable \<Rightarrow> DhtKey \<Rightarrow> usize \<Rightarrow> u64 \<Rightarrow> SignedAnnouncement list" where
  "DhtTable_closest_diverse t target limit now =
    (let values = DhtTable_closest t target usize_max now
     in select_rest contact_id limit (select_sources address_prefix limit {} [] values) values)"

definition DhtTable_all_contacts :: "DhtTable \<Rightarrow> u64 \<Rightarrow> SignedAnnouncement list" where
  "DhtTable_all_contacts t now = DhtTable_closest t (dt_local t) usize_max now"

definition DhtTable_stats :: "DhtTable \<Rightarrow> DhtTableStats" where
  "DhtTable_stats t = \<lparr>dts_bucket_count = length (dt_buckets t),
     dts_populated_buckets = length (filter (\<lambda>b. b \<noteq> []) (dt_buckets t)),
     dts_contacts = sum_list (map length (dt_buckets t)),
     dts_replacement_contacts = length (dt_replacements t),
     dts_protected_contacts = length (dt_protected t)\<rparr>"

section \<open>The metric: buckets are dyadic shells\<close>

text \<open>The place of the highest set bit of a byte.\<close>

lemma leading_zeros_cases:
  "leading_zeros b = (if bit b 7 then 0 else if bit b 6 then 1 else if bit b 5 then 2 else if bit b 4 then 3
     else if bit b 3 then 4 else if bit b 2 then 5 else if bit b 1 then 6 else if bit b 0 then 7 else 8)"
proof -
  have "rev [0..<8] = [7, 6, 5, 4, 3, 2, 1, 0 :: nat]" by (simp add: upt_rec)
  then show ?thesis by (simp add: leading_zeros_def)
qed

lemma byte_bits_zero: "b = (0 :: u8) \<longleftrightarrow> (\<forall>i<8. \<not> bit b i)"
  by (auto intro: bit_word_eqI)

lemma all_less_8: "(\<forall>i<8. P i) \<longleftrightarrow> P 0 \<and> P 1 \<and> P 2 \<and> P 3 \<and> P 4 \<and> P 5 \<and> P 6 \<and> P (7::nat)"
  by (auto simp: eval_nat_numeral All_less_Suc)

lemma highest_bit:
  assumes "b \<noteq> 0"
  shows "leading_zeros b < 8" and "bit b (7 - leading_zeros b)"
    and "\<And>i. 7 - leading_zeros b < i \<Longrightarrow> \<not> bit b i"
proof -
  have some: "\<not> (\<forall>i<8. \<not> bit b i)" using assms by (simp add: byte_bits_zero)
  then show "leading_zeros b < 8" "bit b (7 - leading_zeros b)"
    by (auto simp: all_less_8 leading_zeros_cases)
  have "\<forall>i<8. 7 - leading_zeros b < i \<longrightarrow> \<not> bit b i"
    by (simp add: all_less_8 leading_zeros_cases)
  then show "\<not> bit b i" if "7 - leading_zeros b < i" for i
    using that bit_imp_le_length [of b i] by auto
qed

lemma leading_zeros_bounds:
  assumes "b \<noteq> 0"
  shows "2 ^ (7 - leading_zeros b) \<le> unat b" and "unat b < 2 ^ (8 - leading_zeros b)"
proof -
  let ?p = "7 - leading_zeros b"
  have "bit (unat b) ?p" using highest_bit(2) [OF assms] by (simp add: bit_unsigned_iff)
  then show "2 ^ ?p \<le> unat b"
    by (metis bit_iff_odd_drop_bit drop_bit_eq_div div_less even_zero linorder_not_less)
  have "i < Suc ?p" if "bit b i" for i
    using that highest_bit(3) [OF assms] not_less_eq by blast
  then have "take_bit (Suc ?p) b = b"
    by (intro bit_word_eqI) (auto simp: bit_take_bit_iff)
  then have "unat b < 2 ^ Suc ?p"
    by (metis take_bit_nat_less_exp unsigned_take_bit_eq)
  moreover have "Suc ?p = 8 - leading_zeros b" using highest_bit(1) [OF assms] by simp
  ultimately show "unat b < 2 ^ (8 - leading_zeros b)" by metis
qed

lemma xor_same_leading_zeros:
  assumes "a \<noteq> 0" "b \<noteq> 0" "leading_zeros a = leading_zeros b"
  shows "a XOR b < b"
proof -
  let ?p = "7 - leading_zeros b"
  define d where "d = a XOR b"
  have "i < ?p" if "bit d i" for i
    using that highest_bit(2,3) [OF assms(1)] highest_bit(2,3) [OF assms(2)] assms(3)
    by (cases i ?p rule: linorder_cases) (auto simp: d_def bit_xor_iff)
  then have "take_bit ?p d = d"
    by (intro bit_word_eqI) (auto simp: bit_take_bit_iff)
  then have "unat (a XOR b) < 2 ^ ?p" by (metis d_def take_bit_nat_less_exp unsigned_take_bit_eq)
  with leading_zeros_bounds(1) [OF assms(2)] show ?thesis
    by (simp add: word_less_nat_alt)
qed

lemma first_set_bit_split:
  assumes "\<exists>b\<in>set bytes. b \<noteq> 0"
  obtains n b rest where "bytes = replicate n 0 @ b # rest" "b \<noteq> 0"
    "first_set_bit i bytes = 255 - ((i + n) * 8 + leading_zeros b)"
proof -
  have "\<exists>n b rest. bytes = replicate n 0 @ b # rest \<and> b \<noteq> 0
    \<and> first_set_bit i bytes = 255 - ((i + n) * 8 + leading_zeros b)"
    using assms
  proof (induction i bytes rule: first_set_bit.induct)
    case (2 i byte bytes)
    show ?case
    proof (cases "byte = 0")
      case True
      with 2 obtain n b rest where "bytes = replicate n 0 @ b # rest" "b \<noteq> 0"
        "first_set_bit (Suc i) bytes = 255 - ((Suc i + n) * 8 + leading_zeros b)"
        by auto
      with True show ?thesis by (intro exI [of _ "Suc n"] exI [of _ b] exI [of _ rest]) simp
    qed (auto intro: exI [of _ 0])
  qed simp
  with that show thesis by blast
qed

lemma first_set_bit_zeros: "first_set_bit i (replicate n 0) = 0"
  by (induction n arbitrary: i) auto

lemma nonzero_byte:
  assumes "a \<noteq> (b :: 32 bytes)"
  shows "\<exists>x\<in>set (as_bytes (xor_bytes a b)). x \<noteq> 0"
proof (rule ccontr)
  assume "\<not> ?thesis"
  then have "as_bytes (xor_bytes a b) = replicate 32 0"
    by (intro replicate_eqI) (auto simp del: as_bytes_xor)
  then have "xor_bytes a b = filled 0" by (simp add: bytes_eq_iff del: as_bytes_xor)
  with assms show False by (simp add: xor_bytes_eq_zero_iff)
qed

lemma bucket_index_le: "bucket_index a b \<le> 255"
proof (cases "a = b")
  case True
  then show ?thesis
    by (simp add: bucket_index_def xor_distance_def first_set_bit_zeros)
next
  case False
  then show ?thesis
    using first_set_bit_split [OF nonzero_byte [OF False], of 0]
    by (metis bucket_index_def diff_le_self xor_distance_def)
qed

lemma bucket_index_less: "bucket_index a b < 256"
  using bucket_index_le [of a b] by simp

text \<open>The number a byte string denotes, most significant byte first.\<close>

definition be_value :: "u8 list \<Rightarrow> nat" where
  "be_value bs = foldl (\<lambda>acc b. acc * 256 + unat b) 0 bs"

lemma be_value_foldl: "foldl (\<lambda>acc b. acc * 256 + unat b) a bs = a * 256 ^ length bs + be_value bs"
proof (induction bs arbitrary: a)
  case (Cons b bs)
  have "be_value (b # bs) = unat b * 256 ^ length bs + be_value bs"
    unfolding be_value_def foldl_Cons by (simp only: Cons) simp
  then show ?case by (simp only: foldl_Cons Cons) (simp add: add_mult_distrib)
qed (simp add: be_value_def)

lemma be_value_simps [simp]:
  "be_value [] = 0"
  "be_value (b # bs) = unat b * 256 ^ length bs + be_value bs"
  "be_value (replicate n 0 @ bs) = be_value bs"
proof -
  show "be_value [] = 0" by (simp add: be_value_def)
  show cons: "be_value (b # bs) = unat b * 256 ^ length bs + be_value bs" for b bs
    using be_value_foldl [of "unat b" bs] by (simp add: be_value_def)
  show "be_value (replicate n 0 @ bs) = be_value bs"
    by (induction n) (simp_all add: cons)
qed

lemma be_value_less: "be_value bs < 256 ^ length bs"
proof (induction bs)
  case (Cons b bs)
  have "unat b < 2 ^ 8" using unsigned_less [of b, where ?'a = nat] by simp
  then have "unat b \<le> 255" by simp
  then have "unat b * 256 ^ length bs \<le> 255 * 256 ^ length bs" by (rule mult_right_mono) simp
  with Cons show ?case unfolding be_value_simps length_Cons power_Suc by linarith
qed simp

lemma first_set_bit_bounds:
  assumes "\<exists>b\<in>set bytes. b \<noteq> 0" and "length bytes = 32"
  shows "2 ^ first_set_bit 0 bytes \<le> be_value bytes \<and> be_value bytes < 2 * 2 ^ first_set_bit 0 bytes"
proof -
  obtain n b rest where bytes: "bytes = replicate n 0 @ b # rest" "b \<noteq> 0"
    and idx: "first_set_bit 0 bytes = 255 - ((0 + n) * 8 + leading_zeros b)"
    using first_set_bit_split [OF assms(1), of 0] by blast
  let ?m = "length rest" and ?l = "leading_zeros b"
  have lz: "?l < 8" by (rule highest_bit(1) [OF bytes(2)])
  have "n + ?m = 31" using assms(2) bytes by simp
  then have "first_set_bit 0 bytes = 8 * ?m + (7 - ?l)" using idx lz by auto
  then have shell: "2 ^ first_set_bit 0 bytes = 2 ^ (7 - ?l) * (256 :: nat) ^ ?m"
    by (simp only: power_add power_mult) simp
  have "8 - ?l = Suc (7 - ?l)" using lz by simp
  then have top: "unat b + 1 \<le> 2 * 2 ^ (7 - ?l)"
    using leading_zeros_bounds(2) [OF bytes(2)] by simp
  have "2 ^ (7 - ?l) * 256 ^ ?m \<le> unat b * 256 ^ ?m"
    by (rule mult_right_mono [OF leading_zeros_bounds(1) [OF bytes(2)]]) simp
  moreover have "(unat b + 1) * 256 ^ ?m \<le> (2 * 2 ^ (7 - ?l)) * 256 ^ ?m"
    by (rule mult_right_mono [OF top]) simp
  moreover have "be_value bytes = unat b * 256 ^ ?m + be_value rest" by (simp add: bytes)
  moreover note be_value_less [of rest]
  ultimately show ?thesis unfolding shell add_mult_distrib mult.assoc by linarith
qed

lemma bucket_index_shell:
  assumes "a \<noteq> b"
  shows "2 ^ bucket_index a b \<le> be_value (as_bytes (xor_distance a b)) \<and>
    be_value (as_bytes (xor_distance a b)) < 2 * 2 ^ bucket_index a b"
  unfolding bucket_index_def xor_distance_def
  by (rule first_set_bit_bounds [OF nonzero_byte [OF assms]]) simp

text \<open>
  A contact from the bucket of the target is strictly closer to the target than the local node: it
  agrees with the target on the bit where the local node first differs.
\<close>

lemma lexord_prefix: "a < b \<Longrightarrow> xs @ a # as < xs @ b # (bs :: 'a::order list)"
  by (induction xs) auto

lemma same_first_set_bit:
  assumes "length xs = 32" "length ys = 32" "\<exists>x\<in>set xs. x \<noteq> 0" "\<exists>y\<in>set ys. y \<noteq> 0"
    and "first_set_bit 0 xs = first_set_bit 0 ys"
  shows "map2 (XOR) xs ys < ys"
proof -
  obtain n b xs' where xs: "xs = replicate n 0 @ b # xs'" "b \<noteq> 0"
    "first_set_bit 0 xs = 255 - ((0 + n) * 8 + leading_zeros b)"
    using first_set_bit_split [OF assms(3)] by metis
  obtain m c ys' where ys: "ys = replicate m 0 @ c # ys'" "c \<noteq> 0"
    "first_set_bit 0 ys = 255 - ((0 + m) * 8 + leading_zeros c)"
    using first_set_bit_split [OF assms(4)] by metis
  have lz: "leading_zeros b < 8" "leading_zeros c < 8" using highest_bit(1) xs(2) ys(2) by auto
  moreover have "n \<le> 31" "m \<le> 31" using assms(1,2) xs(1) ys(1) by auto
  ultimately have "n * 8 + leading_zeros b = m * 8 + leading_zeros c"
    using assms(5) xs(3) ys(3) by simp
  then have "n = m" "leading_zeros b = leading_zeros c" using lz by presburger+
  with xs(1,2) ys(1,2) have "map2 (XOR) xs ys = replicate m 0 @ (b XOR c) # map2 (XOR) xs' ys'"
    by (simp add: map2_map_map zip_replicate)
  moreover have "b XOR c < c"
    by (rule xor_same_leading_zeros) (fact xs ys \<open>leading_zeros b = leading_zeros c\<close>)+
  ultimately show ?thesis by (simp add: ys(1) lexord_prefix)
qed

lemma bucket_progress:
  assumes "me \<noteq> peer" "me \<noteq> target" "bucket_index me peer = bucket_index me target"
  shows "xor_distance peer target < xor_distance me target"
proof -
  have "map2 (XOR) (as_bytes (xor_bytes me peer)) (as_bytes (xor_bytes me target))
      < as_bytes (xor_bytes me target)"
    using assms nonzero_byte
    by (intro same_first_set_bit) (simp_all add: bucket_index_def xor_distance_def del: as_bytes_xor)
  moreover have "xor_bytes (xor_bytes me peer) (xor_bytes me target) = xor_bytes peer target"
    by (metis xor_bytes_assoc xor_bytes_commute xor_bytes_self xor_bytes_zero)
  ultimately show ?thesis
    unfolding xor_distance_def less_bytes_def by (metis as_bytes_xor)
qed

section \<open>The invariant of the table\<close>

definition contacts_wf :: "NodeId \<Rightarrow> SignedAnnouncement list \<Rightarrow> bool" where
  "contacts_wf me contacts \<longleftrightarrow> distinct (map contact_id contacts) \<and> me \<notin> contact_id ` set contacts"

definition bucket_wf :: "NodeId \<Rightarrow> usize \<Rightarrow> nat \<Rightarrow> SignedAnnouncement list \<Rightarrow> bool" where
  "bucket_wf me k i bucket \<longleftrightarrow> contacts_wf me bucket \<and> length bucket \<le> k
     \<and> (\<forall>c\<in>set bucket. bucket_index me (contact_id c) = i)"

definition table_wf :: "DhtTable \<Rightarrow> bool" where
  "table_wf t \<longleftrightarrow> length (dt_buckets t) = 256 \<and> 1 \<le> dt_k t
     \<and> (\<forall>i<256. bucket_wf (dt_local t) (dt_k t) i (dt_buckets t ! i))
     \<and> contacts_wf (dt_local t) (dt_replacements t) \<and> length (dt_replacements t) \<le> dt_replacement_limit t
     \<and> contacts_wf (dt_local t) (dt_protected t) \<and> length (dt_protected t) \<le> 16"

lemma refresh_None_iff: "refresh xs c = None \<longleftrightarrow> contact_id c \<notin> contact_id ` set xs"
proof -
  have "refresh xs c = None \<longleftrightarrow> find (\<lambda>item. contact_id item = contact_id c) xs = None"
    by (cases "find (\<lambda>item. contact_id item = contact_id c) xs") (auto simp: refresh_def)
  also have "\<dots> \<longleftrightarrow> contact_id c \<notin> contact_id ` set xs"
    unfolding find_None_iff_all image_iff by metis
  finally show ?thesis .
qed

lemma refresh_SomeD:
  assumes "refresh xs c = Some (ys, updated)"
  shows "map contact_id ys = map contact_id xs" and "set ys \<subseteq> insert c (set xs)"
    and "updated \<Longrightarrow> c \<in> set ys" and "\<not> updated \<Longrightarrow> ys = xs"
proof -
  let ?same = "\<lambda>item. contact_id item = contact_id c"
  obtain existing where found: "find ?same xs = Some existing"
    using assms by (cases "find ?same xs") (simp_all add: refresh_def)
  then have ys: "(ys, updated) = (if fresher (sa_record existing) (sa_record c)
      then (replace_first ?same c xs, True) else (xs, False))"
    using assms by (simp add: refresh_def split: if_splits)
  show "map contact_id ys = map contact_id xs"
    using ys by (simp add: map_key_replace_first split: if_splits)
  show "set ys \<subseteq> insert c (set xs)"
    using ys set_replace_first [of ?same c xs] by (simp split: if_splits) blast
  show "updated \<Longrightarrow> c \<in> set ys" "\<not> updated \<Longrightarrow> ys = xs"
    using ys found in_replace_first [of ?same xs c] by (simp_all split: if_splits)
qed

lemma ids_image: "contact_id ` set xs = set (map contact_id xs)"
  by simp

lemma refresh_wf:
  assumes "refresh xs c = Some (ys, updated)"
  shows "contacts_wf me xs \<Longrightarrow> contacts_wf me ys" and "length ys = length xs"
    and "bucket_wf me k i xs \<Longrightarrow> bucket_wf me k i ys"
proof -
  note ids = refresh_SomeD(1) [OF assms]
  show contacts: "contacts_wf me xs \<Longrightarrow> contacts_wf me ys" unfolding contacts_wf_def ids_image ids .
  show len: "length ys = length xs" using ids map_eq_imp_length_eq by blast
  have "(\<forall>c\<in>set zs. bucket_index me (contact_id c) = i) \<longleftrightarrow> (\<forall>n\<in>set (map contact_id zs). bucket_index me n = i)" for zs
    by simp
  then show "bucket_wf me k i xs \<Longrightarrow> bucket_wf me k i ys"
    using contacts len ids unfolding bucket_wf_def by metis
qed

lemma contacts_wf_snoc:
  "contacts_wf me xs \<Longrightarrow> contact_id c \<notin> contact_id ` set xs \<Longrightarrow> contact_id c \<noteq> me \<Longrightarrow> contacts_wf me (xs @ [c])"
  by (auto simp: contacts_wf_def)

lemma contacts_wf_remove_at: "contacts_wf me xs \<Longrightarrow> contacts_wf me (remove_at i xs)"
  using set_remove_at [of i xs] by (auto simp: contacts_wf_def map_remove_at distinct_remove_at)

lemma contacts_wf_filter: "contacts_wf me xs \<Longrightarrow> contacts_wf me (filter p xs)"
  by (auto simp: contacts_wf_def distinct_map_filter)

lemma contacts_wf_sort: "contacts_wf me (sort_key f xs) \<longleftrightarrow> contacts_wf me xs"
  by (auto simp: contacts_wf_def distinct_map)

lemma contacts_wf_update:
  assumes "contacts_wf me xs" "contact_id c \<notin> contact_id ` set xs" "contact_id c \<noteq> me"
  shows "contacts_wf me (xs[i := c])"
  using assms set_update_subset_insert [of xs i c]
  by (auto simp: contacts_wf_def map_update intro!: distinct_list_update)

lemma table_wf_add_replacement:
  assumes "table_wf t" "contact_id c \<noteq> dt_local t"
  shows "table_wf (fst (add_replacement t c))"
proof (cases "refresh (dt_replacements t) c")
  case (Some r)
  with assms show ?thesis
    by (cases r) (auto simp: add_replacement_def table_wf_def refresh_wf)
next
  case None
  with assms have "contacts_wf (dt_local t) (dt_replacements t @ [c])"
    by (intro contacts_wf_snoc) (simp_all add: table_wf_def refresh_None_iff)
  with None assms show ?thesis
    by (auto simp: add_replacement_def table_wf_def Let_def contacts_wf_remove_at length_remove_at)
qed

lemma table_wf_bucket:
  assumes "table_wf t" "bucket_wf (dt_local t) (dt_k t) i b"
  shows "table_wf (t\<lparr>dt_buckets := (dt_buckets t)[i := b]\<rparr>)"
  using assms by (cases "i < 256") (auto simp: table_wf_def nth_list_update list_update_beyond)

lemma victim_Some:
  assumes "victim bucket source = Some i"
  shows "i < length bucket" and "address_prefix (bucket ! i) \<noteq> source"
    and "\<forall>c\<in>set bucket. address_prefix c \<noteq> source \<longrightarrow>
      pr_announced_at (sa_record (bucket ! i)) \<le> pr_announced_at (sa_record c)"
proof -
  obtain item where "min_by_key (\<lambda>(_, item). pr_announced_at (sa_record item))
      (filter (\<lambda>(_, item). address_prefix item \<noteq> source) (enumerate 0 bucket)) = Some (i, item)"
    using assms by (auto simp: victim_def)
  note found = min_by_key_SomeD [OF this]
  then show i: "i < length bucket" and "address_prefix (bucket ! i) \<noteq> source"
    by (auto simp: in_set_enumerate_eq)
  have item: "item = bucket ! i" using found by (auto simp: in_set_enumerate_eq)
  show "\<forall>c\<in>set bucket. address_prefix c \<noteq> source \<longrightarrow>
      pr_announced_at (sa_record (bucket ! i)) \<le> pr_announced_at (sa_record c)"
  proof (intro ballI impI)
    fix c assume "c \<in> set bucket" and other: "address_prefix c \<noteq> source"
    then obtain j where "j < length bucket" "c = bucket ! j" by (auto simp: in_set_conv_nth)
    then have "(j, c) \<in> set (filter (\<lambda>(_, item). address_prefix item \<noteq> source) (enumerate 0 bucket))"
      using other by (auto simp: in_set_enumerate_eq)
    with found item show "pr_announced_at (sa_record (bucket ! i)) \<le> pr_announced_at (sa_record c)"
      by (metis (no_types, lifting) case_prod_conv)
  qed
qed

lemma table_wf_insert:
  assumes "table_wf t"
  shows "table_wf (fst (DhtTable_insert t c now))"
proof -
  let ?i = "bucket_index (dt_local t) (contact_id c)" let ?b = "dt_buckets t ! ?i"
  have wf: "bucket_wf (dt_local t) (dt_k t) ?i ?b"
    using assms bucket_index_le [of "dt_local t" "contact_id c"] by (simp add: table_wf_def)
  have push: "bucket_wf (dt_local t) (dt_k t) ?i (?b @ [c])"
    if "length ?b < dt_k t" "refresh ?b c = None" "contact_id c \<noteq> dt_local t"
    using wf that by (auto simp: bucket_wf_def refresh_None_iff contacts_wf_snoc)
  have swap: "bucket_wf (dt_local t) (dt_k t) ?i (?b[j := c])"
    if "refresh ?b c = None" "contact_id c \<noteq> dt_local t" for j
    using wf that set_update_subset_insert [of ?b j c]
    by (auto simp: bucket_wf_def refresh_None_iff contacts_wf_update)
  have prot: "table_wf (t\<lparr>dt_protected := ys\<rparr>)" if "refresh (dt_protected t) c = Some (ys, u)" for ys u
    using assms refresh_wf [OF that] by (simp add: table_wf_def)
  have old: "table_wf (t\<lparr>dt_buckets := (dt_buckets t)[?i := ys]\<rparr>)" if "refresh ?b c = Some (ys, u)" for ys u
    by (rule table_wf_bucket [OF assms refresh_wf(3) [OF that wf]])
  show ?thesis
    unfolding DhtTable_insert_def Let_def
    using assms
    by (simp add: prot old push swap table_wf_bucket table_wf_add_replacement
        split: option.split prod.split)
qed

lemma table_wf_protect:
  assumes "table_wf t"
  shows "table_wf (fst (DhtTable_protect t c now))"
proof (cases "refresh (dt_protected t) c")
  case (Some r)
  with assms show ?thesis
    by (cases r) (auto simp: DhtTable_protect_def table_wf_def refresh_wf)
next
  case None
  let ?sorted = "remove_at 0 (sort_key (\<lambda>item. pr_expires_at (sa_record item)) (dt_protected t))"
  have "set ?sorted \<subseteq> set (dt_protected t)"
    using set_remove_at [of 0 "sort_key (\<lambda>item. pr_expires_at (sa_record item)) (dt_protected t)"] by simp
  moreover have "contact_id c \<notin> contact_id ` set (dt_protected t)" using None by (simp add: refresh_None_iff)
  ultimately have "contacts_wf (dt_local t) (?sorted @ [c])" "contacts_wf (dt_local t) (dt_protected t @ [c])"
    if "contact_id c \<noteq> dt_local t"
    using that assms
    by (auto simp: table_wf_def contacts_wf_remove_at contacts_wf_sort intro!: contacts_wf_snoc)
  with None assms show ?thesis
    by (auto simp: DhtTable_protect_def table_wf_def length_remove_at)
qed

lemma table_wf_expire: "table_wf t \<Longrightarrow> table_wf (DhtTable_expire t now)"
  by (auto simp: DhtTable_expire_def table_wf_def bucket_wf_def contacts_wf_filter
      intro: order.trans [OF length_filter_le])

lemma table_wf_new: "table_wf (DhtTable_new me k limit)"
  by (auto simp: DhtTable_new_def table_wf_def bucket_wf_def contacts_wf_def)

text \<open>The operations that change a table, as one step.\<close>

datatype table_op = Op_insert SignedAnnouncement u64 | Op_protect SignedAnnouncement u64 | Op_expire u64

fun table_step :: "table_op \<Rightarrow> DhtTable \<Rightarrow> DhtTable" where
  "table_step (Op_insert c now) t = fst (DhtTable_insert t c now)"
| "table_step (Op_protect c now) t = fst (DhtTable_protect t c now)"
| "table_step (Op_expire now) t = DhtTable_expire t now"

interpretation dht_table: step_system table_step table_wf
proof unfold_locales
  show "table_wf s \<Longrightarrow> table_wf (table_step op s)" for s op
    by (cases op) (simp_all add: table_wf_insert table_wf_protect table_wf_expire)
qed

section \<open>Lookups\<close>

lemma xor_distance_inject: "xor_distance x t = xor_distance y t \<longleftrightarrow> x = y"
  by (simp add: xor_distance_def xor_bytes_cancel_right)

abbreviation distance_to :: "DhtKey \<Rightarrow> SignedAnnouncement \<Rightarrow> 32 bytes" where
  "distance_to target c \<equiv> xor_distance (contact_id c) target"

text \<open>All live contacts in order of distance, one for each identity.\<close>

definition ranked :: "DhtTable \<Rightarrow> DhtKey \<Rightarrow> u64 \<Rightarrow> SignedAnnouncement list" where
  "ranked t target now = dedup_by_key contact_id (sort_key (distance_to target) (live_contacts t now))"

lemma closest_ranked: "DhtTable_closest t target limit now = take limit (ranked t target now)"
  by (simp add: DhtTable_closest_def ranked_def)

lemma ranked_props:
  shows "sorted (map (distance_to target) (ranked t target now))"
    and "distinct (map contact_id (ranked t target now))"
    and "set (ranked t target now) \<subseteq> set (live_contacts t now)"
    and "contact_id ` set (ranked t target now) = contact_id ` set (live_contacts t now)"
proof -
  let ?xs = "sort_key (distance_to target) (live_contacts t now)"
  show "sorted (map (distance_to target) (ranked t target now))"
    unfolding ranked_def by (rule sorted_dedup_by_key) simp
  show "distinct (map contact_id (ranked t target now))"
    unfolding ranked_def
    by (rule distinct_dedup_by_key [where g = "distance_to target"]) (simp_all add: xor_distance_inject)
  show "set (ranked t target now) \<subseteq> set (live_contacts t now)"
    using set_dedup_by_key [of contact_id ?xs] by (simp add: ranked_def)
  show "contact_id ` set (ranked t target now) = contact_id ` set (live_contacts t now)"
    using keys_dedup_by_key [of contact_id ?xs] by (simp add: ranked_def)
qed

lemma ranked_strict: "sorted_wrt (<) (map (distance_to target) (ranked t target now))"
proof -
  have "distinct (map (\<lambda>n. xor_distance n target) (map contact_id (ranked t target now)))"
    using ranked_props(2) by (subst distinct_map) (auto simp: xor_distance_inject intro: inj_onI)
  then have "distinct (map (distance_to target) (ranked t target now))" by (simp add: comp_def)
  with ranked_props(1) show ?thesis by (simp add: strict_sorted_iff)
qed

lemma sorted_wrt_take_drop:
  "sorted_wrt P xs \<Longrightarrow> x \<in> set (take n xs) \<Longrightarrow> y \<in> set (drop n xs) \<Longrightarrow> P x y"
  using sorted_wrt_append [of P "take n xs" "drop n xs"] by simp

lemma closest_nearest:
  assumes "c \<in> set (live_contacts t now)"
    and "contact_id c \<notin> contact_id ` set (DhtTable_closest t target limit now)"
  shows "length (DhtTable_closest t target limit now) = limit"
    and "\<forall>r\<in>set (DhtTable_closest t target limit now). distance_to target r < distance_to target c"
proof -
  let ?r = "ranked t target now"
  obtain d where d: "d \<in> set ?r" "contact_id d = contact_id c"
    using assms(1) ranked_props(4) [of t target now] by (metis (no_types, lifting) imageE imageI)
  then have "d \<notin> set (take limit ?r)"
    using assms(2) image_eqI [of "contact_id c" contact_id d] unfolding closest_ranked by metis
  then have drop: "d \<in> set (drop limit ?r)"
    using d(1) append_take_drop_id [of limit ?r] by (metis Un_iff set_append)
  then have "limit < length ?r" by (metis drop_all empty_iff list.set(1) not_less)
  then show "length (DhtTable_closest t target limit now) = limit" by (simp add: closest_ranked)
  have "sorted_wrt (\<lambda>x y. distance_to target x < distance_to target y) ?r"
    using ranked_strict [of target t now] by (simp add: sorted_wrt_map)
  from sorted_wrt_take_drop [OF this _ drop]
  show "\<forall>r\<in>set (DhtTable_closest t target limit now). distance_to target r < distance_to target c"
    by (simp add: closest_ranked d(2))
qed

section \<open>Diverse selection\<close>

text \<open>The first element of each key, in order.\<close>

fun firsts :: "('a \<Rightarrow> 's) \<Rightarrow> 's set \<Rightarrow> 'a list \<Rightarrow> 'a list" where
  "firsts key seen [] = []"
| "firsts key seen (x # xs) =
     (if key x \<in> seen then firsts key seen xs else x # firsts key (insert (key x) seen) xs)"

lemma keys_firsts: "key ` set (firsts key seen xs) = key ` set xs - seen"
  by (induction key seen xs rule: firsts.induct) auto

lemma distinct_firsts: "distinct (map key (firsts key seen xs))"
  by (induction key seen xs rule: firsts.induct) (simp_all add: keys_firsts)

lemma set_firsts: "set (firsts key seen xs) \<subseteq> set xs"
  by (induction key seen xs rule: firsts.induct) auto

lemma select_sources_eq:
  "select_sources key limit sources selected xs =
     selected @ take (limit - length selected) (firsts key sources xs)"
  by (induction key limit sources selected xs rule: select_sources.induct)
    (auto simp: Suc_diff_Suc take_Cons' not_le)

lemma select_rest_eq:
  assumes "distinct (map id_of xs)"
  shows "select_rest id_of limit selected xs =
    selected @ take (limit - length selected) (filter (\<lambda>x. id_of x \<notin> id_of ` set selected) xs)"
  using assms
proof (induction id_of limit selected xs rule: select_rest.induct)
  case (2 id_of limit selected x xs)
  have other: "id_of y \<noteq> id_of x" if "y \<in> set xs" for y
    using "2.prems" that by (metis distinct.simps(2) image_eqI list.simps(9) set_map)
  let ?old = "\<exists>y\<in>set selected. id_of y = id_of x"
  have old: "?old \<longleftrightarrow> id_of x \<in> id_of ` set selected" by (metis image_iff)
  have "filter (\<lambda>y. id_of y \<notin> id_of ` set (selected @ [x])) xs
      = filter (\<lambda>y. id_of y \<notin> id_of ` set selected) xs"
    using other by (intro filter_cong) simp_all
  with 2 old show ?case
    by (cases "limit \<le> length selected"; cases ?old) (simp_all add: take_Cons')
qed simp

definition diverse :: "('a \<Rightarrow> 's) \<Rightarrow> ('a \<Rightarrow> 'i) \<Rightarrow> usize \<Rightarrow> 'a list \<Rightarrow> 'a list" where
  "diverse key id_of limit xs = select_rest id_of limit (select_sources key limit {} [] xs) xs"

lemma diverse_eq:
  assumes "distinct (map id_of xs)"
  shows "diverse key id_of limit xs = take limit (firsts key {} xs) @
    take (limit - length (take limit (firsts key {} xs)))
      (filter (\<lambda>x. id_of x \<notin> id_of ` set (take limit (firsts key {} xs))) xs)"
  by (simp add: diverse_def select_sources_eq select_rest_eq [OF assms])

lemma length_filter_not_in:
  assumes "distinct (map f xs)" "distinct (map f as)" "set as \<subseteq> set xs"
  shows "length (filter (\<lambda>x. f x \<notin> f ` set as) xs) = length xs - length as"
proof -
  have "set (filter (\<lambda>x. f x \<in> f ` set as) xs) = set as"
    using assms inj_on_image_mem_iff [of f "set xs" _ "set as"] by (auto simp: distinct_map)
  moreover have "distinct (filter (\<lambda>x. f x \<in> f ` set as) xs)" "distinct as"
    using assms by (simp_all add: distinct_map)
  ultimately have "length (filter (\<lambda>x. f x \<in> f ` set as) xs) = length as"
    by (metis distinct_card)
  then show ?thesis using sum_length_filter_compl [of "\<lambda>x. f x \<in> f ` set as" xs] by simp
qed

lemma diverse_props:
  assumes ids: "distinct (map id_of xs)"
  shows "set (diverse key id_of limit xs) \<subseteq> set xs"
    and "distinct (map id_of (diverse key id_of limit xs))"
    and "length (diverse key id_of limit xs) = min limit (length xs)"
    and "card (key ` set xs) \<le> limit \<Longrightarrow> key ` set (diverse key id_of limit xs) = key ` set xs"
    and "limit \<le> card (key ` set xs) \<Longrightarrow> distinct (map key (diverse key id_of limit xs))"
proof -
  define A where "A = take limit (firsts key {} xs)"
  define B where "B = filter (\<lambda>x. id_of x \<notin> id_of ` set A) xs"
  have eq: "diverse key id_of limit xs = A @ take (limit - length A) B"
    by (simp add: diverse_eq [OF ids] A_def B_def)
  have card: "card (key ` set xs) = length (firsts key {} xs)"
    using keys_firsts [of key "{}" xs] distinct_card [OF distinct_firsts [of key "{}" xs]] by simp
  have A: "set A \<subseteq> set xs" "distinct (map key A)" "length A \<le> limit"
    using set_firsts [of key "{}" xs] set_take_subset [of limit "firsts key {} xs"]
      distinct_firsts [of key "{}" xs] by (auto simp: A_def take_map [symmetric] distinct_take)
  have "distinct A" using A(2) by (simp add: distinct_map)
  then have ids_A: "distinct (map id_of A)"
    using ids A(1) by (auto simp: distinct_map intro: inj_on_subset)
  have "length A \<le> length xs" using \<open>distinct A\<close> A(1) ids
    by (metis card_mono distinct_card distinct_map finite_set)
  moreover have len: "length B = length xs - length A"
    unfolding B_def by (rule length_filter_not_in [OF ids ids_A A(1)])
  ultimately show "length (diverse key id_of limit xs) = min limit (length xs)"
    using A(3) by (simp add: eq)
  have in_B: "x \<in> set xs" "id_of x \<notin> id_of ` set A" if "x \<in> set (take n B)" for n x
    using that set_take_subset [of n B] by (auto simp: B_def)
  have B: "id_of ` set A \<inter> id_of ` set (take n B) = {}" for n
  proof (rule Int_emptyI)
    fix y assume "y \<in> id_of ` set A" "y \<in> id_of ` set (take n B)"
    then obtain x where "x \<in> set (take n B)" "id_of x \<in> id_of ` set A" by (metis imageE)
    with in_B(2) show False by simp
  qed
  show sub: "set (diverse key id_of limit xs) \<subseteq> set xs" using A(1) in_B(1) by (auto simp: eq)
  have "distinct (map id_of (take n B))" for n
    using ids by (simp add: B_def distinct_map_filter take_map [symmetric])
  then show "distinct (map id_of (diverse key id_of limit xs))" using ids_A B by (simp add: eq)
  show "key ` set (diverse key id_of limit xs) = key ` set xs" if "card (key ` set xs) \<le> limit"
    using that card keys_firsts [of key "{}" xs] sub by (auto simp: eq A_def)
  show "distinct (map key (diverse key id_of limit xs))" if "limit \<le> card (key ` set xs)"
    using that card A(2) by (simp add: eq A_def)
qed

lemma closest_diverse_eq:
  "DhtTable_closest_diverse t target limit now =
     diverse address_prefix contact_id limit (DhtTable_closest t target usize_max now)"
  by (simp add: DhtTable_closest_diverse_def diverse_def Let_def)

lemma distinct_closest: "distinct (map contact_id (DhtTable_closest t target limit now))"
  using ranked_props(2) by (simp add: closest_ranked take_map [symmetric])

section \<open>Source prefixes and freshness\<close>

lemma same_source_append [simp]: "same_source (xs @ ys) p = same_source xs p + same_source ys p"
  by (simp add: same_source_def)

lemma same_source_update:
  assumes "i < length xs"
  shows "same_source (xs[i := c]) p + (if address_prefix (xs ! i) = p then 1 else 0)
    = same_source xs p + (if address_prefix c = p then 1 else 0)"
proof -
  have "xs = take i xs @ xs ! i # drop (Suc i) xs" by (rule id_take_nth_drop [OF assms])
  moreover have "xs[i := c] = take i xs @ c # drop (Suc i) xs" by (rule upd_conv_take_nth_drop [OF assms])
  ultimately have "same_source (xs[i := c]) p = same_source (take i xs @ c # drop (Suc i) xs) p"
    "same_source xs p = same_source (take i xs @ xs ! i # drop (Suc i) xs) p" by simp_all
  then show ?thesis by (simp add: same_source_def)
qed

text \<open>What an insertion of an unknown contact does to its bucket.\<close>

lemma insert_unknown_bucket:
  assumes "table_wf t" and unknown: "refresh (dt_buckets t ! bucket_index (dt_local t) (contact_id c)) c = None"
    and i: "i = bucket_index (dt_local t) (contact_id c)" and b: "b = dt_buckets t ! i"
    and b': "b' = dt_buckets (fst (DhtTable_insert t c now)) ! i"
  shows "b' = b \<or> (b' = b @ [c] \<and> same_source b (address_prefix c) < MAX_CONTACTS_PER_SOURCE_PREFIX)
    \<or> (\<exists>j. victim b (address_prefix c) = Some j \<and> b' = b[j := c]
         \<and> same_source b (address_prefix c) < (dt_k t + 1) div 2)"
proof -
  have "i < length (dt_buckets t)" using assms(1) i by (simp add: table_wf_def bucket_index_less)
  moreover have "dt_buckets (fst (add_replacement t c)) = dt_buckets t"
    by (auto simp: add_replacement_def Let_def split: option.split)
  ultimately show ?thesis
    using unknown unfolding b' b i DhtTable_insert_def Let_def
    by (auto split: option.split)
qed

lemma insert_other_bucket:
  assumes "i \<noteq> bucket_index (dt_local t) (contact_id c)"
  shows "dt_buckets (fst (DhtTable_insert t c now)) ! i = dt_buckets t ! i"
proof -
  have "dt_buckets (fst (add_replacement t c)) = dt_buckets t"
    by (auto simp: add_replacement_def Let_def split: option.split)
  then show ?thesis using assms unfolding DhtTable_insert_def Let_def by (auto split: option.split)
qed

lemma fresher_refl [simp]: "fresher r r"
  by (simp add: fresher_def)

lemma same_id_eq: "distinct (map contact_id xs) \<Longrightarrow> x \<in> set xs \<Longrightarrow> y \<in> set xs \<Longrightarrow> contact_id x = contact_id y \<Longrightarrow> x = y"
  by (auto simp: distinct_map dest: inj_onD)

lemma refresh_fresher:
  assumes "refresh xs c = Some (ys, updated)" "distinct (map contact_id xs)"
    and old: "old \<in> set xs" and new: "new \<in> set ys" and same: "contact_id old = contact_id new"
  shows "fresher (sa_record old) (sa_record new)"
proof (cases updated)
  case False
  then show ?thesis using refresh_SomeD(4) [OF assms(1)] assms same_id_eq [of xs old new] by simp
next
  case True
  let ?same = "\<lambda>item. contact_id item = contact_id c"
  obtain e where e: "find ?same xs = Some e" "fresher (sa_record e) (sa_record c)"
    using assms(1) True by (auto simp: refresh_def split: option.splits if_splits)
  then have "e \<in> set xs" "contact_id e = contact_id c"
    using find_Some_iff_in [OF e(1)] by simp_all
  moreover have "new = c \<or> new \<in> set xs" using refresh_SomeD(2) [OF assms(1)] new by blast
  ultimately show ?thesis
    using e(2) old same same_id_eq [OF assms(2)] by (metis fresher_refl)
qed

lemma insert_bucket_cases:
  assumes "table_wf t" and i: "i = bucket_index (dt_local t) (contact_id c)" and b: "b = dt_buckets t ! i"
    and b': "b' = dt_buckets (fst (DhtTable_insert t c now)) ! i"
  shows "b' = b \<or> (\<exists>u. refresh b c = Some (b', u)) \<or> (refresh b c = None \<and> set b' \<subseteq> insert c (set b))"
proof (cases "refresh b c")
  case None
  then show ?thesis
    using insert_unknown_bucket [OF assms(1) _ i b b'] i b set_update_subset_insert [of b _ c] by auto
next
  case (Some r)
  have "i < length (dt_buckets t)" using assms(1) i by (simp add: table_wf_def bucket_index_less)
  with Some show ?thesis
    unfolding b' b i DhtTable_insert_def Let_def by (cases r) (auto split: option.split)
qed

lemma insert_protected_ids:
  "contact_id ` set (dt_protected (fst (DhtTable_insert t c now))) = contact_id ` set (dt_protected t)"
proof -
  have same: "dt_protected (fst (add_replacement t c)) = dt_protected t"
    by (auto simp: add_replacement_def Let_def split: option.split)
  have "contact_id ` set ys = contact_id ` set (dt_protected t)" if "refresh (dt_protected t) c = Some (ys, u)" for ys u
    unfolding ids_image refresh_SomeD(1) [OF that] ..
  then show ?thesis unfolding DhtTable_insert_def Let_def by (auto simp: same split: option.split)
qed

lemma table_step_static:
  "dt_local (table_step op t) = dt_local t \<and> dt_k (table_step op t) = dt_k t
     \<and> dt_replacement_limit (table_step op t) = dt_replacement_limit t"
  by (cases op) (auto simp: DhtTable_insert_def DhtTable_protect_def DhtTable_expire_def add_replacement_def
      Let_def split: option.split)

lemma table_run_static:
  "dt_k (fold table_step ops t) = dt_k t
     \<and> dt_replacement_limit (fold table_step ops t) = dt_replacement_limit t"
  by (induction ops arbitrary: t) (simp_all add: table_step_static)

lemma table_wf_contacts:
  assumes "table_wf t"
  shows "sum_list (map length (dt_buckets t)) \<le> 256 * dt_k t"
proof -
  have "length (dt_buckets t) = 256" "\<forall>b\<in>set (dt_buckets t). length b \<le> dt_k t"
    using assms by (auto simp: table_wf_def bucket_wf_def in_set_conv_nth)
  then show ?thesis using sum_list_mono [of "dt_buckets t" length "\<lambda>_. dt_k t"]
    by (simp add: sum_list_triv)
qed

section \<open>Properties\<close>

text \<open>The distance to any other node lies in the dyadic shell its bucket stands for, so the 256
  buckets cut the identity space by the highest differing bit.\<close>

theorem bucket_index_is_log_distance:
  assumes "a \<noteq> b"
  shows "bucket_index a b < 256 \<and> 2 ^ bucket_index a b \<le> be_value (as_bytes (xor_distance a b)) \<and>
    be_value (as_bytes (xor_distance a b)) < 2 * 2 ^ bucket_index a b"
  using bucket_index_shell [OF assms] bucket_index_less by blast

text \<open>Kademlia progress. A contact taken from the bucket of the target is strictly closer to the
  target than the node that asks.\<close>

theorem bucket_contact_is_closer:
  assumes "me \<noteq> peer" and "me \<noteq> target" and "bucket_index me peer = bucket_index me target"
  shows "xor_distance peer target < xor_distance me target"
  using assms by (rule bucket_progress)

text \<open>C23: after any sequence of insertions, protections and expirations the table has 256 buckets,
  every contact sits in the bucket of its distance, no identity twice in a list, never the local node,
  and the lists stay within their capacities.\<close>

theorem table_stays_bounded:
  "let t = fold table_step ops (DhtTable_new me k limit) in
     table_wf t \<and> dts_bucket_count (DhtTable_stats t) = 256
     \<and> dts_contacts (DhtTable_stats t) \<le> 256 * max k 1
     \<and> dts_replacement_contacts (DhtTable_stats t) \<le> limit
     \<and> dts_protected_contacts (DhtTable_stats t) \<le> 16"
proof -
  define t where "t = fold table_step ops (DhtTable_new me k limit)"
  have wf: "table_wf t"
    using dht_table.run_keeps [OF table_wf_new] unfolding t_def dht_table.run_def .
  moreover have "dt_k t = max k 1" "dt_replacement_limit t = limit"
    using table_run_static [of ops "DhtTable_new me k limit"] by (simp_all add: t_def DhtTable_new_def)
  ultimately show ?thesis
    using table_wf_contacts [OF wf] unfolding t_def [symmetric]
    by (auto simp: DhtTable_stats_def table_wf_def)
qed

text \<open>C24: \<^verbatim>\<open>closest\<close> returns live contacts, each identity once, in strictly ascending distance, and a live
  contact it leaves out is farther than all the \<open>limit\<close> contacts it returns.\<close>

theorem closest_returns_nearest:
  "let r = DhtTable_closest t target limit now in
     length r \<le> limit \<and> set r \<subseteq> set (live_contacts t now)
     \<and> sorted_wrt (\<lambda>x y. distance_to target x < distance_to target y) r
     \<and> (\<forall>c\<in>set (live_contacts t now). contact_id c \<notin> contact_id ` set r \<longrightarrow>
          length r = limit \<and> (\<forall>x\<in>set r. distance_to target x < distance_to target c))"
proof -
  let ?r = "DhtTable_closest t target limit now"
  have "sorted_wrt (\<lambda>x y. distance_to target x < distance_to target y) ?r"
    using ranked_strict [of target t now] by (simp add: closest_ranked sorted_wrt_map sorted_wrt_take)
  moreover have "set ?r \<subseteq> set (live_contacts t now)"
    using ranked_props(3) set_take_subset by (fastforce simp: closest_ranked)
  moreover have "length ?r \<le> limit" by (simp add: closest_ranked)
  ultimately show ?thesis using closest_nearest [of _ t now target limit] unfolding Let_def by blast
qed

text \<open>Contacts for the examples: identity, address and announcement time.\<close>

definition sample_contact :: "u8 \<Rightarrow> string \<Rightarrow> u64 \<Rightarrow> SignedAnnouncement" where
  "sample_contact b address announced = \<lparr>sa_record = \<lparr>pr_node_id = filled b, pr_public_key = filled b,
     pr_addresses = [address], pr_capabilities = [], pr_announced_at = announced,
     pr_expires_at = announced + 60, pr_observed_latency_ms = None\<rparr>, sa_signature = []\<rparr>"

definition sample_table :: DhtTable where
  "sample_table = fold table_step
     [Op_insert (sample_contact 0x80 ''10.0.0.1:1'' 5) 5, Op_insert (sample_contact 0x90 ''10.0.0.2:1'' 6) 6,
      Op_insert (sample_contact 3 ''10.0.1.1:1'' 7) 7] (DhtTable_new (filled 0) 20 32)"

lemma sample_table_values:
  "live_contacts sample_table 7 =
     [sample_contact 3 ''10.0.1.1:1'' 7, sample_contact 0x80 ''10.0.0.1:1'' 5, sample_contact 0x90 ''10.0.0.2:1'' 6]"
  "ranked sample_table (filled 0x81) 7 =
     [sample_contact 0x80 ''10.0.0.1:1'' 5, sample_contact 0x90 ''10.0.0.2:1'' 6, sample_contact 3 ''10.0.1.1:1'' 7]"
  "map address_prefix (ranked sample_table (filled 0x81) 7) = [0x0A0000, 0x0A0000, 0x0A0001]"
  by code_simp+

lemma sample_table_wf: "table_wf sample_table"
  using dht_table.run_keeps [OF table_wf_new] unfolding sample_table_def dht_table.run_def .

lemma sample_contact_simps [simp]:
  "contact_id (sample_contact b a n) = filled b" "sample_contact b a n = sample_contact b' a' n' \<longleftrightarrow> b = b' \<and> a = a' \<and> n = n'"
  by (auto simp: sample_contact_def)

lemma sample_table_closest:
  "DhtTable_closest sample_table (filled 0x81) 1 7 = [sample_contact 0x80 ''10.0.0.1:1'' 5]"
  "DhtTable_closest sample_table (filled 0x81) usize_max 7 = ranked sample_table (filled 0x81) 7"
  by (simp_all add: closest_ranked sample_table_values usize_max_def)

theorem closest_returns_nearest_witness:
  "DhtTable_closest sample_table (filled 0x81) 1 7 = [sample_contact 0x80 ''10.0.0.1:1'' 5]
   \<and> sample_contact 3 ''10.0.1.1:1'' 7 \<in> set (live_contacts sample_table 7)
   \<and> xor_distance (filled 0x80) (filled 0x81) < xor_distance (filled 3) (filled 0x81)"
  using closest_returns_nearest [of sample_table "filled 0x81" 1 7]
  unfolding sample_table_closest Let_def by (simp add: sample_table_values)

text \<open>The diverse lookup fills its limit whenever there are enough live identities, never repeats one,
  shows every source prefix when the limit allows it, and otherwise gives each place to another prefix.\<close>

theorem closest_diverse_spreads_sources:
  "let all = DhtTable_closest t target usize_max now; r = DhtTable_closest_diverse t target limit now in
     set r \<subseteq> set all \<and> distinct (map contact_id r) \<and> length r = min limit (length all)
     \<and> (card (address_prefix ` set all) \<le> limit \<longrightarrow> address_prefix ` set r = address_prefix ` set all)
     \<and> (limit \<le> card (address_prefix ` set all) \<longrightarrow> distinct (map address_prefix r))"
  unfolding Let_def closest_diverse_eq
  using diverse_props [OF distinct_closest [of t target usize_max now], where key = address_prefix and limit = limit]
  by blast

text \<open>An insertion of an identity the bucket does not hold never lifts a source prefix above four
  contacts or half the bucket, whichever is more.\<close>

theorem insert_caps_source_prefix:
  assumes "table_wf t" and "i = bucket_index (dt_local t) (contact_id c)"
    and "contact_id c \<notin> contact_id ` set (dt_buckets t ! i)"
  shows "same_source (dt_buckets (fst (DhtTable_insert t c now)) ! i) p \<le>
    max (same_source (dt_buckets t ! i) p) (max MAX_CONTACTS_PER_SOURCE_PREFIX ((dt_k t + 1) div 2))"
proof -
  let ?b = "dt_buckets t ! i"
  have "refresh (dt_buckets t ! bucket_index (dt_local t) (contact_id c)) c = None"
    using assms(2,3) by (simp add: refresh_None_iff)
  from insert_unknown_bucket [OF assms(1) this assms(2) refl refl, of now]
  consider "dt_buckets (fst (DhtTable_insert t c now)) ! i = ?b"
    | "dt_buckets (fst (DhtTable_insert t c now)) ! i = ?b @ [c]"
      "same_source ?b (address_prefix c) < MAX_CONTACTS_PER_SOURCE_PREFIX"
    | j where "victim ?b (address_prefix c) = Some j" "same_source ?b (address_prefix c) < (dt_k t + 1) div 2"
      "dt_buckets (fst (DhtTable_insert t c now)) ! i = ?b[j := c]" by blast
  then show ?thesis
  proof cases
    case 2
    then show ?thesis by (cases "p = address_prefix c") (auto simp: same_source_def)
  next
    case (3 j)
    then show ?thesis
      using victim_Some(1,2) [OF 3(1)] same_source_update [of j ?b c p]
      by (cases "p = address_prefix c") (auto split: if_splits)
  qed simp
qed

text \<open>An insertion never puts an older announcement in the place of a fresher one.\<close>

theorem insert_keeps_fresher:
  assumes "table_wf t" and "i < 256" and "old \<in> set (dt_buckets t ! i)"
    and "new \<in> set (dt_buckets (fst (DhtTable_insert t c now)) ! i)" and "contact_id old = contact_id new"
  shows "fresher (sa_record old) (sa_record new)"
proof -
  let ?b = "dt_buckets t ! i" and ?b' = "dt_buckets (fst (DhtTable_insert t c now)) ! i"
  have ids: "distinct (map contact_id ?b)"
    using assms(1,2) by (simp add: table_wf_def bucket_wf_def contacts_wf_def)
  have unchanged: "fresher (sa_record old) (sa_record new)" if "new \<in> set ?b"
    using same_id_eq [OF ids assms(3) that assms(5)] by simp
  show ?thesis
  proof (cases "i = bucket_index (dt_local t) (contact_id c)")
    case False
    then show ?thesis using assms(4) unchanged by (simp add: insert_other_bucket)
  next
    case True
    from insert_bucket_cases [OF assms(1) True refl refl, of now] show ?thesis
    proof (elim disjE exE conjE)
      assume "refresh ?b c = None" "set ?b' \<subseteq> insert c (set ?b)"
      then have "contact_id c \<notin> contact_id ` set ?b" "new = c \<or> new \<in> set ?b"
        using assms(4) by (auto simp: refresh_None_iff)
      then show ?thesis using assms(3,5) unchanged by (metis image_eqI)
    qed (use assms(3-5) unchanged refresh_fresher [OF _ ids] in \<open>auto\<close>)
  qed
qed

text \<open>No sequence of insertions, however long, displaces the identity of a protected contact.\<close>

theorem inserts_keep_protected:
  "contact_id ` set (dt_protected (fold (\<lambda>(c, now) t. fst (DhtTable_insert t c now)) inserts t))
     = contact_id ` set (dt_protected t)"
  by (induction inserts arbitrary: t) (simp_all add: case_prod_beta insert_protected_ids)

end
