(* ===== verification/BTree_Map.thy ===== *)
theory BTree_Map
  imports Prelude
begin

text \<open>
  The ordered map \<^verbatim>\<open>std::collections::BTreeMap\<close> as the components use it: a list of entries in strictly
  ascending key order, so that iteration visits the keys in their order. The locale \<open>map_interface\<close>
  states what the clients of a map rely on; the ordered map interprets it.
\<close>

section \<open>The interface of a map\<close>

locale map_interface =
  fixes empty :: "'m"
    and lookup :: "'m \<Rightarrow> 'k \<Rightarrow> 'v option"
    and insert :: "'k \<Rightarrow> 'v \<Rightarrow> 'm \<Rightarrow> 'm"
    and remove :: "'k \<Rightarrow> 'm \<Rightarrow> 'm"
  assumes lookup_empty: "lookup empty k = None"
    and lookup_insert: "lookup (insert k v m) k' = (if k' = k then Some v else lookup m k')"
    and lookup_remove: "lookup (remove k m) k' = (if k' = k then None else lookup m k')"
    and ext: "(\<And>k. lookup m k = lookup m' k) \<Longrightarrow> m = m'"
begin

lemma insert_overwrites: "insert k v (insert k w m) = insert k v m"
  by (rule ext) (simp add: lookup_insert)

lemma insert_commutes: "k \<noteq> k' \<Longrightarrow> insert k v (insert k' w m) = insert k' w (insert k v m)"
  by (rule ext) (simp add: lookup_insert)

lemma remove_insert: "lookup m k = None \<Longrightarrow> remove k (insert k v m) = m"
  by (rule ext) (simp add: lookup_insert lookup_remove)

lemma insert_same: "lookup m k = Some v \<Longrightarrow> insert k v m = m"
  by (rule ext) (simp add: lookup_insert)

end

section \<open>Ordered lists of entries\<close>

fun al_insert :: "'k::linorder \<Rightarrow> 'v \<Rightarrow> ('k \<times> 'v) list \<Rightarrow> ('k \<times> 'v) list" where
  "al_insert k v [] = [(k, v)]"
| "al_insert k v ((k', v') # xs) =
     (if k < k' then (k, v) # (k', v') # xs
      else if k = k' then (k, v) # xs
      else (k', v') # al_insert k v xs)"

fun al_retain :: "('k \<Rightarrow> 'v \<Rightarrow> 'v option) \<Rightarrow> ('k \<times> 'v) list \<Rightarrow> ('k \<times> 'v) list" where
  "al_retain f [] = []"
| "al_retain f ((k, v) # xs) =
     (case f k v of None \<Rightarrow> al_retain f xs | Some w \<Rightarrow> (k, w) # al_retain f xs)"

abbreviation ascending :: "('k::linorder \<times> 'v) list \<Rightarrow> bool" where
  "ascending xs \<equiv> sorted_wrt (<) (map fst xs)"

lemma keys_al_insert: "fst ` set (al_insert k v xs) = Set.insert k (fst ` set xs)"
  by (induction k v xs rule: al_insert.induct) auto

lemma ascending_al_insert: "ascending xs \<Longrightarrow> ascending (al_insert k v xs)"
proof (induction k v xs rule: al_insert.induct)
  case (2 k v k' v' xs)
  then have "k' < z" if "z \<in> fst ` set (al_insert k v xs)" "\<not> k < k'" "k \<noteq> k'" for z
    using that by (auto simp: keys_al_insert)
  with 2 show ?case by auto
qed simp

lemma map_of_al_insert:
  "ascending xs \<Longrightarrow> map_of (al_insert k v xs) = (map_of xs)(k \<mapsto> v)"
  by (induction k v xs rule: al_insert.induct) (auto simp: fun_upd_twist)

lemma keys_al_retain: "fst ` set (al_retain f xs) \<subseteq> fst ` set xs"
  by (induction f xs rule: al_retain.induct) (auto split: option.splits)

lemma ascending_al_retain: "ascending xs \<Longrightarrow> ascending (al_retain f xs)"
proof (induction f xs rule: al_retain.induct)
  case (2 f k v xs)
  then have "k < z" if "z \<in> fst ` set (al_retain f xs)" for z
    using that keys_al_retain [of f xs] 2 by fastforce
  with 2 show ?case by (auto split: option.splits)
qed simp

lemma map_of_al_retain:
  "ascending xs \<Longrightarrow> map_of (al_retain f xs) k = Option.bind (map_of xs k) (f k)"
proof (induction f xs rule: al_retain.induct)
  case (2 f k' v xs)
  then have "map_of xs k' = None" by (auto simp: map_of_eq_None_iff)
  with 2 show ?case by (auto split: option.splits)
qed simp

lemma al_retain_entries:
  "(k, w) \<in> set (al_retain f xs) \<longleftrightarrow> (\<exists>v. (k, v) \<in> set xs \<and> f k v = Some w)"
  by (induction f xs rule: al_retain.induct) (auto split: option.splits)

lemma ascending_filter: "ascending xs \<Longrightarrow> ascending (filter p xs)"
  by (induction xs) auto

lemma map_of_filter_key: "map_of (filter (\<lambda>e. fst e \<noteq> k) xs) = (map_of xs)(k := None)"
  by (induction xs) auto

section \<open>The map\<close>

typedef (overloaded) ('k::linorder, 'v) btree = "{xs :: ('k \<times> 'v) list. ascending xs}"
  morphisms bt_entries Abs_btree
  by (rule exI [of _ "[]"]) simp

setup_lifting type_definition_btree

lift_definition bt_new :: "('k::linorder, 'v) btree" is "[]" by simp

lift_definition bt_get :: "('k::linorder, 'v) btree \<Rightarrow> 'k \<Rightarrow> 'v option" is map_of .

lift_definition bt_insert :: "'k::linorder \<Rightarrow> 'v \<Rightarrow> ('k, 'v) btree \<Rightarrow> ('k, 'v) btree" is al_insert
  by (rule ascending_al_insert)

lift_definition bt_remove :: "'k::linorder \<Rightarrow> ('k, 'v) btree \<Rightarrow> ('k, 'v) btree"
  is "\<lambda>k. filter (\<lambda>e. fst e \<noteq> k)" by (rule ascending_filter)

lift_definition bt_retain :: "('k::linorder \<Rightarrow> 'v \<Rightarrow> 'v option) \<Rightarrow> ('k, 'v) btree \<Rightarrow> ('k, 'v) btree"
  is al_retain by (rule ascending_al_retain)

definition bt_values :: "('k::linorder, 'v) btree \<Rightarrow> 'v list" where
  "bt_values m = map snd (bt_entries m)"

definition bt_len :: "('k::linorder, 'v) btree \<Rightarrow> usize" where
  "bt_len m = length (bt_entries m)"

lemma ascending_imp_distinct: "ascending xs \<Longrightarrow> distinct (map fst xs)"
  by (induction xs) auto

lemma distinct_bt_keys: "distinct (map fst (bt_entries m))"
  by transfer (rule ascending_imp_distinct)

lemma bt_get_iff: "bt_get m k = Some v \<longleftrightarrow> (k, v) \<in> set (bt_entries m)"
  using distinct_bt_keys [of m] by (simp add: bt_get.rep_eq)

lemma ascending_map_of_inject:
  assumes "ascending xs" "ascending ys" "map_of xs = map_of ys"
  shows "xs = ys"
proof -
  have "set xs = set ys"
    using assms by (intro map_of_inject_set [THEN iffD1]) (simp_all add: ascending_imp_distinct)
  moreover from this have "map fst xs = map fst ys"
    using assms(1,2) by (intro sorted_distinct_set_unique) (auto simp: strict_sorted_iff)
  ultimately show ?thesis
    using assms(1,2) by (intro map_inj_on [of fst])
      (auto intro!: inj_onI dest: eq_key_imp_eq_value [OF ascending_imp_distinct])
qed

interpretation bt: map_interface bt_new bt_get bt_insert bt_remove
proof unfold_locales
  show "(\<And>k. bt_get m k = bt_get m' k) \<Longrightarrow> m = m'" for m m' :: "('a, 'b) btree"
    by transfer (auto intro!: ascending_map_of_inject)
qed (transfer, simp add: map_of_al_insert map_of_filter_key)+

lemma bt_get_retain: "bt_get (bt_retain f m) k = Option.bind (bt_get m k) (f k)"
  by transfer (rule map_of_al_retain)

lemmas bt_get_simps [simp] = bt.lookup_empty bt.lookup_insert bt.lookup_remove bt_get_retain

lemma bt_entries_new [simp]: "bt_entries bt_new = []"
  by (rule bt_new.rep_eq)

lemma in_entries_insert:
  "(k', v') \<in> set (bt_entries (bt_insert k v m)) \<longleftrightarrow>
     (if k' = k then v' = v else (k', v') \<in> set (bt_entries m))"
  by (auto simp flip: bt_get_iff)

lemma in_entries_remove:
  "(k', v') \<in> set (bt_entries (bt_remove k m)) \<longleftrightarrow> k' \<noteq> k \<and> (k', v') \<in> set (bt_entries m)"
  by (auto simp flip: bt_get_iff)

lemma in_entries_retain:
  "(k, w) \<in> set (bt_entries (bt_retain f m)) \<longleftrightarrow>
     (\<exists>v. (k, v) \<in> set (bt_entries m) \<and> f k v = Some w)"
  by (simp add: bt_retain.rep_eq al_retain_entries)

lemmas bt_entries_simps [simp] = in_entries_insert in_entries_remove in_entries_retain

section \<open>Sums over the entries\<close>

text \<open>How a sum of weights over the values moves when one entry changes.\<close>

definition bt_sum :: "('v \<Rightarrow> nat) \<Rightarrow> ('k::linorder, 'v) btree \<Rightarrow> nat" where
  "bt_sum w m = sum_list (map w (bt_values m))"

lemma sum_al_insert:
  fixes w :: "'v \<Rightarrow> nat"
  shows "ascending xs \<Longrightarrow> sum_list (map w (map snd (al_insert k v xs))) + (case map_of xs k of None \<Rightarrow> 0 | Some u \<Rightarrow> w u)
     = sum_list (map w (map snd xs)) + w v"
proof (induction k v xs rule: al_insert.induct)
  case (2 k v k' v' xs)
  then have "map_of xs k = None" if "k \<le> k'" using that by (auto simp: map_of_eq_None_iff)
  with 2 show ?case by (auto split: option.splits)
qed simp

lemma bt_sum_insert:
  "bt_sum w (bt_insert k v m) + (case bt_get m k of None \<Rightarrow> 0 | Some u \<Rightarrow> w u) = bt_sum w m + w v"
  unfolding bt_sum_def bt_values_def by transfer (rule sum_al_insert)

lemma sum_filter_key:
  fixes w :: "'v \<Rightarrow> nat"
  shows "distinct (map fst xs) \<Longrightarrow> sum_list (map w (map snd (filter (\<lambda>e. fst e \<noteq> k) xs)))
     + (case map_of xs k of None \<Rightarrow> 0 | Some u \<Rightarrow> w u) = sum_list (map w (map snd xs))"
proof (induction xs)
  case (Cons e xs)
  have "filter (\<lambda>e. fst e \<noteq> k) xs = xs" if "k \<notin> fst ` set xs"
    using that by (auto intro!: filter_True)
  with Cons show ?case by (cases e) (auto simp: map_of_eq_None_iff split: option.splits)
qed simp

lemma bt_sum_remove:
  "bt_sum w (bt_remove k m) + (case bt_get m k of None \<Rightarrow> 0 | Some u \<Rightarrow> w u) = bt_sum w m"
  unfolding bt_sum_def bt_values_def
  by transfer (rule sum_filter_key [OF ascending_imp_distinct])

lemma sum_al_retain:
  fixes w :: "'v \<Rightarrow> nat"
  shows "(\<And>k v u. f k v = Some u \<Longrightarrow> w u \<le> w v) \<Longrightarrow>
     sum_list (map w (map snd (al_retain f xs))) \<le> sum_list (map w (map snd xs))"
  by (induction f xs rule: al_retain.induct) (auto split: option.splits intro: add_mono trans_le_add2)

lemma bt_sum_retain: "(\<And>k v u. f k v = Some u \<Longrightarrow> w u \<le> w v) \<Longrightarrow> bt_sum w (bt_retain f m) \<le> bt_sum w m"
  unfolding bt_sum_def bt_values_def bt_retain.rep_eq by (rule sum_al_retain)

section \<open>Length and first entry\<close>

lemma bt_len_sum: "bt_len m = bt_sum (\<lambda>_. 1) m"
  by (simp add: bt_len_def bt_sum_def bt_values_def sum_list_triv comp_def)

lemma bt_len_new [simp]: "bt_len bt_new = 0"
  by (simp add: bt_len_def)

lemma bt_len_insert: "bt_len (bt_insert k v m) = (if bt_get m k = None then Suc (bt_len m) else bt_len m)"
  using bt_sum_insert [of "\<lambda>_. 1" k v m] by (auto simp: bt_len_sum split: option.splits)

lemma bt_len_remove: "bt_len (bt_remove k m) = (if bt_get m k = None then bt_len m else bt_len m - 1)"
  using bt_sum_remove [of "\<lambda>_. 1" k m] by (auto simp: bt_len_sum split: option.splits)

lemma bt_len_retain: "bt_len (bt_retain f m) \<le> bt_len m"
  unfolding bt_len_sum by (rule bt_sum_retain) simp

lemma bt_len_0_iff: "bt_len m = 0 \<longleftrightarrow> bt_entries m = []"
  by (simp add: bt_len_def)

lemma bt_first:
  assumes "bt_entries m = (k, v) # es"
  shows "bt_get m k = Some v" "bt_len (bt_remove k m) = bt_len m - 1" "0 < bt_len m"
proof -
  show v: "bt_get m k = Some v" using assms by (simp add: bt_get_iff)
  show "bt_len (bt_remove k m) = bt_len m - 1" using v by (simp add: bt_len_remove)
  show "0 < bt_len m" using assms by (simp add: bt_len_def)
qed

end
