(* ===== verification/Dht_Store.thy ===== *)
theory Dht_Store
  imports Dht_Table BTree_Map
begin

text \<open>
  The record store of \<^verbatim>\<open>crates/network/src/dht.rs\<close> (\<^verbatim>\<open>DhtStore\<close>): records under a namespace and key, one
  for each owner, bounded for each key and in total.
\<close>

section \<open>The store\<close>

definition DEFAULT_MAX_RECORDS :: usize where "DEFAULT_MAX_RECORDS = 2048"
definition DEFAULT_MAX_RECORDS_PER_KEY :: usize where "DEFAULT_MAX_RECORDS_PER_KEY = 8"

type_synonym record_key = "DhtNamespace \<times> DhtKey"
type_synonym record_map = "(record_key, DhtRecord list) btree"

record DhtRecordStats =
  drst_keys :: usize
  drst_records :: usize
  drst_expired_records :: usize

record DhtStore =
  ds_records :: record_map
  ds_max_records :: usize
  ds_max_records_per_key :: usize

abbreviation live_record :: "u64 \<Rightarrow> DhtRecord \<Rightarrow> bool" where
  "live_record now r \<equiv> dr_expires_at r \<ge> now"

abbreviation eviction_rank :: "DhtRecord \<Rightarrow> u64 \<times> u64" where
  "eviction_rank r \<equiv> (dr_sequence r, dr_expires_at r)"

abbreviation total_records :: "record_map \<Rightarrow> nat" where
  "total_records m \<equiv> bt_sum length m"

definition DhtStore_new :: "usize \<Rightarrow> usize \<Rightarrow> DhtStore" where
  "DhtStore_new max_records max_records_per_key = \<lparr>ds_records = bt_new,
     ds_max_records = max max_records 1, ds_max_records_per_key = max max_records_per_key 1\<rparr>"

definition expire_map :: "u64 \<Rightarrow> record_map \<Rightarrow> record_map" where
  "expire_map now m = bt_retain (\<lambda>_ vals.
     let kept = filter (live_record now) vals in if kept = [] then None else Some kept) m"

definition DhtStore_expire :: "DhtStore \<Rightarrow> u64 \<Rightarrow> DhtStore" where
  "DhtStore_expire s now = s\<lparr>ds_records := expire_map now (ds_records s)\<rparr>"

text \<open>Every record with its key, in the order of the map.\<close>

definition all_records :: "record_map \<Rightarrow> (record_key \<times> DhtRecord) list" where
  "all_records m = concat (map (\<lambda>(key, vals). map (Pair key) vals) (bt_entries m))"

definition evict_one :: "record_key \<Rightarrow> NodeId \<Rightarrow> record_map \<Rightarrow> record_map" where
  "evict_one key owner m = (case bt_get m key of
     None \<Rightarrow> m
   | Some vals \<Rightarrow>
       let vals' = (case position (\<lambda>r. dr_owner r = owner) vals of
                        None \<Rightarrow> vals | Some index \<Rightarrow> remove_at index vals)
       in if vals' = [] then bt_remove key m else bt_insert key vals' m)"

lemma in_flattened:
  "(k, r) \<in> set (concat (map (\<lambda>(key, vs). map (Pair key) vs) xs)) \<longleftrightarrow> (\<exists>vs. (k, vs) \<in> set xs \<and> r \<in> set vs)"
  by (induction xs) auto

lemma in_all_records: "(k, r) \<in> set (all_records m) \<longleftrightarrow> (\<exists>vs. bt_get m k = Some vs \<and> r \<in> set vs)"
  unfolding all_records_def in_flattened bt_get_iff ..

lemma length_all_records: "length (all_records m) = total_records m"
  by (simp add: all_records_def bt_sum_def bt_values_def length_concat comp_def case_prod_beta)

lemma evict_one_entry:
  assumes "bt_get m key = Some vs" "r \<in> set vs"
  obtains i where "i < length vs" "dr_owner (vs ! i) = dr_owner r"
    "evict_one key (dr_owner r) m =
       (if remove_at i vs = [] then bt_remove key m else bt_insert key (remove_at i vs) m)"
proof -
  have "position (\<lambda>x. dr_owner x = dr_owner r) vs \<noteq> None"
    using assms(2) unfolding position_None_iff by blast
  then obtain i where pos: "position (\<lambda>x. dr_owner x = dr_owner r) vs = Some i" by blast
  show thesis
  proof (rule that)
    show "i < length vs" "dr_owner (vs ! i) = dr_owner r" using position_Some_iff [OF pos] by simp_all
  qed (simp add: evict_one_def assms(1) pos Let_def)
qed

lemma total_evict_one:
  assumes "(key, r) \<in> set (all_records m)"
  shows "total_records (evict_one key (dr_owner r) m) + 1 = total_records m"
proof -
  obtain vs where get: "bt_get m key = Some vs" and "r \<in> set vs"
    using assms unfolding in_all_records by blast
  then obtain i where i: "i < length vs" and eq: "evict_one key (dr_owner r) m =
      (if remove_at i vs = [] then bt_remove key m else bt_insert key (remove_at i vs) m)"
    by (rule evict_one_entry)
  have "length (remove_at i vs) + 1 = length vs" using i by (simp add: length_remove_at)
  then show ?thesis
    using bt_sum_insert [of length key "remove_at i vs" m] bt_sum_remove [of length key m]
    unfolding eq get by (cases "remove_at i vs = []") simp_all
qed

text \<open>The loop of \<^verbatim>\<open>enforce_total_bound\<close>: every round removes one record.\<close>

function evict_to :: "usize \<Rightarrow> record_map \<Rightarrow> record_map" where
  "evict_to max_records m =
    (if total_records m > max_records then
       (case min_by_key (\<lambda>(_, r). eviction_rank r) (all_records m) of
          None \<Rightarrow> m
        | Some (key, r) \<Rightarrow> evict_to max_records (evict_one key (dr_owner r) m))
     else m)"
  by pat_completeness auto
termination
proof (relation "measure (\<lambda>(_, m). total_records m)")
  fix max_records m e key r
  assume "min_by_key (\<lambda>(_, r). eviction_rank r) (all_records m) = Some e" "(key, r) = e"
  then have "(key, r) \<in> set (all_records m)"
    using min_by_key_SomeD [of "\<lambda>(_, r). eviction_rank r" "all_records m" e] by simp
  then show "((max_records, evict_one key (dr_owner r) m), (max_records, m)) \<in> measure (\<lambda>(_, m). total_records m)"
    using total_evict_one [of key r m] by simp
qed simp

declare evict_to.simps [simp del]

definition enforce_total_bound :: "DhtStore \<Rightarrow> u64 \<Rightarrow> DhtStore" where
  "enforce_total_bound s now =
    (let expired = DhtStore_expire s now
     in expired\<lparr>ds_records := evict_to (ds_max_records s) (ds_records expired)\<rparr>)"

definition DhtStore_put :: "DhtStore \<Rightarrow> DhtRecord \<Rightarrow> u64 \<Rightarrow> DhtStore \<times> bool" where
  "DhtStore_put s r now =
    (if dr_expires_at r < now then (s, False)
     else let key = (dr_namespace r, dr_key r);
              vals = (case bt_get (ds_records s) key of None \<Rightarrow> [] | Some vs \<Rightarrow> vs);
              with_values = (\<lambda>vs. s\<lparr>ds_records := bt_insert key vs (ds_records s)\<rparr>)
       in case find (\<lambda>item. dr_owner item = dr_owner r) vals of
         Some existing \<Rightarrow>
           if dr_sequence existing \<ge> dr_sequence r then (with_values vals, False)
           else (with_values (replace_first (\<lambda>item. dr_owner item = dr_owner r) r vals), True)
       | None \<Rightarrow>
           if length vals \<ge> ds_max_records_per_key s then
             let ordered = sort_key eviction_rank vals
             in if (case ordered of [] \<Rightarrow> False | item # _ \<Rightarrow> dr_sequence item \<ge> dr_sequence r)
                then (with_values ordered, False)
                else (enforce_total_bound (with_values (remove_at 0 ordered @ [r])) now, True)
           else (enforce_total_bound (with_values (vals @ [r])) now, True))"

text \<open>\<^verbatim>\<open>Reverse(sequence)\<close> as a sort key: the complement turns the order of the sequences around.\<close>

definition newest_first :: "DhtRecord list \<Rightarrow> DhtRecord list" where
  "newest_first vals = sort_key (\<lambda>r. NOT (dr_sequence r)) vals"

definition DhtStore_get :: "DhtStore \<Rightarrow> DhtNamespace \<Rightarrow> DhtKey \<Rightarrow> u64 \<Rightarrow> DhtStore \<times> DhtRecord list" where
  "DhtStore_get s namespace key now = (case bt_get (ds_records s) (namespace, key) of
     None \<Rightarrow> (s, [])
   | Some vals \<Rightarrow>
       let kept = filter (live_record now) vals
       in (s\<lparr>ds_records := bt_insert (namespace, key) kept (ds_records s)\<rparr>, newest_first kept))"

definition DhtStore_get_diverse ::
  "DhtStore \<Rightarrow> DhtNamespace \<Rightarrow> DhtKey \<Rightarrow> u64 \<Rightarrow> usize \<Rightarrow> DhtStore \<times> DhtRecord list" where
  "DhtStore_get_diverse s namespace key now limit =
    (case DhtStore_get s namespace key now of (s', vals) \<Rightarrow>
       (s', select_rest dr_owner limit
              (select_sources (\<lambda>r. take 4 (as_bytes (dr_owner r))) limit {} [] vals) vals))"

definition DhtStore_records :: "DhtStore \<Rightarrow> u64 \<Rightarrow> DhtRecord list" where
  "DhtStore_records s now = filter (live_record now) (concat (bt_values (ds_records s)))"

definition DhtStore_stats :: "DhtStore \<Rightarrow> u64 \<Rightarrow> DhtRecordStats" where
  "DhtStore_stats s now = \<lparr>drst_keys = bt_len (ds_records s),
     drst_records = length (filter (live_record now) (concat (bt_values (ds_records s)))),
     drst_expired_records =
       length (filter (\<lambda>r. dr_expires_at r < now) (concat (bt_values (ds_records s))))\<rparr>"

section \<open>The invariant\<close>

definition values_wf :: "usize \<Rightarrow> record_key \<Rightarrow> DhtRecord list \<Rightarrow> bool" where
  "values_wf per_key key vals \<longleftrightarrow> distinct (map dr_owner vals) \<and> length vals \<le> per_key
     \<and> (\<forall>r\<in>set vals. (dr_namespace r, dr_key r) = key)"

definition map_wf :: "usize \<Rightarrow> record_map \<Rightarrow> bool" where
  "map_wf per_key m \<longleftrightarrow> (\<forall>key vals. bt_get m key = Some vals \<longrightarrow> values_wf per_key key vals)"

definition store_wf :: "DhtStore \<Rightarrow> bool" where
  "store_wf s \<longleftrightarrow> 1 \<le> ds_max_records s \<and> 1 \<le> ds_max_records_per_key s
     \<and> map_wf (ds_max_records_per_key s) (ds_records s) \<and> total_records (ds_records s) \<le> ds_max_records s"

lemma map_wfD: "map_wf n m \<Longrightarrow> bt_get m key = Some vs \<Longrightarrow> values_wf n key vs"
  unfolding map_wf_def by blast

lemma map_wfI: "(\<And>key vs. bt_get m key = Some vs \<Longrightarrow> values_wf n key vs) \<Longrightarrow> map_wf n m"
  unfolding map_wf_def by blast

lemma map_wf_insert: "map_wf n m \<Longrightarrow> values_wf n key vals \<Longrightarrow> map_wf n (bt_insert key vals m)"
  by (rule map_wfI) (auto split: if_splits dest: map_wfD)

lemma map_wf_remove: "map_wf n m \<Longrightarrow> map_wf n (bt_remove key m)"
  by (rule map_wfI) (auto split: if_splits dest: map_wfD)

lemma values_wf_filter: "values_wf n key vals \<Longrightarrow> values_wf n key (filter p vals)"
  by (auto simp: values_wf_def distinct_map_filter intro: order.trans [OF length_filter_le])

lemma values_wf_remove_at: "values_wf n key vals \<Longrightarrow> values_wf n key (remove_at i vals)"
proof -
  have "length (remove_at i vals) \<le> length vals" by (simp add: remove_at_def)
  then show "values_wf n key vals \<Longrightarrow> ?thesis"
    using set_remove_at [of i vals] by (auto simp: values_wf_def map_remove_at distinct_remove_at)
qed

lemma values_wf_sort: "values_wf n key (sort_key f vals) \<longleftrightarrow> values_wf n key vals"
  by (auto simp: values_wf_def distinct_map)

lemma values_wf_snoc:
  "values_wf n key vals \<Longrightarrow> length vals < n \<Longrightarrow> dr_owner r \<notin> dr_owner ` set vals \<Longrightarrow>
     (dr_namespace r, dr_key r) = key \<Longrightarrow> values_wf n key (vals @ [r])"
  by (auto simp: values_wf_def)

lemma expire_map_get:
  "bt_get (expire_map now m) key = Some kept \<longleftrightarrow>
     (\<exists>vals. bt_get m key = Some vals \<and> kept = filter (live_record now) vals \<and> kept \<noteq> [])"
  by (auto simp: expire_map_def Let_def bind_eq_Some_conv split: if_splits)

lemma map_wf_expire: "map_wf n m \<Longrightarrow> map_wf n (expire_map now m)"
  by (rule map_wfI) (auto simp: expire_map_get intro: values_wf_filter dest: map_wfD)

lemma total_expire_map: "total_records (expire_map now m) \<le> total_records m"
  unfolding expire_map_def by (rule bt_sum_retain) (auto simp: Let_def split: if_splits)

lemma map_wf_evict_one:
  assumes "map_wf n m"
  shows "map_wf n (evict_one key owner m)"
proof (cases "bt_get m key")
  case (Some vs)
  then have "values_wf n key vs" by (rule map_wfD [OF assms])
  then show ?thesis
    unfolding evict_one_def Let_def Some option.case
    by (cases "position (\<lambda>r. dr_owner r = owner) vs")
      (simp_all add: map_wf_insert map_wf_remove values_wf_remove_at assms)
qed (simp add: evict_one_def assms)

lemma evict_to_induct [case_names stop evict]:
  assumes "\<And>m. total_records m \<le> max_records \<Longrightarrow> P m"
    and "\<And>m key r. total_records m > max_records \<Longrightarrow>
      min_by_key (\<lambda>(_, r). eviction_rank r) (all_records m) = Some (key, r) \<Longrightarrow>
      P (evict_one key (dr_owner r) m) \<Longrightarrow> P m"
  shows "P m"
proof (induction "total_records m" arbitrary: m rule: less_induct)
  case less
  show ?case
  proof (cases "total_records m \<le> max_records")
    case True
    then show ?thesis by (rule assms(1))
  next
    case False
    then have "length (all_records m) \<noteq> 0" unfolding length_all_records by simp
    then have "min_by_key (\<lambda>(_, r). eviction_rank r) (all_records m) \<noteq> None" by simp
    then obtain e where "min_by_key (\<lambda>(_, r). eviction_rank r) (all_records m) = Some e" by blast
    moreover obtain key r where "e = (key, r)" by (rule prod.exhaust)
    ultimately have sel: "min_by_key (\<lambda>(_, r). eviction_rank r) (all_records m) = Some (key, r)" by simp
    from min_by_key_SomeD [OF this] have "(key, r) \<in> set (all_records m)" ..
    from total_evict_one [OF this] less have "P (evict_one key (dr_owner r) m)" by simp
    with False sel show ?thesis by (intro assms(2) [of m key r]) simp_all
  qed
qed

lemma evict_to_step:
  "total_records m \<le> mx \<Longrightarrow> evict_to mx m = m"
  "total_records m > mx \<Longrightarrow> min_by_key (\<lambda>(_, r). eviction_rank r) (all_records m) = Some (key, r) \<Longrightarrow>
     evict_to mx m = evict_to mx (evict_one key (dr_owner r) m)"
  by (simp_all add: evict_to.simps [of mx m])

lemma total_evict_to: "total_records (evict_to mx m) \<le> mx"
  by (induction m rule: evict_to_induct [where max_records = mx]) (simp_all add: evict_to_step)

lemma map_wf_evict_to: "map_wf n m \<Longrightarrow> map_wf n (evict_to mx m)"
  by (induction m rule: evict_to_induct [where max_records = mx]) (simp_all add: evict_to_step map_wf_evict_one)

section \<open>What an operation does to the lists of records\<close>

definition vals_of :: "record_map \<Rightarrow> record_key \<Rightarrow> DhtRecord list" where
  "vals_of m key = (case bt_get m key of None \<Rightarrow> [] | Some vs \<Rightarrow> vs)"

abbreviation record_id :: "DhtRecord \<Rightarrow> record_key" where
  "record_id r \<equiv> (dr_namespace r, dr_key r)"

abbreviation same_owner :: "DhtRecord \<Rightarrow> DhtRecord \<Rightarrow> bool" where
  "same_owner r item \<equiv> dr_owner item = dr_owner r"

lemma vals_of_insert [simp]: "vals_of (bt_insert key vs m) key' = (if key' = key then vs else vals_of m key')"
  by (simp add: vals_of_def)

lemma vals_of_remove [simp]: "vals_of (bt_remove key m) key' = (if key' = key then [] else vals_of m key')"
  by (simp add: vals_of_def)

lemma vals_of_expire [simp]: "vals_of (expire_map now m) key = filter (live_record now) (vals_of m key)"
proof (cases "bt_get (expire_map now m) key")
  case None
  then have "filter (live_record now) (vals_of m key) = []"
    using expire_map_get [of now m key "filter (live_record now) (vals_of m key)"]
    by (cases "bt_get m key") (auto simp: vals_of_def)
  then show ?thesis using None by (simp add: vals_of_def)
next
  case (Some kept)
  then obtain vs where "bt_get m key = Some vs" "kept = filter (live_record now) vs"
    unfolding expire_map_get by blast
  with Some show ?thesis by (simp add: vals_of_def)
qed

lemma vals_of_wf: "map_wf n m \<Longrightarrow> values_wf n key (vals_of m key)"
  by (cases "bt_get m key") (simp_all add: vals_of_def values_wf_def map_wfD [unfolded values_wf_def])

lemma in_vals_of: "r \<in> set (vals_of m key) \<longleftrightarrow> (key, r) \<in> set (all_records m)"
  unfolding in_all_records by (cases "bt_get m key") (simp_all add: vals_of_def)

text \<open>In a well formed map the loop removes exactly the record it selected.\<close>

lemma remove_at_owner:
  assumes "distinct (map f vs)" "r \<in> set vs" "i < length vs" "f (vs ! i) = f r"
  shows "set (remove_at i vs) = set vs - {r}"
proof -
  have i: "vs ! i = r"
    using assms by (metis distinct_map inj_onD nth_mem)
  have vs: "vs = take i vs @ r # drop (Suc i) vs"
    using id_take_nth_drop [OF assms(3)] i by simp
  have "distinct vs" using assms(1) by (simp add: distinct_map)
  then have "r \<notin> set (take i vs) \<union> set (drop (Suc i) vs)"
    by (subst (asm) vs) auto
  moreover have "set vs = insert r (set (take i vs) \<union> set (drop (Suc i) vs))"
    by (subst vs) auto
  ultimately show ?thesis by (simp add: remove_at_def)
qed

lemma vals_of_evict_one:
  assumes "map_wf n m" "r \<in> set (vals_of m key)"
  shows "set (vals_of (evict_one key (dr_owner r) m) key') =
    (if key' = key then set (vals_of m key) - {r} else set (vals_of m key'))"
proof -
  obtain vs where get: "bt_get m key = Some vs" and vs: "vals_of m key = vs" "r \<in> set vs"
    using assms(2) by (cases "bt_get m key") (simp_all add: vals_of_def)
  then obtain i where i: "i < length vs" "dr_owner (vs ! i) = dr_owner r" and eq: "evict_one key (dr_owner r) m =
      (if remove_at i vs = [] then bt_remove key m else bt_insert key (remove_at i vs) m)"
    by (metis evict_one_entry)
  have "distinct (map dr_owner vs)" using map_wfD [OF assms(1) get] by (simp add: values_wf_def)
  from remove_at_owner [OF this vs(2) i] show ?thesis
    unfolding eq by (cases "remove_at i vs = []") (auto simp: vs(1))
qed

lemma evict_to_subset:
  assumes "map_wf n m"
  shows "set (vals_of (evict_to mx m) key) \<subseteq> set (vals_of m key)"
  using assms
proof (induction m rule: evict_to_induct [where max_records = mx])
  case (evict m k r)
  have "r \<in> set (vals_of m k)"
    using min_by_key_SomeD [OF evict.hyps(2)] unfolding in_vals_of by blast
  from vals_of_evict_one [OF evict.prems this, of key] show ?case
    using evict.IH [OF map_wf_evict_one [OF evict.prems]] evict_to_step(2) [OF evict.hyps] by (auto split: if_splits)
qed (simp add: evict_to_step)

text \<open>The loop evicts in the order of sequence and expiry: what it drops ranks below all it keeps.\<close>

lemma evict_to_drops_lowest:
  assumes "map_wf n m" "r \<in> set (vals_of m key)" "r \<notin> set (vals_of (evict_to mx m) key)"
    and "kept \<in> set (vals_of (evict_to mx m) key')"
  shows "eviction_rank r \<le> eviction_rank kept"
  using assms
proof (induction m rule: evict_to_induct [where max_records = mx])
  case (evict m k v)
  have v: "v \<in> set (vals_of m k)" and least: "\<forall>y\<in>set (all_records m). eviction_rank v \<le> eviction_rank (snd y)"
    using min_by_key_SomeD [OF evict.hyps(2)] unfolding in_vals_of by (auto simp: case_prod_beta)
  note step = evict_to_step(2) [OF evict.hyps]
  have wf: "map_wf n (evict_one k (dr_owner v) m)" by (rule map_wf_evict_one [OF evict.prems(1)])
  show ?case
  proof (cases "r \<in> set (vals_of (evict_one k (dr_owner v) m) key)")
    case True
    with evict.IH [OF wf] evict.prems step show ?thesis by simp
  next
    case False
    then have "r = v" using vals_of_evict_one [OF evict.prems(1) v, of key] evict.prems(2) by (auto split: if_splits)
    moreover have "kept \<in> set (vals_of m key')" using evict_to_subset [OF evict.prems(1)] evict.prems(4) by blast
    ultimately show ?thesis using least unfolding in_vals_of by fastforce
  qed
qed (simp add: evict_to_step)

section \<open>The operations keep the invariant\<close>

lemma total_insert:
  "total_records (bt_insert key vs m) + length (vals_of m key) = total_records m + length vs"
  using bt_sum_insert [of length key vs m] by (cases "bt_get m key") (simp_all add: vals_of_def)

lemma store_wf_enforce:
  assumes "1 \<le> ds_max_records s" "1 \<le> ds_max_records_per_key s" "map_wf (ds_max_records_per_key s) (ds_records s)"
  shows "store_wf (enforce_total_bound s now)"
  using assms by (simp add: store_wf_def enforce_total_bound_def DhtStore_expire_def Let_def
      map_wf_evict_to map_wf_expire total_evict_to)

lemma store_wf_with_values:
  assumes "store_wf s" "values_wf (ds_max_records_per_key s) key vs" "length vs = length (vals_of (ds_records s) key)"
  shows "store_wf (s\<lparr>ds_records := bt_insert key vs (ds_records s)\<rparr>)"
  using assms total_insert [of key vs "ds_records s"] by (simp add: store_wf_def map_wf_insert)

lemma values_wf_replace:
  assumes "values_wf n (record_id r) vs"
  shows "values_wf n (record_id r) (replace_first (same_owner r) r vs)"
proof -
  have "map dr_owner (replace_first (same_owner r) r vs) = map dr_owner vs"
    by (rule map_key_replace_first) simp
  then show ?thesis
    using assms set_replace_first [of "same_owner r" r vs] unfolding values_wf_def by auto
qed

lemma put_unfold:
  "DhtStore_put s r now =
    (let vs = vals_of (ds_records s) (record_id r);
         with_values = (\<lambda>vs. s\<lparr>ds_records := bt_insert (record_id r) vs (ds_records s)\<rparr>);
         ordered = sort_key eviction_rank vs in
     if dr_expires_at r < now then (s, False)
     else case find (same_owner r) vs of
       Some existing \<Rightarrow> if dr_sequence existing \<ge> dr_sequence r then (with_values vs, False)
         else (with_values (replace_first (same_owner r) r vs), True)
     | None \<Rightarrow> if length vs \<ge> ds_max_records_per_key s then
           if ordered \<noteq> [] \<and> dr_sequence (hd ordered) \<ge> dr_sequence r then (with_values ordered, False)
           else (enforce_total_bound (with_values (remove_at 0 ordered @ [r])) now, True)
         else (enforce_total_bound (with_values (vs @ [r])) now, True))"
  unfolding DhtStore_put_def vals_of_def Let_def
  by (simp split: option.split list.split)

lemma find_owner_None: "find (same_owner r) vs = None \<longleftrightarrow> dr_owner r \<notin> dr_owner ` set vs"
  unfolding find_None_iff_all image_iff by metis

lemma values_wf_push:
  assumes "values_wf n (record_id r) ws" "length ws < n" "set ws \<subseteq> set vs" "find (same_owner r) vs = None"
  shows "values_wf n (record_id r) (ws @ [r])"
proof (rule values_wf_snoc [OF assms(1,2)])
  show "dr_owner r \<notin> dr_owner ` set ws"
    using assms(3,4) image_mono [OF assms(3), of dr_owner] unfolding find_owner_None by blast
qed simp

lemma store_wf_push:
  assumes "store_wf s" "values_wf (ds_max_records_per_key s) (record_id r) ws"
  shows "store_wf (enforce_total_bound (s\<lparr>ds_records := bt_insert (record_id r) ws (ds_records s)\<rparr>) now)"
  using assms by (intro store_wf_enforce) (simp_all add: store_wf_def map_wf_insert)

lemma store_wf_put:
  assumes wf: "store_wf s"
  shows "store_wf (fst (DhtStore_put s r now))"
proof -
  define n vs where "n = ds_max_records_per_key s" and "vs = vals_of (ds_records s) (record_id r)"
  define ord where "ord = sort_key eviction_rank vs"
  have vs: "values_wf n (record_id r) vs" using wf by (simp add: n_def vs_def store_wf_def vals_of_wf)
  have ord: "values_wf n (record_id r) ord" "length ord = length vs" "set ord = set vs"
    using vs by (simp_all add: ord_def values_wf_sort)
  have "length (remove_at 0 ord) < n"
    using ord vs wf by (auto simp: remove_at_def values_wf_def store_wf_def n_def)
  then have full: "values_wf n (record_id r) (remove_at 0 ord @ [r])" if "find (same_owner r) vs = None"
    using that set_remove_at [of 0 ord] ord by (intro values_wf_push [where vs = vs] values_wf_remove_at) simp_all
  have room: "values_wf n (record_id r) (vs @ [r])" if "find (same_owner r) vs = None" "length vs < n"
    using that vs by (intro values_wf_push [where vs = vs]) simp_all
  note keep = store_wf_with_values [OF wf, folded n_def]
  note push = store_wf_push [OF wf, folded n_def]
  show ?thesis
  proof (cases "find (same_owner r) vs")
    case None
    then show ?thesis
      unfolding put_unfold Let_def vs_def [symmetric] ord_def [symmetric] n_def [symmetric]
      using wf keep [OF ord(1)] push [OF full] push [OF room] ord(2) by (simp add: vs_def)
  next
    case (Some e)
    then show ?thesis
      unfolding put_unfold Let_def vs_def [symmetric] ord_def [symmetric] n_def [symmetric]
      using wf keep [OF vs] keep [OF values_wf_replace [OF vs]] by (simp add: vs_def)
  qed
qed

lemma store_wf_get: "store_wf s \<Longrightarrow> store_wf (fst (DhtStore_get s ns key now))"
proof (cases "bt_get (ds_records s) (ns, key)")
  case (Some vs)
  assume wf: "store_wf s"
  then have "values_wf (ds_max_records_per_key s) (ns, key) vs" using map_wfD Some by (auto simp: store_wf_def)
  moreover have "total_records (bt_insert (ns, key) (filter (live_record now) vs) (ds_records s)) \<le> total_records (ds_records s)"
  proof -
    have vals: "vals_of (ds_records s) (ns, key) = vs" using Some by (simp add: vals_of_def)
    show ?thesis
      using total_insert [of "(ns, key)" "filter (live_record now) vs" "ds_records s"]
        length_filter_le [of "live_record now" vs] unfolding vals by linarith
  qed
  ultimately show ?thesis
    using wf Some by (simp add: DhtStore_get_def Let_def store_wf_def map_wf_insert values_wf_filter)
qed (simp add: DhtStore_get_def)

lemma store_wf_expire: "store_wf s \<Longrightarrow> store_wf (DhtStore_expire s now)"
  using total_expire_map [of now "ds_records s"]
  by (simp add: store_wf_def DhtStore_expire_def map_wf_expire)

lemma store_wf_new: "store_wf (DhtStore_new n per_key)"
  by (simp add: DhtStore_new_def store_wf_def map_wf_def bt_sum_def bt_values_def)

datatype store_op = Op_put DhtRecord u64 | Op_get DhtNamespace DhtKey u64 | Op_get_diverse DhtNamespace DhtKey u64 usize
  | Op_store_expire u64

fun store_step :: "store_op \<Rightarrow> DhtStore \<Rightarrow> DhtStore" where
  "store_step (Op_put r now) s = fst (DhtStore_put s r now)"
| "store_step (Op_get ns key now) s = fst (DhtStore_get s ns key now)"
| "store_step (Op_get_diverse ns key now limit) s = fst (DhtStore_get_diverse s ns key now limit)"
| "store_step (Op_store_expire now) s = DhtStore_expire s now"

interpretation dht_store: step_system store_step store_wf
proof unfold_locales
  show "store_wf s \<Longrightarrow> store_wf (store_step op s)" for s op
    by (cases op) (simp_all add: store_wf_put store_wf_get store_wf_expire DhtStore_get_diverse_def case_prod_beta)
qed

section \<open>The store as a map from keys and owners to records\<close>

text \<open>
  What a reader can see at a time: the live record of an owner under a key. With room left, a put is
  an update of this map.
\<close>

definition view :: "DhtStore \<Rightarrow> u64 \<Rightarrow> record_key \<Rightarrow> NodeId \<Rightarrow> DhtRecord option" where
  "view s now key owner =
     find (\<lambda>r. dr_owner r = owner \<and> live_record now r) (vals_of (ds_records s) key)"

definition newer :: "DhtStore \<Rightarrow> DhtRecord \<Rightarrow> bool" where
  "newer s r \<longleftrightarrow> (\<forall>e\<in>set (vals_of (ds_records s) (record_id r)). same_owner r e \<longrightarrow> dr_sequence e < dr_sequence r)"

definition has_room :: "DhtStore \<Rightarrow> DhtRecord \<Rightarrow> bool" where
  "has_room s r \<longleftrightarrow> total_records (ds_records s) < ds_max_records s
     \<and> length (vals_of (ds_records s) (record_id r)) < ds_max_records_per_key s"

lemma find_filter: "find p (filter q xs) = find (\<lambda>x. p x \<and> q x) xs"
  by (induction xs) auto

lemma find_snoc_new: "find (\<lambda>x. f x = k \<and> q x) (xs @ [y]) =
    (case find (\<lambda>x. f x = k \<and> q x) xs of None \<Rightarrow> if f y = k \<and> q y then Some y else None | Some z \<Rightarrow> Some z)"
  by (induction xs) auto

lemma find_replace_first:
  assumes "distinct (map f xs)" "find (\<lambda>x. f x = f y) xs \<noteq> None"
  shows "find (\<lambda>x. f x = k \<and> q x) (replace_first (\<lambda>x. f x = f y) y xs) =
    (if k = f y then if q y then Some y else None else find (\<lambda>x. f x = k \<and> q x) xs)"
  using assms
proof (induction xs)
  case (Cons x xs)
  have "find (\<lambda>z. f z = f x \<and> q z) xs = None"
    using Cons.prems(1) unfolding find_None_iff_all by (metis distinct.simps(2) image_eqI list.simps(9) set_map)
  with Cons show ?case by (cases "f x = f y") auto
qed simp

lemma view_unique:
  assumes "store_wf s" "r \<in> set (vals_of (ds_records s) key)" "live_record now r"
  shows "view s now key (dr_owner r) = Some r"
proof -
  have inj: "inj_on dr_owner (set (vals_of (ds_records s) key))"
    using vals_of_wf [of _ "ds_records s" key] assms(1) by (auto simp: store_wf_def values_wf_def distinct_map)
  have "view s now key (dr_owner r) \<noteq> None"
    using assms(2,3) unfolding view_def find_None_iff_all by blast
  then obtain x where x: "view s now key (dr_owner r) = Some x" by blast
  then have "x \<in> set (vals_of (ds_records s) key)" "dr_owner x = dr_owner r"
    unfolding view_def by (auto dest: find_Some_iff_in)
  with inj assms(2) x show ?thesis by (metis inj_onD)
qed

lemma view_enforce_room:
  assumes "total_records (ds_records s) \<le> ds_max_records s"
  shows "view (enforce_total_bound s now) now = view s now"
proof -
  have "total_records (expire_map now (ds_records s)) \<le> ds_max_records s"
    using total_expire_map [of now "ds_records s"] assms by linarith
  then show ?thesis
    by (intro ext) (simp add: view_def enforce_total_bound_def DhtStore_expire_def Let_def evict_to_step
        find_filter conj_ac cong: conj_cong)
qed

lemma put_outcome:
  assumes "store_wf s" "has_room s r"
  shows "DhtStore_put s r now =
    (let vs = vals_of (ds_records s) (record_id r);
         with_values = (\<lambda>vs. s\<lparr>ds_records := bt_insert (record_id r) vs (ds_records s)\<rparr>) in
     if dr_expires_at r < now then (s, False)
     else if find (same_owner r) vs = None then (enforce_total_bound (with_values (vs @ [r])) now, True)
     else if newer s r then (with_values (replace_first (same_owner r) r vs), True)
     else (with_values vs, False))"
proof -
  let ?vs = "vals_of (ds_records s) (record_id r)"
  have ids: "distinct (map dr_owner ?vs)"
    using vals_of_wf [of _ "ds_records s" "record_id r"] assms(1) by (auto simp: store_wf_def values_wf_def)
  have "newer s r \<longleftrightarrow> dr_sequence e < dr_sequence r" if e: "find (same_owner r) ?vs = Some e" for e
  proof -
    have "e \<in> set ?vs" "dr_owner e = dr_owner r" using find_Some_iff_in [OF e] by simp_all
    then have "x = e" if "x \<in> set ?vs" "dr_owner x = dr_owner r" for x
      using ids that by (metis distinct_map inj_onD)
    with \<open>e \<in> set ?vs\<close> \<open>dr_owner e = dr_owner r\<close> show ?thesis unfolding newer_def by metis
  qed
  then show ?thesis
    using assms(2) unfolding put_unfold Let_def has_room_def
    by (cases "find (same_owner r) ?vs") (auto simp: not_le)
qed

lemma view_with_values:
  "view (s\<lparr>ds_records := bt_insert key vs (ds_records s)\<rparr>) now key' owner =
    (if key' = key then find (\<lambda>r. dr_owner r = owner \<and> live_record now r) vs else view s now key' owner)"
  by (simp add: view_def)

lemma stored_after_push:
  assumes "map_wf n (ds_records s)" "values_wf n (record_id r) (ws @ [r])"
    and "x \<in> set (vals_of (ds_records (enforce_total_bound
      (s\<lparr>ds_records := bt_insert (record_id r) (ws @ [r]) (ds_records s)\<rparr>) now)) key)"
  shows "x \<in> set (if key = record_id r then ws @ [r] else vals_of (ds_records s) key)"
proof -
  let ?m = "expire_map now (bt_insert (record_id r) (ws @ [r]) (ds_records s))"
  have "map_wf n ?m" using assms(1,2) by (simp add: map_wf_expire map_wf_insert)
  from evict_to_subset [OF this, of "ds_max_records s" key]
  have "x \<in> set (vals_of ?m key)"
    using assms(3) by (auto simp: enforce_total_bound_def DhtStore_expire_def Let_def)
  then show ?thesis by simp
qed

text \<open>The lists a put can leave under the key of its record, before the bounds are enforced.\<close>

lemma put_cases:
  assumes "store_wf s"
  obtains "fst (DhtStore_put s r now) = s"
  | ws where "set ws \<subseteq> insert r (set (vals_of (ds_records s) (record_id r)))" "r \<in> set ws \<longrightarrow> newer s r \<or> r \<in> set (vals_of (ds_records s) (record_id r))"
      "fst (DhtStore_put s r now) = s\<lparr>ds_records := bt_insert (record_id r) ws (ds_records s)\<rparr>"
  | ws where "set ws \<subseteq> set (vals_of (ds_records s) (record_id r))" "newer s r"
      "values_wf (ds_max_records_per_key s) (record_id r) (ws @ [r])"
      "fst (DhtStore_put s r now) =
         enforce_total_bound (s\<lparr>ds_records := bt_insert (record_id r) (ws @ [r]) (ds_records s)\<rparr>) now"
proof -
  define n vs where "n = ds_max_records_per_key s" and "vs = vals_of (ds_records s) (record_id r)"
  define ord where "ord = sort_key eviction_rank vs"
  have wf: "values_wf n (record_id r) vs" using assms by (simp add: n_def vs_def store_wf_def vals_of_wf)
  have n: "1 \<le> n" using assms by (simp add: n_def store_wf_def)
  note put = put_unfold [of s r now, folded vs_def n_def, unfolded Let_def, folded ord_def]
  consider "dr_expires_at r < now" | e where "\<not> dr_expires_at r < now" "find (same_owner r) vs = Some e"
    | "\<not> dr_expires_at r < now" "find (same_owner r) vs = None" by blast
  then show thesis
  proof cases
    case 1
    then show thesis using that(1) put by simp
  next
    case (2 e)
    have "newer s r" if "dr_sequence e < dr_sequence r"
    proof -
      have "e \<in> set vs" "dr_owner e = dr_owner r" using find_Some_iff_in [OF 2(2)] by simp_all
      then show ?thesis using wf that unfolding newer_def vs_def [symmetric] values_wf_def by (metis distinct_map inj_onD)
    qed
    then show thesis
      using that(2) [of vs] that(2) [of "replace_first (same_owner r) r vs"] set_replace_first [of "same_owner r" r vs] 2 put
      unfolding vs_def [symmetric] by (cases "dr_sequence r \<le> dr_sequence e") (auto simp: not_le)
  next
    case 3
    then have new: "newer s r" unfolding newer_def vs_def [symmetric] find_None_iff_all by blast
    have ord: "set ord = set vs" "length ord = length vs" "values_wf n (record_id r) ord"
      using wf by (simp_all add: ord_def values_wf_sort)
    have rem: "set (remove_at 0 ord) \<subseteq> set vs" using set_remove_at [of 0 ord] ord(1) by simp
    have "length (remove_at 0 ord) < n" using wf n ord by (auto simp: remove_at_def values_wf_def)
    then have full: "values_wf n (record_id r) (remove_at 0 ord @ [r])"
      by (intro values_wf_push [OF _ _ rem 3(2)] values_wf_remove_at ord(3))
    have room: "values_wf n (record_id r) (vs @ [r])" if "length vs < n"
      by (rule values_wf_push [OF wf that order_refl 3(2)])
    consider "n \<le> length vs" "ord \<noteq> [] \<and> dr_sequence (hd ord) \<ge> dr_sequence r"
      | "n \<le> length vs" "\<not> (ord \<noteq> [] \<and> dr_sequence (hd ord) \<ge> dr_sequence r)" | "length vs < n" by linarith
    then show thesis
    proof cases
      case 1
      then show thesis using that(2) [of ord] 3 put ord(1) unfolding vs_def [symmetric] by auto
    next
      case 2
      then show thesis using that(3) [of "remove_at 0 ord"] 3 put rem new full unfolding vs_def [symmetric] n_def by auto
    next
      case 3
      then show thesis using that(3) [of vs] \<open>find (same_owner r) vs = None\<close> \<open>\<not> dr_expires_at r < now\<close> put new room
        unfolding vs_def [symmetric] n_def by auto
    qed
  qed
qed

lemma put_stored_cases:
  assumes "store_wf s" "x \<in> set (vals_of (ds_records (fst (DhtStore_put s r now))) key)"
  shows "x \<in> set (vals_of (ds_records s) key) \<or> (x = r \<and> key = record_id r \<and> newer s r)"
proof (rule put_cases [OF assms(1), of r now])
  fix ws
  assume "set ws \<subseteq> set (vals_of (ds_records s) (record_id r))" "newer s r"
    "values_wf (ds_max_records_per_key s) (record_id r) (ws @ [r])"
    "fst (DhtStore_put s r now) =
       enforce_total_bound (s\<lparr>ds_records := bt_insert (record_id r) (ws @ [r]) (ds_records s)\<rparr>) now"
  then show ?thesis
    using stored_after_push [of "ds_max_records_per_key s" s r ws x now key] assms
    by (auto simp: store_wf_def split: if_splits)
qed (use assms(2) in \<open>auto split: if_splits\<close>)

section \<open>Properties\<close>

text \<open>C25: after any sequence of puts, gets and expirations the store holds at most its maximum of records, at
  most the maximum for each key, no owner twice under a key, and every record under its own key.\<close>

theorem store_stays_bounded:
  "let s = fold store_step ops (DhtStore_new n per_key) in
     store_wf s \<and> length (DhtStore_records s now) \<le> ds_max_records s"
proof -
  define s where "s = fold store_step ops (DhtStore_new n per_key)"
  have wf: "store_wf s"
    using dht_store.run_keeps [OF store_wf_new] unfolding s_def dht_store.run_def .
  have "length (DhtStore_records s now) \<le> length (concat (bt_values (ds_records s)))"
    unfolding DhtStore_records_def by (rule length_filter_le)
  also have "\<dots> = total_records (ds_records s)" by (simp add: bt_sum_def length_concat)
  finally show ?thesis unfolding s_def [symmetric] Let_def using wf by (simp add: store_wf_def)
qed

text \<open>C6: with room in the store, a put is the update of the readers' map by a live record that is newer than
  the one its owner has there, changes nothing otherwise, and its result says which.\<close>

theorem put_refines_map_update:
  assumes "store_wf s" and "has_room s r"
  shows "snd (DhtStore_put s r now) = (live_record now r \<and> newer s r) \<and>
    view (fst (DhtStore_put s r now)) now =
      (if live_record now r \<and> newer s r
       then (view s now)(record_id r := (view s now (record_id r))(dr_owner r := Some r)) else view s now)"
proof -
  let ?vs = "vals_of (ds_records s) (record_id r)"
  let ?with = "\<lambda>vs. s\<lparr>ds_records := bt_insert (record_id r) vs (ds_records s)\<rparr>"
  have ids: "distinct (map dr_owner ?vs)"
    using vals_of_wf [of _ "ds_records s" "record_id r"] assms(1) by (auto simp: store_wf_def values_wf_def)
  have new: "newer s r" if "find (same_owner r) ?vs = None"
    using that unfolding newer_def find_None_iff_all by blast
  have room: "total_records (ds_records (?with (?vs @ [r]))) \<le> ds_max_records (?with (?vs @ [r]))"
    using total_insert [of "record_id r" "?vs @ [r]" "ds_records s"] assms(2) by (simp add: has_room_def)
  have push: "view (?with (?vs @ [r])) now = (view s now)(record_id r := (view s now (record_id r))(dr_owner r := Some r))"
    if none: "find (same_owner r) ?vs = None" and live: "live_record now r"
  proof (intro ext)
    fix key owner
    have "view s now (record_id r) (dr_owner r) = None"
      using none unfolding view_def find_None_iff_all by blast
    then show "view (?with (?vs @ [r])) now key owner =
        ((view s now)(record_id r := (view s now (record_id r))(dr_owner r := Some r))) key owner"
      using live unfolding view_with_values
      by (auto simp: find_snoc_new view_def [symmetric] split: option.split)
  qed
  have replace: "view (?with (replace_first (same_owner r) r ?vs)) now =
      (view s now)(record_id r := (view s now (record_id r))(dr_owner r := Some r))"
    if "find (same_owner r) ?vs \<noteq> None" "live_record now r"
    using find_replace_first [OF ids that(1), where q = "live_record now"] that(2)
    by (intro ext) (simp add: view_with_values view_def)
  have keep: "view (?with ?vs) now = view s now"
    by (intro ext) (simp add: view_with_values view_def)
  show ?thesis
    unfolding put_outcome [OF assms] Let_def
    using new view_enforce_room [OF room, of now] push replace keep
    by (cases "live_record now r"; cases "find (same_owner r) ?vs = None"; cases "newer s r") (simp_all add: not_less)
qed

text \<open>Records for the examples.\<close>

definition sample_record :: "u8 \<Rightarrow> u8 \<Rightarrow> u64 \<Rightarrow> DhtRecord" where
  "sample_record key owner seq = \<lparr>dr_namespace = NS_Peer, dr_key = filled key, dr_owner = filled owner,
     dr_owner_public_key = filled owner, dr_sequence = seq, dr_expires_at = 100, dr_value = [], dr_signature = []\<rparr>"

definition sample_store :: DhtStore where
  "sample_store = fold store_step [Op_put (sample_record 1 1 5) 10, Op_put (sample_record 1 2 7) 10] (DhtStore_new 3 2)"

lemma sample_store_wf: "store_wf sample_store"
  using dht_store.run_keeps [OF store_wf_new] unfolding sample_store_def dht_store.run_def .

theorem put_refines_map_update_witness:
  "store_wf sample_store \<and> has_room sample_store (sample_record 2 1 4) \<and>
   view (fst (DhtStore_put sample_store (sample_record 2 1 4) 20)) 20 (NS_Peer, filled 2) (filled 1) =
     Some (sample_record 2 1 4)"
proof -
  have "has_room sample_store (sample_record 2 1 4)" "newer sample_store (sample_record 2 1 4)"
    by code_simp+
  then show ?thesis
    using sample_store_wf put_refines_map_update [of sample_store "sample_record 2 1 4" 20]
    by (simp add: sample_record_def)
qed

text \<open>A put never rolls an owner back: what the store holds for an owner under a key afterwards has at least
  the sequence of what it held before.\<close>

theorem put_never_rolls_back:
  assumes "store_wf s" and "old \<in> set (vals_of (ds_records s) key)"
    and "new \<in> set (vals_of (ds_records (fst (DhtStore_put s r now))) key)" and "dr_owner new = dr_owner old"
  shows "new = old \<or> dr_sequence old < dr_sequence new"
proof -
  have "inj_on dr_owner (set (vals_of (ds_records s) key))"
    using vals_of_wf [of _ "ds_records s" key] assms(1) by (auto simp: store_wf_def values_wf_def distinct_map)
  then show ?thesis
    using put_stored_cases [OF assms(1,3)] assms(2,4) unfolding newer_def by (metis inj_onD)
qed

text \<open>When the total bound forces evictions, every live record that goes ranks, by sequence and then expiry, at
  or below every record that stays.\<close>

theorem total_bound_evicts_lowest:
  assumes "map_wf n (ds_records s)" and "r \<in> set (vals_of (ds_records s) key)" and "live_record now r"
    and "r \<notin> set (vals_of (ds_records (enforce_total_bound s now)) key)"
    and "kept \<in> set (vals_of (ds_records (enforce_total_bound s now)) key')"
  shows "(dr_sequence r, dr_expires_at r) \<le> (dr_sequence kept, dr_expires_at kept)"
proof -
  have "map_wf n (expire_map now (ds_records s))" by (rule map_wf_expire [OF assms(1)])
  from evict_to_drops_lowest [OF this, of r key "ds_max_records s" kept key'] assms(2-5) show ?thesis
    by (simp add: enforce_total_bound_def DhtStore_expire_def Let_def)
qed

definition full_store :: DhtStore where
  "full_store = (DhtStore_new 1 2)\<lparr>ds_records := bt_insert (NS_Peer, filled 1) [sample_record 1 1 5]
     (bt_insert (NS_Peer, filled 2) [sample_record 2 1 4] bt_new)\<rparr>"

text \<open>The complement turns the order of words around.\<close>

lemma not_le_not_iff: "NOT a \<le> NOT b \<longleftrightarrow> b \<le> (a :: 'a::len word)"
proof -
  have "NOT x = - 1 - x" for x :: "'a word" by (simp add: not_eq_complement)
  then have "unat (NOT x) = unat (- 1 :: 'a word) - unat x" for x :: "'a word"
    by (simp add: unat_sub)
  moreover have "unat x \<le> unat (- 1 :: 'a word)" for x :: "'a word"
    by (simp flip: word_le_nat_alt)
  ultimately show ?thesis unfolding word_le_nat_alt by (metis diff_le_mono2 diff_diff_cancel)
qed

lemma newest_first_sorted: "sorted_wrt (\<lambda>a b. dr_sequence b \<le> dr_sequence a) (newest_first vs)"
proof -
  have "sorted (map (\<lambda>r. NOT (dr_sequence r)) (newest_first vs))" by (simp add: newest_first_def)
  then show ?thesis by (simp add: sorted_wrt_map not_le_not_iff)
qed

text \<open>A get returns exactly the live records of its key, one for each owner, newest sequence first, and does
  not change what a reader can see from then on.\<close>

theorem get_returns_live_newest_first:
  assumes "store_wf s"
  shows "let (s', rs) = DhtStore_get s ns key now in
    set rs = {r \<in> set (vals_of (ds_records s) (ns, key)). live_record now r}
    \<and> distinct (map dr_owner rs) \<and> sorted_wrt (\<lambda>a b. dr_sequence b \<le> dr_sequence a) rs
    \<and> view s' now = view s now"
proof (cases "bt_get (ds_records s) (ns, key)")
  case None
  then show ?thesis by (simp add: DhtStore_get_def vals_of_def)
next
  case (Some vs)
  then have vs: "vals_of (ds_records s) (ns, key) = vs" by (simp add: vals_of_def)
  have "distinct (map dr_owner vs)"
    using assms map_wfD Some by (auto simp: store_wf_def values_wf_def)
  then have "distinct (map dr_owner (newest_first (filter (live_record now) vs)))"
    by (auto simp: newest_first_def distinct_map intro: inj_on_subset)
  moreover have "view (s\<lparr>ds_records := bt_insert (ns, key) (filter (live_record now) vs) (ds_records s)\<rparr>) now = view s now"
    by (intro ext) (auto simp: view_with_values view_def vs find_filter conj_ac cong: conj_cong)
  ultimately show ?thesis
    using newest_first_sorted by (simp add: DhtStore_get_def Some vs Let_def) (auto simp: newest_first_def)
qed

text \<open>A put that reports success may leave nothing to read: the total bound can evict the record it has just
  stored, when every other record has a higher sequence.\<close>

theorem put_may_accept_and_evict:
  "\<exists>s r now. store_wf s \<and> snd (DhtStore_put s r now) \<and>
     view (fst (DhtStore_put s r now)) now (record_id r) (dr_owner r) = None"
proof -
  let ?s = "fst (DhtStore_put (DhtStore_new 1 2) (sample_record 1 1 5) 10)"
  have "store_wf ?s" by (rule store_wf_put [OF store_wf_new])
  moreover have "snd (DhtStore_put ?s (sample_record 2 1 4) 20)" by code_simp
  moreover have "view (fst (DhtStore_put ?s (sample_record 2 1 4) 20)) 20
      (record_id (sample_record 2 1 4)) (dr_owner (sample_record 2 1 4)) = None" by code_simp
  ultimately show ?thesis by blast
qed

end
