(* ===== verification/Validation_Text.thy ===== *)
theory Validation_Text
  imports Validation Number_Format
begin

text \<open>The text of a validation error, which the network and the node put into their own errors.\<close>

fun ValidationError_to_string :: "ValidationError \<Rightarrow> string" where
  "ValidationError_to_string (TooLong field mx) = field @ '' exceeds maximum length '' @ decimal mx"
| "ValidationError_to_string (TooMany field mx) = field @ '' exceeds maximum count '' @ decimal mx"
| "ValidationError_to_string (Empty field) = field @ '' must not be empty''"
| "ValidationError_to_string (Invalid field) = field @ '' has invalid value''"
| "ValidationError_to_string (Oversized field) = field @ '' exceeds the protocol frame limit''"

end
