(* ===== verification/Network_State.thy ===== *)
theory Network_State
  imports Effects Dht_Store Message_Validation Validation_Text "HOL-Library.Char_ord" "HOL-Library.List_Lexorder"
begin

text \<open>
  The state behind \<^verbatim>\<open>NetworkHandle\<close> of \<^verbatim>\<open>network/src/lib.rs\<close>: configuration, peer table, connections, relay sessions
  and the DHT runtime, with what the handle has saved, queued on connections and reported as events. A connection is
  the flag whether QUIC has given no close reason, a sender the flag whether its channel is open. An operation that
  awaits nothing but its own locks is one step. The clock, random identifiers, failing saves and channels are the
  environment; postcard and Ed25519 are parameters.
\<close>

section \<open>Configuration\<close>

record NetworkConfig =
  nc_listen_addr :: "IpAddr \<times> int"
  nc_advertise_addr :: string
  nc_bootstrap :: "string list"
  nc_max_frame_size :: usize
  nc_max_connections :: usize
  nc_peer_ttl_seconds :: u64
  nc_allow_private_addresses :: bool
  nc_prefer_relay :: bool
  nc_hole_punch_enabled :: bool
  nc_hole_punch_max_attempts :: usize
  nc_relay_addresses :: "string list"
  nc_relay_enabled :: bool
  nc_relay_max_sessions :: usize
  nc_relay_max_bytes :: u64
  nc_capabilities :: "Capability list"
  nc_dht_enabled :: bool
  nc_dht_k :: usize
  nc_dht_alpha :: usize
  nc_dht_max_records :: usize

datatype NetworkError =
    NW_InvalidConfig string
  | NW_Io string
  | NW_Quic string
  | NW_Codec string
  | NW_NotConnected
  | NW_PeerTableFull
  | NW_IdentityVerification
  | NW_PeerProtocol string
  | NW_Storage string

fun NetworkError_to_string :: "NetworkError \<Rightarrow> string" where
  "NetworkError_to_string (NW_InvalidConfig m) = ''network configuration is invalid: '' @ m"
| "NetworkError_to_string (NW_Io m) = ''network I/O failed: '' @ m"
| "NetworkError_to_string (NW_Quic m) = ''QUIC transport failed: '' @ m"
| "NetworkError_to_string (NW_Codec m) = ''wire codec failed: '' @ m"
| "NetworkError_to_string NW_NotConnected = ''peer is not connected''"
| "NetworkError_to_string NW_PeerTableFull = ''peer table is full''"
| "NetworkError_to_string NW_IdentityVerification = ''peer identity verification failed''"
| "NetworkError_to_string (NW_PeerProtocol m) = ''peer protocol error: '' @ m"
| "NetworkError_to_string (NW_Storage m) = ''storage failed: '' @ m"

abbreviation invalid_network :: "string \<Rightarrow> NetworkError + 'a" where
  "invalid_network m \<equiv> Inl (NW_InvalidConfig m)"

abbreviation peer_protocol :: "string \<Rightarrow> NetworkError + 'a" where
  "peer_protocol m \<equiv> Inl (NW_PeerProtocol m)"

definition peer_validated :: "check \<Rightarrow> NetworkError + unit" where
  "peer_validated c = map_err (\<lambda>error. NW_PeerProtocol (ValidationError_to_string error)) c"

definition socket_addr_error :: string where
  "socket_addr_error = ''invalid socket address syntax''"

definition NetworkConfig_validate :: "NetworkConfig \<Rightarrow> NetworkError + unit" where
  "NetworkConfig_validate c = all_ok [
     err_if (nc_max_frame_size c = 0 \<or> nc_max_frame_size c > MAX_FRAME_SIZE)
       (NW_InvalidConfig ''max_frame_size must be positive and within the protocol maximum''),
     err_if (nc_max_connections c = 0 \<or> nc_peer_ttl_seconds c = 0 \<or> nc_peer_ttl_seconds c > 24 * 60 * 60)
       (NW_InvalidConfig ''network limits are invalid''),
     err_if (nc_advertise_addr c = [] \<or> length (nc_advertise_addr c) > 256) (NW_InvalidConfig ''advertise_addr is invalid''),
     err_if (parse_socket_addr (nc_advertise_addr c) = None)
       (NW_InvalidConfig (''advertise_addr must be SocketAddr: '' @ socket_addr_error)),
     err_if (length (nc_capabilities c) > MAX_CAPABILITIES) (NW_InvalidConfig ''too many capabilities''),
     err_if (length (nc_bootstrap c) > MAX_PEERS) (NW_InvalidConfig ''too many bootstrap peers''),
     err_if (length (nc_relay_addresses c) > MAX_PEERS \<or> nc_relay_max_sessions c = 0 \<or> nc_relay_max_bytes c = 0
         \<or> nc_relay_max_bytes c > of_nat MAX_RELAY_PAYLOAD * 4096)
       (NW_InvalidConfig ''relay limits or relay address count are invalid''),
     err_if (nc_hole_punch_max_attempts c = 0 \<or> nc_hole_punch_max_attempts c > 16)
       (NW_InvalidConfig ''hole-punch attempt limit is invalid''),
     err_if (nc_dht_k c = 0 \<or> nc_dht_k c > MAX_DHT_CONTACTS \<or> nc_dht_alpha c = 0 \<or> nc_dht_alpha c > nc_dht_k c
         \<or> nc_dht_max_records c = 0 \<or> nc_dht_max_records c > 16 * DEFAULT_MAX_RECORDS)
       (NW_InvalidConfig ''DHT limits are invalid''),
     all_ok (map (\<lambda>address. err_if (parse_socket_addr address = None)
       (NW_InvalidConfig (''peer address is invalid: '' @ socket_addr_error))) (nc_bootstrap c @ nc_relay_addresses c)),
     all_ok (map (\<lambda>capability. map_err (\<lambda>error. NW_InvalidConfig (ValidationError_to_string error))
       (capability_check capability)) (nc_capabilities c))]"

section \<open>State\<close>

definition MAX_LEARNED_PEERS :: usize where "MAX_LEARNED_PEERS = 2048"
definition MAX_SEEN_DHT_REQUESTS :: usize where "MAX_SEEN_DHT_REQUESTS = 4096"
definition DHT_REQUESTS_PER_WINDOW :: u32 where "DHT_REQUESTS_PER_WINDOW = 128"
definition DHT_REQUEST_WINDOW_SECONDS :: u64 where "DHT_REQUEST_WINDOW_SECONDS = 60"

record PeerState =
  ps_records :: "(NodeId, PeerRecord) btree"
  ps_announcements :: "(NodeId, SignedAnnouncement) btree"
  ps_address_updates :: "(NodeId, AddressUpdate) btree"
  ps_rotations :: "(NodeId, KeyRotation) btree"
  ps_senders :: "(NodeId, bool) btree"
  ps_connections :: "(NodeId, bool) btree"
  ps_connection_ids :: "(NodeId, u64) btree"
  ps_connection_directions :: "(NodeId, bool) btree"
  ps_versions :: "(NodeId, u16) btree"

record RelaySession =
  rs_origin :: NodeId
  rs_target :: NodeId
  rs_bytes :: u64
  rs_last_activity :: u64

record DhtRuntime =
  dht_table :: DhtTable
  dht_store :: DhtStore
  dht_pending :: "RequestId set"
  dht_seen_requests :: "RequestId set"
  dht_request_order :: "RequestId list"
  dht_rpc_sent :: u64
  dht_rpc_received :: u64
  dht_lookups :: u64
  dht_lookup_successes :: u64
  dht_invalid_records :: u64
  dht_request_windows :: "(NodeId, u64 \<times> u32) btree"
  dht_rate_limited_requests :: u64

datatype NetworkEvent =
    NV_PeerConnected PeerRecord
  | NV_PeerDisconnected NodeId
  | NV_Message NodeId Message
  | NV_ProtocolError "NodeId option" string

text \<open>The files of \<^verbatim>\<open>LocalStore\<close> the handle saves to.\<close>

datatype network_file = NF_PeerRecords | NF_DhtRecords | NF_DhtContacts | NF_KeyRotations

record NetworkDisk =
  nd_peer_records :: "PeerRecord list"
  nd_dht_records :: "DhtRecord list"
  nd_dht_contacts :: "SignedAnnouncement list"
  nd_key_rotations :: "KeyRotation list"

record NetworkHandle =
  nh_node_id :: NodeId
  nh_public_key :: "32 bytes"
  nh_config :: NetworkConfig
  nh_peers :: PeerState
  nh_seen_hellos :: "(NodeId \<times> 16 bytes) set"
  nh_observed_addresses :: "AddressObservation list"
  nh_relay_routes :: "(NodeId, NodeId) btree"
  nh_relay_session_ids :: "(NodeId \<times> NodeId, RequestId) btree"
  nh_relay_sessions :: "(RequestId, RelaySession) btree"
  nh_dht :: DhtRuntime
  nh_disk :: NetworkDisk
  nh_outbox :: "(NodeId \<times> Message) list"
  nh_events :: "NetworkEvent list"

text \<open>
  What a request to a peer meets: an answer, no answer within the timeout of the request, or the caller's own shorter
  timeout, which drops the request where it waits.
\<close>

datatype rpc_outcome = RPC_Answered DhtResponseKind | RPC_Unanswered | RPC_Dropped

record network_env =
  nv_now :: u64
  nv_save_error :: "network_file \<Rightarrow> string option"
  nv_channel_full :: "NodeId \<Rightarrow> bool"
  nv_writer_stopped :: bool
  nv_request_id :: RequestId
  nv_outcome :: "NodeId \<Rightarrow> rpc_outcome"

record network_codec =
  nk_blake3 :: hash_fn
  nk_verify :: "32 bytes \<Rightarrow> u8 list \<Rightarrow> u8 list \<Rightarrow> bool"
  nk_sign :: "u8 list \<Rightarrow> u8 list"
  nk_encode_record :: "PeerRecord \<Rightarrow> string + u8 list"
  nk_encode_hello :: "16 bytes \<times> VersionRange \<times> PeerRecord \<Rightarrow> string + u8 list"
  nk_encode_addresses :: "NodeId \<times> u64 \<times> AddressRecord list \<Rightarrow> string + u8 list"
  nk_encode_observation :: "NodeId \<times> string \<times> NodeId \<times> u64 \<times> 16 bytes \<Rightarrow> string + u8 list"
  nk_encode_rotation :: "NodeId \<times> 32 bytes \<times> NodeId \<times> 32 bytes \<times> u64 \<times> u64 \<times> u64 \<Rightarrow> string + u8 list"
  nk_encode_dht_record :: "DhtNamespace \<times> DhtKey \<times> NodeId \<times> 32 bytes \<times> u64 \<times> u64 \<times> u8 list \<Rightarrow> string + u8 list"
  nk_encode_relay :: "RequestId \<times> NodeId \<times> NodeId \<times> u8 list \<Rightarrow> string + u8 list"
  nk_encode_message :: "Message \<Rightarrow> string + u8 list"
  nk_decode_message :: "u8 list \<Rightarrow> string + Message"

type_synonym 'a network_result = "NetworkHandle \<times> (NetworkError + 'a)"

end
