(* ===== verification/Network_Peers.thy ===== *)
theory Network_Peers
  imports Network_State
begin

text \<open>
  The peer table of \<^verbatim>\<open>network/src/lib.rs\<close>: which addresses may be dialled, which announcements, address updates,
  observations, key rotations and hellos are believed, and what they change.
\<close>

section \<open>Addresses\<close>

text \<open>The predicates of \<^verbatim>\<open>std::net\<close> on addresses.\<close>

definition octet :: "nat \<Rightarrow> u32 \<Rightarrow> u32" where
  "octet i ip = and (drop_bit (24 - 8 * i) ip) 255"

definition segment_0 :: "u128 \<Rightarrow> u128" where
  "segment_0 ip = drop_bit 112 ip"

fun is_loopback :: "IpAddr \<Rightarrow> bool" where
  "is_loopback (IP_V4 ip) \<longleftrightarrow> octet 0 ip = 127"
| "is_loopback (IP_V6 ip) \<longleftrightarrow> ip = 1"

fun is_unspecified :: "IpAddr \<Rightarrow> bool" where
  "is_unspecified (IP_V4 ip) \<longleftrightarrow> ip = 0"
| "is_unspecified (IP_V6 ip) \<longleftrightarrow> ip = 0"

fun is_multicast :: "IpAddr \<Rightarrow> bool" where
  "is_multicast (IP_V4 ip) \<longleftrightarrow> 224 \<le> octet 0 ip \<and> octet 0 ip \<le> 239"
| "is_multicast (IP_V6 ip) \<longleftrightarrow> and (segment_0 ip) 0xff00 = 0xff00"

text \<open>\<^verbatim>\<open>is_private\<close> or \<^verbatim>\<open>is_link_local\<close> of IPv4, \<^verbatim>\<open>is_unique_local\<close> or \<^verbatim>\<open>is_unicast_link_local\<close> of IPv6.\<close>

fun is_site_local :: "IpAddr \<Rightarrow> bool" where
  "is_site_local (IP_V4 ip) \<longleftrightarrow> octet 0 ip = 10 \<or> (octet 0 ip = 172 \<and> 16 \<le> octet 1 ip \<and> octet 1 ip \<le> 31)
     \<or> (octet 0 ip = 192 \<and> octet 1 ip = 168) \<or> (octet 0 ip = 169 \<and> octet 1 ip = 254)"
| "is_site_local (IP_V6 ip) \<longleftrightarrow> and (segment_0 ip) 0xfe00 = 0xfc00 \<or> and (segment_0 ip) 0xffc0 = 0xfe80"

definition address_is_public :: "IpAddr \<times> int \<Rightarrow> bool" where
  "address_is_public address \<longleftrightarrow> (let ip = fst address in
     \<not> is_loopback ip \<and> \<not> is_unspecified ip \<and> \<not> is_multicast ip \<and> \<not> is_site_local ip)"

definition address_allowed :: "NetworkConfig \<Rightarrow> IpAddr \<times> int \<Rightarrow> AddressSource \<Rightarrow> bool" where
  "address_allowed config address source \<longleftrightarrow>
    (if snd address = 0 then False
     else if source \<in> {AS_Configured, AS_Local} \<or> nc_allow_private_addresses config then True
     else let ip = fst address in
       if is_loopback ip \<or> is_unspecified ip \<or> is_multicast ip then False else \<not> is_site_local ip)"

definition learned_address :: "NetworkConfig \<Rightarrow> string \<Rightarrow> bool" where
  "learned_address config address =
     is_some_and (parse_socket_addr address) (\<lambda>parsed. address_allowed config parsed AS_Learned)"

fun keep_first :: "'a list \<Rightarrow> 'a list \<Rightarrow> 'a list" where
  "keep_first seen [] = []"
| "keep_first seen (x # xs) = (if x \<in> set seen then keep_first seen xs else x # keep_first (x # seen) xs)"

definition dedupe_addresses :: "string list \<Rightarrow> string list" where
  "dedupe_addresses addresses = take 8 (keep_first [] addresses)"

definition preferred_addresses :: "NetworkConfig \<Rightarrow> string list \<Rightarrow> string list" where
  "preferred_addresses config addresses =
    (let vals = List.map_filter (\<lambda>address. case parse_socket_addr address of
           None \<Rightarrow> None
         | Some parsed \<Rightarrow> if address_allowed config parsed AS_Learned
             then Some (address, address_is_public parsed) else None) addresses
     in map fst (sort_key (\<lambda>(_, global). \<not> global) vals))"

section \<open>What is believed\<close>

definition record_time_valid :: "network_env \<Rightarrow> NetworkConfig \<Rightarrow> PeerRecord \<Rightarrow> bool" where
  "record_time_valid env config r \<longleftrightarrow> pr_announced_at r \<le> sat_add (nv_now env) 60 \<and> pr_expires_at r \<ge> nv_now env
     \<and> sat_sub (pr_expires_at r) (pr_announced_at r) \<le> sat_mul (nc_peer_ttl_seconds config) 2"

definition record_is_fresher :: "PeerRecord \<Rightarrow> PeerRecord \<Rightarrow> bool" where
  "record_is_fresher previous next_record \<longleftrightarrow> pr_announced_at next_record > pr_announced_at previous
     \<or> (pr_announced_at next_record = pr_announced_at previous \<and> pr_expires_at next_record \<ge> pr_expires_at previous)"

definition verified :: "network_codec \<Rightarrow> 32 bytes \<Rightarrow> string + u8 list \<Rightarrow> u8 list \<Rightarrow> bool" where
  "verified codec public_key encoded signature =
     (case encoded of Inl _ \<Rightarrow> False | Inr bytes \<Rightarrow> nk_verify codec public_key bytes signature)"

definition verify_announcement :: "network_codec \<Rightarrow> SignedAnnouncement \<Rightarrow> bool" where
  "verify_announcement codec a \<longleftrightarrow>
     (if pr_node_id (sa_record a) \<noteq> from_public_key (nk_blake3 codec) (pr_public_key (sa_record a)) then False
      else verified codec (pr_public_key (sa_record a)) (nk_encode_record codec (sa_record a)) (sa_signature a))"

definition verify_address_update :: "network_codec \<Rightarrow> NetworkHandle \<Rightarrow> AddressUpdate \<Rightarrow> bool" where
  "verify_address_update codec h update \<longleftrightarrow>
    (if is_err (AddressUpdate_validate update) \<or> au_node_id update = nh_node_id h then False
     else case bt_get (ps_records (nh_peers h)) (au_node_id update) of
       None \<Rightarrow> False
     | Some r \<Rightarrow> verified codec (pr_public_key r)
         (nk_encode_addresses codec (au_node_id update, au_sequence update, au_addresses update)) (au_signature update))"

definition verify_address_observation :: "network_codec \<Rightarrow> NetworkHandle \<Rightarrow> NodeId \<Rightarrow> AddressObservation \<Rightarrow> bool" where
  "verify_address_observation codec h authenticated_peer observation \<longleftrightarrow>
    (if is_err (AddressObservation_validate observation) \<or> ao_observed_by observation \<noteq> authenticated_peer
        \<or> ao_subject observation \<noteq> nh_node_id h then False
     else case bt_get (ps_records (nh_peers h)) authenticated_peer of
       None \<Rightarrow> False
     | Some r \<Rightarrow> verified codec (pr_public_key r)
         (nk_encode_observation codec (ao_subject observation, ao_address observation, ao_observed_by observation,
            ao_expires_at observation, ao_nonce observation)) (ao_signature observation))"

definition verify_key_rotation :: "network_codec \<Rightarrow> network_env \<Rightarrow> KeyRotation \<Rightarrow> bool" where
  "verify_key_rotation codec env rotation \<longleftrightarrow>
    (if is_err (KeyRotation_validate (nk_blake3 codec) rotation) \<or> kr_valid_from rotation > sat_add (nv_now env) 60
        \<or> kr_valid_until rotation < nv_now env then False
     else let encoded = nk_encode_rotation codec (kr_old_node_id rotation, kr_old_public_key rotation,
            kr_new_node_id rotation, kr_new_public_key rotation, kr_sequence rotation, kr_valid_from rotation,
            kr_valid_until rotation)
       in verified codec (kr_old_public_key rotation) encoded (kr_old_signature rotation)
          \<and> verified codec (kr_new_public_key rotation) encoded (kr_new_signature rotation))"

section \<open>Channels and files\<close>

definition queue_to :: "NodeId \<Rightarrow> Message \<Rightarrow> NetworkHandle \<Rightarrow> NetworkHandle" where
  "queue_to node message h = h\<lparr>nh_outbox := nh_outbox h @ [(node, message)]\<rparr>"

text \<open>\<^verbatim>\<open>try_send\<close> on the channels of some peers: a channel that is closed or full loses the message.\<close>

definition try_send_all :: "network_env \<Rightarrow> NodeId list \<Rightarrow> Message \<Rightarrow> NetworkHandle \<Rightarrow> NetworkHandle" where
  "try_send_all env nodes message h = fold (\<lambda>node. queue_to node message)
     (filter (\<lambda>node. bt_get (ps_senders (nh_peers h)) node = Some True \<and> \<not> nv_channel_full env node) nodes) h"

definition save :: "network_env \<Rightarrow> network_file \<Rightarrow> (NetworkDisk \<Rightarrow> NetworkDisk) \<Rightarrow> NetworkHandle \<Rightarrow> unit network_result" where
  "save env file f h = (case nv_save_error env file of
     Some error \<Rightarrow> (h, Inl (NW_Storage error))
   | None \<Rightarrow> (h\<lparr>nh_disk := f (nh_disk h)\<rparr>, Inr ()))"

definition save_peer_records :: "network_env \<Rightarrow> NetworkHandle \<Rightarrow> unit network_result" where
  "save_peer_records env h =
     save env NF_PeerRecords (nd_peer_records_update (\<lambda>_. bt_values (ps_records (nh_peers h)))) h"

abbreviation on_peers :: "(PeerState \<Rightarrow> PeerState) \<Rightarrow> NetworkHandle \<Rightarrow> NetworkHandle" where
  "on_peers f h \<equiv> nh_peers_update f h"

section \<open>Updates\<close>

definition drop_expired_records :: "u64 \<Rightarrow> PeerState \<Rightarrow> PeerState" where
  "drop_expired_records now peers =
     peers\<lparr>ps_records := bt_retain (\<lambda>_ r. if pr_expires_at r \<ge> now then Some r else None) (ps_records peers)\<rparr>"

definition drop_stale_announcements :: "PeerState \<Rightarrow> PeerState" where
  "drop_stale_announcements peers = peers\<lparr>ps_announcements := bt_retain (\<lambda>node a.
     if bt_get (ps_records peers) node \<noteq> None then Some a else None) (ps_announcements peers)\<rparr>"

text \<open>What \<^verbatim>\<open>upsert_peer\<close> does under the lock of the peer table, and whether the announcement is news.\<close>

definition insert_announcement :: "network_env \<Rightarrow> PeerRecord \<Rightarrow> SignedAnnouncement \<Rightarrow> PeerState \<Rightarrow>
    PeerState \<times> (NetworkError + bool)" where
  "insert_announcement env r a peers =
    (let full = (bt_get (ps_records peers) (pr_node_id r) = None \<and> bt_len (ps_records peers) \<ge> MAX_LEARNED_PEERS);
         peers = (if full then drop_stale_announcements (drop_expired_records (nv_now env) peers) else peers)
     in if full \<and> bt_len (ps_records peers) \<ge> MAX_LEARNED_PEERS then (peers, Inl NW_PeerTableFull)
        else (peers\<lparr>ps_records := bt_insert (pr_node_id r) r (ps_records peers),
                ps_announcements := bt_insert (contact_id a) a (ps_announcements peers)\<rparr>,
              Inr (bt_get (ps_announcements peers) (pr_node_id r) \<noteq> Some a)))"

definition advertise_contact :: "network_env \<Rightarrow> SignedAnnouncement \<Rightarrow> NetworkHandle \<Rightarrow> NetworkHandle" where
  "advertise_contact env a h =
    (if \<not> nc_dht_enabled (nh_config h) then h
     else let authenticated = (bt_get (ps_senders (nh_peers h)) (contact_id a) \<noteq> None);
              table = fst (DhtTable_insert (dht_table (nh_dht h)) a (nv_now env));
              table = (if authenticated then fst (DhtTable_protect table a (nv_now env)) else table)
       in h\<lparr>nh_dht := (nh_dht h)\<lparr>dht_table := table\<rparr>\<rparr>)"

definition upsert_peer :: "network_env \<Rightarrow> SignedAnnouncement \<Rightarrow> NetworkHandle \<Rightarrow> unit network_result" where
  "upsert_peer env a h =
    (let r = sa_record a in
     if pr_node_id r = nh_node_id h then (h, Inr ())
     else checked (peer_validated (peer_check r)) h (\<lambda>_.
     if pr_expires_at r < nv_now env then (h, Inr ())
     else if \<not> record_time_valid env (nh_config h) r
     then (h, peer_protocol ''peer announcement has an invalid lifetime'')
     else if \<exists>address\<in>set (pr_addresses r). \<not> learned_address (nh_config h) address then (h, Inr ())
     else let r = r\<lparr>pr_addresses := dedupe_addresses (pr_addresses r)\<rparr>
       in if is_some_and (bt_get (ps_records (nh_peers h)) (pr_node_id r)) (\<lambda>previous. \<not> record_is_fresher previous r)
       then (h, Inr ())
       else case insert_announcement env r a (nh_peers h) of
         (peers, Inl e) \<Rightarrow> (h\<lparr>nh_peers := peers\<rparr>, Inl e)
       | (peers, Inr changed) \<Rightarrow>
           let senders = (if changed then map fst (bt_entries (ps_senders peers)) else [])
           in try_then (save_peer_records env (h\<lparr>nh_peers := peers\<rparr>)) (\<lambda>h _.
              (try_send_all env senders (M_Announcement a) (advertise_contact env a h), Inr ()))))"

definition upsert_address_update :: "network_env \<Rightarrow> AddressUpdate \<Rightarrow> NetworkHandle \<Rightarrow> unit network_result" where
  "upsert_address_update env update h =
    (let peers = nh_peers h in
     if is_some_and (bt_get (ps_address_updates peers) (au_node_id update)) (\<lambda>previous. au_sequence previous \<ge> au_sequence update)
     then (h, Inr ())
     else let addresses = dedupe_addresses (filter (learned_address (nh_config h))
            (map ar_address (filter (\<lambda>address. ar_expires_at address \<ge> nv_now env) (au_addresses update))));
          records = (case bt_get (ps_records peers) (au_node_id update) of
             None \<Rightarrow> ps_records peers
           | Some r \<Rightarrow> bt_insert (au_node_id update) (r\<lparr>pr_addresses := addresses\<rparr>) (ps_records peers))
       in save_peer_records env (h\<lparr>nh_peers := peers\<lparr>ps_records := records,
            ps_address_updates := bt_insert (au_node_id update) update (ps_address_updates peers)\<rparr>\<rparr>))"

definition record_observation :: "network_env \<Rightarrow> AddressObservation \<Rightarrow> NetworkHandle \<Rightarrow> NetworkHandle" where
  "record_observation env observation h =
    (let kept = filter (\<lambda>item. ao_expires_at item \<ge> nv_now env \<and> ao_nonce item \<noteq> ao_nonce observation)
           (nh_observed_addresses h);
         sorted_items = sort_key ao_expires_at (kept @ [observation])
     in h\<lparr>nh_observed_addresses := drop (length sorted_items - 16) sorted_items\<rparr>)"

definition upsert_key_rotation :: "network_env \<Rightarrow> KeyRotation \<Rightarrow> NetworkHandle \<Rightarrow> unit network_result" where
  "upsert_key_rotation env rotation h =
    (let peers = nh_peers h in
     if is_some_and (bt_get (ps_records peers) (kr_old_node_id rotation))
          (\<lambda>old_record. pr_public_key old_record \<noteq> kr_old_public_key rotation)
     then (h, Inl NW_IdentityVerification)
     else if (\<exists>previous\<in>set (bt_values (ps_rotations peers)). kr_old_node_id previous = kr_old_node_id rotation
              \<and> kr_sequence previous \<ge> kr_sequence rotation \<and> kr_new_node_id previous \<noteq> kr_new_node_id rotation)
     then (h, Inr ())
     else if is_some_and (bt_get (ps_rotations peers) (kr_new_node_id rotation))
          (\<lambda>previous. kr_sequence previous \<ge> kr_sequence rotation)
     then (h, Inr ())
     else let h = h\<lparr>nh_peers := peers\<lparr>ps_rotations := bt_insert (kr_new_node_id rotation) rotation (ps_rotations peers)\<rparr>\<rparr>;
              senders = filter (\<lambda>node. (case bt_get (ps_versions peers) node of None \<Rightarrow> 0 | Some minor \<Rightarrow> minor) \<ge> 1)
                (map fst (bt_entries (ps_senders peers)))
       in try_then (save env NF_KeyRotations (nd_key_rotations_update (\<lambda>_. bt_values (ps_rotations (nh_peers h)))) h)
          (\<lambda>h _. (try_send_all env senders (M_KeyRotation rotation) h, Inr ())))"

section \<open>Hellos\<close>

definition verify_hello :: "network_codec \<Rightarrow> network_env \<Rightarrow> Hello \<Rightarrow> NetworkHandle \<Rightarrow> u16 network_result" where
  "verify_hello codec env hello h =
    (let r = hello_record hello; supported = hello_supported hello in
     checked (peer_validated (Hello_validate hello)) h (\<lambda>_.
     if pr_node_id r = nh_node_id h \<or> vr_major supported \<noteq> PROTOCOL_MAJOR \<or> vr_min_minor supported > PROTOCOL_MINOR
        \<or> vr_min_minor supported > vr_max_minor supported \<or> vr_max_minor supported < vr_min_minor current_version
        \<or> pr_node_id r \<noteq> from_public_key (nk_blake3 codec) (pr_public_key r) \<or> \<not> record_time_valid env (nh_config h) r
     then (h, Inl NW_IdentityVerification)
     else checked (map_err NW_PeerProtocol (nk_encode_hello codec (hello_nonce hello, supported, r))) h (\<lambda>bytes.
     if \<not> nk_verify codec (pr_public_key r) bytes (hello_signature hello) then (h, Inl NW_IdentityVerification)
     else let seen = nh_seen_hellos h; entry = (pr_node_id r, hello_nonce hello) in
       if entry \<in> seen then (h, peer_protocol ''replayed hello nonce'')
       else let seen = insert entry seen
         in (h\<lparr>nh_seen_hellos := (if card seen > 4096 then {} else seen)\<rparr>, Inr (min PROTOCOL_MINOR (vr_max_minor supported))))))"

end
