(* ===== verification/Network_Dht.thy ===== *)
theory Network_Dht
  imports Network_Peers
begin

text \<open>
  The DHT operations of \<^verbatim>\<open>NetworkHandle\<close>: admission of records, requests to peers with their table of pending
  answers, requests from peers with replay and rate protection, and the iterative lookups. The requests of one round
  of a lookup run one after the other; what each of them meets is given by the environment.
\<close>

section \<open>Sending\<close>

definition message_required_minor :: "Message \<Rightarrow> u16" where
  "message_required_minor message = (if kind message \<ge> 22 then 4 else if kind message \<ge> 21 then 3
     else if kind message \<ge> 19 then 2 else if kind message \<ge> 13 then 1 else 0)"

definition negotiated_minor :: "PeerState \<Rightarrow> NodeId \<Rightarrow> u16" where
  "negotiated_minor peers node = (case bt_get (ps_versions peers) node of None \<Rightarrow> 0 | Some minor \<Rightarrow> minor)"

definition send_connected :: "NodeId \<Rightarrow> Message \<Rightarrow> NetworkHandle \<Rightarrow> unit network_result" where
  "send_connected node message h =
    (if negotiated_minor (nh_peers h) node < message_required_minor message
     then (h, peer_protocol ''message requires a newer protocol minor'')
     else case bt_get (ps_senders (nh_peers h)) node of
       None \<Rightarrow> (h, Inl NW_NotConnected)
     | Some False \<Rightarrow> (h, Inl NW_NotConnected)
     | Some True \<Rightarrow> (queue_to node message h, Inr ()))"

abbreviation on_dht :: "(DhtRuntime \<Rightarrow> DhtRuntime) \<Rightarrow> NetworkHandle \<Rightarrow> NetworkHandle" where
  "on_dht f h \<equiv> nh_dht_update f h"

section \<open>Records\<close>

definition verify_dht_record :: "network_codec \<Rightarrow> DhtRecord \<Rightarrow> bool" where
  "verify_dht_record codec r \<longleftrightarrow>
    (if is_err (DhtRecord_validate (nk_blake3 codec) r) then False
     else verified codec (dr_owner_public_key r) (nk_encode_dht_record codec (dr_namespace r, dr_key r, dr_owner r,
       dr_owner_public_key r, dr_sequence r, dr_expires_at r, dr_value r)) (dr_signature r))"

definition dht_expiry_valid :: "DhtRecord \<Rightarrow> u64 \<Rightarrow> u64 \<Rightarrow> bool" where
  "dht_expiry_valid r now peer_ttl_seconds \<longleftrightarrow> dr_expires_at r \<ge> now
     \<and> sat_sub (dr_expires_at r) now \<le> max (sat_mul peer_ttl_seconds 2) 60"

definition count_invalid_record :: "NetworkHandle \<Rightarrow> NetworkHandle" where
  "count_invalid_record h = on_dht (dht_invalid_records_update (\<lambda>n. sat_add n 1)) h"

definition store_dht_record :: "network_codec \<Rightarrow> network_env \<Rightarrow> DhtRecord \<Rightarrow> NetworkHandle \<Rightarrow> bool network_result" where
  "store_dht_record codec env r h =
    (if \<not> verify_dht_record codec r \<or> \<not> dht_expiry_valid r (nv_now env) (nc_peer_ttl_seconds (nh_config h))
     then (count_invalid_record h, peer_protocol ''DHT record signature, owner binding, or expiry is invalid'')
     else case DhtStore_put (dht_store (nh_dht h)) r (nv_now env) of (store, accepted) \<Rightarrow>
       let h = on_dht (dht_store_update (\<lambda>_. store)) h
       in if accepted
          then try_then (save env NF_DhtRecords (nd_dht_records_update (\<lambda>_. DhtStore_records store (nv_now env))) h)
            (\<lambda>h _. (h, Inr True))
          else (h, Inr False))"

section \<open>Requests to peers\<close>

text \<open>
  \<^verbatim>\<open>dht_rpc\<close>. The result is \<^const>\<open>None\<close> when the caller's own timeout dropped the request while it waited for its
  answer; an answer has passed \<^verbatim>\<open>handle_dht_response\<close>, which takes the request off the pending table.
\<close>

definition pending_limit :: "NetworkConfig \<Rightarrow> usize" where
  "pending_limit config = max (usat (nc_dht_k config * 4)) 16"

definition dht_rpc :: "network_env \<Rightarrow> NodeId \<Rightarrow> DhtRequestKind \<Rightarrow> NetworkHandle \<Rightarrow>
    NetworkHandle \<times> (NetworkError + DhtResponseKind) option" where
  "dht_rpc env peer request h =
    (if card (dht_pending (nh_dht h)) \<ge> pending_limit (nh_config h)
     then (h, Some (peer_protocol ''DHT request concurrency limit reached''))
     else let request_id = nv_request_id env;
              forget = on_dht (dht_pending_update (\<lambda>pending. pending - {request_id}));
              h = on_dht (\<lambda>dht. dht\<lparr>dht_pending := insert request_id (dht_pending dht),
                                    dht_rpc_sent := sat_add (dht_rpc_sent dht) 1\<rparr>) h
       in case send_connected peer (M_DhtRequest \<lparr>drq_request_id = request_id, drq_origin = nh_node_id h,
              drq_request = request\<rparr>) h of
            (h, Inl error) \<Rightarrow> (forget h, Some (Inl error))
          | (h, Inr _) \<Rightarrow> (case nv_outcome env peer of
              RPC_Answered response \<Rightarrow>
                (on_dht (dht_rpc_received_update (\<lambda>n. sat_add n 1)) (forget h), Some (Inr response))
            | RPC_Unanswered \<Rightarrow> (forget h, Some (peer_protocol ''DHT RPC timed out''))
            | RPC_Dropped \<Rightarrow> (h, None)))"

text \<open>The 750 milliseconds of a ping are shorter than the three seconds of the request it waits for.\<close>

definition authenticated_ping :: "network_env \<Rightarrow> NodeId \<Rightarrow> NetworkHandle \<Rightarrow> unit network_result" where
  "authenticated_ping env peer h =
    (let outcome = (case nv_outcome env peer of RPC_Unanswered \<Rightarrow> RPC_Dropped | other \<Rightarrow> other)
     in case dht_rpc (env\<lparr>nv_outcome := (\<lambda>_. outcome)\<rparr>) peer DRQ_Ping h of
          (h, None) \<Rightarrow> (h, peer_protocol ''authenticated ping timed out'')
        | (h, Some (Inl error)) \<Rightarrow> (h, Inl error)
        | (h, Some (Inr DRS_Pong)) \<Rightarrow> (h, Inr ())
        | (h, Some (Inr (DRS_Error _ message))) \<Rightarrow> (h, peer_protocol message)
        | (h, Some (Inr _)) \<Rightarrow> (h, peer_protocol ''authenticated ping returned an unexpected response''))"

definition handle_dht_response :: "network_codec \<Rightarrow> NodeId \<Rightarrow> DhtResponse \<Rightarrow> NetworkHandle \<Rightarrow> unit network_result" where
  "handle_dht_response codec authenticated_peer response h =
     checked (peer_validated (DhtResponse_validate (nk_blake3 codec) response)) h (\<lambda>_.
     if drs_responder response \<noteq> authenticated_peer then (h, Inl NW_IdentityVerification)
     else if drs_request_id response \<in> dht_pending (nh_dht h)
     then (on_dht (\<lambda>dht. dht\<lparr>dht_pending := dht_pending dht - {drs_request_id response},
             dht_rpc_received := sat_add (dht_rpc_received dht) 1\<rparr>) h, Inr ())
     else (h, Inr ()))"

section \<open>Requests from peers\<close>

datatype request_verdict = RV_RateLimited | RV_Duplicate | RV_Fresh

text \<open>The budget of the peer in the current window, with the request counted, unless it is spent.\<close>

definition spend_budget :: "u64 \<Rightarrow> NodeId \<Rightarrow> DhtRuntime \<Rightarrow> DhtRuntime \<times> bool" where
  "spend_budget now peer dht =
    (let window = now div DHT_REQUEST_WINDOW_SECONDS;
         budget = (case bt_get (dht_request_windows dht) peer of Some b \<Rightarrow> b | None \<Rightarrow> (window, 0));
         budget = (if fst budget \<noteq> window then (window, 0) else budget);
         over_budget = (snd budget \<ge> DHT_REQUESTS_PER_WINDOW);
         budget = (if over_budget then budget else (fst budget, sat_add (snd budget) 1))
     in (dht\<lparr>dht_request_windows := bt_insert peer budget (dht_request_windows dht)\<rparr>, over_budget))"

definition remember_request :: "RequestId \<Rightarrow> DhtRuntime \<Rightarrow> DhtRuntime" where
  "remember_request request_id dht =
    (let order = dht_request_order dht @ [request_id]; seen = insert request_id (dht_seen_requests dht)
     in if length order > MAX_SEEN_DHT_REQUESTS
        then dht\<lparr>dht_seen_requests := seen - {hd order}, dht_request_order := tl order\<rparr>
        else dht\<lparr>dht_seen_requests := seen, dht_request_order := order\<rparr>)"

definition judge_request :: "u64 \<Rightarrow> NodeId \<Rightarrow> RequestId \<Rightarrow> DhtRuntime \<Rightarrow> DhtRuntime \<times> request_verdict" where
  "judge_request now peer request_id dht =
    (case spend_budget now peer dht of (dht, over_budget) \<Rightarrow>
       if over_budget
       then (dht\<lparr>dht_rate_limited_requests := sat_add (dht_rate_limited_requests dht) 1\<rparr>, RV_RateLimited)
       else if request_id \<in> dht_seen_requests dht then (dht, RV_Duplicate)
       else (remember_request request_id dht, RV_Fresh))"

definition answer_request :: "network_codec \<Rightarrow> network_env \<Rightarrow> NodeId \<Rightarrow> DhtRequestKind \<Rightarrow> NetworkHandle \<Rightarrow>
    DhtResponseKind network_result" where
  "answer_request codec env authenticated_peer request h = (case request of
     DRQ_Ping \<Rightarrow> (h, Inr DRS_Pong)
   | DRQ_FindNode target \<Rightarrow> (h, Inr (DRS_Nodes (DhtTable_closest_diverse (dht_table (nh_dht h)) target
       (min (nc_dht_k (nh_config h)) MAX_DHT_CONTACTS) (nv_now env))))
   | DRQ_Get namespace key \<Rightarrow>
       (case DhtStore_get_diverse (dht_store (nh_dht h)) namespace key (nv_now env) MAX_DHT_RECORDS of (store, records) \<Rightarrow>
         (on_dht (dht_store_update (\<lambda>_. store)) h, Inr (if records = [] then DRS_NotFound else DRS_Records records)))
   | DRQ_Put r \<Rightarrow>
       if dr_owner r \<noteq> authenticated_peer \<or> \<not> verify_dht_record codec r
       then (count_invalid_record h, Inr (DRS_Error EC_Unauthorized ''DHT record owner signature is invalid''))
       else try_then (store_dht_record codec env r h) (\<lambda>h stored. (h, Inr (if stored then DRS_Stored
         else DRS_Error EC_Duplicate ''DHT record is stale or already stored''))))"

definition handle_dht_request :: "network_codec \<Rightarrow> network_env \<Rightarrow> NodeId \<Rightarrow> DhtRequest \<Rightarrow> NetworkHandle \<Rightarrow> unit network_result" where
  "handle_dht_request codec env authenticated_peer request h =
    (let respond = (\<lambda>response. send_connected authenticated_peer (M_DhtResponse \<lparr>drs_request_id = drq_request_id request,
           drs_responder = nh_node_id h, drs_response = response\<rparr>)) in
     checked (peer_validated (DhtRequest_validate (nk_blake3 codec) request)) h (\<lambda>_.
     if drq_origin request \<noteq> authenticated_peer then (h, Inl NW_IdentityVerification)
     else case judge_request (nv_now env) authenticated_peer (drq_request_id request) (nh_dht h) of (dht, verdict) \<Rightarrow>
       let h = h\<lparr>nh_dht := dht\<rparr> in (case verdict of
         RV_RateLimited \<Rightarrow> respond (DRS_Error EC_Busy ''DHT request rate limit reached'') h
       | RV_Duplicate \<Rightarrow> respond (DRS_Error EC_Duplicate ''DHT request ID was already processed'') h
       | RV_Fresh \<Rightarrow> try_then (answer_request codec env authenticated_peer (drq_request request) h)
           (\<lambda>h response. respond response h))))"

section \<open>Iterative lookups\<close>

text \<open>Contacts learnt from one answer; the flag says whether there was a new one.\<close>

fun learn_contacts :: "network_codec \<Rightarrow> network_env \<Rightarrow> SignedAnnouncement list \<Rightarrow> SignedAnnouncement list \<Rightarrow> bool \<Rightarrow>
    NetworkHandle \<Rightarrow> (SignedAnnouncement list \<times> bool) network_result" where
  "learn_contacts codec env [] candidates changed h = (h, Inr (candidates, changed))"
| "learn_contacts codec env (contact # remote) candidates changed h =
    (if \<not> verify_announcement codec contact \<or> contact_id contact = nh_node_id h
        \<or> pr_expires_at (sa_record contact) < nv_now env
     then learn_contacts codec env remote candidates changed h
     else try_then (upsert_peer env contact h) (\<lambda>h _.
       if \<exists>item\<in>set candidates. contact_id item = contact_id contact
       then learn_contacts codec env remote candidates changed h
       else learn_contacts codec env remote (candidates @ [contact]) True h))"

text \<open>
  One round: the requests to the batch, each with its own environment, and what they teach. There is no environment
  for a request when the deadline has passed, and no later request is sent.
\<close>

fun query_batch :: "network_codec \<Rightarrow> (NodeId \<Rightarrow> network_env option) \<Rightarrow> DhtKey \<Rightarrow> SignedAnnouncement list \<Rightarrow>
    SignedAnnouncement list \<Rightarrow> bool \<Rightarrow> NetworkHandle \<Rightarrow> (SignedAnnouncement list \<times> bool) network_result" where
  "query_batch codec envs target [] candidates changed h = (h, Inr (candidates, changed))"
| "query_batch codec envs target (contact # batch) candidates changed h = (case envs (contact_id contact) of
     None \<Rightarrow> (h, Inr (candidates, changed))
   | Some env \<Rightarrow> (case dht_rpc env (contact_id contact) (DRQ_FindNode target) h of
       (h, Some (Inr (DRS_Nodes remote))) \<Rightarrow>
         try_then (learn_contacts codec env remote candidates changed h) (\<lambda>h (candidates, changed).
           query_batch codec envs target batch candidates changed h)
     | (h, _) \<Rightarrow> query_batch codec envs target batch candidates changed h))"

text \<open>The next contacts to query: the filter that records them in \<open>queried\<close>, stopped by \<^verbatim>\<open>take\<close>.\<close>

fun next_batch :: "nat \<Rightarrow> NodeId list \<Rightarrow> SignedAnnouncement list \<Rightarrow> SignedAnnouncement list" where
  "next_batch 0 queried candidates = []"
| "next_batch n queried [] = []"
| "next_batch (Suc n) queried (contact # candidates) =
    (if contact_id contact \<in> set queried then next_batch (Suc n) queried candidates
     else contact # next_batch n (queried @ [contact_id contact]) candidates)"

definition by_distance :: "DhtKey \<Rightarrow> SignedAnnouncement list \<Rightarrow> SignedAnnouncement list" where
  "by_distance target = sort_key (\<lambda>contact. xor_distance (contact_id contact) target)"

definition candidate_limit :: "NetworkConfig \<Rightarrow> usize" where
  "candidate_limit config = max (usat (nc_dht_k config * 2)) (nc_dht_alpha config)"

text \<open>
  The loop of \<^verbatim>\<open>dht_find_node\<close>: at most \<open>rounds\<close> rounds, fewer when no candidate is left or none was learnt. The
  second result lists the contacts queried.
\<close>

fun find_rounds :: "network_codec \<Rightarrow> (nat \<Rightarrow> NodeId \<Rightarrow> network_env option) \<Rightarrow> DhtKey \<Rightarrow> nat \<Rightarrow> NodeId list \<Rightarrow>
    SignedAnnouncement list \<Rightarrow> NetworkHandle \<Rightarrow> (SignedAnnouncement list \<times> NodeId list) network_result" where
  "find_rounds codec envs target 0 queried candidates h = (h, Inr (candidates, queried))"
| "find_rounds codec envs target (Suc rounds) queried candidates h =
    (let candidates = take (candidate_limit (nh_config h)) (by_distance target candidates);
         batch = next_batch (nc_dht_alpha (nh_config h)) queried candidates;
         queried = queried @ map contact_id batch
     in if batch = [] then (h, Inr (candidates, queried))
        else try_then (query_batch codec (envs rounds) target batch candidates False h) (\<lambda>h (candidates, changed).
          if changed then find_rounds codec envs target rounds queried candidates h
          else (h, Inr (candidates, queried))))"

definition dht_find_node :: "network_codec \<Rightarrow> (nat \<Rightarrow> NodeId \<Rightarrow> network_env option) \<Rightarrow> u64 \<Rightarrow> nat \<Rightarrow> DhtKey \<Rightarrow> NetworkHandle \<Rightarrow>
    (SignedAnnouncement list \<times> NodeId list) network_result" where
  "dht_find_node codec envs now rounds target h =
    (if \<not> nc_dht_enabled (nh_config h) then (h, invalid_network ''DHT is disabled'')
     else let candidates = DhtTable_closest_diverse (dht_table (nh_dht h)) target (nc_dht_k (nh_config h)) now
       in try_then (find_rounds codec envs target (min rounds 8) [] candidates h) (\<lambda>h (candidates, queried).
          (h, Inr (take (nc_dht_k (nh_config h)) (by_distance target candidates), queried))))"

section \<open>Reading and publishing records\<close>

fun merge_records :: "network_codec \<Rightarrow> network_env \<Rightarrow> DhtNamespace \<Rightarrow> DhtKey \<Rightarrow> DhtRecord list \<Rightarrow> DhtRecord list \<Rightarrow>
    NetworkHandle \<Rightarrow> DhtRecord list network_result" where
  "merge_records codec env namespace key [] records h = (h, Inr records)"
| "merge_records codec env namespace key (r # remote) records h =
    (if verify_dht_record codec r \<and> dr_namespace r = namespace \<and> dr_key r = key
     then try_then (store_dht_record codec env r h) (\<lambda>h _. merge_records codec env namespace key remote
       (if \<exists>existing\<in>set records. dr_owner existing = dr_owner r \<and> dr_sequence existing = dr_sequence r
        then records else records @ [r]) h)
     else merge_records codec env namespace key remote records h)"

fun read_records :: "network_codec \<Rightarrow> (NodeId \<Rightarrow> network_env option) \<Rightarrow> DhtNamespace \<Rightarrow> DhtKey \<Rightarrow> SignedAnnouncement list \<Rightarrow>
    DhtRecord list \<Rightarrow> NetworkHandle \<Rightarrow> DhtRecord list network_result" where
  "read_records codec envs namespace key [] records h = (h, Inr records)"
| "read_records codec envs namespace key (contact # contacts) records h = (case envs (contact_id contact) of
     None \<Rightarrow> (h, Inr records)
   | Some env \<Rightarrow> (case dht_rpc env (contact_id contact) (DRQ_Get namespace key) h of
       (h, Some (Inr (DRS_Records remote))) \<Rightarrow>
         try_then (merge_records codec env namespace key remote records h) (\<lambda>h records.
           read_records codec envs namespace key contacts records h)
     | (h, _) \<Rightarrow> read_records codec envs namespace key contacts records h))"

definition dht_lookup :: "network_codec \<Rightarrow> (nat \<Rightarrow> NodeId \<Rightarrow> network_env option) \<Rightarrow> u64 \<Rightarrow> nat \<Rightarrow>
    (NodeId \<Rightarrow> network_env option) \<Rightarrow> DhtNamespace \<Rightarrow> string \<Rightarrow> NetworkHandle \<Rightarrow> DhtRecord list network_result" where
  "dht_lookup codec find_envs now rounds envs namespace name h =
    (if \<not> nc_dht_enabled (nh_config h) \<or> name = [] then (h, invalid_network ''DHT is disabled or lookup name is empty'')
     else let key = for_name (nk_blake3 codec) namespace name;
              h = on_dht (dht_lookups_update (\<lambda>n. sat_add n 1)) h
       in case DhtStore_get_diverse (dht_store (nh_dht h)) namespace key now MAX_DHT_RECORDS of (store, records) \<Rightarrow>
       try_then (dht_find_node codec find_envs now rounds key (on_dht (dht_store_update (\<lambda>_. store)) h)) (\<lambda>h (contacts, _).
       try_then (read_records codec envs namespace key (take (nc_dht_k (nh_config h)) contacts) records h) (\<lambda>h records.
       let records = filter (\<lambda>r. dr_expires_at r \<ge> now) records;
           records = sort_key (\<lambda>r. (dr_owner r, NOT (dr_sequence r))) records;
           records = dedup_by_key (\<lambda>r. (dr_owner r, dr_sequence r)) records
       in (if records = [] then h else on_dht (dht_lookup_successes_update (\<lambda>n. sat_add n 1)) h, Inr records))))"

definition put_to_contacts :: "(NodeId \<Rightarrow> network_env option) \<Rightarrow> DhtRecord \<Rightarrow> SignedAnnouncement list \<Rightarrow> NetworkHandle \<Rightarrow> NetworkHandle" where
  "put_to_contacts envs r contacts h = fold (\<lambda>contact h. case envs (contact_id contact) of
     None \<Rightarrow> h | Some env \<Rightarrow> fst (dht_rpc env (contact_id contact) (DRQ_Put r) h)) contacts h"

definition dht_publish :: "network_codec \<Rightarrow> network_env \<Rightarrow> (nat \<Rightarrow> NodeId \<Rightarrow> network_env option) \<Rightarrow> nat \<Rightarrow>
    (NodeId \<Rightarrow> network_env option) \<Rightarrow> DhtNamespace \<Rightarrow> string \<Rightarrow> u8 list \<Rightarrow> u64 \<Rightarrow> u64 \<Rightarrow> NetworkHandle \<Rightarrow> DhtRecord network_result" where
  "dht_publish codec env find_envs rounds envs namespace name val ttl_seconds sequence h =
    (if \<not> nc_dht_enabled (nh_config h) \<or> name = [] \<or> ttl_seconds = 0 \<or> sequence = 0
     then (h, invalid_network ''DHT is disabled or publish parameters are invalid'')
     else let key = for_name (nk_blake3 codec) namespace name;
              expires_at = sat_add (nv_now env) ttl_seconds
       in checked (map_err NW_PeerProtocol (nk_encode_dht_record codec (namespace, key, nh_node_id h, nh_public_key h,
            sequence, expires_at, val))) h (\<lambda>bytes.
       let r = \<lparr>dr_namespace = namespace, dr_key = key, dr_owner = nh_node_id h, dr_owner_public_key = nh_public_key h,
             dr_sequence = sequence, dr_expires_at = expires_at, dr_value = val, dr_signature = nk_sign codec bytes\<rparr>
       in try_then (store_dht_record codec env r h) (\<lambda>h stored.
          if \<not> stored then (h, peer_protocol ''DHT publish sequence is stale or already stored'')
          else case dht_find_node codec find_envs (nv_now env) rounds key h of (h, found) \<Rightarrow>
            let contacts = (case found of Inl _ \<Rightarrow> [] | Inr (contacts, _) \<Rightarrow> contacts)
            in (put_to_contacts envs r (take (nc_dht_k (nh_config h)) contacts) h, Inr r))))"

section \<open>Maintenance and start\<close>

text \<open>The periodic expiry of \<^verbatim>\<open>maintenance_loop\<close>; failed saves are only logged.\<close>

definition expire_dht :: "network_env \<Rightarrow> NetworkHandle \<Rightarrow> NetworkHandle" where
  "expire_dht env h =
    (let now = nv_now env;
         h = on_dht (\<lambda>dht. dht\<lparr>dht_table := DhtTable_expire (dht_table dht) now,
                               dht_store := DhtStore_expire (dht_store dht) now\<rparr>) h;
         h = fst (save env NF_DhtRecords (nd_dht_records_update (\<lambda>_. DhtStore_records (dht_store (nh_dht h)) now)) h)
     in fst (save env NF_DhtContacts (nd_dht_contacts_update (\<lambda>_. DhtTable_all_contacts (dht_table (nh_dht h)) now)) h))"

definition expire_peers :: "network_env \<Rightarrow> NetworkHandle \<Rightarrow> NetworkHandle" where
  "expire_peers env h =
    (let h = on_peers (\<lambda>peers. let peers = drop_expired_records (nv_now env) peers
           in peers\<lparr>ps_announcements := bt_retain (\<lambda>node a. if pr_expires_at (sa_record a) \<ge> nv_now env
                \<and> bt_get (ps_records peers) node \<noteq> None then Some a else None) (ps_announcements peers)\<rparr>) h
     in fst (save_peer_records env h))"

text \<open>A node publishes its own records again, sixteen of them in a pass.\<close>

definition readvertise :: "network_codec \<Rightarrow> (DhtRecord \<Rightarrow> nat \<Rightarrow> NodeId \<Rightarrow> network_env option) \<Rightarrow> nat \<Rightarrow>
    (DhtRecord \<Rightarrow> NodeId \<Rightarrow> network_env option) \<Rightarrow> u64 \<Rightarrow> DhtRecord list \<Rightarrow> NetworkHandle \<Rightarrow> NetworkHandle" where
  "readvertise codec find_envs rounds envs now records h = fold (\<lambda>r h.
     case dht_find_node codec (find_envs r) now rounds (dr_key r) h of (h, found) \<Rightarrow>
       let contacts = (case found of Inl _ \<Rightarrow> [] | Inr (contacts, _) \<Rightarrow> contacts)
       in put_to_contacts (envs r) r
            (take (nc_dht_k (nh_config h)) (filter (\<lambda>contact. contact_id contact \<noteq> nh_node_id h) contacts)) h)
     (take 16 (filter (\<lambda>r. dr_owner r = nh_node_id h) records)) h"

definition maintain :: "network_codec \<Rightarrow> network_env \<Rightarrow> (DhtRecord \<Rightarrow> nat \<Rightarrow> NodeId \<Rightarrow> network_env option) \<Rightarrow> nat \<Rightarrow>
    (DhtRecord \<Rightarrow> NodeId \<Rightarrow> network_env option) \<Rightarrow> NetworkHandle \<Rightarrow> NetworkHandle" where
  "maintain codec env find_envs rounds envs h =
    (let h = expire_dht env h;
         h = readvertise codec find_envs rounds envs (nv_now env) (DhtStore_records (dht_store (nh_dht h)) (nv_now env)) h
     in expire_peers env h)"

definition start_network :: "network_codec \<Rightarrow> u64 \<Rightarrow> NetworkConfig \<Rightarrow> NodeId \<Rightarrow> 32 bytes \<Rightarrow> NetworkDisk \<Rightarrow> NetworkError + NetworkHandle" where
  "start_network codec now config node_id public_key disk =
     and_then (NetworkConfig_validate config) (\<lambda>_. Inr
      \<lparr>nh_node_id = node_id, nh_public_key = public_key, nh_config = config,
       nh_peers = \<lparr>ps_records = fold (\<lambda>r. bt_insert (pr_node_id r) r)
           (filter (\<lambda>r. pr_node_id r \<noteq> node_id) (nd_peer_records disk)) bt_new,
         ps_announcements = bt_new, ps_address_updates = bt_new,
         ps_rotations = fold (\<lambda>rotation. bt_insert (kr_new_node_id rotation) rotation) (nd_key_rotations disk) bt_new,
         ps_senders = bt_new, ps_connections = bt_new, ps_connection_ids = bt_new, ps_connection_directions = bt_new,
         ps_versions = bt_new\<rparr>,
       nh_seen_hellos = {}, nh_observed_addresses = [], nh_relay_routes = bt_new, nh_relay_session_ids = bt_new,
       nh_relay_sessions = bt_new,
       nh_dht = \<lparr>dht_table = fold (\<lambda>contact table. if verify_announcement codec contact
             then fst (DhtTable_insert table contact now) else table) (nd_dht_contacts disk)
             (DhtTable_new node_id (nc_dht_k config) DEFAULT_REPLACEMENT_CACHE),
         dht_store = fold (\<lambda>r store. if verify_dht_record codec r \<and> dht_expiry_valid r now (nc_peer_ttl_seconds config)
             then fst (DhtStore_put store r now) else store) (nd_dht_records disk)
             (DhtStore_new (nc_dht_max_records config) DEFAULT_MAX_RECORDS_PER_KEY),
         dht_pending = {}, dht_seen_requests = {}, dht_request_order = [], dht_rpc_sent = 0, dht_rpc_received = 0,
         dht_lookups = 0, dht_lookup_successes = 0, dht_invalid_records = 0, dht_request_windows = bt_new,
         dht_rate_limited_requests = 0\<rparr>,
       nh_disk = disk, nh_outbox = [], nh_events = []\<rparr>)"

end
