(* ===== verification/Network_Connection.thy ===== *)
theory Network_Connection
  imports Network_Dht
begin

text \<open>
  Connections of \<^verbatim>\<open>network/src/lib.rs\<close>: which of two simultaneous connections to a peer is kept, the messages a
  connection reads, what is left when it ends, and messages that travel through a relay.
\<close>

section \<open>Canonical connections\<close>

definition forget_connection :: "NodeId \<Rightarrow> PeerState \<Rightarrow> PeerState" where
  "forget_connection node peers = peers\<lparr>ps_senders := bt_remove node (ps_senders peers),
     ps_connections := bt_remove node (ps_connections peers), ps_connection_ids := bt_remove node (ps_connection_ids peers),
     ps_connection_directions := bt_remove node (ps_connection_directions peers),
     ps_versions := bt_remove node (ps_versions peers)\<rparr>"

definition register_connection :: "NodeId \<Rightarrow> u64 \<Rightarrow> bool \<Rightarrow> u16 \<Rightarrow> PeerState \<Rightarrow> PeerState" where
  "register_connection node connection_id outbound minor peers =
     peers\<lparr>ps_senders := bt_insert node True (ps_senders peers), ps_connections := bt_insert node True (ps_connections peers),
       ps_connection_ids := bt_insert node connection_id (ps_connection_ids peers),
       ps_connection_directions := bt_insert node outbound (ps_connection_directions peers),
       ps_versions := bt_insert node minor (ps_versions peers)\<rparr>"

definition direct_connection_available :: "NetworkHandle \<Rightarrow> NodeId \<Rightarrow> bool" where
  "direct_connection_available h node \<longleftrightarrow> bt_get (ps_senders (nh_peers h)) node = Some True
     \<and> bt_get (ps_connections (nh_peers h)) node = Some True"

text \<open>The connection a ping has to probe: same direction as the new one, and both the preferred one.\<close>

definition existing_canonical :: "PeerState \<Rightarrow> NodeId \<Rightarrow> bool \<Rightarrow> bool \<Rightarrow> (u64 \<times> u16) option" where
  "existing_canonical peers node preferred_outbound outbound =
    (if bt_get (ps_senders peers) node \<noteq> Some True \<or> bt_get (ps_connections peers) node \<noteq> Some True
        \<or> bt_get (ps_connection_directions peers) node \<noteq> Some preferred_outbound \<or> outbound \<noteq> preferred_outbound
     then None
     else map_option (\<lambda>connection_id. (connection_id, negotiated_minor peers node)) (bt_get (ps_connection_ids peers) node))"

text \<open>
  Whether a new connection is rejected, and the peers with the old connection removed if it is replaced. \<open>probed\<close> is
  the connection the ping probed, \<open>silent\<close> whether the ping ran into its timeout.
\<close>

definition displace :: "NodeId \<Rightarrow> bool \<Rightarrow> bool \<Rightarrow> (u64 \<times> u16) option \<Rightarrow> bool \<Rightarrow> PeerState \<Rightarrow> PeerState \<times> bool" where
  "displace node preferred_outbound outbound probed silent peers =
    (if bt_get (ps_senders peers) node \<noteq> Some True then (peers, False)
     else let replace_closed = (bt_get (ps_connections peers) node \<noteq> Some True);
              replacing_stale_canonical = is_some_and probed (\<lambda>(connection_id, minor). minor \<ge> 2 \<and> silent
                \<and> bt_get (ps_connection_ids peers) node = Some connection_id);
              keep_new = is_some_and (bt_get (ps_connection_directions peers) node)
                (\<lambda>existing. existing \<noteq> preferred_outbound \<and> outbound = preferred_outbound)
       in if replace_closed \<or> replacing_stale_canonical \<or> keep_new then (forget_connection node peers, False)
          else (peers, True))"

definition learn_record :: "PeerRecord \<Rightarrow> PeerState \<Rightarrow> PeerState" where
  "learn_record r peers =
    (if (case bt_get (ps_records peers) (pr_node_id r) of None \<Rightarrow> True | Some previous \<Rightarrow> record_is_fresher previous r)
     then peers\<lparr>ps_records := bt_insert (pr_node_id r) r (ps_records peers)\<rparr> else peers)"

text \<open>The result is false when the connection is a duplicate and is closed.\<close>

definition admit_connection :: "network_env \<Rightarrow> PeerRecord \<Rightarrow> u64 \<Rightarrow> bool \<Rightarrow> u16 \<Rightarrow> (u64 \<times> u16) option \<Rightarrow> bool \<Rightarrow>
    NetworkHandle \<Rightarrow> bool network_result" where
  "admit_connection env peer connection_id outbound minor probed silent h =
    (case displace (pr_node_id peer) (nh_node_id h < pr_node_id peer) outbound probed silent (nh_peers h) of (peers, rejected) \<Rightarrow>
     if \<not> rejected \<and> bt_len (ps_senders peers) \<ge> nc_max_connections (nh_config h)
     then (h\<lparr>nh_peers := peers\<rparr>, Inl NW_PeerTableFull)
     else let full = (\<not> rejected \<and> bt_get (ps_records peers) (pr_node_id peer) = None
                \<and> bt_len (ps_records peers) \<ge> MAX_LEARNED_PEERS);
              peers = (if full then drop_expired_records (nv_now env) peers else peers)
       in if full \<and> bt_len (ps_records peers) \<ge> MAX_LEARNED_PEERS then (h\<lparr>nh_peers := peers\<rparr>, Inl NW_PeerTableFull)
          else let peers = learn_record peer peers
            in if rejected then (h\<lparr>nh_peers := peers\<rparr>, Inr False)
               else try_then (save_peer_records env
                      (h\<lparr>nh_peers := register_connection (pr_node_id peer) connection_id outbound minor peers\<rparr>))
                    (\<lambda>h _. (h\<lparr>nh_events := nh_events h @ [NV_PeerConnected peer]\<rparr>, Inr True)))"

text \<open>
  A connection from its hello to its registration. A canonical connection that speaks minor 2 is probed first; the
  probe counts as unanswered only if the outer of two timeouts of the same length is the one that fires.
\<close>

definition probe_canonical :: "network_env \<Rightarrow> NodeId \<Rightarrow> (u64 \<times> u16) option \<Rightarrow> NetworkHandle \<Rightarrow> NetworkHandle \<times> bool" where
  "probe_canonical env node probed h =
    (if is_some_and probed (\<lambda>(_, minor). minor \<ge> 2)
     then (fst (authenticated_ping env node h), snd (dht_rpc env node DRQ_Ping h) = None) else (h, False))"

definition open_connection :: "network_codec \<Rightarrow> network_env \<Rightarrow> Hello \<Rightarrow> u64 \<Rightarrow> bool \<Rightarrow> NetworkHandle \<Rightarrow> bool network_result" where
  "open_connection codec env hello connection_id outbound h =
     try_then (verify_hello codec env hello h) (\<lambda>h minor.
     let peer = hello_record hello;
         probed = existing_canonical (nh_peers h) (pr_node_id peer) (nh_node_id h < pr_node_id peer) outbound
     in case probe_canonical env (pr_node_id peer) probed h of (h, silent) \<Rightarrow>
       admit_connection env peer connection_id outbound minor probed silent h)"

definition close_connection :: "NodeId \<Rightarrow> u64 \<Rightarrow> NetworkHandle \<Rightarrow> NetworkHandle" where
  "close_connection node connection_id h =
    (if bt_get (ps_connection_ids (nh_peers h)) node \<noteq> Some connection_id then h
     else h\<lparr>nh_peers := forget_connection node (nh_peers h),
            nh_relay_routes := bt_retain (\<lambda>target relay. if target \<noteq> node \<and> relay \<noteq> node then Some relay else None)
              (nh_relay_routes h),
            nh_relay_session_ids := bt_retain (\<lambda>(relay, target) session. if relay \<noteq> node \<and> target \<noteq> node
              then Some session else None) (nh_relay_session_ids h),
            nh_events := nh_events h @ [NV_PeerDisconnected node]\<rparr>)"

section \<open>Relays\<close>

definition relay_candidates :: "NetworkHandle \<Rightarrow> NodeId list" where
  "relay_candidates h = map fst (filter (\<lambda>(node, r).
     (\<exists>capability\<in>set (pr_capabilities r). cap_name capability = ''network.relay'')
     \<and> bt_get (ps_connections (nh_peers h)) node = Some True \<and> bt_get (ps_senders (nh_peers h)) node = Some True
     \<and> node \<noteq> nh_node_id h) (bt_entries (ps_records (nh_peers h))))"

definition send_via_relay :: "network_codec \<Rightarrow> network_env \<Rightarrow> NodeId \<Rightarrow> NodeId \<Rightarrow> Message \<Rightarrow> NetworkHandle \<Rightarrow> unit network_result" where
  "send_via_relay codec env relay target message h =
    (if relay = target then (h, Inl NW_NotConnected)
     else checked (peer_validated (Message_validate (nk_blake3 codec) message)) h (\<lambda>_.
     checked (map_err NW_PeerProtocol (nk_encode_message codec message)) h (\<lambda>payload.
     if length payload > MAX_RELAY_PAYLOAD then (h, peer_protocol ''message is too large for relay transport'')
     else let session_id = (case bt_get (nh_relay_session_ids h) (relay, target) of
                Some session \<Rightarrow> session | None \<Rightarrow> nv_request_id env);
              h = h\<lparr>nh_relay_session_ids := bt_insert (relay, target) session_id (nh_relay_session_ids h)\<rparr>
       in checked (map_err NW_PeerProtocol (nk_encode_relay codec (session_id, nh_node_id h, target, payload))) h (\<lambda>bytes.
          if negotiated_minor (nh_peers h) relay < message_required_minor message
          then (h, peer_protocol ''message requires protocol minor 1'')
          else if bt_get (ps_senders (nh_peers h)) relay \<noteq> Some True
               \<or> bt_get (ps_connections (nh_peers h)) relay = Some False
          then (h, Inl NW_NotConnected)
          else (queue_to relay (M_RelayEnvelope \<lparr>re_session_id = session_id, re_origin = nh_node_id h,
                  re_origin_public_key = nh_public_key h, re_target = target, re_payload = payload,
                  re_signature = nk_sign codec bytes\<rparr>) h, Inr ())))))"

fun try_relays :: "network_codec \<Rightarrow> network_env \<Rightarrow> NodeId list \<Rightarrow> NodeId \<Rightarrow> Message \<Rightarrow> NetworkHandle \<Rightarrow> unit network_result" where
  "try_relays codec env [] target message h =
     (h\<lparr>nh_relay_routes := bt_remove target (nh_relay_routes h)\<rparr>, Inl NW_NotConnected)"
| "try_relays codec env (relay # relays) target message h = (case send_via_relay codec env relay target message h of
     (h, Inr _) \<Rightarrow> (h\<lparr>nh_relay_routes := bt_insert target relay (nh_relay_routes h)\<rparr>, Inr ())
   | (h, Inl _) \<Rightarrow> try_relays codec env relays target message h)"

text \<open>The accounting of a relay for one envelope.\<close>

definition charge_session :: "network_env \<Rightarrow> RelayEnvelope \<Rightarrow> NetworkHandle \<Rightarrow> unit network_result" where
  "charge_session env envelope h =
    (let now = nv_now env; size = of_nat (length (re_payload envelope)) :: u64;
         sessions = bt_retain (\<lambda>_ session. if sat_sub now (rs_last_activity session) \<le> 60 then Some session else None)
           (nh_relay_sessions h);
         put = (\<lambda>session. h\<lparr>nh_relay_sessions := bt_insert (re_session_id envelope) session sessions\<rparr>)
     in case bt_get sessions (re_session_id envelope) of
          Some session \<Rightarrow>
            if rs_origin session \<noteq> re_origin envelope \<or> rs_target session \<noteq> re_target envelope
            then (h\<lparr>nh_relay_sessions := sessions\<rparr>, peer_protocol ''relay session identity changed'')
            else let session = session\<lparr>rs_bytes := sat_add (rs_bytes session) size, rs_last_activity := now\<rparr>
              in if rs_bytes session > nc_relay_max_bytes (nh_config h)
                 then (put session, peer_protocol ''relay session byte limit exceeded'')
                 else (put session, Inr ())
        | None \<Rightarrow>
            if bt_len sessions \<ge> nc_relay_max_sessions (nh_config h)
            then (h\<lparr>nh_relay_sessions := sessions\<rparr>, peer_protocol ''relay session limit exceeded'')
            else (put \<lparr>rs_origin = re_origin envelope, rs_target = re_target envelope, rs_bytes = size,
                    rs_last_activity = now\<rparr>, Inr ()))"

definition forward_envelope :: "RelayEnvelope \<Rightarrow> NetworkHandle \<Rightarrow> NetworkHandle" where
  "forward_envelope envelope h =
    (if bt_get (ps_senders (nh_peers h)) (re_target envelope) = Some True
     then queue_to (re_target envelope) (M_RelayEnvelope envelope) h else h)"

definition open_envelope :: "network_codec \<Rightarrow> RelayEnvelope \<Rightarrow> NetworkError + Message" where
  "open_envelope codec envelope =
     and_then (map_err NW_PeerProtocol (nk_decode_message codec (re_payload envelope))) (\<lambda>inner.
     and_then (peer_validated (Message_validate (nk_blake3 codec) inner)) (\<lambda>_.
     case inner of M_RelayEnvelope _ \<Rightarrow> peer_protocol ''nested relay envelopes are not accepted'' | _ \<Rightarrow> Inr inner))"

definition handle_relay_envelope :: "network_codec \<Rightarrow> network_env \<Rightarrow> NodeId \<Rightarrow> RelayEnvelope \<Rightarrow> NetworkHandle \<Rightarrow>
    Message option network_result" where
  "handle_relay_envelope codec env authenticated_peer envelope h =
     checked (peer_validated (RelayEnvelope_validate (nk_blake3 codec) envelope)) h (\<lambda>_.
     checked (map_err NW_PeerProtocol (nk_encode_relay codec (re_session_id envelope, re_origin envelope, re_target envelope,
       re_payload envelope))) h (\<lambda>bytes.
     if \<not> nk_verify codec (re_origin_public_key envelope) bytes (re_signature envelope) then (h, Inl NW_IdentityVerification)
     else if re_target envelope = nh_node_id h
     then let h = (if authenticated_peer \<noteq> re_origin envelope
                then h\<lparr>nh_relay_routes := bt_insert (re_origin envelope) authenticated_peer (nh_relay_routes h)\<rparr> else h)
       in checked (open_envelope codec envelope) h (\<lambda>inner. (h, Inr (Some inner)))
     else if \<not> nc_relay_enabled (nh_config h) then (h, peer_protocol ''peer is not configured as a relay'')
     else try_then (charge_session env envelope h) (\<lambda>h _. (forward_envelope envelope h, Inr None))))"

section \<open>The reader of a connection\<close>

text \<open>On the connection's own channel, which is closed once its writer has stopped.\<close>

definition reply :: "network_env \<Rightarrow> NodeId \<Rightarrow> Message \<Rightarrow> NetworkHandle \<Rightarrow> unit network_result" where
  "reply env node message h =
     (if nv_writer_stopped env then (h, Inl NW_NotConnected) else (queue_to node message h, Inr ()))"

fun upsert_peers :: "network_codec \<Rightarrow> network_env \<Rightarrow> SignedAnnouncement list \<Rightarrow> NetworkHandle \<Rightarrow> unit network_result" where
  "upsert_peers codec env [] h = (h, Inr ())"
| "upsert_peers codec env (item # items) h =
    (if verify_announcement codec item \<and> contact_id item \<noteq> nh_node_id h
     then try_then (upsert_peer env item h) (\<lambda>h _. upsert_peers codec env items h)
     else upsert_peers codec env items h)"

definition deliver :: "NodeId \<Rightarrow> Message \<Rightarrow> NetworkHandle \<Rightarrow> NetworkHandle" where
  "deliver node message h = h\<lparr>nh_events := nh_events h @ [NV_Message node message]\<rparr>"

text \<open>
  One message that a connection to \<open>peer\<close> has read, once relay envelopes are opened: it is from \<open>message_peer\<close>. The
  result is false when the reader stops.
\<close>

definition receive_inner :: "network_codec \<Rightarrow> network_env \<Rightarrow> NodeId \<Rightarrow> u16 \<Rightarrow> NodeId \<Rightarrow> Message \<Rightarrow> NetworkHandle \<Rightarrow> bool network_result" where
  "receive_inner codec env peer minor message_peer message h =
    (let pass = (\<lambda>h (_ :: unit). (deliver message_peer message h, Inr True)) in (case message of
       M_DhtRequest request \<Rightarrow>
         if minor \<ge> 2 then (fst (handle_dht_request codec env message_peer request h), Inr True) else pass h ()
     | M_DhtResponse response \<Rightarrow>
         if minor \<ge> 2 then (fst (handle_dht_response codec message_peer response h), Inr True) else pass h ()
     | M_PeerExchange exchange \<Rightarrow> try_then (upsert_peers codec env (px_peers exchange) h) pass
     | M_Announcement item \<Rightarrow> try_then (upsert_peers codec env [item] h) pass
     | M_AddressUpdate update \<Rightarrow>
         try_then (if verify_address_update codec h update then upsert_address_update env update h else (h, Inr ())) pass
     | M_AddressObservation observation \<Rightarrow>
         pass (if verify_address_observation codec h peer observation then record_observation env observation h else h) ()
     | M_KeyRotation rotation \<Rightarrow>
         try_then (if verify_key_rotation codec env rotation \<and> kr_new_node_id rotation = message_peer
                   then upsert_key_rotation env rotation h else (h, Inr ())) pass
     | M_Ping ping \<Rightarrow> try_then (reply env peer (M_Pong ping) h) pass
     | M_JobRequest request \<Rightarrow>
         if jr_origin request \<noteq> message_peer
         then try_then (reply env peer (M_Error \<lparr>pe_code = EC_Unauthorized,
           pe_message = ''job origin does not match authenticated peer''\<rparr>) h) (\<lambda>h _. (h, Inr True))
         else pass h ()
     | M_Goodbye _ \<Rightarrow> (h, Inr False)
     | _ \<Rightarrow> pass h ()))"

definition receive_message :: "network_codec \<Rightarrow> network_env \<Rightarrow> NodeId \<Rightarrow> u16 \<Rightarrow> Message \<Rightarrow> NetworkHandle \<Rightarrow> bool network_result" where
  "receive_message codec env peer minor message h = (case message of
     M_RelayEnvelope envelope \<Rightarrow>
       (case handle_relay_envelope codec env peer envelope h of
          (h, Inr (Some inner)) \<Rightarrow> receive_inner codec env peer minor (re_origin envelope) inner h
        | (h, Inr None) \<Rightarrow> (h, Inr True)
        | (h, Inl error) \<Rightarrow> (h\<lparr>nh_events := nh_events h @ [NV_ProtocolError (Some peer) (NetworkError_to_string error)]\<rparr>, Inr False))
   | _ \<Rightarrow> receive_inner codec env peer minor peer message h)"

text \<open>
  The loop over the messages a connection reads, each in its own environment, until the stream fails: the errors of
  the handlers leave it without the cleanup that follows it.
\<close>

fun connection_loop :: "network_codec \<Rightarrow> NodeId \<Rightarrow> u64 \<Rightarrow> u16 \<Rightarrow> string \<Rightarrow> (network_env \<times> Message) list \<Rightarrow> NetworkHandle \<Rightarrow> unit network_result" where
  "connection_loop codec peer connection_id minor stream_error [] h = (close_connection peer connection_id
     (h\<lparr>nh_events := nh_events h @ [NV_ProtocolError (Some peer) stream_error]\<rparr>), Inr ())"
| "connection_loop codec peer connection_id minor stream_error ((env, message) # messages) h =
    (case receive_message codec env peer minor message h of
       (h, Inl error) \<Rightarrow> (h, Inl error)
     | (h, Inr True) \<Rightarrow> connection_loop codec peer connection_id minor stream_error messages h
     | (h, Inr False) \<Rightarrow> (close_connection peer connection_id h, Inr ()))"

end
