(* ===== verification/Network_Invariant.thy ===== *)
theory Network_Invariant
  imports Network_Connection Step_System
begin

text \<open>
  What bounds the memory of a network handle: connections, relay sessions, observed addresses, hellos, pending and
  remembered requests, budgets, the routing table and the record store. Every operation of the handle keeps the bounds.
\<close>

section \<open>The bounds\<close>

definition dht_wf :: "NetworkConfig \<Rightarrow> DhtRuntime \<Rightarrow> bool" where
  "dht_wf config dht \<longleftrightarrow> table_wf (dht_table dht) \<and> store_wf (dht_store dht)
     \<and> finite (dht_pending dht) \<and> card (dht_pending dht) \<le> pending_limit config
     \<and> distinct (dht_request_order dht) \<and> set (dht_request_order dht) = dht_seen_requests dht
     \<and> length (dht_request_order dht) \<le> MAX_SEEN_DHT_REQUESTS
     \<and> (\<forall>peer budget. bt_get (dht_request_windows dht) peer = Some budget \<longrightarrow> snd budget \<le> DHT_REQUESTS_PER_WINDOW)"

definition network_wf :: "NetworkConfig \<Rightarrow> NetworkHandle \<Rightarrow> bool" where
  "network_wf config h \<longleftrightarrow> nh_config h = config
     \<and> bt_len (ps_senders (nh_peers h)) \<le> nc_max_connections config
     \<and> bt_len (nh_relay_sessions h) \<le> nc_relay_max_sessions config
     \<and> length (nh_observed_addresses h) \<le> 16
     \<and> finite (nh_seen_hellos h) \<and> card (nh_seen_hellos h) \<le> 4096
     \<and> dht_wf config (nh_dht h)"

lemma wf_frame [simp]:
  "network_wf c (h\<lparr>nh_disk := disk\<rparr>) = network_wf c h"
  "network_wf c (h\<lparr>nh_outbox := outbox\<rparr>) = network_wf c h"
  "network_wf c (h\<lparr>nh_events := events\<rparr>) = network_wf c h"
  "network_wf c (h\<lparr>nh_relay_routes := routes\<rparr>) = network_wf c h"
  "network_wf c (h\<lparr>nh_relay_session_ids := ids\<rparr>) = network_wf c h"
  by (simp_all add: network_wf_def)

lemma wf_peers: "network_wf c h \<Longrightarrow> bt_len (ps_senders peers) \<le> nc_max_connections c \<Longrightarrow> network_wf c (h\<lparr>nh_peers := peers\<rparr>)"
  by (simp add: network_wf_def)

lemma wf_senders: "network_wf c h \<Longrightarrow> bt_len (ps_senders (nh_peers h)) \<le> nc_max_connections c"
  by (simp add: network_wf_def)

lemma wf_same_senders: "network_wf c h \<Longrightarrow> ps_senders peers = ps_senders (nh_peers h) \<Longrightarrow> network_wf c (h\<lparr>nh_peers := peers\<rparr>)"
  by (simp add: network_wf_def)

lemma wf_dht: "network_wf c h \<Longrightarrow> dht_wf c dht \<Longrightarrow> network_wf c (h\<lparr>nh_dht := dht\<rparr>)"
  by (simp add: network_wf_def)

lemma wf_dht_of: "network_wf c h \<Longrightarrow> dht_wf c (nh_dht h)"
  by (simp add: network_wf_def)

lemma wf_counters [simp]:
  "dht_wf c (dht\<lparr>dht_rpc_sent := n\<rparr>) = dht_wf c dht" "dht_wf c (dht\<lparr>dht_rpc_received := n\<rparr>) = dht_wf c dht"
  "dht_wf c (dht\<lparr>dht_lookups := n\<rparr>) = dht_wf c dht" "dht_wf c (dht\<lparr>dht_lookup_successes := n\<rparr>) = dht_wf c dht"
  "dht_wf c (dht\<lparr>dht_invalid_records := n\<rparr>) = dht_wf c dht" "dht_wf c (dht\<lparr>dht_rate_limited_requests := n\<rparr>) = dht_wf c dht"
  by (simp_all add: dht_wf_def)

section \<open>The peer table\<close>

lemma wf_queue [simp]: "network_wf c (queue_to node message h) = network_wf c h"
  by (simp add: queue_to_def)

lemma wf_try_send_all [simp]: "network_wf c (try_send_all env nodes message h) = network_wf c h"
proof -
  have "network_wf c (fold (\<lambda>node. queue_to node message) ns k) = network_wf c k" for ns k
    by (induction ns arbitrary: k) simp_all
  then show ?thesis by (simp add: try_send_all_def)
qed

lemma wf_save [post_intros]: "network_wf c h \<Longrightarrow> post (network_wf c) (save env file f h)"
  by (auto simp: save_def post_def split: option.splits)

lemma wf_save_peer_records [post_intros]: "network_wf c h \<Longrightarrow> post (network_wf c) (save_peer_records env h)"
  unfolding save_peer_records_def by (rule wf_save)

lemma senders_insert_announcement [simp]: "ps_senders (fst (insert_announcement env r a peers)) = ps_senders peers"
  by (simp add: insert_announcement_def Let_def drop_stale_announcements_def drop_expired_records_def)

lemma wf_advertise: "network_wf c h \<Longrightarrow> network_wf c (advertise_contact env a h)"
  using wf_dht_of [of c h]
  by (auto simp: advertise_contact_def Let_def dht_wf_def table_wf_insert table_wf_protect intro!: wf_dht)

lemma wf_upsert_peer [post_intros]:
  assumes "network_wf c h"
  shows "post (network_wf c) (upsert_peer env a h)"
proof -
  obtain peers r where eq: "insert_announcement env ((sa_record a)\<lparr>pr_addresses := dedupe_addresses (pr_addresses (sa_record a))\<rparr>) a
      (nh_peers h) = (peers, r)" by fastforce
  then have "ps_senders peers = ps_senders (nh_peers h)"
    using senders_insert_announcement by (metis fst_conv)
  then have *: "network_wf c (h\<lparr>nh_peers := peers\<rparr>)" using assms by (rule wf_same_senders [rotated])
  show ?thesis unfolding upsert_peer_def Let_def eq
    using assms * by (auto intro!: post_intros simp: wf_advertise split: sum.split)
qed

lemma wf_upsert_address_update [post_intros]: "network_wf c h \<Longrightarrow> post (network_wf c) (upsert_address_update env update h)"
  unfolding upsert_address_update_def Let_def by (auto intro!: post_intros wf_same_senders)

lemma wf_record_observation [simp]: "network_wf c h \<Longrightarrow> network_wf c (record_observation env observation h)"
  by (auto simp: record_observation_def network_wf_def Let_def)

lemma wf_upsert_key_rotation [post_intros]: "network_wf c h \<Longrightarrow> post (network_wf c) (upsert_key_rotation env rotation h)"
  unfolding upsert_key_rotation_def Let_def by (auto intro!: post_intros wf_same_senders)

lemma wf_verify_hello [post_intros]: "network_wf c h \<Longrightarrow> post (network_wf c) (verify_hello codec env hello h)"
  unfolding verify_hello_def Let_def by (intro post_intros) (auto simp: network_wf_def)

section \<open>The DHT\<close>

lemma wf_send_connected [post_intros]: "network_wf c h \<Longrightarrow> post (network_wf c) (send_connected node message h)"
  unfolding send_connected_def by (intro post_intros) simp_all

lemma wf_count_invalid [simp]: "network_wf c h \<Longrightarrow> network_wf c (count_invalid_record h)"
  by (simp add: count_invalid_record_def network_wf_def dht_wf_def)

lemma wf_store: "network_wf c h \<Longrightarrow> store_wf store \<Longrightarrow> network_wf c (on_dht (dht_store_update (\<lambda>_. store)) h)"
  by (simp add: network_wf_def dht_wf_def)

lemma store_wf_get_diverse: "store_wf s \<Longrightarrow> store_wf (fst (DhtStore_get_diverse s namespace key now limit))"
  using store_wf_get [of s namespace key now] by (cases "DhtStore_get s namespace key now") (simp add: DhtStore_get_diverse_def)

lemma wf_store_of: "network_wf c h \<Longrightarrow> store_wf (dht_store (nh_dht h))"
  by (simp add: network_wf_def dht_wf_def)

lemma wf_store_dht_record [post_intros]: "network_wf c h \<Longrightarrow> post (network_wf c) (store_dht_record codec env r h)"
  using store_wf_put [OF wf_store_of, of c h r "nv_now env"] unfolding store_dht_record_def Let_def
  by (auto intro!: post_intros wf_store split: prod.split)

lemma wf_forget_pending [simp]:
  "network_wf c h \<Longrightarrow> network_wf c (on_dht (dht_pending_update (\<lambda>pending. pending - {request_id})) h)"
  by (auto simp: network_wf_def dht_wf_def card_Diff_singleton_if)

lemma wf_received [simp]: "network_wf c (on_dht (dht_rpc_received_update f \<circ> g) h) = network_wf c (on_dht g h)"
  by (simp add: network_wf_def dht_wf_def)

lemma wf_pend:
  assumes "network_wf c h" "\<not> pending_limit (nh_config h) \<le> card (dht_pending (nh_dht h))"
  shows "network_wf c (on_dht (\<lambda>dht. dht\<lparr>dht_pending := insert request_id (dht_pending dht),
    dht_rpc_sent := sat_add (dht_rpc_sent dht) 1\<rparr>) h)"
  using assms by (auto simp: network_wf_def dht_wf_def card_insert_if)

lemma wf_dht_rpc [post_intros]:
  assumes "network_wf c h"
  shows "post (network_wf c) (dht_rpc env peer request h)"
proof (cases "pending_limit (nh_config h) \<le> card (dht_pending (nh_dht h))")
  case True
  then show ?thesis using assms by (simp add: dht_rpc_def post_def)
next
  case False
  define k where "k = on_dht (\<lambda>dht. dht\<lparr>dht_pending := insert (nv_request_id env) (dht_pending dht),
    dht_rpc_sent := sat_add (dht_rpc_sent dht) 1\<rparr>) h"
  have "network_wf c k" unfolding k_def using assms False by (rule wf_pend)
  then show ?thesis unfolding dht_rpc_def Let_def k_def [symmetric] if_not_P [OF False]
    by (rule post_case_node [OF wf_send_connected])
      (auto intro!: post_intros split: rpc_outcome.split)
qed

lemma wf_authenticated_ping [post_intros]: "network_wf c h \<Longrightarrow> post (network_wf c) (authenticated_ping env peer h)"
  unfolding authenticated_ping_def Let_def
  by (rule post_case_node [OF wf_dht_rpc], assumption)
    (auto intro!: post_intros split: option.split sum.split DhtResponseKind.split)

lemma wf_handle_dht_response [post_intros]:
  "network_wf c h \<Longrightarrow> post (network_wf c) (handle_dht_response codec peer response h)"
  unfolding handle_dht_response_def
  by (intro post_intros) (auto simp: network_wf_def dht_wf_def card_Diff_singleton_if)

lemma wf_spend_budget: "dht_wf c dht \<Longrightarrow> dht_wf c (fst (spend_budget now peer dht))"
  by (auto simp: spend_budget_def Let_def dht_wf_def DHT_REQUESTS_PER_WINDOW_def split: option.splits)
    (auto simp: sat_add_def word_le_nat_alt unat_word_ariths)

lemma wf_remember:
  assumes "dht_wf c dht" "request_id \<notin> dht_seen_requests dht"
  shows "dht_wf c (remember_request request_id dht)"
proof -
  obtain x xs where "dht_request_order dht @ [request_id] = x # xs" by (cases "dht_request_order dht @ [request_id]") auto
  then show ?thesis using assms
    by (cases "dht_request_order dht") (auto simp: remember_request_def Let_def dht_wf_def)
qed

lemma wf_judge: "dht_wf c dht \<Longrightarrow> dht_wf c (fst (judge_request now peer request_id dht))"
  using wf_spend_budget [of c dht now peer]
  by (auto simp: judge_request_def wf_remember split: prod.splits)

lemma wf_answer_request [post_intros]:
  "network_wf c h \<Longrightarrow> post (network_wf c) (answer_request codec env peer request h)"
  unfolding answer_request_def using store_wf_get_diverse [OF wf_store_of, of c h]
  by (cases request) (auto intro!: post_intros wf_store split: prod.split, (metis fst_conv)+)

lemma wf_handle_dht_request [post_intros]:
  assumes "network_wf c h"
  shows "post (network_wf c) (handle_dht_request codec env peer request h)"
proof -
  have "network_wf c (h\<lparr>nh_dht := fst (judge_request now peer request_id (nh_dht h))\<rparr>)" for now request_id
    using assms wf_judge [OF wf_dht_of] by (blast intro: wf_dht)
  then show ?thesis unfolding handle_dht_request_def Let_def using assms
    by (auto intro!: post_intros split: prod.split request_verdict.split) (metis fst_conv)+
qed

section \<open>Lookups\<close>

lemma wf_learn_contacts [post_intros]:
  "network_wf c h \<Longrightarrow> post (network_wf c) (learn_contacts codec env remote candidates changed h)"
  by (induction codec env remote candidates changed h rule: learn_contacts.induct) (auto intro!: post_intros)

lemma wf_query_batch [post_intros]:
  "network_wf c h \<Longrightarrow> post (network_wf c) (query_batch codec envs target batch candidates changed h)"
proof (induction batch arbitrary: candidates changed h)
  case Nil
  then show ?case by (simp add: post_def)
next
  case (Cons contact batch)
  show ?case
  proof (cases "envs (contact_id contact)")
    case None
    then show ?thesis using Cons.prems by (simp add: post_def)
  next
    case (Some env)
    have "post (network_wf c) (dht_rpc env (contact_id contact) (DRQ_FindNode target) h)"
      using Cons.prems by (rule wf_dht_rpc)
    then show ?thesis using Some
      by (auto simp: post_def [of _ "dht_rpc _ _ _ _"] intro!: post_intros Cons.IH
          split: prod.split option.split sum.split DhtResponseKind.split)
  qed
qed

lemma wf_find_rounds [post_intros]:
  "network_wf c h \<Longrightarrow> post (network_wf c) (find_rounds codec envs target rounds queried candidates h)"
  by (induction codec envs target rounds queried candidates h rule: find_rounds.induct)
    (auto simp: Let_def intro!: post_intros)

lemma wf_dht_find_node [post_intros]:
  "network_wf c h \<Longrightarrow> post (network_wf c) (dht_find_node codec envs now rounds target h)"
  unfolding dht_find_node_def Let_def by (auto intro!: post_intros)

lemma wf_merge_records [post_intros]:
  "network_wf c h \<Longrightarrow> post (network_wf c) (merge_records codec env namespace key remote records h)"
  by (induction remote arbitrary: records h) (auto intro!: post_intros)

lemma wf_read_records [post_intros]:
  "network_wf c h \<Longrightarrow> post (network_wf c) (read_records codec envs namespace key contacts records h)"
proof (induction contacts arbitrary: records h)
  case Nil
  then show ?case by (simp add: post_def)
next
  case (Cons contact contacts)
  show ?case
  proof (cases "envs (contact_id contact)")
    case None
    then show ?thesis using Cons.prems by (simp add: post_def)
  next
    case (Some env)
    have "post (network_wf c) (dht_rpc env (contact_id contact) (DRQ_Get namespace key) h)"
      using Cons.prems by (rule wf_dht_rpc)
    then show ?thesis using Some
      by (auto simp: post_def [of _ "dht_rpc _ _ _ _"] intro!: post_intros Cons.IH
          split: prod.split option.split sum.split DhtResponseKind.split)
  qed
qed

lemma wf_lookup_counters [simp]:
  "network_wf c h \<Longrightarrow> network_wf c (on_dht (dht_lookups_update f) h)"
  "network_wf c h \<Longrightarrow> network_wf c (on_dht (dht_lookup_successes_update f) h)"
  by (simp_all add: network_wf_def dht_wf_def)

lemma wf_dht_lookup [post_intros]:
  assumes "network_wf c h"
  shows "post (network_wf c) (dht_lookup codec find_envs now rounds envs namespace name h)"
proof -
  define k where "k = on_dht (dht_lookups_update (\<lambda>n. sat_add n 1)) h"
  have wf: "network_wf c k" unfolding k_def using assms by simp
  obtain store records where eq: "DhtStore_get_diverse (dht_store (nh_dht k)) namespace (for_name (nk_blake3 codec) namespace name)
    now MAX_DHT_RECORDS = (store, records)" by fastforce
  then have "store_wf store" using store_wf_get_diverse [OF wf_store_of [OF wf]] by (metis fst_conv)
  then have "network_wf c (on_dht (dht_store_update (\<lambda>_. store)) k)" using wf by (rule wf_store [rotated])
  then show ?thesis unfolding dht_lookup_def Let_def k_def [symmetric] eq using assms
    by (auto intro!: post_intros split: prod.split)
qed

lemma wf_put_to_contacts: "network_wf c h \<Longrightarrow> network_wf c (put_to_contacts envs r contacts h)"
  unfolding put_to_contacts_def
proof (induction contacts arbitrary: h)
  case (Cons contact contacts)
  have "network_wf c (fst (dht_rpc env (contact_id contact) (DRQ_Put r) h))" for env
    using wf_dht_rpc [OF Cons.prems] by (rule post_fst)
  then show ?case using Cons by (simp split: option.split)
qed simp

lemma wf_dht_publish [post_intros]:
  assumes "network_wf c h"
  shows "post (network_wf c) (dht_publish codec env find_envs rounds envs namespace name val ttl sequence h)"
proof -
  have "post (network_wf c) (case dht_find_node codec find_envs now rounds key k of (h, found) \<Rightarrow>
      (put_to_contacts envs r (take (nc_dht_k (nh_config h)) (case found of Inl _ \<Rightarrow> [] | Inr (contacts, _) \<Rightarrow> contacts)) h, Inr r))"
    if "network_wf c k" for now key k r
    using wf_dht_find_node [OF that] by (rule post_case_node) (simp add: post_def wf_put_to_contacts)
  then show ?thesis unfolding dht_publish_def Let_def using assms by (auto intro!: post_intros)
qed

section \<open>Maintenance\<close>

lemma wf_expire_dht: "network_wf c h \<Longrightarrow> network_wf c (expire_dht env h)"
  unfolding expire_dht_def Let_def
  by (intro post_fst [OF wf_save]) (simp add: network_wf_def dht_wf_def table_wf_expire store_wf_expire)

lemma wf_expire_peers: "network_wf c h \<Longrightarrow> network_wf c (expire_peers env h)"
  unfolding expire_peers_def Let_def
  by (intro post_fst [OF wf_save_peer_records]) (simp add: network_wf_def drop_expired_records_def)

lemma wf_readvertise: "network_wf c h \<Longrightarrow> network_wf c (readvertise codec find_envs rounds envs now records h)"
proof -
  have "network_wf c (case dht_find_node codec es now rounds key k of (h, found) \<Rightarrow> put_to_contacts es' r (g h found) h)"
    if "network_wf c k" for es key k es' r g
    using post_fst [OF wf_dht_find_node [OF that]] by (auto intro!: wf_put_to_contacts split: prod.split) (metis fst_conv)
  then have "network_wf c k \<Longrightarrow> network_wf c (fold (\<lambda>r h. case dht_find_node codec (find_envs r) now rounds (dr_key r) h of
      (h, found) \<Rightarrow> put_to_contacts (envs r) r (g h found) h) rs k)" for rs k g
    by (induction rs arbitrary: k) simp_all
  then show "network_wf c h \<Longrightarrow> ?thesis" unfolding readvertise_def Let_def by this
qed

lemma wf_maintain: "network_wf c h \<Longrightarrow> network_wf c (maintain codec env find_envs rounds envs h)"
  by (simp add: maintain_def Let_def wf_expire_dht wf_readvertise wf_expire_peers)

section \<open>Connections and relays\<close>

lemma senders_forget: "bt_len (ps_senders (forget_connection node peers)) \<le> bt_len (ps_senders peers)"
  by (simp add: forget_connection_def bt_len_remove)

lemma senders_displace:
  assumes "displace node preferred outbound probed silent peers = (peers', rejected)"
  shows "bt_len (ps_senders peers') \<le> bt_len (ps_senders peers)"
  using assms senders_forget [of node peers] by (auto simp: displace_def Let_def split: if_splits)

lemma senders_same [simp]:
  "ps_senders (learn_record r peers) = ps_senders peers"
  "ps_senders (drop_expired_records now peers) = ps_senders peers"
  by (simp_all add: learn_record_def drop_expired_records_def)

lemma wf_admit_connection [post_intros]:
  assumes "network_wf c h"
  shows "post (network_wf c) (admit_connection env peer connection_id outbound minor probed silent h)"
proof -
  obtain peers rejected where eq: "displace (pr_node_id peer) (nh_node_id h < pr_node_id peer) outbound probed silent (nh_peers h)
    = (peers, rejected)" by fastforce
  have len: "bt_len (ps_senders peers) \<le> nc_max_connections c"
    using senders_displace [OF eq] wf_senders [OF assms] by simp
  have config: "nh_config h = c" using assms by (simp add: network_wf_def)
  have "ps_senders peers' = ps_senders peers \<Longrightarrow> bt_len (ps_senders peers) < nc_max_connections c \<Longrightarrow>
      bt_len (ps_senders (register_connection node connection_id outbound minor peers')) \<le> nc_max_connections c" for node peers'
    by (simp add: register_connection_def bt_len_insert)
  then show ?thesis unfolding admit_connection_def eq config Let_def using len assms
    by (auto intro!: post_intros wf_peers)
qed

lemma wf_open_connection [post_intros]:
  assumes "network_wf c h"
  shows "post (network_wf c) (open_connection codec env hello connection_id outbound h)"
proof -
  have "network_wf c (fst (probe_canonical env node probed k))" if "network_wf c k" for node probed k
    using post_fst [OF wf_authenticated_ping [OF that]] that by (simp add: probe_canonical_def)
  then have "post (network_wf c) (case probe_canonical env node probed k of (h, silent) \<Rightarrow>
      admit_connection env peer connection_id outbound minor probed silent h)" if "network_wf c k" for node probed k peer minor
    using that by (auto intro!: post_case_node post_intros simp: post_def [of _ "probe_canonical _ _ _ _"])
  then show ?thesis unfolding open_connection_def Let_def using assms by (auto intro!: post_intros)
qed

lemma wf_close_connection: "network_wf c h \<Longrightarrow> network_wf c (close_connection node connection_id h)"
  using senders_forget [of node "nh_peers h"] by (auto simp: close_connection_def network_wf_def)

lemma wf_charge_session [post_intros]: "network_wf c h \<Longrightarrow> post (network_wf c) (charge_session env envelope h)"
  using bt_len_retain [of "\<lambda>_ session. if sat_sub (nv_now env) (rs_last_activity session) \<le> 60 then Some session else None"
      "nh_relay_sessions h"]
  by (auto simp: charge_session_def post_def Let_def network_wf_def bt_len_insert split: option.split)

lemma wf_forward [simp]: "network_wf c (forward_envelope envelope h) = network_wf c h"
  by (simp add: forward_envelope_def)

lemma wf_handle_relay_envelope [post_intros]:
  "network_wf c h \<Longrightarrow> post (network_wf c) (handle_relay_envelope codec env peer envelope h)"
  unfolding handle_relay_envelope_def Let_def by (auto intro!: post_intros)

lemma wf_send_via_relay [post_intros]:
  "network_wf c h \<Longrightarrow> post (network_wf c) (send_via_relay codec env relay target message h)"
  unfolding send_via_relay_def Let_def by (auto intro!: post_intros)

lemma wf_try_relays: "network_wf c h \<Longrightarrow> post (network_wf c) (try_relays codec env relays target message h)"
proof (induction relays arbitrary: h)
  case (Cons relay relays)
  show ?case using wf_send_via_relay [OF Cons.prems, of codec env relay target message] Cons.IH
    by (auto simp: post_def split: prod.split sum.split)
qed (simp add: post_def)

lemma wf_upsert_peers [post_intros]: "network_wf c h \<Longrightarrow> post (network_wf c) (upsert_peers codec env items h)"
  by (induction codec env items h rule: upsert_peers.induct) (auto intro!: post_intros)

lemma wf_reply [post_intros]: "network_wf c h \<Longrightarrow> post (network_wf c) (reply env node message h)"
  by (simp add: reply_def post_def)

lemma wf_deliver [simp]: "network_wf c (deliver node message h) = network_wf c h"
  by (simp add: deliver_def)

lemma wf_receive_inner [post_intros]:
  "network_wf c h \<Longrightarrow> post (network_wf c) (receive_inner codec env peer minor message_peer message h)"
  using post_fst [OF wf_handle_dht_request, of c h] post_fst [OF wf_handle_dht_response, of c h]
  unfolding receive_inner_def Let_def by (cases message) (auto intro!: post_intros)

lemma wf_receive_message:
  assumes "network_wf c h"
  shows "post (network_wf c) (receive_message codec env peer minor message h)"
proof (cases "\<exists>envelope. message = M_RelayEnvelope envelope")
  case True
  then obtain envelope where "message = M_RelayEnvelope envelope" ..
  then show ?thesis unfolding receive_message_def
    by (simp, intro post_case_node [OF wf_handle_relay_envelope [OF assms]]) (auto intro!: post_intros)
next
  case False
  then show ?thesis unfolding receive_message_def using assms by (cases message) (auto intro!: post_intros)
qed

section \<open>Runs\<close>

datatype network_op =
    NO_Open network_env Hello u64 bool
  | NO_Receive network_env NodeId u16 Message
  | NO_Close NodeId u64
  | NO_Ping network_env NodeId
  | NO_Relay network_env "NodeId list" NodeId Message
  | NO_Lookup "nat \<Rightarrow> NodeId \<Rightarrow> network_env option" u64 nat "NodeId \<Rightarrow> network_env option" DhtNamespace string
  | NO_Publish network_env "nat \<Rightarrow> NodeId \<Rightarrow> network_env option" nat "NodeId \<Rightarrow> network_env option" DhtNamespace string "u8 list" u64 u64
  | NO_Maintain network_env "DhtRecord \<Rightarrow> nat \<Rightarrow> NodeId \<Rightarrow> network_env option" nat "DhtRecord \<Rightarrow> NodeId \<Rightarrow> network_env option"

fun network_step :: "network_codec \<Rightarrow> network_op \<Rightarrow> NetworkHandle \<Rightarrow> NetworkHandle" where
  "network_step codec (NO_Open env hello connection_id outbound) h = fst (open_connection codec env hello connection_id outbound h)"
| "network_step codec (NO_Receive env peer minor message) h = fst (receive_message codec env peer minor message h)"
| "network_step codec (NO_Close node connection_id) h = close_connection node connection_id h"
| "network_step codec (NO_Ping env node) h = fst (authenticated_ping env node h)"
| "network_step codec (NO_Relay env relays target message) h = fst (try_relays codec env relays target message h)"
| "network_step codec (NO_Lookup find_envs now rounds envs namespace name) h =
     fst (dht_lookup codec find_envs now rounds envs namespace name h)"
| "network_step codec (NO_Publish env find_envs rounds envs namespace name val ttl sequence) h =
     fst (dht_publish codec env find_envs rounds envs namespace name val ttl sequence h)"
| "network_step codec (NO_Maintain env find_envs rounds envs) h = maintain codec env find_envs rounds envs h"

lemma wf_step: "network_wf c h \<Longrightarrow> network_wf c (network_step codec op h)"
  by (cases op) (auto intro: post_fst wf_open_connection wf_receive_message wf_close_connection wf_authenticated_ping
      wf_try_relays wf_dht_lookup wf_dht_publish wf_maintain)

interpretation network: step_system "network_step codec" "network_wf c"
  by unfold_locales (rule wf_step)

lemma wf_start:
  assumes "start_network codec now config node_id public_key disk = Inr h"
  shows "network_wf config h"
proof -
  have table: "table_wf t \<Longrightarrow> table_wf (fold (\<lambda>contact table. if verify_announcement codec contact
      then fst (DhtTable_insert table contact now) else table) contacts t)" for contacts t
    by (induction contacts arbitrary: t) (simp_all add: table_wf_insert)
  have store: "store_wf s \<Longrightarrow> store_wf (fold (\<lambda>r store. if verify_dht_record codec r \<and> dht_expiry_valid r now ttl
      then fst (DhtStore_put store r now) else store) records s)" for records s ttl
    by (induction records arbitrary: s) (simp_all add: store_wf_put)
  show ?thesis using assms
    by (auto simp: start_network_def network_wf_def dht_wf_def and_then_def table_wf_new store_wf_new
        intro!: table store split: sum.splits)
qed

end
