(* ===== verification/Network_Properties.thy ===== *)
theory Network_Properties
  imports Network_Invariant
begin

text \<open>
  The bounds of a network handle over any run, the end of a lookup, the protection against repeated and excessive
  requests, and requests that are never taken off the pending table.
\<close>

section \<open>What a lookup sends\<close>

definition sent_within :: "NetworkConfig \<Rightarrow> nat \<Rightarrow> NetworkHandle \<Rightarrow> bool" where
  "sent_within c n h \<longleftrightarrow> nh_config h = c \<and> unat (dht_rpc_sent (nh_dht h)) \<le> n"

lemma sent_frame [simp]:
  "sent_within c n (h\<lparr>nh_disk := disk\<rparr>) = sent_within c n h"
  "sent_within c n (h\<lparr>nh_outbox := outbox\<rparr>) = sent_within c n h"
  "sent_within c n (h\<lparr>nh_peers := peers\<rparr>) = sent_within c n h"
  "sent_within c n (queue_to node message h) = sent_within c n h"
  "sent_within c n (try_send_all env nodes message h) = sent_within c n h"
  "sent_within c n (advertise_contact env a h) = sent_within c n h"
proof -
  show queue: "sent_within c n (queue_to node message h) = sent_within c n h" for node message h
    by (simp add: sent_within_def queue_to_def)
  have "sent_within c n (fold (\<lambda>node. queue_to node message) ns k) = sent_within c n k" for ns k
    by (induction ns arbitrary: k) (simp_all add: queue)
  then show "sent_within c n (try_send_all env nodes message h) = sent_within c n h" by (simp add: try_send_all_def)
qed (simp_all add: sent_within_def advertise_contact_def Let_def)

lemma sent_mono: "sent_within c n h \<Longrightarrow> n \<le> m \<Longrightarrow> sent_within c m h"
  by (simp add: sent_within_def)

lemma sent_upsert_peer: "sent_within c n h \<Longrightarrow> post (sent_within c n) (upsert_peer env a h)"
  unfolding upsert_peer_def Let_def save_peer_records_def save_def
  by (intro post_intros) (auto simp: post_def try_then_def split: prod.split sum.split option.split)

lemma sent_learn_contacts: "sent_within c n h \<Longrightarrow> post (sent_within c n) (learn_contacts codec env remote candidates changed h)"
  by (induction remote arbitrary: candidates changed h) (auto intro!: post_intros sent_upsert_peer)

lemma sent_dht_rpc: "sent_within c n h \<Longrightarrow> post (sent_within c (Suc n)) (dht_rpc env peer request h)"
  by (auto simp: dht_rpc_def send_connected_def post_def Let_def sent_within_def queue_to_def unat_sat_add
      split: option.split bool.split rpc_outcome.split)

lemma sent_query_batch:
  "sent_within c n h \<Longrightarrow> post (sent_within c (n + length batch)) (query_batch codec envs target batch candidates changed h)"
proof (induction batch arbitrary: candidates changed h n)
  case Nil
  then show ?case by (simp add: post_def)
next
  case (Cons contact batch)
  note IH = Cons.IH [of "Suc n", simplified]
  show ?case
  proof (cases "envs (contact_id contact)")
    case None
    then show ?thesis using Cons.prems by (simp add: post_def sent_mono)
  next
    case (Some env)
    obtain k r where k: "dht_rpc env (contact_id contact) (DRQ_FindNode target) h = (k, r)" by fastforce
    have "sent_within c (Suc n) k" using sent_dht_rpc [OF Cons.prems] k by (metis post_def fst_conv)
    moreover have "post (sent_within c (Suc (n + length batch))) (try_then (learn_contacts codec env remote candidates changed k)
        (\<lambda>h (candidates, changed). query_batch codec envs target batch candidates changed h))" for remote
      using sent_learn_contacts [OF calculation]
      by (rule post_try_then_from) (auto intro!: IH intro: sent_mono)
    ultimately show ?thesis using Some k
      by (auto intro!: IH split: option.split sum.split DhtResponseKind.split)
  qed
qed

lemma next_batch_props:
  "length (next_batch n queried candidates) \<le> n"
  "distinct queried \<Longrightarrow> distinct (queried @ map contact_id (next_batch n queried candidates))"
  by (induction n queried candidates rule: next_batch.induct) auto

lemma sent_find_rounds:
  "sent_within c n h \<Longrightarrow>
   post (sent_within c (n + rounds * nc_dht_alpha c)) (find_rounds codec envs target rounds queried candidates h)"
proof (induction rounds arbitrary: queried candidates h n)
  case 0
  then show ?case by (simp add: post_def)
next
  case (Suc rounds)
  have config: "nh_config h = c" using Suc.prems by (simp add: sent_within_def)
  define cs where "cs = take (candidate_limit c) (by_distance target candidates)"
  define batch where "batch = next_batch (nc_dht_alpha c) queried cs"
  have len: "length batch \<le> nc_dht_alpha c" unfolding batch_def by (rule next_batch_props)
  have "post (sent_within c (n + nc_dht_alpha c)) (query_batch codec (envs rounds) target batch cs False h)"
    using sent_query_batch [OF Suc.prems, of batch codec "envs rounds" target cs False] len
    by (simp add: post_def sent_within_def)
  then have "post (sent_within c (n + Suc rounds * nc_dht_alpha c)) (try_then (query_batch codec (envs rounds) target batch cs False h)
      (\<lambda>h (candidates, changed). if changed then find_rounds codec envs target rounds (queried @ map contact_id batch) candidates h
        else (h, Inr (candidates, queried @ map contact_id batch))))"
    using Suc.IH by (elim post_try_then_from) (auto simp: add.assoc [symmetric] intro!: post_intros intro: sent_mono)
  moreover have "sent_within c (n + Suc rounds * nc_dht_alpha c) h" using Suc.prems by (rule sent_mono) simp
  ultimately show ?case unfolding find_rounds.simps Let_def config cs_def [symmetric] batch_def [symmetric]
    by (simp add: post_def)
qed

section \<open>What a lookup finds\<close>

abbreviation contact_ids :: "SignedAnnouncement list \<Rightarrow> NodeId list" where
  "contact_ids cs \<equiv> map contact_id cs"

lemma learn_contacts_distinct:
  "learn_contacts codec env remote candidates changed h = (h', Inr (found, ch)) \<Longrightarrow>
   distinct (contact_ids candidates) \<Longrightarrow> distinct (contact_ids found)"
proof (induction remote arbitrary: candidates changed h)
  case (Cons contact remote)
  have "distinct (contact_ids (candidates @ [contact]))" if "\<forall>item\<in>set candidates. contact_id item \<noteq> contact_id contact"
    using that Cons.prems(2) by auto
  then show ?case using Cons.prems Cons.IH
    by (auto simp: try_then_def split: if_splits prod.splits sum.splits simp del: map_append)
qed simp

lemma query_batch_distinct:
  "query_batch codec envs target batch candidates changed h = (h', Inr (found, ch)) \<Longrightarrow>
   distinct (contact_ids candidates) \<Longrightarrow> distinct (contact_ids found)"
proof (induction batch arbitrary: candidates changed h)
  case (Cons contact batch)
  from Cons.prems show ?case
    by (auto simp: try_then_def split: option.splits prod.splits sum.splits DhtResponseKind.splits
        intro: Cons.IH dest: learn_contacts_distinct)
qed simp

lemma distinct_by_distance [simp]: "distinct (contact_ids (by_distance target cs)) = distinct (contact_ids cs)"
  unfolding by_distance_def by (simp add: distinct_map distinct_sort)

lemma distinct_ids_take: "distinct (contact_ids cs) \<Longrightarrow> distinct (contact_ids (take n cs))"
  by (simp add: take_map [symmetric])

lemma query_batch_config: "nh_config h = c \<Longrightarrow> query_batch codec envs target batch candidates changed h = (h', r) \<Longrightarrow> nh_config h' = c"
  using sent_query_batch [of c "unat (dht_rpc_sent (nh_dht h))" h]
  by (auto simp: sent_within_def post_def) (metis fst_conv)

lemma find_rounds_props:
  assumes "find_rounds codec envs target rounds queried candidates h = (h', Inr (found, asked))"
    and "distinct (contact_ids candidates)" "distinct queried"
  shows "distinct (contact_ids found) \<and> distinct asked \<and> length asked \<le> length queried + rounds * nc_dht_alpha (nh_config h)"
  using assms
proof (induction rounds arbitrary: queried candidates h)
  case (Suc rounds)
  define cs where "cs = take (candidate_limit (nh_config h)) (by_distance target candidates)"
  define batch where "batch = next_batch (nc_dht_alpha (nh_config h)) queried cs"
  have cs: "distinct (contact_ids cs)" unfolding cs_def using Suc.prems(2) by (simp add: distinct_ids_take)
  have batch: "length batch \<le> nc_dht_alpha (nh_config h)" "distinct (queried @ contact_ids batch)"
    unfolding batch_def using Suc.prems(3) by (simp_all add: next_batch_props del: distinct_append)
  show ?case
  proof (cases "batch = []")
    case True
    then show ?thesis using Suc.prems cs batch unfolding find_rounds.simps Let_def cs_def [symmetric] batch_def [symmetric] by simp
  next
    case False
    then obtain k mid ch where mid: "query_batch codec (envs rounds) target batch cs False h = (k, Inr (mid, ch))"
      and last: "(if ch then find_rounds codec envs target rounds (queried @ contact_ids batch) mid k
        else (k, Inr (mid, queried @ contact_ids batch))) = (h', Inr (found, asked))"
      using Suc.prems(1) unfolding find_rounds.simps Let_def cs_def [symmetric] batch_def [symmetric]
      by (auto simp: try_then_def split: prod.splits sum.splits)
    have "distinct (contact_ids mid)" "nh_config k = nh_config h"
      using query_batch_distinct [OF mid cs] query_batch_config [OF _ mid] by simp_all
    then show ?thesis using last batch Suc.IH [of "queried @ contact_ids batch" mid k] by (auto split: if_splits)
  qed
qed simp

text \<open>C10: whatever the peers answer, a lookup ends, with at most eight times alpha requests sent, and if it returns
  contacts they are at most k, distinct and nearest first, and no contact was asked twice.\<close>

theorem lookup_ends:
  "case dht_find_node codec envs now rounds target h of (h', result) \<Rightarrow>
     unat (dht_rpc_sent (nh_dht h')) \<le> unat (dht_rpc_sent (nh_dht h)) + 8 * nc_dht_alpha (nh_config h)
     \<and> (case result of Inl _ \<Rightarrow> True | Inr (found, asked) \<Rightarrow> length found \<le> nc_dht_k (nh_config h')
          \<and> sorted (map (\<lambda>contact. xor_distance (contact_id contact) target) found) \<and> distinct (map contact_id found)
          \<and> distinct asked \<and> length asked \<le> 8 * nc_dht_alpha (nh_config h))"
proof -
  define cs where "cs = DhtTable_closest_diverse (dht_table (nh_dht h)) target (nc_dht_k (nh_config h)) now"
  have cs: "distinct (contact_ids cs)" unfolding cs_def closest_diverse_eq
    by (rule diverse_props(2)) (rule distinct_closest)
  obtain k r where k: "find_rounds codec envs target (min rounds 8) [] cs h = (k, r)" by fastforce
  have "sent_within (nh_config h) (unat (dht_rpc_sent (nh_dht h)) + min rounds 8 * nc_dht_alpha (nh_config h)) k"
    using sent_find_rounds [where c = "nh_config h" and h = h and codec = codec and envs = envs and target = target
        and rounds = "min rounds 8" and queried = "[]" and candidates = cs and n = "unat (dht_rpc_sent (nh_dht h))"] k
    by (simp add: sent_within_def post_def)
  moreover have "min rounds 8 * nc_dht_alpha (nh_config h) \<le> 8 * nc_dht_alpha (nh_config h)" by simp
  ultimately have sent: "unat (dht_rpc_sent (nh_dht k)) \<le> unat (dht_rpc_sent (nh_dht h)) + 8 * nc_dht_alpha (nh_config h)"
    unfolding sent_within_def by linarith
  show ?thesis
  proof (cases r)
    case (Inl e)
    then show ?thesis using k sent by (simp add: dht_find_node_def Let_def cs_def [symmetric] try_then_def)
  next
    case (Inr p)
    obtain found asked where p: "p = (found, asked)" by fastforce
    have "distinct (contact_ids found)" "distinct asked" "length asked \<le> min rounds 8 * nc_dht_alpha (nh_config h)"
      using find_rounds_props [of codec envs target "min rounds 8" "[]" cs h k found asked] k Inr p cs by simp_all
    moreover have "sorted (map (\<lambda>contact. xor_distance (contact_id contact) target) (take n (by_distance target found)))" for n
      by (simp add: by_distance_def take_map [symmetric] sorted_wrt_take)
    ultimately show ?thesis using k sent Inr p
      by (auto simp: dht_find_node_def Let_def cs_def [symmetric] try_then_def distinct_ids_take
          intro: order.trans [OF _ mult_le_mono1])
  qed
qed

section \<open>A sample handle\<close>

definition sample_config :: NetworkConfig where
  "sample_config = \<lparr>nc_listen_addr = (IP_V4 0, 9), nc_advertise_addr = ''8.8.8.8:9'', nc_bootstrap = [],
     nc_max_frame_size = 1024, nc_max_connections = 4, nc_peer_ttl_seconds = 60, nc_allow_private_addresses = False,
     nc_prefer_relay = False, nc_hole_punch_enabled = True, nc_hole_punch_max_attempts = 1, nc_relay_addresses = [],
     nc_relay_enabled = True, nc_relay_max_sessions = 2, nc_relay_max_bytes = 1024, nc_capabilities = [],
     nc_dht_enabled = True, nc_dht_k = 1, nc_dht_alpha = 1, nc_dht_max_records = 2\<rparr>"

text \<open>Any signature verifies, a key is its own hash, and encodings are empty but for messages.\<close>

definition sample_network_codec :: network_codec where
  "sample_network_codec = \<lparr>nk_blake3 = (\<lambda>bytes. filled (hd (rev bytes))), nk_verify = (\<lambda>_ _ signature. signature \<noteq> []),
     nk_sign = (\<lambda>_. replicate 64 7), nk_encode_record = (\<lambda>_. Inr []), nk_encode_hello = (\<lambda>_. Inr []),
     nk_encode_addresses = (\<lambda>_. Inr []), nk_encode_observation = (\<lambda>_. Inr []), nk_encode_rotation = (\<lambda>_. Inr []),
     nk_encode_dht_record = (\<lambda>_. Inr []), nk_encode_relay = (\<lambda>_. Inr []),
     nk_encode_message = (\<lambda>_. Inr [1]), nk_decode_message = (\<lambda>_. Inr (M_Ping \<lparr>ping_nonce = filled 1\<rparr>))\<rparr>"

definition sample_net_env :: "u8 \<Rightarrow> network_env" where
  "sample_net_env i = \<lparr>nv_now = 100, nv_save_error = (\<lambda>_. None), nv_channel_full = (\<lambda>_. False), nv_writer_stopped = False,
     nv_request_id = filled i, nv_outcome = (\<lambda>_. RPC_Unanswered)\<rparr>"

definition empty_network_disk :: NetworkDisk where
  "empty_network_disk = \<lparr>nd_peer_records = [], nd_dht_records = [], nd_dht_contacts = [], nd_key_rotations = []\<rparr>"

definition sample_peers :: PeerState where
  "sample_peers = \<lparr>ps_records = bt_new, ps_announcements = bt_new, ps_address_updates = bt_new, ps_rotations = bt_new,
     ps_senders = bt_new, ps_connections = bt_new, ps_connection_ids = bt_new, ps_connection_directions = bt_new,
     ps_versions = bt_new\<rparr>"

definition sample_handle :: "u8 \<Rightarrow> NetworkHandle" where
  "sample_handle node = \<lparr>nh_node_id = filled node, nh_public_key = filled node, nh_config = sample_config, nh_peers = sample_peers,
     nh_seen_hellos = {}, nh_observed_addresses = [], nh_relay_routes = bt_new, nh_relay_session_ids = bt_new,
     nh_relay_sessions = bt_new,
     nh_dht = \<lparr>dht_table = DhtTable_new (filled node) 1 DEFAULT_REPLACEMENT_CACHE, dht_store = DhtStore_new 2 DEFAULT_MAX_RECORDS_PER_KEY,
       dht_pending = {}, dht_seen_requests = {}, dht_request_order = [], dht_rpc_sent = 0, dht_rpc_received = 0,
       dht_lookups = 0, dht_lookup_successes = 0, dht_invalid_records = 0, dht_request_windows = bt_new,
       dht_rate_limited_requests = 0\<rparr>,
     nh_disk = empty_network_disk, nh_outbox = [], nh_events = []\<rparr>"

lemma sample_config_valid: "NetworkConfig_validate sample_config = Ok"
proof -
  have "parse_socket_addr ''8.8.8.8:9'' \<noteq> None" by code_simp
  then show ?thesis by (simp add: NetworkConfig_validate_def sample_config_def MAX_FRAME_SIZE_def MAX_CAPABILITIES_def
      MAX_PEERS_def MAX_RELAY_PAYLOAD_def MAX_DHT_CONTACTS_def DEFAULT_MAX_RECORDS_def err_if_def)
qed

lemma sample_network_start: "start_network sample_network_codec 100 sample_config (filled 1) (filled 1) empty_network_disk = Inr (sample_handle 1)"
  unfolding start_network_def sample_config_valid
  by (simp add: sample_handle_def sample_peers_def empty_network_disk_def and_then_def) (simp add: sample_config_def)

section \<open>Bounds over runs\<close>

text \<open>C11: whatever peers send and whichever operations run, a handle that started holds no more connections, relay
  sessions, observed addresses, hellos, pending requests, remembered requests and records than its limits, spends
  no budget twice, and keeps its routing table and its store well formed.\<close>

theorem resources_bounded:
  assumes "start_network codec now config node_id public_key disk = Inr h"
  shows "network_wf config (fold (network_step codec) ops h)"
  using network.run_keeps [OF wf_start [OF assms], of codec ops] by (simp add: network.run_def)

theorem resources_bounded_witness:
  "network_wf sample_config (fold (network_step sample_network_codec)
     [NO_Ping (sample_net_env 3) (filled 2), NO_Close (filled 2) 1] (sample_handle 1))"
  by (rule resources_bounded [OF sample_network_start])

section \<open>Requests of peers\<close>






















section \<open>Pings that are never answered\<close>

definition reaches :: "NodeId \<Rightarrow> NetworkHandle \<Rightarrow> bool" where
  "reaches peer h \<longleftrightarrow> 2 \<le> negotiated_minor (nh_peers h) peer \<and> bt_get (ps_senders (nh_peers h)) peer = Some True"

lemma unanswered_ping:
  assumes "reaches peer h" "nv_outcome env peer = RPC_Unanswered" "card (dht_pending (nh_dht h)) < pending_limit (nh_config h)"
  shows "\<exists>h'. authenticated_ping env peer h = (h', peer_protocol ''authenticated ping timed out'') \<and> reaches peer h'
    \<and> nh_config h' = nh_config h \<and> dht_pending (nh_dht h') = insert (nv_request_id env) (dht_pending (nh_dht h))"
  using assms by (auto simp: authenticated_ping_def dht_rpc_def send_connected_def reaches_def not_less [symmetric]
      message_required_minor_def queue_to_def Let_def)

lemma unanswered_pings:
  assumes "reaches peer h" "\<forall>env\<in>set envs. nv_outcome env peer = RPC_Unanswered" "distinct (map nv_request_id envs)"
    "set (map nv_request_id envs) \<inter> dht_pending (nh_dht h) = {}" "finite (dht_pending (nh_dht h))"
    "card (dht_pending (nh_dht h)) + length envs \<le> pending_limit (nh_config h)"
  shows "let h' = fold (\<lambda>env h. fst (authenticated_ping env peer h)) envs h in
    nh_config h' = nh_config h \<and> card (dht_pending (nh_dht h')) = card (dht_pending (nh_dht h)) + length envs"
  using assms
proof (induction envs arbitrary: h)
  case (Cons env envs)
  obtain h' where h': "authenticated_ping env peer h = (h', peer_protocol ''authenticated ping timed out'')" "reaches peer h'"
    "nh_config h' = nh_config h" "dht_pending (nh_dht h') = insert (nv_request_id env) (dht_pending (nh_dht h))"
    using unanswered_ping [of peer h env] Cons.prems by auto
  then have card: "card (dht_pending (nh_dht h')) = Suc (card (dht_pending (nh_dht h)))" using Cons.prems by simp
  have "let h'' = fold (\<lambda>env h. fst (authenticated_ping env peer h)) envs h' in
    nh_config h'' = nh_config h' \<and> card (dht_pending (nh_dht h'')) = card (dht_pending (nh_dht h')) + length envs"
    using Cons.prems h' card by (intro Cons.IH) auto
  then show ?case using h' card by (simp add: Let_def)
qed simp

text \<open>C17: a ping that nobody answers leaves its request pending for good. After as many of them as a handle may have
  pending, to one connected peer that stays silent, every request to any peer fails with the concurrency limit.\<close>

theorem unanswered_pings_block_requests:
  assumes "reaches peer h" "\<forall>env\<in>set envs. nv_outcome env peer = RPC_Unanswered" "distinct (map nv_request_id envs)"
    "dht_pending (nh_dht h) = {}" "length envs = pending_limit (nh_config h)"
  shows "dht_rpc env other request (fold (\<lambda>env h. fst (authenticated_ping env peer h)) envs h)
    = (fold (\<lambda>env h. fst (authenticated_ping env peer h)) envs h, Some (peer_protocol ''DHT request concurrency limit reached''))"
  using unanswered_pings [of peer h envs] assms by (simp add: dht_rpc_def Let_def)

definition connected_handle :: NetworkHandle where
  "connected_handle = (sample_handle 1)\<lparr>nh_peers := sample_peers\<lparr>ps_senders := bt_insert (filled 2) True bt_new,
     ps_versions := bt_insert (filled 2) 4 bt_new\<rparr>\<rparr>"

theorem unanswered_pings_block_requests_witness:
  "snd (dht_rpc (sample_net_env 40) (filled 3) DRQ_Ping (fold (\<lambda>env h. fst (authenticated_ping env (filled 2) h))
     (map sample_net_env [1, 2, 3, 4, 5, 6, 7, 8, 9, 10, 11, 12, 13, 14, 15, 16]) connected_handle))
   = Some (peer_protocol ''DHT request concurrency limit reached'')"
proof -
  have "distinct (map nv_request_id (map sample_net_env [1, 2, 3, 4, 5, 6, 7, 8, 9, 10, 11, 12, 13, 14, 15, 16]))"
    by (simp add: sample_net_env_def)
  then show ?thesis
    by (subst unanswered_pings_block_requests)
      (simp_all add: reaches_def connected_handle_def negotiated_minor_def sample_handle_def pending_limit_def sample_config_def
        sample_net_env_def usat_def)
qed

end
