(* ===== verification/Connection_Properties.thy ===== *)
theory Connection_Properties
  imports Network_Properties "HOL-Library.Multiset"
begin

text \<open>
  What connections promise: two nodes that dial each other at once keep the same connection, a message through a relay
  arrives as it was sent, nobody speaks in the name of another, and where the reader of a connection can be silenced.
\<close>

section \<open>Simultaneous connections\<close>

text \<open>A connection to \<open>peer\<close> on its way to the table, when a probe of an older one is answered.\<close>

definition settle :: "network_env \<Rightarrow> PeerRecord \<Rightarrow> u16 \<Rightarrow> u64 \<times> bool \<Rightarrow> NetworkHandle \<Rightarrow> bool network_result" where
  "settle env peer minor = (\<lambda>(connection_id, outbound) h. admit_connection env peer connection_id outbound minor
     (existing_canonical (nh_peers h) (pr_node_id peer) (nh_node_id h < pr_node_id peer) outbound) False h)"

text \<open>The connection a handle uses for a peer, with the direction in which it was dialled.\<close>

definition uses :: "NetworkHandle \<Rightarrow> NodeId \<Rightarrow> u64 \<times> bool \<Rightarrow> bool" where
  "uses h node c \<longleftrightarrow> direct_connection_available h node \<and> bt_get (ps_connection_ids (nh_peers h)) node = Some (fst c)
     \<and> bt_get (ps_connection_directions (nh_peers h)) node = Some (snd c)"

definition room_for :: "NetworkHandle \<Rightarrow> NodeId \<Rightarrow> bool" where
  "room_for h node \<longleftrightarrow> bt_len (bt_remove node (ps_senders (nh_peers h))) < nc_max_connections (nh_config h)
     \<and> (bt_get (ps_records (nh_peers h)) node \<noteq> None \<or> bt_len (ps_records (nh_peers h)) < MAX_LEARNED_PEERS)"

lemma learn_record_peers [simp]:
  "ps_senders (learn_record r peers) = ps_senders peers" "ps_connections (learn_record r peers) = ps_connections peers"
  "ps_connection_ids (learn_record r peers) = ps_connection_ids peers"
  "ps_connection_directions (learn_record r peers) = ps_connection_directions peers"
  "\<exists>known. bt_get (ps_records (learn_record r peers)) (pr_node_id r) = Some known"
  by (auto simp: learn_record_def split: option.splits)

lemma register_peers [simp]:
  "ps_senders (register_connection node i outbound minor peers) = bt_insert node True (ps_senders peers)"
  "ps_connections (register_connection node i outbound minor peers) = bt_insert node True (ps_connections peers)"
  "ps_connection_ids (register_connection node i outbound minor peers) = bt_insert node i (ps_connection_ids peers)"
  "ps_connection_directions (register_connection node i outbound minor peers) = bt_insert node outbound (ps_connection_directions peers)"
  "ps_records (register_connection node i outbound minor peers) = ps_records peers"
  by (simp_all add: register_connection_def)

lemma forget_peers [simp]:
  "ps_senders (forget_connection node peers) = bt_remove node (ps_senders peers)"
  "ps_records (forget_connection node peers) = ps_records peers"
  by (simp_all add: forget_connection_def)

lemma settle_admits:
  assumes "displace (pr_node_id peer) (nh_node_id h < pr_node_id peer) (snd c)
      (existing_canonical (nh_peers h) (pr_node_id peer) (nh_node_id h < pr_node_id peer) (snd c)) False (nh_peers h) = (peers, False)"
    "ps_records peers = ps_records (nh_peers h)" "bt_get (ps_senders peers) (pr_node_id peer) = None"
    "bt_len (ps_senders peers) = bt_len (bt_remove (pr_node_id peer) (ps_senders (nh_peers h)))"
    "room_for h (pr_node_id peer)" "nv_save_error env NF_PeerRecords = None"
  shows "\<exists>h'. settle env peer minor c h = (h', Inr True) \<and> uses h' (pr_node_id peer) c \<and> room_for h' (pr_node_id peer)
    \<and> nh_node_id h' = nh_node_id h"
proof -
  have len: "bt_len (ps_senders peers) < nc_max_connections (nh_config h)"
    using assms(4,5) by (simp add: room_for_def)
  have known: "\<not> (bt_get (ps_records peers) (pr_node_id peer) = None \<and> MAX_LEARNED_PEERS \<le> bt_len (ps_records peers))"
    using assms(2,5) by (auto simp: room_for_def)
  show ?thesis using assms(1,3,6) len known
    by (cases c) (auto simp: settle_def admit_connection_def Let_def try_then_def save_peer_records_def save_def uses_def
        direct_connection_available_def room_for_def bt_len_remove bt_len_insert)
qed

lemma settle_first:
  assumes "bt_get (ps_senders (nh_peers h)) (pr_node_id peer) = None" "room_for h (pr_node_id peer)"
    "nv_save_error env NF_PeerRecords = None"
  shows "\<exists>h'. settle env peer minor c h = (h', Inr True) \<and> uses h' (pr_node_id peer) c \<and> room_for h' (pr_node_id peer)
    \<and> nh_node_id h' = nh_node_id h"
  using assms by (intro settle_admits [of _ _ _ "nh_peers h"]) (simp_all add: displace_def bt_len_remove)

lemma settle_preferred:
  assumes "uses h (pr_node_id peer) d" "snd d \<noteq> (nh_node_id h < pr_node_id peer)" "snd c = (nh_node_id h < pr_node_id peer)"
    "room_for h (pr_node_id peer)" "nv_save_error env NF_PeerRecords = None"
  shows "\<exists>h'. settle env peer minor c h = (h', Inr True) \<and> uses h' (pr_node_id peer) c \<and> room_for h' (pr_node_id peer)
    \<and> nh_node_id h' = nh_node_id h"
  using assms by (intro settle_admits [of _ _ _ "forget_connection (pr_node_id peer) (nh_peers h)"])
    (auto simp: displace_def uses_def direct_connection_available_def is_some_and_def)

lemma settle_rejects:
  assumes "uses h (pr_node_id peer) d" "snd d = (nh_node_id h < pr_node_id peer) \<or> snd c \<noteq> (nh_node_id h < pr_node_id peer)"
    "room_for h (pr_node_id peer)"
  shows "\<exists>h'. settle env peer minor c h = (h', Inr False) \<and> uses h' (pr_node_id peer) d \<and> room_for h' (pr_node_id peer)
    \<and> nh_node_id h' = nh_node_id h"
proof -
  have "displace (pr_node_id peer) (nh_node_id h < pr_node_id peer) (snd c) (existing_canonical (nh_peers h) (pr_node_id peer)
      (nh_node_id h < pr_node_id peer) (snd c)) False (nh_peers h) = (nh_peers h, True)"
    using assms(1,2) by (auto simp: displace_def uses_def direct_connection_available_def is_some_and_def split: option.splits)
  then show ?thesis using assms(1,3)
    by (cases c) (auto simp: settle_def admit_connection_def Let_def uses_def direct_connection_available_def room_for_def)
qed

text \<open>Once a connection in the preferred direction is there it stays.\<close>

lemma settle_keeps:
  "uses h (pr_node_id peer) c \<Longrightarrow> snd c = (nh_node_id h < pr_node_id peer) \<Longrightarrow> room_for h (pr_node_id peer) \<Longrightarrow>
   uses (fold (\<lambda>d h. fst (settle env peer minor d h)) cs h) (pr_node_id peer) c"
proof (induction cs arbitrary: h)
  case (Cons d cs)
  obtain h' where "settle env peer minor d h = (h', Inr False)" "uses h' (pr_node_id peer) c" "room_for h' (pr_node_id peer)"
    "nh_node_id h' = nh_node_id h" using settle_rejects [of h peer c d] Cons.prems by blast
  then show ?case using Cons.IH [of h'] Cons.prems by simp
qed simp

lemma settle_wrong_direction:
  assumes "\<forall>d\<in>set cs. snd d \<noteq> (nh_node_id h < pr_node_id peer)" "room_for h (pr_node_id peer)" "nv_save_error env NF_PeerRecords = None"
    "bt_get (ps_senders (nh_peers h)) (pr_node_id peer) = None \<or> (\<exists>d. uses h (pr_node_id peer) d \<and> snd d \<noteq> (nh_node_id h < pr_node_id peer))"
  shows "let h' = fold (\<lambda>d h. fst (settle env peer minor d h)) cs h in room_for h' (pr_node_id peer) \<and> nh_node_id h' = nh_node_id h
    \<and> (bt_get (ps_senders (nh_peers h')) (pr_node_id peer) = None
       \<or> (\<exists>d. uses h' (pr_node_id peer) d \<and> snd d \<noteq> (nh_node_id h' < pr_node_id peer)))"
  using assms
proof (induction cs arbitrary: h)
  case (Cons c cs)
  obtain h' d where h': "fst (settle env peer minor c h) = h'" "uses h' (pr_node_id peer) d" "snd d \<noteq> (nh_node_id h < pr_node_id peer)"
    "room_for h' (pr_node_id peer)" "nh_node_id h' = nh_node_id h"
  proof (cases "bt_get (ps_senders (nh_peers h)) (pr_node_id peer) = None")
    case True
    then show ?thesis using settle_first [of h peer env minor c] Cons.prems that [of _ c] by fastforce
  next
    case False
    then show ?thesis using settle_rejects [of h peer _ c env minor] Cons.prems that by fastforce
  qed
  have "let k = fold (\<lambda>d h. fst (settle env peer minor d h)) cs h' in room_for k (pr_node_id peer) \<and> nh_node_id k = nh_node_id h'
      \<and> (bt_get (ps_senders (nh_peers k)) (pr_node_id peer) = None
         \<or> (\<exists>d. uses k (pr_node_id peer) d \<and> snd d \<noteq> (nh_node_id k < pr_node_id peer)))"
    using h' Cons.prems by (intro Cons.IH disjI2 exI [of _ d]) auto
  then show ?case using h' by (auto simp: Let_def)
qed simp

lemma settle_one_preferred:
  assumes "cs = before @ c # after" "snd c = (nh_node_id h < pr_node_id peer)" "\<forall>d\<in>set before. snd d \<noteq> (nh_node_id h < pr_node_id peer)"
    "bt_get (ps_senders (nh_peers h)) (pr_node_id peer) = None" "room_for h (pr_node_id peer)" "nv_save_error env NF_PeerRecords = None"
  shows "uses (fold (\<lambda>d h. fst (settle env peer minor d h)) cs h) (pr_node_id peer) c"
proof -
  define k where "k = fold (\<lambda>d h. fst (settle env peer minor d h)) before h"
  have k: "room_for k (pr_node_id peer)" "nh_node_id k = nh_node_id h"
    "bt_get (ps_senders (nh_peers k)) (pr_node_id peer) = None \<or> (\<exists>d. uses k (pr_node_id peer) d \<and> snd d \<noteq> (nh_node_id k < pr_node_id peer))"
    using settle_wrong_direction [of before h peer env minor] assms unfolding k_def Let_def by auto
  obtain h' where "fst (settle env peer minor c k) = h'" "uses h' (pr_node_id peer) c" "room_for h' (pr_node_id peer)" "nh_node_id h' = nh_node_id h"
    using settle_first [of k peer env minor c] settle_preferred [of k peer _ c env minor] k assms(2,6) by (metis fst_conv)
  then show ?thesis using settle_keeps [of h' peer c env minor after] assms(1,2) by (simp add: k_def [symmetric])
qed

text \<open>A connection between two nodes: its number at either of them, and whether the first one dialled it.\<close>

type_synonym dialled = "u64 \<times> u64 \<times> bool"

definition first_by_a :: "dialled list \<Rightarrow> dialled \<Rightarrow> bool" where
  "first_by_a cs c \<longleftrightarrow> filter (\<lambda>(_, _, by_a). by_a) cs = [c]"

lemma first_by_a_split:
  assumes "first_by_a cs c"
  obtains before after where "cs = before @ c # after" "\<forall>(_, _, by_a)\<in>set before. \<not> by_a" "snd (snd c)"
proof -
  have "c \<in> set cs" "snd (snd c)" using assms unfolding first_by_a_def by (auto simp: filter_eq_Cons_iff)
  moreover obtain before after where *: "cs = before @ c # after" "\<forall>(_, _, by_a)\<in>set before. \<not> by_a"
    using assms unfolding first_by_a_def by (auto simp: filter_eq_Cons_iff case_prod_beta)
  ultimately show ?thesis using that by blast
qed

text \<open>C12: two nodes dial each other any number of times and see the connections in any two orders. If the node with the
  lower identifier dialled one of them, that one is the connection both use in the end.\<close>

theorem simultaneous_dials_agree:
  assumes "nh_node_id a < nh_node_id b" "pr_node_id ra = nh_node_id a" "pr_node_id rb = nh_node_id b"
    "mset seen_a = mset seen_b" "first_by_a seen_a c"
    "bt_get (ps_senders (nh_peers a)) (nh_node_id b) = None" "bt_get (ps_senders (nh_peers b)) (nh_node_id a) = None"
    "room_for a (nh_node_id b)" "room_for b (nh_node_id a)"
    "nv_save_error env_a NF_PeerRecords = None" "nv_save_error env_b NF_PeerRecords = None"
  shows "uses (fold (\<lambda>(at_a, _, by_a) h. fst (settle env_a rb minor (at_a, by_a) h)) seen_a a) (nh_node_id b) (fst c, True)
    \<and> uses (fold (\<lambda>(_, at_b, by_a) h. fst (settle env_b ra minor (at_b, \<not> by_a) h)) seen_b b) (nh_node_id a) (fst (snd c), False)"
proof
  have b: "first_by_a seen_b c"
    using assms(4,5) unfolding first_by_a_def by (metis mset_filter mset_single_iff mset.simps)
  let ?f = "\<lambda>(at_a, _, by_a). (at_a, by_a)" let ?g = "\<lambda>(_, at_b, by_a). (at_b, \<not> by_a)"
  have fold_map_a: "fold (\<lambda>(at_a, _, by_a) h. fst (settle env_a rb minor (at_a, by_a) h)) seen_a a
      = fold (\<lambda>d h. fst (settle env_a rb minor d h)) (map ?f seen_a) a"
    by (simp add: fold_map comp_def case_prod_unfold)
  have fold_map_b: "fold (\<lambda>(_, at_b, by_a) h. fst (settle env_b ra minor (at_b, \<not> by_a) h)) seen_b b
      = fold (\<lambda>d h. fst (settle env_b ra minor d h)) (map ?g seen_b) b"
    by (simp add: fold_map comp_def case_prod_unfold)
  obtain xs ys where a_split: "seen_a = xs @ c # ys" "\<forall>(_, _, by_a)\<in>set xs. \<not> by_a" "snd (snd c)"
    using assms(5) by (rule first_by_a_split)
  obtain us vs where b_split: "seen_b = us @ c # vs" "\<forall>(_, _, by_a)\<in>set us. \<not> by_a" using b by (rule first_by_a_split)
  show "uses (fold (\<lambda>(at_a, _, by_a) h. fst (settle env_a rb minor (at_a, by_a) h)) seen_a a) (nh_node_id b) (fst c, True)"
    unfolding fold_map_a assms(3) [symmetric] using a_split assms
    by (intro settle_one_preferred [where before = "map ?f xs" and after = "map ?f ys"]) (auto simp: case_prod_unfold)
  show "uses (fold (\<lambda>(_, at_b, by_a) h. fst (settle env_b ra minor (at_b, \<not> by_a) h)) seen_b b) (nh_node_id a) (fst (snd c), False)"
    unfolding fold_map_b assms(2) [symmetric] using a_split(3) b_split assms
    by (intro settle_one_preferred [where before = "map ?g us" and after = "map ?g vs"]) (auto simp: case_prod_unfold)
qed

definition sample_peer_record :: "u8 \<Rightarrow> PeerRecord" where
  "sample_peer_record node = \<lparr>pr_node_id = filled node, pr_public_key = filled node, pr_addresses = [''8.8.8.8:9''], pr_capabilities = [],
     pr_announced_at = 90, pr_expires_at = 150, pr_observed_latency_ms = None\<rparr>"

theorem simultaneous_dials_agree_witness:
  "uses (fold (\<lambda>(at_a, _, by_a) h. fst (settle (sample_net_env 0) (sample_peer_record 2) 4 (at_a, by_a) h)) [(0, 1, True), (1, 0, False)] (sample_handle 1))
     (filled 2) (0, True)
   \<and> uses (fold (\<lambda>(_, at_b, by_a) h. fst (settle (sample_net_env 0) (sample_peer_record 1) 4 (at_b, \<not> by_a) h)) [(1, 0, False), (0, 1, True)] (sample_handle 2))
     (filled 1) (1, False)"
  using simultaneous_dials_agree [of "sample_handle 1" "sample_handle 2" "sample_peer_record 1" "sample_peer_record 2"
      "[(0, 1, True), (1, 0, False)]" "[(1, 0, False), (0, 1, True)]" "(0, 1, True)" "sample_net_env 0" "sample_net_env 0" 4]
  by (simp add: sample_handle_def sample_peers_def sample_peer_record_def sample_net_env_def sample_config_def first_by_a_def room_for_def
      bt_len_remove MAX_LEARNED_PEERS_def)

section \<open>Messages through a relay\<close>

lemma charge_session_frame:
  assumes "charge_session env envelope h = (h', r)"
  shows "nh_peers h' = nh_peers h" "nh_outbox h' = nh_outbox h" "nh_events h' = nh_events h"
  using assms by (auto simp: charge_session_def Let_def split: option.splits if_splits)






definition sample_ping_message :: Message where
  "sample_ping_message = M_Ping \<lparr>ping_nonce = filled 1\<rparr>"


section \<open>Whose message it is\<close>

text \<open>The handlers behind the reader raise no events themselves.\<close>

abbreviation quiet :: "NetworkEvent list \<Rightarrow> NetworkHandle \<Rightarrow> bool" where
  "quiet events h \<equiv> nh_events h = events"

lemma quiet_try_send_all [simp]: "nh_events (try_send_all env nodes message h) = nh_events h"
proof -
  have "nh_events (fold (\<lambda>node. queue_to node message) ns k) = nh_events k" for ns k
    by (induction ns arbitrary: k) (simp_all add: queue_to_def)
  then show ?thesis by (simp add: try_send_all_def)
qed

lemma quiet_save [post_intros]: "quiet e h \<Longrightarrow> post (quiet e) (save env file f h)"
  by (auto simp: save_def post_def split: option.splits)

lemma quiet_save_peer_records [post_intros]: "quiet e h \<Longrightarrow> post (quiet e) (save_peer_records env h)"
  unfolding save_peer_records_def by (rule quiet_save)

lemma quiet_advertise [simp]: "nh_events (advertise_contact env a h) = nh_events h"
  by (simp add: advertise_contact_def Let_def)

lemma quiet_upsert_peer [post_intros]: "quiet e h \<Longrightarrow> post (quiet e) (upsert_peer env a h)"
  unfolding upsert_peer_def Let_def by (auto intro!: post_intros split: prod.split sum.split)

lemma quiet_upsert_peers [post_intros]: "quiet e h \<Longrightarrow> post (quiet e) (upsert_peers codec env items h)"
  by (induction items arbitrary: h) (auto intro!: post_intros)

lemma quiet_upsert_address_update [post_intros]: "quiet e h \<Longrightarrow> post (quiet e) (upsert_address_update env update h)"
  unfolding upsert_address_update_def Let_def by (auto intro!: post_intros)

lemma quiet_upsert_key_rotation [post_intros]: "quiet e h \<Longrightarrow> post (quiet e) (upsert_key_rotation env rotation h)"
  unfolding upsert_key_rotation_def Let_def by (auto intro!: post_intros)

lemma quiet_record_observation [simp]: "nh_events (record_observation env observation h) = nh_events h"
  by (simp add: record_observation_def Let_def)

lemma quiet_reply [post_intros]: "quiet e h \<Longrightarrow> post (quiet e) (reply env node message h)"
  by (simp add: reply_def post_def queue_to_def)

lemma quiet_send_connected [post_intros]: "quiet e h \<Longrightarrow> post (quiet e) (send_connected node message h)"
  unfolding send_connected_def by (intro post_intros) (simp_all add: queue_to_def)

lemma quiet_store_dht_record [post_intros]: "quiet e h \<Longrightarrow> post (quiet e) (store_dht_record codec env r h)"
  unfolding store_dht_record_def Let_def by (auto intro!: post_intros simp: count_invalid_record_def split: prod.split)

lemma quiet_answer_request [post_intros]: "quiet e h \<Longrightarrow> post (quiet e) (answer_request codec env peer request h)"
  unfolding answer_request_def
  by (auto intro!: post_intros simp: count_invalid_record_def split: DhtRequestKind.split prod.split)

lemma quiet_handle_dht_request [post_intros]: "quiet e h \<Longrightarrow> post (quiet e) (handle_dht_request codec env peer request h)"
  unfolding handle_dht_request_def Let_def
  by (auto intro!: post_intros split: prod.split request_verdict.split)

lemma quiet_handle_dht_response [post_intros]: "quiet e h \<Longrightarrow> post (quiet e) (handle_dht_response codec peer response h)"
  unfolding handle_dht_response_def by (intro post_intros) simp_all

text \<open>A message handler raises at most one event: the message itself, in the name of the peer it is from.\<close>

abbreviation delivers :: "NetworkEvent list \<Rightarrow> NodeId \<Rightarrow> Message \<Rightarrow> NetworkHandle \<Rightarrow> bool" where
  "delivers e node message h \<equiv> nh_events h = e \<or> nh_events h = e @ [NV_Message node message]"

lemma delivers_then:
  "post (quiet e) r \<Longrightarrow> (\<And>h x. nh_events h = e \<Longrightarrow> post (delivers e node message) (f h x)) \<Longrightarrow> post (delivers e node message) (try_then r f)"
  by (rule post_try_then_from [where G = "quiet e"]) simp_all

lemma delivers_receive_inner:
  "nh_events h = e \<Longrightarrow> post (delivers e message_peer message) (receive_inner codec env peer minor message_peer message h)"
  unfolding receive_inner_def Let_def
  by (cases message) (auto intro!: delivers_then post_pair intro: post_intros simp: deliver_def
      post_fst [OF quiet_handle_dht_request] post_fst [OF quiet_handle_dht_response])

lemma quiet_charge_session [post_intros]: "quiet e h \<Longrightarrow> post (quiet e) (charge_session env envelope h)"
  using charge_session_frame(3) [of env envelope h] by (cases "charge_session env envelope h") (simp add: post_def)

lemma quiet_handle_relay_envelope:
  assumes "handle_relay_envelope codec env peer envelope h = (h', r)"
  shows "nh_events h' = nh_events h"
proof -
  have "post (quiet (nh_events h)) (handle_relay_envelope codec env peer envelope h)"
    unfolding handle_relay_envelope_def Let_def by (auto intro!: post_intros simp: forward_envelope_def queue_to_def)
  then show ?thesis using assms by (simp add: post_def)
qed

lemma opened_envelope:
  assumes "handle_relay_envelope codec env peer envelope h = (h', Inr (Some inner))"
  shows "re_target envelope = nh_node_id h \<and> re_origin envelope = from_public_key (nk_blake3 codec) (re_origin_public_key envelope)
    \<and> nk_decode_message codec (re_payload envelope) = Inr inner
    \<and> (\<exists>bytes. nk_encode_relay codec (re_session_id envelope, re_origin envelope, re_target envelope, re_payload envelope) = Inr bytes
         \<and> nk_verify codec (re_origin_public_key envelope) bytes (re_signature envelope))"
proof -
  have "re_origin envelope = from_public_key (nk_blake3 codec) (re_origin_public_key envelope)"
    if "RelayEnvelope_validate (nk_blake3 codec) envelope = Inr ()"
    using that by (simp add: RelayEnvelope_validate_def err_if_def split: if_splits)
  then show ?thesis using assms
    by (auto simp: handle_relay_envelope_def checked_def try_then_def map_err_def peer_validated_def open_envelope_def and_then_def Let_def
        split: sum.splits if_splits prod.splits Message.splits)
qed

text \<open>C13: a message is reported as one of a node only if it came over the authenticated connection to that node, or in
  an envelope addressed to this node and signed with the key that hashes to that node's identifier.\<close>

theorem delivered_is_authentic:
  assumes "receive_message codec env peer minor message h = (h', r)"
    "NV_Message node m \<in> set (drop (length (nh_events h)) (nh_events h'))"
  shows "(node = peer \<and> m = message) \<or> (\<exists>envelope bytes. message = M_RelayEnvelope envelope \<and> re_origin envelope = node
    \<and> re_target envelope = nh_node_id h \<and> nk_decode_message codec (re_payload envelope) = Inr m
    \<and> node = from_public_key (nk_blake3 codec) (re_origin_public_key envelope)
    \<and> nk_encode_relay codec (re_session_id envelope, node, nh_node_id h, re_payload envelope) = Inr bytes
    \<and> nk_verify codec (re_origin_public_key envelope) bytes (re_signature envelope))"
proof (cases "\<exists>envelope. message = M_RelayEnvelope envelope")
  case True
  then obtain envelope where envelope: "message = M_RelayEnvelope envelope" ..
  obtain k result where k: "handle_relay_envelope codec env peer envelope h = (k, result)" by fastforce
  have same: "nh_events k = nh_events h" by (rule quiet_handle_relay_envelope [OF k])
  obtain inner where inner: "result = Inr (Some inner)"
    using assms k same envelope by (auto simp: receive_message_def split: sum.splits option.splits)
  have "delivers (nh_events h) (re_origin envelope) inner h'"
    using assms(1) k inner envelope delivers_receive_inner [OF same, where message_peer = "re_origin envelope" and message = inner and codec = codec and env = env and peer = peer and minor = minor]
    by (simp add: receive_message_def post_def)
  then have "node = re_origin envelope" "m = inner" using assms(2) by auto
  then show ?thesis using opened_envelope [OF k [unfolded inner]] envelope by auto
next
  case False
  then have "receive_message codec env peer minor message h = receive_inner codec env peer minor peer message h"
    by (cases message) (simp_all add: receive_message_def)
  then have inner: "receive_inner codec env peer minor peer message h = (h', r)" using assms(1) by simp
  then have "delivers (nh_events h) peer message h'"
    using inner delivers_receive_inner [OF refl [of "nh_events h"], where message_peer = peer and message = message and codec = codec and env = env and peer = peer and minor = minor] by (simp add: post_def)
  then show ?thesis using assms(2) by auto
qed

definition sample_envelope :: RelayEnvelope where
  "sample_envelope = \<lparr>re_session_id = filled 9, re_origin = filled 1, re_origin_public_key = filled 1, re_target = filled 3,
     re_payload = [1], re_signature = replicate 64 7\<rparr>"

theorem delivered_is_authentic_witness:
  "NV_Message (filled 1) sample_ping_message \<in> set (nh_events (fst (receive_message sample_network_codec (sample_net_env 0) (filled 2) 4
     (M_RelayEnvelope sample_envelope) (sample_handle 3))))
   \<and> re_target sample_envelope = nh_node_id (sample_handle 3)"
proof -
  define result where "result = receive_message sample_network_codec (sample_net_env 0) (filled 2) 4 (M_RelayEnvelope sample_envelope) (sample_handle 3)"
  have "filled 1 = from_public_key (nk_blake3 sample_network_codec) (filled 1)"
    by (simp add: from_public_key_def sample_network_codec_def)
  then have events: "nh_events (fst result) = [NV_Message (filled 1) sample_ping_message]"
    unfolding result_def
    by (simp add: receive_message_def handle_relay_envelope_def checked_def peer_validated_def map_err_def RelayEnvelope_validate_def err_if_def signature_check_def
        sample_envelope_def sample_network_codec_def sample_handle_def MAX_RELAY_PAYLOAD_def open_envelope_def and_then_def receive_inner_def
        sample_ping_message_def try_then_def reply_def sample_net_env_def queue_to_def deliver_def)
  then show ?thesis
    using delivered_is_authentic [of sample_network_codec "sample_net_env 0" "filled 2" 4 "M_RelayEnvelope sample_envelope" "sample_handle 3"
        "fst result" "snd result" "filled 1" sample_ping_message]
    by (simp add: result_def [symmetric]) (simp add: sample_handle_def sample_ping_message_def)
qed

section \<open>A reader that stops\<close>

text \<open>C16: an announcement of a third node with a valid signature but a lifetime beyond what this node accepts ends the
  reader of the connection it came over, whoever relays it: the messages behind it are not read, no event is raised,
  and the connection stays in the tables as if it were in use.\<close>

theorem announcement_silences_reader:
  assumes "uses h peer (connection_id, outbound)" "verify_announcement codec item" "contact_id item \<noteq> nh_node_id h"
    "peer_check (sa_record item) = Ok" "nv_now env \<le> pr_expires_at (sa_record item)"
    "\<not> record_time_valid env (nh_config h) (sa_record item)"
  shows "connection_loop codec peer connection_id minor stream_error ((env, M_Announcement item) # messages) h
      = (h, peer_protocol ''peer announcement has an invalid lifetime'')
    \<and> uses (fst (connection_loop codec peer connection_id minor stream_error ((env, M_Announcement item) # messages) h)) peer
        (connection_id, outbound)"
proof -
  have "upsert_peer env item h = (h, peer_protocol ''peer announcement has an invalid lifetime'')"
    using assms(3-6) by (simp add: upsert_peer_def Let_def checked_def peer_validated_def map_err_def linorder_not_less [symmetric])
  then have "receive_message codec env peer minor (M_Announcement item) h = (h, peer_protocol ''peer announcement has an invalid lifetime'')"
    using assms(2,3) by (simp add: receive_message_def receive_inner_def try_then_def)
  then show ?thesis using assms(1) by simp
qed

definition sample_announcement :: SignedAnnouncement where
  "sample_announcement = \<lparr>sa_record = (sample_peer_record 5)\<lparr>pr_expires_at := 9000\<rparr>, sa_signature = replicate 64 7\<rparr>"

definition used_handle :: NetworkHandle where
  "used_handle = (sample_handle 1)\<lparr>nh_peers := register_connection (filled 2) 7 True 4 sample_peers\<rparr>"

theorem announcement_silences_reader_witness:
  "uses (fst (connection_loop sample_network_codec (filled 2) 7 4 ''closed'' [(sample_net_env 0, M_Announcement sample_announcement),
     (sample_net_env 1, sample_ping_message)] used_handle)) (filled 2) (7, True)"
proof -
  have "parse_socket_addr ''8.8.8.8:9'' \<noteq> None" by code_simp
  then have "peer_check (sa_record sample_announcement) = Ok"
    by (auto simp: peer_check_def sample_announcement_def sample_peer_record_def err_if_def MAX_ADDRESS_LEN_def MAX_CAPABILITIES_def)
  moreover have "filled 5 = from_public_key (nk_blake3 sample_network_codec) (filled 5)"
    by (simp add: from_public_key_def sample_network_codec_def)
  ultimately show ?thesis
    by (intro announcement_silences_reader [THEN conjunct2])
      (simp_all add: uses_def used_handle_def direct_connection_available_def verify_announcement_def verified_def sample_announcement_def
        sample_peer_record_def sample_network_codec_def sample_handle_def sample_net_env_def record_time_valid_def sample_config_def sat_sub_def sat_mul_def)
qed

end
