(* ===== verification/Fabric_Algorithms.thy ===== *)
theory Fabric_Algorithms
  imports Number_Format Fabric_Validation "HOL-Library.Multiset"
begin

text \<open>
  The reference algorithms of \<^verbatim>\<open>intelligence/src/training_fabric.rs\<close>: robust aggregation of worker updates,
  reconciliation of branches and the communication estimate, with \<^verbatim>\<open>aggregate_v6_updates\<close> of
  \<^verbatim>\<open>security.rs\<close>, which gates the aggregation. The locale \<open>robust_rule\<close> states what an aggregation rule
  promises: it does not depend on the order of the values, and it stays inside an interval as long as the values
  outside are within its tolerance. The mean, the trimmed mean and the median are interpretations.
  \<^verbatim>\<open>hex::encode\<close>, with which identifiers are printed, is the parameter \<open>hex\<close>.
\<close>

section \<open>Types\<close>

datatype V4PlannerError =
    PE_InvalidModelSize
  | PE_InvalidWorkerCount usize
  | PE_InsufficientWorkers
  | PE_InvalidTensorDegree
  | PE_InvalidPipelineStages
  | PE_UnsupportedStrategy
  | PE_InvalidTopology
  | PE_InvalidLocalSteps
  | PE_InvalidReplication
  | PE_InvalidWorkerProfile
  | PE_InvalidUpdates
  | PE_IncompatibleBranches
  | PE_UnsupportedBackendAssignment string

fun V4PlannerError_to_string :: "V4PlannerError \<Rightarrow> string" where
  "V4PlannerError_to_string PE_InvalidModelSize = ''V4 model size must be positive''"
| "V4PlannerError_to_string (PE_InvalidWorkerCount n) = ''V4 plan requires between two and '' @ decimal n @ '' workers''"
| "V4PlannerError_to_string PE_InsufficientWorkers = ''V4 plan requires at least two eligible workers''"
| "V4PlannerError_to_string PE_InvalidTensorDegree = ''V4 tensor degree is unsupported''"
| "V4PlannerError_to_string PE_InvalidPipelineStages = ''V4 pipeline stage count is unsupported''"
| "V4PlannerError_to_string PE_UnsupportedStrategy =
     ''V4 strategy parameters are not supported by the reference runtime''"
| "V4PlannerError_to_string PE_InvalidTopology = ''V4 topology link is invalid or references an unknown worker''"
| "V4PlannerError_to_string PE_InvalidLocalSteps = ''V4 local steps must be positive''"
| "V4PlannerError_to_string PE_InvalidReplication = ''V4 checkpoint replication is invalid''"
| "V4PlannerError_to_string PE_InvalidWorkerProfile = ''V4 worker profile contains invalid reliability''"
| "V4PlannerError_to_string PE_InvalidUpdates = ''V4 update vectors must be non-empty, equal length, and bounded''"
| "V4PlannerError_to_string PE_IncompatibleBranches = ''V4 branch histories are not compatible''"
| "V4PlannerError_to_string (PE_UnsupportedBackendAssignment m) = ''unsupported backend assignment: '' @ m"

record V4BranchDecision =
  vbd_accepted :: bool
  vbd_branch :: "ArtifactId option"
  vbd_value :: "i64 option"
  vbd_reason :: string

record V4ByzantineReport =
  vbp_policy :: V4ByzantinePolicy
  vbp_aggregate :: "i64 list"
  vbp_accepted_updates :: usize
  vbp_rejected_updates :: usize
  vbp_coordinate_count :: usize

record V4CommunicationEstimate =
  vce_parameter_count :: u64
  vce_workers :: u64
  vce_groups :: u64
  vce_precision_bytes :: u8
  vce_tensor_degree :: u16
  vce_pipeline_stages :: u16
  vce_model_bytes :: u64
  vce_optimizer_bytes :: u64
  vce_activation_bytes_per_microbatch :: u64
  vce_local_update_bytes_per_window :: u64
  vce_cross_group_bytes_per_window :: u64
  vce_checkpoint_bytes :: u64
  vce_notes :: string

section \<open>Aggregation\<close>

definition mean_of :: "i64 list \<Rightarrow> i64" where
  "mean_of vs = wrap_i64 (sum_list vs sdiv int (length vs))"

definition trimmed_mean_of :: "i64 list \<Rightarrow> i64" where
  "trimmed_mean_of vs =
    (if length vs \<ge> 3
     then wrap_i64 (sum_list (take (length vs - 2) (drop 1 (sort vs))) sdiv int (length vs - 2))
     else mean_of vs)"

definition median_of :: "i64 list \<Rightarrow> i64" where
  "median_of vs =
    (if length vs mod 2 = 0
     then let middle = length vs div 2 in wrap_i64 ((sort vs ! (middle - 1) + sort vs ! middle) sdiv 2)
     else sort vs ! (length vs div 2))"

fun coordinate_value :: "V4ByzantinePolicy \<Rightarrow> i64 list \<Rightarrow> i64" where
  "coordinate_value BP_Mean vs = mean_of vs"
| "coordinate_value BP_ClippedMean vs = mean_of vs"
| "coordinate_value BP_TrimmedMean vs = trimmed_mean_of vs"
| "coordinate_value BP_CoordinateMedian vs = median_of vs"

definition within_clip :: "i64 \<Rightarrow> i64 list \<Rightarrow> bool" where
  "within_clip clip_abs update \<longleftrightarrow> (\<forall>value\<in>set update. unsigned_abs value \<le> nat clip_abs)"

definition aggregate_updates :: "V4ByzantinePolicy \<Rightarrow> i64 list list \<Rightarrow> i64 \<Rightarrow> V4PlannerError + V4ByzantineReport" where
  "aggregate_updates policy updates clip_abs =
    (if updates = [] \<or> length updates > 64 \<or> updates ! 0 = [] \<or> length (updates ! 0) > 128 \<or> clip_abs \<le> 0
        \<or> (\<exists>update\<in>set updates. length update \<noteq> length (updates ! 0))
     then Inl PE_InvalidUpdates
     else let rejected = length (filter (\<lambda>update. \<not> within_clip clip_abs update) updates);
              accepted = filter (within_clip clip_abs) updates
          in if accepted = [] then Inl PE_InvalidUpdates
             else let width = length (updates ! 0) in Inr \<lparr>
               vbp_policy = policy,
               vbp_aggregate = map (\<lambda>coordinate. clamp (- clip_abs) clip_abs
                   (coordinate_value policy (map (\<lambda>update. clamp (- clip_abs) clip_abs (update ! coordinate)) accepted)))
                 [0..<width],
               vbp_accepted_updates = length accepted,
               vbp_rejected_updates = rejected,
               vbp_coordinate_count = width\<rparr>)"

section \<open>Branches\<close>

definition branches_compatible :: "V4TrainingBranch \<Rightarrow> V4TrainingBranch \<Rightarrow> bool" where
  "branches_compatible left right \<longleftrightarrow>
     vtbn_job_id left = vtbn_job_id right
     \<and> vtbn_parent_generation left = vtbn_parent_generation right
     \<and> vtbn_model_generation left = vtbn_model_generation right
     \<and> vtbn_optimizer_generation left = vtbn_optimizer_generation right
     \<and> vtbn_dataset_progress left = vtbn_dataset_progress right
     \<and> vtbn_plan_generation left = vtbn_plan_generation right
     \<and> vtbn_branch left \<noteq> vtbn_branch right"

definition merged_branch :: "hash_fn \<Rightarrow> (u8 list \<Rightarrow> string) \<Rightarrow> V4TrainingBranch \<Rightarrow> V4TrainingBranch \<Rightarrow> ArtifactId" where
  "merged_branch blake3 hex left right = from_bytes_hashed blake3 (ascii_bytes
     (''v4-merge:'' @ hex (as_bytes (vtbn_branch left)) @ '':'' @ hex (as_bytes (vtbn_branch right)) @ '':''
        @ decimal (unat (vtbn_parent_generation left))))"

definition merged_value :: "i64 \<Rightarrow> i64 \<Rightarrow> i64" where
  "merged_value left_value right_value = wrap_i64 ((left_value + right_value) sdiv 2)"

definition merge_reason :: string where
  "merge_reason = ''compatible local-SGD branches with equal data progress merged from a common generation''"

definition reconcile_branches :: "hash_fn \<Rightarrow> (u8 list \<Rightarrow> string) \<Rightarrow> V4TrainingBranch \<Rightarrow> V4TrainingBranch \<Rightarrow>
    V4ReconciliationPolicy \<Rightarrow> i64 \<Rightarrow> i64 \<Rightarrow> V4PlannerError + V4BranchDecision" where
  "reconcile_branches blake3 hex left right policy left_value right_value =
    (if \<not> branches_compatible left right
     then if policy \<in> {RP_AbortBranch, RP_ManualOperatorRequired, RP_SelectBranch}
          then Inr \<lparr>vbd_accepted = False, vbd_branch = None, vbd_value = None,
            vbd_reason = ''incompatible branch lineage requires explicit operator policy''\<rparr>
          else Inl PE_IncompatibleBranches
     else case policy of
       RP_AverageCompatibleState \<Rightarrow> Inr \<lparr>vbd_accepted = True,
         vbd_branch = Some (merged_branch blake3 hex left right),
         vbd_value = Some (merged_value left_value right_value), vbd_reason = merge_reason\<rparr>
     | RP_MergeLocalSgdState \<Rightarrow> Inr \<lparr>vbd_accepted = True,
         vbd_branch = Some (merged_branch blake3 hex left right),
         vbd_value = Some (merged_value left_value right_value), vbd_reason = merge_reason\<rparr>
     | RP_SelectBranch \<Rightarrow> Inr \<lparr>vbd_accepted = True, vbd_branch = Some (vtbn_branch left), vbd_value = Some left_value,
         vbd_reason = ''operator-selected branch retained; the alternate branch was not merged''\<rparr>
     | _ \<Rightarrow> Inr \<lparr>vbd_accepted = False, vbd_branch = None, vbd_value = None,
         vbd_reason = ''policy does not permit automatic branch reconciliation''\<rparr>)"

section \<open>Communication\<close>

definition communication_estimate :: "u64 \<Rightarrow> u64 \<Rightarrow> u64 \<Rightarrow> u8 \<Rightarrow> u16 \<Rightarrow> u16 \<Rightarrow> V4CommunicationEstimate" where
  "communication_estimate parameter_count workers0 groups0 precision_bytes tensor_degree pipeline_stages =
    (let workers = max workers0 1;
         groups = max 1 (min groups0 workers);
         precision = ucast (max precision_bytes 1);
         model_bytes = sat_mul parameter_count precision;
         optimizer_bytes = sat_mul model_bytes 2;
         activation = sat_mul (parameter_count div ucast (max pipeline_stages 1)) precision
     in \<lparr>vce_parameter_count = parameter_count, vce_workers = workers, vce_groups = groups,
       vce_precision_bytes = precision_bytes, vce_tensor_degree = tensor_degree, vce_pipeline_stages = pipeline_stages,
       vce_model_bytes = model_bytes, vce_optimizer_bytes = optimizer_bytes,
       vce_activation_bytes_per_microbatch = activation,
       vce_local_update_bytes_per_window = max (model_bytes div workers) 1,
       vce_cross_group_bytes_per_window = max (sat_mul model_bytes (sat_sub groups 1) div groups) 1,
       vce_checkpoint_bytes = sat_add model_bytes optimizer_bytes,
       vce_notes = ''modeled byte counts; no tensors are allocated''\<rparr>)"

section \<open>The gate of security.rs\<close>

record RobustAggregationReport =
  rar_policy :: V4ByzantinePolicy
  rar_aggregate :: "i64 list"
  rar_accepted_updates :: usize
  rar_rejected_updates :: usize
  rar_communication_fanin :: usize

datatype SecurityError =
    SE_InvalidPolicy string
  | SE_InvalidRecord string
  | SE_UnauthorizedTraining
  | SE_StaleTraining
  | SE_DuplicateTraining
  | SE_TrainingEquivocation
  | SE_Quarantined
  | SE_TrainingBounds
  | SE_InvalidEquivocationProof

definition aggregate_v6_updates :: "V4ByzantinePolicy \<Rightarrow> i64 list list \<Rightarrow> i64 \<Rightarrow> SecurityError + RobustAggregationReport" where
  "aggregate_v6_updates policy updates clip_abs =
    (if updates = [] \<or> length updates > 64
        \<or> (\<exists>update\<in>set updates. update = [] \<or> length update > MAX_V4_VECTOR \<or> length update \<noteq> length (updates ! 0)
             \<or> (\<exists>value\<in>set update. unsigned_abs value > unsigned_abs clip_abs))
        \<or> clip_abs \<le> 0
     then Inl SE_TrainingBounds
     else and_then (map_err (\<lambda>error. SE_InvalidRecord (V4PlannerError_to_string error))
         (aggregate_updates policy updates clip_abs))
       (\<lambda>report. Inr \<lparr>rar_policy = policy, rar_aggregate = vbp_aggregate report,
          rar_accepted_updates = vbp_accepted_updates report, rar_rejected_updates = vbp_rejected_updates report,
          rar_communication_fanin = length updates\<rparr>))"

section \<open>The contract of an aggregation rule\<close>

definition outside :: "int \<Rightarrow> int \<Rightarrow> int list \<Rightarrow> nat" where
  "outside lo hi vs = length (filter (\<lambda>v. \<not> (lo \<le> v \<and> v \<le> hi)) vs)"

locale robust_rule =
  fixes rule :: "i64 list \<Rightarrow> i64" and tolerance :: "nat \<Rightarrow> nat"
  assumes inside: "vs \<noteq> [] \<Longrightarrow> in_i64 lo \<Longrightarrow> in_i64 hi \<Longrightarrow> outside lo hi vs \<le> tolerance (length vs) \<Longrightarrow>
      lo \<le> rule vs \<and> rule vs \<le> hi"
    and symmetric: "mset vs = mset ws \<Longrightarrow> rule vs = rule ws"
begin

text \<open>Values inside the clip need no clamping, and neither does the result of the rule.\<close>

lemma clipped_rule:
  assumes "vs \<noteq> []" "in_i64 c" "0 < c" "\<forall>v\<in>set vs. - c \<le> v \<and> v \<le> c"
  shows "clamp (- c) c (rule (map (clamp (- c) c) vs)) = rule vs"
proof -
  have "map (clamp (- c) c) vs = vs"
    using assms(4) by (simp add: map_idI clamp_id)
  moreover have "outside (- c) c vs = 0"
    using assms(4) by (simp add: outside_def filter_empty_conv)
  then have "- c \<le> rule vs \<and> rule vs \<le> c"
    using assms(1-3) by (intro inside) (simp_all add: in_i64_uminus)
  ultimately show ?thesis by (simp add: clamp_id)
qed

end

section \<open>Order statistics\<close>

lemma length_filter_part:
  "length (filter p (take k s)) \<le> length (filter p s)" "length (filter p (drop k s)) \<le> length (filter p s)"
  by (metis append_take_drop_id filter_append le_add1 le_add2 length_append)+

lemma sorted_nth_ge:
  assumes "sorted s" "k < length s" "length (filter (\<lambda>v. v < lo) s) \<le> k"
  shows "lo \<le> s ! k"
proof (rule ccontr)
  assume low: "\<not> lo \<le> s ! k"
  have "v < lo" if "v \<in> set (take (Suc k) s)" for v
  proof -
    from that obtain i where "i \<le> k" "v = s ! i" using assms(2) by (auto simp: in_set_conv_nth less_Suc_eq_le)
    with assms(1,2) low show ?thesis using sorted_nth_mono [of s i k] by simp
  qed
  then have "filter (\<lambda>v. v < lo) (take (Suc k) s) = take (Suc k) s" by (simp add: filter_id_conv)
  then show False using length_filter_part(1) [of "\<lambda>v. v < lo" "Suc k" s] assms(2,3) by simp
qed

lemma sorted_nth_le:
  assumes "sorted s" "k < length s" "length (filter (\<lambda>v. hi < v) s) < length s - k"
  shows "s ! k \<le> hi"
proof (rule ccontr)
  assume high: "\<not> s ! k \<le> hi"
  have "hi < v" if "v \<in> set (drop k s)" for v
  proof -
    from that obtain i where "i < length s - k" "v = drop k s ! i" by (auto simp: in_set_conv_nth)
    then have "k + i < length s" "v = s ! (k + i)" by simp_all
    with assms(1) high show ?thesis using sorted_nth_mono [of s k "k + i"] by simp
  qed
  then have "filter (\<lambda>v. hi < v) (drop k s) = drop k s" by (simp add: filter_id_conv)
  then show False using length_filter_part(2) [of "\<lambda>v. hi < v" k s] assms(3) by simp
qed

lemma outside_sort: "outside lo hi (sort vs) = outside lo hi vs"
  unfolding outside_def by (rule mset_eq_length) simp

lemma below_le_outside: "lo \<le> hi \<Longrightarrow> length (filter (\<lambda>v. v < lo) vs) \<le> outside lo hi vs"
  unfolding outside_def by (induction vs) auto

lemma above_le_outside: "lo \<le> hi \<Longrightarrow> length (filter (\<lambda>v. hi < v) vs) \<le> outside lo hi vs"
  unfolding outside_def by (induction vs) auto

lemma interval_inhabited:
  assumes "outside lo hi vs < length vs"
  shows "lo \<le> (hi :: int)"
proof (rule ccontr)
  assume "\<not> lo \<le> hi"
  then have "filter (\<lambda>v. \<not> (lo \<le> v \<and> v \<le> hi)) vs = vs" by (intro filter_True) auto
  with assms show False by (simp add: outside_def)
qed

text \<open>An order statistic with more values on either side than lie outside of an interval is inside.\<close>

lemma sort_nth_inside:
  assumes "outside lo hi vs \<le> k" "k + outside lo hi vs < length vs"
  shows "lo \<le> sort vs ! k \<and> sort vs ! k \<le> hi"
proof -
  have "lo \<le> hi" using assms by (intro interval_inhabited [of lo hi vs]) simp
  then have "length (filter (\<lambda>v. v < lo) (sort vs)) \<le> k" "length (filter (\<lambda>v. hi < v) (sort vs)) < length vs - k"
    using assms below_le_outside [of lo hi "sort vs"] above_le_outside [of lo hi "sort vs"]
    by (simp_all add: outside_sort)
  then show ?thesis
    using assms sorted_nth_ge [of "sort vs" k lo] sorted_nth_le [of "sort vs" k hi] by simp
qed

lemma sort_cong_mset: "mset vs = mset ws \<Longrightarrow> sort vs = sort ws"
  by (metis sorted_list_of_multiset_mset)

section \<open>The rules\<close>

fun tolerance :: "V4ByzantinePolicy \<Rightarrow> nat \<Rightarrow> nat" where
  "tolerance BP_Mean n = 0"
| "tolerance BP_ClippedMean n = 0"
| "tolerance BP_TrimmedMean n = (if 3 \<le> n then 1 else 0)"
| "tolerance BP_CoordinateMedian n = (n - 1) div 2"

lemma mean_of_inside:
  assumes "vs \<noteq> []" "in_i64 lo" "in_i64 hi" "outside lo hi vs = 0"
  shows "lo \<le> mean_of vs \<and> mean_of vs \<le> hi"
proof -
  have "\<forall>v\<in>set vs. lo \<le> v \<and> v \<le> hi" using assms(4) by (auto simp: outside_def filter_empty_conv)
  from mean_between [OF assms(1) this] show ?thesis
    by (simp add: mean_of_def wrap_i64_id in_i64_between [OF assms(2,3)])
qed

lemma trimmed_mean_of_inside:
  assumes "vs \<noteq> []" "in_i64 lo" "in_i64 hi" "outside lo hi vs \<le> tolerance BP_TrimmedMean (length vs)"
  shows "lo \<le> trimmed_mean_of vs \<and> trimmed_mean_of vs \<le> hi"
proof (cases "3 \<le> length vs")
  case True
  let ?ws = "take (length vs - 2) (drop 1 (sort vs))"
  have "lo \<le> v \<and> v \<le> hi" if "v \<in> set ?ws" for v
  proof -
    from that obtain i where "i < length vs - 2" "v = sort vs ! (1 + i)" by (auto simp: in_set_conv_nth)
    then show ?thesis using sort_nth_inside [of lo hi vs "1 + i"] True assms(4) by simp
  qed
  moreover have "length ?ws = length vs - 2" "?ws \<noteq> []" using True by auto
  ultimately show ?thesis
    using mean_between [of ?ws lo hi] True by (simp add: trimmed_mean_of_def wrap_i64_id in_i64_between [OF assms(2,3)])
next
  case False
  with mean_of_inside assms show ?thesis by (simp add: trimmed_mean_of_def)
qed

lemma median_of_inside:
  assumes "vs \<noteq> []" "in_i64 lo" "in_i64 hi" "outside lo hi vs \<le> tolerance BP_CoordinateMedian (length vs)"
  shows "lo \<le> median_of vs \<and> median_of vs \<le> hi"
proof (cases "even (length vs)")
  case True
  then obtain m where m: "length vs = 2 * m" by (elim evenE)
  with assms(1,4) have "0 < m" "outside lo hi vs \<le> m - 1" by (cases m; simp)+
  then have "lo \<le> sort vs ! (m - 1) \<and> sort vs ! (m - 1) \<le> hi" "lo \<le> sort vs ! m \<and> sort vs ! m \<le> hi"
    using m sort_nth_inside [of lo hi vs "m - 1"] sort_nth_inside [of lo hi vs m] by simp_all
  then have "lo \<le> (sort vs ! (m - 1) + sort vs ! m) sdiv 2 \<and> (sort vs ! (m - 1) + sort vs ! m) sdiv 2 \<le> hi"
    by (intro sdiv_between) simp_all
  with m show ?thesis
    by (simp add: median_of_def wrap_i64_id in_i64_between [OF assms(2,3)])
next
  case False
  then obtain m where m: "length vs = 2 * m + 1" by (elim oddE)
  with assms(4) show ?thesis
    using sort_nth_inside [of lo hi vs m] by (simp add: median_of_def)
qed

interpretation mean: robust_rule mean_of "\<lambda>_. 0"
proof
  show "lo \<le> mean_of vs \<and> mean_of vs \<le> hi"
    if "vs \<noteq> []" "in_i64 lo" "in_i64 hi" "outside lo hi vs \<le> 0" for vs lo hi
    using mean_of_inside that by simp
  show "mean_of vs = mean_of ws" if "mset vs = mset ws" for vs ws
    using that by (metis mean_of_def size_mset sum_mset_sum_list)
qed

interpretation trimmed: robust_rule trimmed_mean_of "tolerance BP_TrimmedMean"
proof
  show "trimmed_mean_of vs = trimmed_mean_of ws" if "mset vs = mset ws" for vs ws
    using that mean.symmetric [OF that] sort_cong_mset [OF that] mset_eq_length [OF that]
    by (simp add: trimmed_mean_of_def)
qed (rule trimmed_mean_of_inside)

interpretation median: robust_rule median_of "tolerance BP_CoordinateMedian"
proof
  show "median_of vs = median_of ws" if "mset vs = mset ws" for vs ws
    using sort_cong_mset [OF that] mset_eq_length [OF that] by (simp add: median_of_def)
qed (rule median_of_inside)

interpretation policy: robust_rule "coordinate_value p" "tolerance p" for p
proof
  show "lo \<le> coordinate_value p vs \<and> coordinate_value p vs \<le> hi"
    if "vs \<noteq> []" "in_i64 lo" "in_i64 hi" "outside lo hi vs \<le> tolerance p (length vs)" for vs lo hi
    using mean.inside [OF that(1-3)] trimmed.inside [OF that(1-3)] median.inside [OF that(1-3)] that(4)
    by (cases p) simp_all
  show "coordinate_value p vs = coordinate_value p ws" if "mset vs = mset ws" for vs ws
    using mean.symmetric [OF that] trimmed.symmetric [OF that] median.symmetric [OF that] by (cases p) simp_all
qed

section \<open>What the aggregation promises\<close>

definition column :: "i64 \<Rightarrow> i64 list list \<Rightarrow> nat \<Rightarrow> i64 list" where
  "column clip_abs updates j = map (\<lambda>update. update ! j) (filter (within_clip clip_abs) updates)"

definition well_shaped :: "i64 list list \<Rightarrow> nat \<Rightarrow> bool" where
  "well_shaped updates width \<longleftrightarrow> updates \<noteq> [] \<and> length updates \<le> 64 \<and> 0 < width \<and> width \<le> 128
     \<and> (\<forall>update\<in>set updates. length update = width)"

lemma within_clip_iff: "0 < c \<Longrightarrow> within_clip c u \<longleftrightarrow> (\<forall>v\<in>set u. - c \<le> v \<and> v \<le> c)"
  by (auto simp: within_clip_def unsigned_abs_def)

lemma well_shaped_first: "well_shaped us w \<Longrightarrow> length (us ! 0) = w"
  by (cases us) (auto simp: well_shaped_def)

lemma aggregate_shape:
  "(updates = [] \<or> length updates > 64 \<or> updates ! 0 = [] \<or> length (updates ! 0) > 128 \<or> (c :: int) \<le> 0
     \<or> (\<exists>update\<in>set updates. length update \<noteq> length (updates ! 0))) \<longleftrightarrow>
   \<not> (0 < c \<and> (\<exists>w. well_shaped updates w))"
  by (cases updates) (auto simp: well_shaped_def)

lemma column_inside:
  assumes "well_shaped us w" "j < w" "0 < c"
  shows "\<forall>v\<in>set (column c us j). - c \<le> v \<and> v \<le> c"
  using assms by (auto simp: column_def within_clip_iff well_shaped_def)

lemma aggregate_ok_iff:
  assumes "in_i64 c"
  shows "aggregate_updates p us c = Inr r \<longleftrightarrow>
    0 < c \<and> (\<exists>w. well_shaped us w \<and> filter (within_clip c) us \<noteq> [] \<and> r = \<lparr>vbp_policy = p,
      vbp_aggregate = map (\<lambda>j. coordinate_value p (column c us j)) [0..<w],
      vbp_accepted_updates = length (filter (within_clip c) us),
      vbp_rejected_updates = length (filter (\<lambda>u. \<not> within_clip c u) us), vbp_coordinate_count = w\<rparr>)"
    (is "?L \<longleftrightarrow> ?R")
proof (cases "0 < c \<and> (\<exists>w. well_shaped us w) \<and> filter (within_clip c) us \<noteq> []")
  case True
  then obtain w where w: "well_shaped us w" and c: "0 < c" and ne: "filter (within_clip c) us \<noteq> []" by blast
  then have only: "well_shaped us w' \<longleftrightarrow> w' = w" for w' using well_shaped_first by metis
  have "clamp (- c) c (coordinate_value p (map (\<lambda>u. clamp (- c) c (u ! j)) (filter (within_clip c) us))) =
      coordinate_value p (column c us j)" if "j < w" for j
    using policy.clipped_rule [of "column c us j" c p] column_inside [OF w that c] ne assms c
    by (simp add: column_def o_def)
  then have "?L \<longleftrightarrow> r = \<lparr>vbp_policy = p,
      vbp_aggregate = map (\<lambda>j. coordinate_value p (column c us j)) [0..<w],
      vbp_accepted_updates = length (filter (within_clip c) us),
      vbp_rejected_updates = length (filter (\<lambda>u. \<not> within_clip c u) us), vbp_coordinate_count = w\<rparr>"
    unfolding aggregate_updates_def aggregate_shape
    using w c ne by (auto simp: Let_def well_shaped_first [OF w] only cong: map_cong)
  with w c ne show ?thesis by (simp add: only)
next
  case False
  then show ?thesis unfolding aggregate_updates_def aggregate_shape by (auto simp: Let_def)
qed

lemma aggregate_error: "aggregate_updates p us c = Inl e \<Longrightarrow> e = PE_InvalidUpdates"
  unfolding aggregate_updates_def aggregate_shape Let_def by (simp split: if_split_asm)

lemma well_shaped_cong: "mset us = mset ws \<Longrightarrow> well_shaped us w = well_shaped ws w"
  by (auto simp: well_shaped_def dest: mset_eq_length mset_eq_setD)

text \<open>C7: aggregation tolerates outliers. A coordinate of the aggregate lies in every interval that contains the
  values of the accepted updates but for as many as the policy tolerates: none for the means, one for the trimmed
  mean of at least three updates, and fewer than half for the median. The bound of the clip is one such interval.\<close>

theorem aggregate_tolerates_outliers:
  assumes "aggregate_updates p us c = Inr r" "in_i64 c" "j < vbp_coordinate_count r" "in_i64 lo" "in_i64 hi"
    and "outside lo hi (column c us j) \<le> tolerance p (vbp_accepted_updates r)"
  shows "lo \<le> vbp_aggregate r ! j \<and> vbp_aggregate r ! j \<le> hi"
proof -
  from assms(1,2) obtain w where "filter (within_clip c) us \<noteq> []" and r: "r = \<lparr>vbp_policy = p,
      vbp_aggregate = map (\<lambda>j. coordinate_value p (column c us j)) [0..<w],
      vbp_accepted_updates = length (filter (within_clip c) us),
      vbp_rejected_updates = length (filter (\<lambda>u. \<not> within_clip c u) us), vbp_coordinate_count = w\<rparr>"
    by (auto simp: aggregate_ok_iff)
  then have "column c us j \<noteq> []" "length (column c us j) = vbp_accepted_updates r" by (simp_all add: column_def)
  then have "lo \<le> coordinate_value p (column c us j) \<and> coordinate_value p (column c us j) \<le> hi"
    using assms(4-6) by (intro policy.inside) simp_all
  with assms(3) show ?thesis by (simp add: r)
qed

theorem aggregate_tolerates_outliers_witness:
  "case aggregate_updates BP_CoordinateMedian [[5, 7], [6, - 90], [99, 8]] 100 of
     Inl _ \<Rightarrow> False
   | Inr r \<Rightarrow> 5 \<le> vbp_aggregate r ! 0 \<and> vbp_aggregate r ! 0 \<le> 6 \<and> 7 \<le> vbp_aggregate r ! 1 \<and> vbp_aggregate r ! 1 \<le> 8"
proof -
  let ?us = "[[5, 7], [6, - 90], [99, 8]] :: i64 list list"
  have all: "within_clip 100 [5, 7]" "within_clip 100 [6, - 90]" "within_clip 100 [99, 8]"
    by (simp_all add: within_clip_def unsigned_abs_def)
  then have clip: "filter (within_clip 100) ?us = ?us" by simp
  have "\<exists>r. aggregate_updates BP_CoordinateMedian ?us 100 = Inr r"
    by (simp add: aggregate_updates_def Let_def all)
  then obtain r where r: "aggregate_updates BP_CoordinateMedian ?us 100 = Inr r" by blast
  have bounds: "in_i64 100" "in_i64 5" "in_i64 6" "in_i64 7" "in_i64 8"
    by (simp_all add: in_i64_def i64_min_def i64_max_def)
  have fields: "vbp_coordinate_count r = 2" "vbp_accepted_updates r = 3"
    using r by (auto simp: aggregate_updates_def Let_def all)
  have "column 100 ?us 0 = [5, 6, 99]" "column 100 ?us 1 = [7, - 90, 8]" by (simp_all add: column_def all)
  then have few: "outside 5 6 (column 100 ?us 0) \<le> tolerance BP_CoordinateMedian 3"
    "outside 7 8 (column 100 ?us 1) \<le> tolerance BP_CoordinateMedian 3" by (simp_all add: outside_def)
  show ?thesis
    using aggregate_tolerates_outliers [OF r bounds(1) _ bounds(2,3), of 0]
      aggregate_tolerates_outliers [OF r bounds(1) _ bounds(4,5), of 1] few
    by (simp add: r fields)
qed

text \<open>C28: the aggregate does not depend on the order in which the updates arrived.\<close>

theorem aggregate_ignores_order:
  assumes "mset us = mset ws" "in_i64 c"
  shows "aggregate_updates p us c = aggregate_updates p ws c"
proof -
  have columns: "coordinate_value p (column c us j) = coordinate_value p (column c ws j)" for j
    by (rule policy.symmetric) (simp add: column_def assms(1))
  have counts: "length (filter q us) = length (filter q ws)" for q
    by (rule mset_eq_length) (simp add: assms(1))
  have none: "filter q us = [] \<longleftrightarrow> filter q ws = []" for q
    using counts [of q] by (simp only: length_0_conv [symmetric])
  have same: "aggregate_updates p us c = Inr r \<longleftrightarrow> aggregate_updates p ws c = Inr r" for r
    by (simp only: aggregate_ok_iff [OF assms(2)] well_shaped_cong [OF assms(1)] columns counts none)
  show ?thesis
  proof (cases "aggregate_updates p us c")
    case (Inl e)
    then have "aggregate_updates p ws c \<noteq> Inr r" for r using same [of r] by simp
    then obtain e' where e': "aggregate_updates p ws c = Inl e'" by (cases "aggregate_updates p ws c") blast+
    show ?thesis using Inl e' aggregate_error [OF Inl] aggregate_error [OF e'] by simp
  next
    case (Inr r)
    then show ?thesis using same [of r] by simp
  qed
qed

theorem aggregate_ignores_order_witness:
  "aggregate_updates BP_TrimmedMean [[3], [9], [4]] 100 = aggregate_updates BP_TrimmedMean [[9], [4], [3]] 100"
  by (rule aggregate_ignores_order) (simp_all add: in_i64_def i64_min_def i64_max_def)

definition v6_admissible :: "i64 list list \<Rightarrow> i64 \<Rightarrow> bool" where
  "v6_admissible us c \<longleftrightarrow> 0 < c \<and> (\<exists>w. well_shaped us w) \<and> (\<forall>u\<in>set us. within_clip c u)"

lemma v6_gate_iff:
  "(us = [] \<or> length us > 64 \<or> (\<exists>u\<in>set us. u = [] \<or> length u > MAX_V4_VECTOR \<or> length u \<noteq> length (us ! 0)
      \<or> (\<exists>v\<in>set u. unsigned_abs v > unsigned_abs c)) \<or> c \<le> 0) \<longleftrightarrow> \<not> v6_admissible us c"
proof (cases "0 < c")
  case True
  then have "within_clip c u \<longleftrightarrow> \<not> (\<exists>v\<in>set u. unsigned_abs v > unsigned_abs c)" for u
    by (auto simp: within_clip_def unsigned_abs_def not_less)
  with True show ?thesis
    by (cases us) (auto simp: v6_admissible_def well_shaped_def MAX_V4_VECTOR_def, force)
qed (simp add: v6_admissible_def)

lemma v6_admissible_aggregate:
  assumes "v6_admissible us c" "in_i64 c"
  obtains report where "aggregate_updates p us c = Inr report" "vbp_rejected_updates report = 0"
    "vbp_accepted_updates report = length us"
proof -
  from assms(1) have all: "filter (within_clip c) us = us" "filter (\<lambda>u. \<not> within_clip c u) us = []"
    by (auto simp: v6_admissible_def filter_id_conv filter_empty_conv)
  from assms(1) obtain w where "well_shaped us w" "0 < c" by (auto simp: v6_admissible_def)
  moreover from this have "us \<noteq> []" by (simp add: well_shaped_def)
  ultimately show thesis
    by (intro that [OF iffD2 [OF aggregate_ok_iff [OF assms(2)]]]) (auto simp: all)
qed

text \<open>The gate of the security module refuses exactly the sets of updates that are empty, too many, ragged,
  too long or out of bounds; what it lets through is the plain aggregate with no update left out.\<close>

theorem v6_gate_is_exact:
  assumes "in_i64 c"
  shows "case aggregate_v6_updates p us c of
      Inl e \<Rightarrow> \<not> v6_admissible us c \<and> e = SE_TrainingBounds
    | Inr r \<Rightarrow> v6_admissible us c \<and> rar_rejected_updates r = 0 \<and> rar_accepted_updates r = length us
        \<and> (\<exists>report. aggregate_updates p us c = Inr report \<and> rar_aggregate r = vbp_aggregate report)"
proof (cases "v6_admissible us c")
  case True
  from True assms obtain report where "aggregate_updates p us c = Inr report" "vbp_rejected_updates report = 0"
    "vbp_accepted_updates report = length us" by (rule v6_admissible_aggregate)
  with True show ?thesis
    unfolding aggregate_v6_updates_def v6_gate_iff by (simp add: and_then_def map_err_def)
next
  case False
  then show ?thesis unfolding aggregate_v6_updates_def v6_gate_iff by simp
qed

end
