(* ===== verification/Trust.thy ===== *)
theory Trust
  imports Validation Step_System
begin

text \<open>
  The evidence graph of \<^verbatim>\<open>crates/intelligence/src/trust.rs\<close>: bounded signed evidence and the local trust
  decision about a subject. Serialisation of the signed tuple (postcard) and Ed25519 are parameters.
\<close>

section \<open>Policy and decision\<close>

datatype SybilClaimLevel = SC_Unmitigated | SC_BasicDefenses | SC_CaptureResistantUnderTestedModel | SC_GlobalSolved

datatype IdentityMaturity = IM_New | IM_Observed | IM_Established | IM_TrustedLocally | IM_Degraded | IM_Quarantined

record TrustPolicy =
  tpo_max_evidence :: usize
  tpo_max_clock_skew_seconds :: u64
  tpo_max_endorsements_per_issuer :: usize
  tpo_max_endorsement_depth :: u8
  tpo_established_direct_successes :: usize
  tpo_established_independent_issuers :: usize
  tpo_trusted_direct_successes :: usize
  tpo_trusted_independent_issuers :: usize
  tpo_quarantine_negative_evidence :: usize
  tpo_max_indirect_negative_influence :: usize
  tpo_direct_observation_ttl_seconds :: u64

definition default_negative_threshold :: usize where "default_negative_threshold = 3"
definition default_indirect_negative_limit :: usize where "default_indirect_negative_limit = 8"
definition default_direct_observation_ttl :: u64 where "default_direct_observation_ttl = 900"

definition TrustPolicy_default :: TrustPolicy where
  "TrustPolicy_default = \<lparr>tpo_max_evidence = 4096, tpo_max_clock_skew_seconds = 300,
     tpo_max_endorsements_per_issuer = 32, tpo_max_endorsement_depth = 1,
     tpo_established_direct_successes = 3, tpo_established_independent_issuers = 2,
     tpo_trusted_direct_successes = 5, tpo_trusted_independent_issuers = 3,
     tpo_quarantine_negative_evidence = default_negative_threshold,
     tpo_max_indirect_negative_influence = default_indirect_negative_limit,
     tpo_direct_observation_ttl_seconds = default_direct_observation_ttl\<rparr>"

datatype TrustError = TrustInvalid string | TrustInvalidSignature

record TrustDecision =
  tdn_subject :: NodeId
  tdn_score :: u8
  tdn_maturity :: IdentityMaturity
  tdn_direct_successes :: usize
  tdn_direct_failures :: usize
  tdn_local_direct_successes :: usize
  tdn_local_direct_failures :: usize
  tdn_independent_issuers :: usize
  tdn_indirect_negative_reports :: usize
  tdn_endorsement_influence :: usize
  tdn_quarantined :: bool
  tdn_accepted_evidence :: usize
  tdn_rejected_evidence :: usize
  tdn_reason :: string

record EvidenceGraph =
  eg_policy :: TrustPolicy
  eg_entries :: "SignedEvidence list"
  eg_rejected :: usize
  eg_local_issuer :: "NodeId option"

section \<open>Signatures\<close>

text \<open>The third-party functions: postcard on the signed tuple and Ed25519 keys, signatures and verification.\<close>

record ('k, 'g) evidence_crypto =
  ec_to_allocvec :: "NodeId \<times> 32 bytes \<times> NodeId \<times> EvidenceKind \<times> u64 \<times> u64 \<times> u64 \<times> u8 list \<Rightarrow> string + u8 list"
  ec_verifying_key :: "32 bytes \<Rightarrow> 'k option"
  ec_signature :: "u8 list \<Rightarrow> 'g option"
  ec_verify :: "'k \<Rightarrow> u8 list \<Rightarrow> 'g \<Rightarrow> bool"

definition evidence_signing_bytes :: "('k, 'g) evidence_crypto \<Rightarrow> SignedEvidence \<Rightarrow> TrustError + u8 list" where
  "evidence_signing_bytes crypto e = map_err TrustInvalid (ec_to_allocvec crypto
     (se_issuer e, se_issuer_public_key e, se_subject e, se_kind e, se_sequence e, se_observed_at e,
      se_expires_at e, se_payload e))"

definition verify_signed_evidence :: "hash_fn \<Rightarrow> ('k, 'g) evidence_crypto \<Rightarrow> SignedEvidence \<Rightarrow> bool" where
  "verify_signed_evidence blake3 crypto e =
    (if is_err (SignedEvidence_validate blake3 e)
        \<or> se_issuer e \<noteq> from_public_key blake3 (se_issuer_public_key e) then False
     else case evidence_signing_bytes crypto e of
       Inl _ \<Rightarrow> False
     | Inr bytes \<Rightarrow> (case ec_verifying_key crypto (se_issuer_public_key e) of
         None \<Rightarrow> False
       | Some key \<Rightarrow> (case ec_signature crypto (se_signature e) of
           None \<Rightarrow> False
         | Some signature \<Rightarrow> ec_verify crypto key bytes signature)))"

section \<open>The graph\<close>

definition EvidenceGraph_new :: "TrustPolicy \<Rightarrow> TrustError + EvidenceGraph" where
  "EvidenceGraph_new policy =
    (if tpo_max_evidence policy = 0 \<or> tpo_max_endorsements_per_issuer policy = 0
        \<or> tpo_max_endorsement_depth policy = 0 \<or> tpo_direct_observation_ttl_seconds policy = 0
     then Inl (TrustInvalid ''trust bounds must be positive'')
     else Inr \<lparr>eg_policy = policy, eg_entries = [], eg_rejected = 0, eg_local_issuer = None\<rparr>)"

definition with_local_issuer :: "EvidenceGraph \<Rightarrow> NodeId \<Rightarrow> EvidenceGraph" where
  "with_local_issuer g issuer = g\<lparr>eg_local_issuer := Some issuer\<rparr>"

definition reject :: "EvidenceGraph \<Rightarrow> EvidenceGraph" where
  "reject g = g\<lparr>eg_rejected := usat (eg_rejected g + 1)\<rparr>"

definition admissible :: "hash_fn \<Rightarrow> ('k, 'g) evidence_crypto \<Rightarrow> EvidenceGraph \<Rightarrow> SignedEvidence \<Rightarrow> u64 \<Rightarrow> bool" where
  "admissible blake3 crypto g e now \<longleftrightarrow> \<not> (is_err (SignedEvidence_validate blake3 e)
     \<or> se_expires_at e < now
     \<or> se_observed_at e > sat_add now (tpo_max_clock_skew_seconds (eg_policy g))
     \<or> \<not> verify_signed_evidence blake3 crypto e)"

definition EvidenceGraph_insert :: "hash_fn \<Rightarrow> ('k, 'g) evidence_crypto \<Rightarrow> EvidenceGraph \<Rightarrow> SignedEvidence \<Rightarrow> u64 \<Rightarrow>
    EvidenceGraph \<times> (TrustError + bool)" where
  "EvidenceGraph_insert blake3 crypto g e now =
    (if \<not> admissible blake3 crypto g e now then (reject g, Inl TrustInvalidSignature)
     else case position (\<lambda>existing. se_issuer existing = se_issuer e \<and> se_subject existing = se_subject e
                           \<and> se_kind existing = se_kind e) (eg_entries g) of
       Some index \<Rightarrow>
         if se_sequence (eg_entries g ! index) \<ge> se_sequence e then (reject g, Inr False)
         else (g\<lparr>eg_entries := (eg_entries g)[index := e]\<rparr>, Inr True)
     | None \<Rightarrow>
         let kept = (if length (eg_entries g) \<ge> tpo_max_evidence (eg_policy g)
                     then let oldest = (case min_by_key (\<lambda>(_, item). (se_expires_at item, se_observed_at item, se_sequence item))
                                               (enumerate 0 (eg_entries g)) of
                                          None \<Rightarrow> 0 | Some (index, _) \<Rightarrow> index)
                          in remove_at oldest (eg_entries g)
                     else eg_entries g)
         in (g\<lparr>eg_entries := kept @ [e]\<rparr>, Inr True))"

definition EvidenceGraph_expire :: "EvidenceGraph \<Rightarrow> u64 \<Rightarrow> EvidenceGraph" where
  "EvidenceGraph_expire g now = g\<lparr>eg_entries := filter (\<lambda>item. se_expires_at item \<ge> now) (eg_entries g)\<rparr>"

section \<open>The decision\<close>

definition is_negative :: "EvidenceKind \<Rightarrow> bool" where
  "is_negative k \<longleftrightarrow> k \<in> {EK_ProtocolViolation, EK_InvalidSignature, EK_ReplayAttempt, EK_Equivocation,
     EK_CorruptArtifact, EK_CorruptCheckpoint, EK_CapabilityFailure, EK_Timeout, EK_DhtPoisoning,
     EK_TrainingUpdateRejected}"

definition is_positive :: "EvidenceKind \<Rightarrow> bool" where
  "is_positive k \<longleftrightarrow> k \<in> {EK_JobCompleted, EK_Evaluation, EK_ObservedOnline, EK_ArtifactVerified}"

definition is_success :: "EvidenceKind \<Rightarrow> bool" where
  "is_success k \<longleftrightarrow> k \<in> {EK_JobCompleted, EK_Evaluation, EK_ArtifactVerified}"

definition live_about :: "EvidenceGraph \<Rightarrow> NodeId \<Rightarrow> u64 \<Rightarrow> SignedEvidence list" where
  "live_about g subject now = filter (\<lambda>item. se_subject item = subject \<and> se_expires_at item \<ge> now) (eg_entries g)"

definition direct_about :: "EvidenceGraph \<Rightarrow> NodeId \<Rightarrow> u64 \<Rightarrow> SignedEvidence list" where
  "direct_about g subject now =
     filter (\<lambda>item. se_kind item \<notin> {EK_Endorsement, EK_ViolationReport}) (live_about g subject now)"

definition is_local :: "EvidenceGraph \<Rightarrow> SignedEvidence \<Rightarrow> bool" where
  "is_local g item = (case eg_local_issuer g of None \<Rightarrow> True | Some issuer \<Rightarrow> se_issuer item = issuer)"

definition endorser_has_direct :: "EvidenceGraph \<Rightarrow> SignedEvidence \<Rightarrow> u64 \<Rightarrow> bool" where
  "endorser_has_direct g item now \<longleftrightarrow> (\<exists>candidate \<in> set (eg_entries g).
     se_subject candidate = se_issuer item \<and> se_issuer candidate \<noteq> se_issuer item
     \<and> se_expires_at candidate \<ge> now \<and> is_positive (se_kind candidate))"

text \<open>The loop over the endorsements: the endorsers accepted so far and their number.\<close>

fun accept_endorsements :: "EvidenceGraph \<Rightarrow> NodeId \<Rightarrow> u64 \<Rightarrow> NodeId set \<times> usize \<Rightarrow> SignedEvidence list \<Rightarrow> NodeId set \<times> usize" where
  "accept_endorsements g subject now acc [] = acc"
| "accept_endorsements g subject now (endorsers, accepted) (item # items) =
     (if se_issuer item = subject \<or> se_issuer item \<in> endorsers
         \<or> card endorsers \<ge> tpo_max_endorsements_per_issuer (eg_policy g)
      then accept_endorsements g subject now (endorsers, accepted) items
      else if endorser_has_direct g item now
      then accept_endorsements g subject now (insert (se_issuer item) endorsers, usat (accepted + 1)) items
      else accept_endorsements g subject now (endorsers, accepted) items)"

definition direct_successes :: "EvidenceGraph \<Rightarrow> NodeId \<Rightarrow> u64 \<Rightarrow> usize" where
  "direct_successes g subject now = length (filter (\<lambda>item. is_success (se_kind item)) (direct_about g subject now))"

definition direct_failures :: "EvidenceGraph \<Rightarrow> NodeId \<Rightarrow> u64 \<Rightarrow> usize" where
  "direct_failures g subject now = length (filter (\<lambda>item. is_negative (se_kind item)) (direct_about g subject now))"

definition local_direct_successes :: "EvidenceGraph \<Rightarrow> NodeId \<Rightarrow> u64 \<Rightarrow> usize" where
  "local_direct_successes g subject now =
     length (filter (\<lambda>item. is_local g item \<and> is_success (se_kind item)) (direct_about g subject now))"

definition local_direct_failures :: "EvidenceGraph \<Rightarrow> NodeId \<Rightarrow> u64 \<Rightarrow> usize" where
  "local_direct_failures g subject now =
     length (filter (\<lambda>item. is_local g item \<and> is_negative (se_kind item)) (direct_about g subject now))"

definition indirect_negative_reports :: "EvidenceGraph \<Rightarrow> NodeId \<Rightarrow> u64 \<Rightarrow> usize" where
  "indirect_negative_reports g subject now =
     min (length (filter (\<lambda>item. se_kind item = EK_ViolationReport) (live_about g subject now)))
       (tpo_max_indirect_negative_influence (eg_policy g))"

definition independent_issuers :: "EvidenceGraph \<Rightarrow> NodeId \<Rightarrow> u64 \<Rightarrow> NodeId set" where
  "independent_issuers g subject now = {issuer \<in> se_issuer ` set (direct_about g subject now). issuer \<noteq> subject}"

definition accepted_endorsements :: "EvidenceGraph \<Rightarrow> NodeId \<Rightarrow> u64 \<Rightarrow> usize" where
  "accepted_endorsements g subject now = snd (accept_endorsements g subject now ({}, 0)
     (filter (\<lambda>item. se_kind item = EK_Endorsement) (live_about g subject now)))"

definition positive_score :: "EvidenceGraph \<Rightarrow> NodeId \<Rightarrow> u64 \<Rightarrow> usize" where
  "positive_score g subject now =
    (let remote_direct_successes = direct_successes g subject now - local_direct_successes g subject now
     in usat (usat (usat (usat (local_direct_successes g subject now * 15) + usat (remote_direct_successes * 5))
       + usat (card (independent_issuers g subject now) * 10)) + usat (accepted_endorsements g subject now * 3)))"

definition negative_score :: "EvidenceGraph \<Rightarrow> NodeId \<Rightarrow> u64 \<Rightarrow> usize" where
  "negative_score g subject now =
    (let remote_direct_failures = direct_failures g subject now - local_direct_failures g subject now
     in usat (usat (usat (local_direct_failures g subject now * 20) + usat (remote_direct_failures * 5))
       + usat (indirect_negative_reports g subject now * 2)))"

definition maturity_of :: "EvidenceGraph \<Rightarrow> NodeId \<Rightarrow> u64 \<Rightarrow> IdentityMaturity" where
  "maturity_of g subject now =
    (if direct_failures g subject now \<ge> tpo_quarantine_negative_evidence (eg_policy g) then IM_Quarantined
     else if negative_score g subject now > positive_score g subject now
             \<and> (direct_failures g subject now > 0 \<or> direct_successes g subject now > 0) then IM_Degraded
     else if direct_successes g subject now \<ge> tpo_trusted_direct_successes (eg_policy g)
             \<and> card (independent_issuers g subject now) \<ge> tpo_trusted_independent_issuers (eg_policy g)
     then IM_TrustedLocally
     else if direct_successes g subject now \<ge> tpo_established_direct_successes (eg_policy g)
             \<and> card (independent_issuers g subject now) \<ge> tpo_established_independent_issuers (eg_policy g)
     then IM_Established
     else if direct_about g subject now \<noteq> [] then IM_Observed else IM_New)"

definition maturity_reason :: "IdentityMaturity \<Rightarrow> string" where
  "maturity_reason m = (case m of
     IM_New \<Rightarrow> ''no independent direct evidence''
   | IM_Observed \<Rightarrow> ''direct evidence exists but has not matured''
   | IM_Established \<Rightarrow> ''bounded direct evidence from independent issuers''
   | IM_TrustedLocally \<Rightarrow> ''local policy threshold satisfied''
   | IM_Degraded \<Rightarrow> ''negative evidence outweighs positive evidence''
   | IM_Quarantined \<Rightarrow> ''local quarantine policy is active'')"

definition EvidenceGraph_decision :: "EvidenceGraph \<Rightarrow> NodeId \<Rightarrow> u64 \<Rightarrow> TrustDecision" where
  "EvidenceGraph_decision g subject now = \<lparr>
     tdn_subject = subject,
     tdn_score = of_nat (min (positive_score g subject now - negative_score g subject now) 100),
     tdn_maturity = maturity_of g subject now,
     tdn_direct_successes = direct_successes g subject now,
     tdn_direct_failures = direct_failures g subject now,
     tdn_local_direct_successes = local_direct_successes g subject now,
     tdn_local_direct_failures = local_direct_failures g subject now,
     tdn_independent_issuers = card (independent_issuers g subject now),
     tdn_indirect_negative_reports = indirect_negative_reports g subject now,
     tdn_endorsement_influence = accepted_endorsements g subject now,
     tdn_quarantined = (direct_failures g subject now \<ge> tpo_quarantine_negative_evidence (eg_policy g)),
     tdn_accepted_evidence = usat (length (direct_about g subject now) + accepted_endorsements g subject now),
     tdn_rejected_evidence = eg_rejected g,
     tdn_reason = maturity_reason (maturity_of g subject now)\<rparr>"

definition sybil_claim_level :: "EvidenceGraph \<Rightarrow> SybilClaimLevel" where
  "sybil_claim_level _ = SC_BasicDefenses"

section \<open>The invariant of the graph\<close>

definition claim_key :: "SignedEvidence \<Rightarrow> NodeId \<times> NodeId \<times> EvidenceKind" where
  "claim_key e = (se_issuer e, se_subject e, se_kind e)"

definition graph_wf :: "hash_fn \<Rightarrow> ('k, 'g) evidence_crypto \<Rightarrow> EvidenceGraph \<Rightarrow> bool" where
  "graph_wf blake3 crypto g \<longleftrightarrow> 1 \<le> tpo_max_evidence (eg_policy g)
     \<and> length (eg_entries g) \<le> tpo_max_evidence (eg_policy g) \<and> distinct (map claim_key (eg_entries g))
     \<and> (\<forall>e\<in>set (eg_entries g). verify_signed_evidence blake3 crypto e) \<and> eg_rejected g \<le> usize_max"

lemma usat_le: "usat n \<le> usize_max"
  by (simp add: usat_def)

lemma graph_wf_reject: "graph_wf blake3 crypto g \<Longrightarrow> graph_wf blake3 crypto (reject g)"
  by (simp add: graph_wf_def reject_def usat_le)

lemma position_claim_key:
  "position (\<lambda>existing. se_issuer existing = se_issuer e \<and> se_subject existing = se_subject e
     \<and> se_kind existing = se_kind e) es = position (\<lambda>x. claim_key x = claim_key e) es"
  by (simp add: claim_key_def)

text \<open>The three ways an insertion ends: refused, replacing the issuer's older claim, or new.\<close>

lemma insert_cases:
  obtains "fst (EvidenceGraph_insert blake3 crypto g e now) = reject g"
  | i where "admissible blake3 crypto g e now" "i < length (eg_entries g)" "claim_key (eg_entries g ! i) = claim_key e"
      "se_sequence (eg_entries g ! i) < se_sequence e"
      "fst (EvidenceGraph_insert blake3 crypto g e now) = g\<lparr>eg_entries := (eg_entries g)[i := e]\<rparr>"
  | kept where "admissible blake3 crypto g e now" "claim_key e \<notin> claim_key ` set (eg_entries g)"
      "kept = eg_entries g \<and> length kept < tpo_max_evidence (eg_policy g)
         \<or> (\<exists>i. kept = remove_at i (eg_entries g) \<and> (eg_entries g \<noteq> [] \<longrightarrow> i < length (eg_entries g)))"
      "fst (EvidenceGraph_insert blake3 crypto g e now) = g\<lparr>eg_entries := kept @ [e]\<rparr>"
proof (cases "admissible blake3 crypto g e now")
  case False
  then show thesis using that(1) by (simp add: EvidenceGraph_insert_def)
next
  case True
  note refused = that(1) and new = that(3)
  note unfold = EvidenceGraph_insert_def [of blake3 crypto g e now, unfolded position_claim_key]
  show thesis
  proof (cases "position (\<lambda>x. claim_key x = claim_key e) (eg_entries g)")
    case (Some i)
    note i = position_Some_iff [OF Some]
    show thesis
    proof (cases "se_sequence e \<le> se_sequence (eg_entries g ! i)")
      case True
      then show thesis using that(1) Some \<open>admissible blake3 crypto g e now\<close> unfold by simp
    next
      case False
      show thesis
        by (rule that(2) [of i]) (use i False Some True unfold in \<open>simp_all add: not_le\<close>)
    qed
  next
    case None
    then have fresh: "claim_key e \<notin> claim_key ` set (eg_entries g)"
      unfolding position_None_iff by (metis imageE)
    define oldest where "oldest = (case min_by_key (\<lambda>(_, item). (se_expires_at item, se_observed_at item, se_sequence item))
        (enumerate 0 (eg_entries g)) of None \<Rightarrow> 0 | Some (index, _) \<Rightarrow> index)"
    have "oldest < length (eg_entries g)" if "eg_entries g \<noteq> []"
    proof (cases "min_by_key (\<lambda>(_, item). (se_expires_at item, se_observed_at item, se_sequence item)) (enumerate 0 (eg_entries g))")
      case None
      then have "length (enumerate 0 (eg_entries g)) = 0" by simp
      then show ?thesis using that by simp
    next
      case (Some x)
      then show ?thesis using min_by_key_SomeD [OF Some] by (cases x) (auto simp: oldest_def in_set_enumerate_eq)
    qed
    then have full: thesis if "length (eg_entries g) \<ge> tpo_max_evidence (eg_policy g)"
      using that True None fresh unfold
      by (intro new [of "remove_at oldest (eg_entries g)"]) (simp_all add: oldest_def [symmetric] Let_def, blast)
    have room: thesis if "length (eg_entries g) < tpo_max_evidence (eg_policy g)"
      using that True None fresh unfold by (intro new [of "eg_entries g"]) (simp_all add: Let_def)
    from full room show thesis by (cases "length (eg_entries g) < tpo_max_evidence (eg_policy g)") simp_all
  qed
qed

lemma admissible_verified: "admissible blake3 crypto g e now \<Longrightarrow> verify_signed_evidence blake3 crypto e"
  by (simp add: admissible_def)

lemma graph_wf_insert:
  assumes wf: "graph_wf blake3 crypto g"
  shows "graph_wf blake3 crypto (fst (EvidenceGraph_insert blake3 crypto g e now))"
proof (rule insert_cases [of blake3 crypto g e now])
  assume "fst (EvidenceGraph_insert blake3 crypto g e now) = reject g"
  then show ?thesis by (simp add: graph_wf_reject wf)
next
  fix i
  assume i: "admissible blake3 crypto g e now" "i < length (eg_entries g)" "claim_key (eg_entries g ! i) = claim_key e"
    and eq: "fst (EvidenceGraph_insert blake3 crypto g e now) = g\<lparr>eg_entries := (eg_entries g)[i := e]\<rparr>"
  have "map claim_key ((eg_entries g)[i := e]) = map claim_key (eg_entries g)"
    using i(2,3) by (simp add: map_update list_update_same_conv)
  moreover have "\<forall>x\<in>set ((eg_entries g)[i := e]). verify_signed_evidence blake3 crypto x"
    using wf admissible_verified [OF i(1)] set_update_subset_insert [of "eg_entries g" i e] by (auto simp: graph_wf_def)
  ultimately show ?thesis using wf unfolding eq graph_wf_def by simp
next
  fix kept
  assume k: "admissible blake3 crypto g e now" "claim_key e \<notin> claim_key ` set (eg_entries g)"
      "kept = eg_entries g \<and> length kept < tpo_max_evidence (eg_policy g)
         \<or> (\<exists>i. kept = remove_at i (eg_entries g) \<and> (eg_entries g \<noteq> [] \<longrightarrow> i < length (eg_entries g)))"
    and eq: "fst (EvidenceGraph_insert blake3 crypto g e now) = g\<lparr>eg_entries := kept @ [e]\<rparr>"
  have kept: "set kept \<subseteq> set (eg_entries g) \<and> distinct (map claim_key kept) \<and> length kept < tpo_max_evidence (eg_policy g)"
    using k(3)
  proof (elim disjE exE conjE)
    fix i
    assume i: "kept = remove_at i (eg_entries g)" "eg_entries g \<noteq> [] \<longrightarrow> i < length (eg_entries g)"
    have "length kept < tpo_max_evidence (eg_policy g)"
    proof (cases "eg_entries g = []")
      case True
      then show ?thesis using wf i by (simp add: remove_at_def graph_wf_def)
    next
      case False
      then have "length kept < length (eg_entries g)" using i by (simp add: length_remove_at)
      then show ?thesis using wf unfolding graph_wf_def by linarith
    qed
    then show ?thesis
      using wf set_remove_at [of i "eg_entries g"] i(1) by (simp add: graph_wf_def map_remove_at distinct_remove_at)
  qed (use wf in \<open>simp add: graph_wf_def\<close>)
  then have "claim_key e \<notin> claim_key ` set kept" using k(2) by (meson image_mono subset_iff)
  moreover have "\<forall>x\<in>set (kept @ [e]). verify_signed_evidence blake3 crypto x"
    using wf kept admissible_verified [OF k(1)] unfolding graph_wf_def by auto
  ultimately show ?thesis using wf kept unfolding eq graph_wf_def by simp
qed

datatype graph_op = Op_evidence SignedEvidence u64 | Op_graph_expire u64

fun graph_step :: "hash_fn \<Rightarrow> ('k, 'g) evidence_crypto \<Rightarrow> graph_op \<Rightarrow> EvidenceGraph \<Rightarrow> EvidenceGraph" where
  "graph_step blake3 crypto (Op_evidence e now) g = fst (EvidenceGraph_insert blake3 crypto g e now)"
| "graph_step blake3 crypto (Op_graph_expire now) g = EvidenceGraph_expire g now"

lemma graph_wf_expire: "graph_wf blake3 crypto g \<Longrightarrow> graph_wf blake3 crypto (EvidenceGraph_expire g now)"
  by (auto simp: graph_wf_def EvidenceGraph_expire_def distinct_map_filter intro: order.trans [OF length_filter_le])

lemma rejected_insert: "eg_rejected g \<le> usize_max \<Longrightarrow> eg_rejected g \<le> eg_rejected (fst (EvidenceGraph_insert blake3 crypto g e now))"
  by (rule insert_cases [of blake3 crypto g e now]) (simp_all add: reject_def usat_def)

interpretation evidence_graph: monotone_system "graph_step blake3 crypto" "graph_wf blake3 crypto"
  "\<lambda>g g'. eg_rejected g \<le> eg_rejected g'" for blake3 crypto
proof unfold_locales
  show "graph_wf blake3 crypto s \<Longrightarrow> graph_wf blake3 crypto (graph_step blake3 crypto op s)" for s op
    by (cases op) (simp_all add: graph_wf_insert graph_wf_expire)
  show "graph_wf blake3 crypto s \<Longrightarrow> eg_rejected s \<le> eg_rejected (graph_step blake3 crypto op s)" for s op
    by (cases op) (simp_all add: rejected_insert graph_wf_def EvidenceGraph_expire_def)
qed auto

lemma graph_step_policy: "eg_policy (graph_step blake3 crypto op g) = eg_policy g"
proof (cases op)
  case (Op_evidence e now)
  show ?thesis
    by (rule insert_cases [of blake3 crypto g e now]) (simp_all add: Op_evidence reject_def)
qed (simp add: EvidenceGraph_expire_def)

lemma graph_run_policy: "eg_policy (fold (graph_step blake3 crypto) ops g) = eg_policy g"
  by (induction ops arbitrary: g) (simp_all add: graph_step_policy)

section \<open>Endorsements\<close>

text \<open>The identities whose endorsements count: not the subject, and vouched for by someone else.\<close>

definition vouched :: "EvidenceGraph \<Rightarrow> NodeId \<Rightarrow> u64 \<Rightarrow> SignedEvidence list \<Rightarrow> NodeId set" where
  "vouched g subject now items =
     se_issuer ` {e \<in> set items. se_issuer e \<noteq> subject \<and> endorser_has_direct g e now}"

lemma vouched_Cons:
  "vouched g subject now (e # es) =
     (if se_issuer e \<noteq> subject \<and> endorser_has_direct g e now then insert (se_issuer e) (vouched g subject now es)
      else vouched g subject now es)"
  unfolding vouched_def by auto

lemma endorser_has_direct_issuer: "se_issuer a = se_issuer b \<Longrightarrow> endorser_has_direct g a now = endorser_has_direct g b now"
  by (simp add: endorser_has_direct_def)

lemma finite_vouched: "finite (vouched g subject now items)"
  by (simp add: vouched_def)

lemma min_card_full:
  assumes "finite F" "finite V" "card F = (mx :: nat)"
  shows "min mx (card (F \<union> V)) = mx"
  using assms card_mono [of "F \<union> V" F] by simp

lemma accept_endorsements_card:
  assumes "finite E" "card E \<le> tpo_max_endorsements_per_issuer (eg_policy g)"
  shows "snd (accept_endorsements g subject now (E, usat (card E)) items) =
    usat (min (tpo_max_endorsements_per_issuer (eg_policy g)) (card (E \<union> vouched g subject now items)))"
  using assms
proof (induction items arbitrary: E)
  case Nil
  then show ?case by (simp add: vouched_def min_def)
next
  case (Cons e es)
  let ?mx = "tpo_max_endorsements_per_issuer (eg_policy g)"
  have step: "usat (Suc (usat (card E))) = usat (Suc (card E))" by (simp add: usat_def)
  show ?case
  proof (cases "se_issuer e = subject \<or> se_issuer e \<in> E \<or> \<not> endorser_has_direct g e now")
    case True
    then have "E \<union> vouched g subject now (e # es) = E \<union> vouched g subject now es"
      by (auto simp: vouched_Cons)
    with True Cons show ?thesis by auto
  next
    case False
    show ?thesis
    proof (cases "card E \<ge> ?mx")
      case True
      then have full: "card E = ?mx" using Cons.prems by simp
      have "snd (accept_endorsements g subject now (E, usat (card E)) (e # es)) =
          snd (accept_endorsements g subject now (E, usat (card E)) es)" using True by simp
      also have "\<dots> = usat ?mx"
        unfolding Cons.IH [OF Cons.prems] by (simp only: min_card_full [OF Cons.prems(1) finite_vouched full])
      finally show ?thesis by (simp only: min_card_full [OF Cons.prems(1) finite_vouched full])
    next
      case room: False
      have "snd (accept_endorsements g subject now (insert (se_issuer e) E, usat (card (insert (se_issuer e) E))) es) =
          usat (min ?mx (card (insert (se_issuer e) E \<union> vouched g subject now es)))"
        using Cons.prems False room by (intro Cons.IH) simp_all
      with False room Cons.prems show ?thesis by (simp add: vouched_Cons step)
    qed
  qed
qed

abbreviation endorsements :: "EvidenceGraph \<Rightarrow> NodeId \<Rightarrow> u64 \<Rightarrow> SignedEvidence list" where
  "endorsements g subject now \<equiv> filter (\<lambda>item. se_kind item = EK_Endorsement) (live_about g subject now)"

lemma decision_endorsements:
  "tdn_endorsement_influence (EvidenceGraph_decision g subject now) =
     usat (min (tpo_max_endorsements_per_issuer (eg_policy g)) (card (vouched g subject now (endorsements g subject now))))"
  using accept_endorsements_card [of "{}" g subject now "endorsements g subject now"]
  by (simp add: EvidenceGraph_decision_def accepted_endorsements_def usat_def)

section \<open>Counting issuers\<close>

lemma live_subject: "e \<in> set (live_about g subject now) \<Longrightarrow> se_subject e = subject"
  by (simp add: live_about_def)

lemma successes_by_issuer:
  assumes "distinct (map claim_key es)" "\<forall>e\<in>set es. se_subject e = subject \<and> is_success (se_kind e)"
  shows "length es \<le> 3 * card (se_issuer ` set es)"
proof -
  let ?kinds = "{EK_JobCompleted, EK_Evaluation, EK_ArtifactVerified}"
  let ?f = "\<lambda>e. (se_issuer e, se_kind e)"
  have inj: "inj_on ?f (set es)"
    using assms by (auto simp: claim_key_def distinct_map inj_on_def)
  have "distinct es" using assms(1) by (simp add: distinct_map)
  then have "length es = card (?f ` set es)" by (simp add: distinct_card card_image [OF inj])
  also have "?f ` set es \<subseteq> se_issuer ` set es \<times> ?kinds"
    using assms(2) by (auto simp: is_success_def)
  then have "card (?f ` set es) \<le> card (se_issuer ` set es \<times> ?kinds)" by (intro card_mono) simp_all
  also have "\<dots> = 3 * card (se_issuer ` set es)" by (simp add: card_cartesian_product)
  finally show ?thesis .
qed

section \<open>Properties\<close>

text \<open>C26: whatever evidence arrives, in whatever order, the graph holds at most the policy's maximum, at most one
  entry for each issuer, subject and kind, every entry verified, and the count of refusals never falls.\<close>

theorem evidence_graph_stays_bounded:
  assumes "EvidenceGraph_new policy = Inr g0"
  shows "let g = fold (graph_step blake3 crypto) ops g0 in
    length (eg_entries g) \<le> tpo_max_evidence policy \<and> distinct (map claim_key (eg_entries g))
    \<and> (\<forall>e\<in>set (eg_entries g). verify_signed_evidence blake3 crypto e)
    \<and> eg_rejected g \<le> eg_rejected (fold (graph_step blake3 crypto) later g)"
proof -
  have g0: "graph_wf blake3 crypto g0" "eg_policy g0 = policy"
    using assms by (auto simp: EvidenceGraph_new_def graph_wf_def split: if_splits)
  have wf: "graph_wf blake3 crypto (fold (graph_step blake3 crypto) ops g0)"
    using evidence_graph.run_keeps [OF g0(1)] unfolding evidence_graph.run_def .
  moreover from evidence_graph.run_climbs [OF wf]
  have "eg_rejected (fold (graph_step blake3 crypto) ops g0) \<le>
      eg_rejected (fold (graph_step blake3 crypto) later (fold (graph_step blake3 crypto) ops g0))"
    unfolding evidence_graph.run_def .
  ultimately show ?thesis by (simp add: Let_def graph_wf_def graph_run_policy g0(2))
qed

text \<open>A concrete world: hashes keep the last byte of their input and every signature verifies.\<close>

definition sample_hash :: hash_fn where
  "sample_hash bs = (if bs = [] then filled 0 else filled (last bs))"

definition sample_crypto :: "(unit, unit) evidence_crypto" where
  "sample_crypto = \<lparr>ec_to_allocvec = (\<lambda>_. Inr []), ec_verifying_key = (\<lambda>_. Some ()),
     ec_signature = (\<lambda>_. Some ()), ec_verify = (\<lambda>_ _ _. True)\<rparr>"

definition sample_evidence :: "u8 \<Rightarrow> u8 \<Rightarrow> EvidenceKind \<Rightarrow> u64 \<Rightarrow> SignedEvidence" where
  "sample_evidence issuer subject k seq = \<lparr>se_issuer = filled issuer, se_issuer_public_key = filled issuer,
     se_subject = filled subject, se_kind = k, se_sequence = seq, se_observed_at = 10, se_expires_at = 90,
     se_payload = [], se_signature = replicate 64 0\<rparr>"

definition sample_graph :: "SignedEvidence list \<Rightarrow> EvidenceGraph" where
  "sample_graph es = fold (graph_step sample_hash sample_crypto) (map (\<lambda>e. Op_evidence e 20) es)
     \<lparr>eg_policy = TrustPolicy_default, eg_entries = [], eg_rejected = 0, eg_local_issuer = Some (filled 99)\<rparr>"

lemma sample_graph_start:
  "map_option (\<lambda>g. with_local_issuer g (filled 99)) (case EvidenceGraph_new TrustPolicy_default of Inl _ \<Rightarrow> None | Inr g \<Rightarrow> Some g) =
     Some \<lparr>eg_policy = TrustPolicy_default, eg_entries = [], eg_rejected = 0, eg_local_issuer = Some (filled 99)\<rparr>"
  by (simp add: EvidenceGraph_new_def TrustPolicy_default_def with_local_issuer_def default_direct_observation_ttl_def)

lemma sample_verified:
  "verify_signed_evidence sample_hash sample_crypto (sample_evidence i s k q)"
  by (simp add: verify_signed_evidence_def SignedEvidence_validate_def sample_evidence_def sample_crypto_def
      sample_hash_def from_public_key_def evidence_signing_bytes_def map_err_def result_simps err_if_def
      signature_check_def MAX_EVIDENCE_PAYLOAD_def)

lemma sample_admissible:
  assumes "eg_policy g = TrustPolicy_default"
  shows "admissible sample_hash sample_crypto g (sample_evidence i s k q) 20"
proof -
  have "\<not> is_err (SignedEvidence_validate sample_hash (sample_evidence i s k q))"
    using sample_verified [of i s k q] by (simp add: verify_signed_evidence_def split: if_splits)
  moreover have "(10 :: u64) \<le> sat_add 20 300" by (simp add: sat_add_def)
  ultimately show ?thesis
    using sample_verified [of i s k q] assms
    by (simp add: admissible_def sample_evidence_def TrustPolicy_default_def not_less)
qed

lemma insert_fresh_entry:
  assumes "admissible blake3 crypto g e now" "claim_key e \<notin> claim_key ` set (eg_entries g)"
    and "length (eg_entries g) < tpo_max_evidence (eg_policy g)"
  shows "EvidenceGraph_insert blake3 crypto g e now = (g\<lparr>eg_entries := eg_entries g @ [e]\<rparr>, Inr True)"
proof -
  have "position (\<lambda>x. claim_key x = claim_key e) (eg_entries g) = None"
    using assms(2) unfolding position_None_iff by (metis image_eqI)
  with assms show ?thesis
    unfolding EvidenceGraph_insert_def position_claim_key by (simp add: Let_def)
qed

lemma sample_graph_entries:
  assumes "distinct (map claim_key es)" "length es \<le> 4096" "\<forall>e\<in>set es. \<exists>i s k q. e = sample_evidence i s k q"
  shows "sample_graph es = \<lparr>eg_policy = TrustPolicy_default, eg_entries = es, eg_rejected = 0, eg_local_issuer = Some (filled 99)\<rparr>"
  using assms
proof (induction es rule: rev_induct)
  case Nil
  then show ?case by (simp add: sample_graph_def)
next
  case (snoc e es)
  let ?g = "sample_graph es"
  have g: "?g = \<lparr>eg_policy = TrustPolicy_default, eg_entries = es, eg_rejected = 0, eg_local_issuer = Some (filled 99)\<rparr>"
    using snoc by simp
  have "sample_graph (es @ [e]) = fst (EvidenceGraph_insert sample_hash sample_crypto ?g e 20)"
    by (simp add: sample_graph_def)
  moreover have "admissible sample_hash sample_crypto ?g e 20"
    using snoc.prems(3) g by (auto intro: sample_admissible)
  ultimately show ?case
    using snoc.prems(1,2) g by (simp add: insert_fresh_entry TrustPolicy_default_def)
qed

lemma sample_graph_wf: "graph_wf sample_hash sample_crypto (sample_graph es)"
proof -
  have "graph_wf sample_hash sample_crypto
      \<lparr>eg_policy = TrustPolicy_default, eg_entries = [], eg_rejected = 0, eg_local_issuer = Some (filled 99)\<rparr>"
    by (simp add: graph_wf_def TrustPolicy_default_def)
  from evidence_graph.run_keeps [OF this] show ?thesis
    unfolding evidence_graph.run_def sample_graph_def .
qed

lemma sample_claim_key [simp]: "claim_key (sample_evidence i s k q) = (filled i, filled s, k)"
  by (simp add: claim_key_def sample_evidence_def)

lemma sample_evidence_simps [simp]:
  "se_issuer (sample_evidence i s k q) = filled i" "se_subject (sample_evidence i s k q) = filled s"
  "se_kind (sample_evidence i s k q) = k" "se_expires_at (sample_evidence i s k q) = 90"
  "se_sequence (sample_evidence i s k q) = q"
  by (simp_all add: sample_evidence_def)

theorem evidence_graph_stays_bounded_witness:
  "\<exists>g0. EvidenceGraph_new TrustPolicy_default = Inr g0 \<and>
     length (eg_entries (fold (graph_step sample_hash sample_crypto)
       [Op_evidence (sample_evidence 1 2 EK_JobCompleted 1) 20, Op_graph_expire 30] g0)) \<le> 4096"
proof -
  obtain g0 where g0: "EvidenceGraph_new TrustPolicy_default = Inr g0"
    by (simp add: EvidenceGraph_new_def TrustPolicy_default_def default_direct_observation_ttl_def)
  from g0 evidence_graph_stays_bounded [OF g0, of sample_hash sample_crypto
      "[Op_evidence (sample_evidence 1 2 EK_JobCompleted 1) 20, Op_graph_expire 30]" "[]"]
  show ?thesis by (auto simp: Let_def TrustPolicy_default_def)
qed

text \<open>An issuer's claim about a subject is never replaced by one of the same or a lower sequence.\<close>

theorem evidence_never_rolls_back:
  assumes "graph_wf blake3 crypto g" and "old \<in> set (eg_entries g)"
    and "new \<in> set (eg_entries (fst (EvidenceGraph_insert blake3 crypto g e now)))"
    and "claim_key new = claim_key old"
  shows "new = old \<or> se_sequence old < se_sequence new"
proof -
  have inj: "inj_on claim_key (set (eg_entries g))"
    using assms(1) by (simp add: graph_wf_def distinct_map)
  have uniq: "x = y" if "x \<in> set (eg_entries g)" "y \<in> set (eg_entries g)" "claim_key x = claim_key y" for x y
    by (rule inj_onD [OF inj that(3,1,2)])
  show ?thesis
  proof (rule insert_cases [of blake3 crypto g e now])
    assume "fst (EvidenceGraph_insert blake3 crypto g e now) = reject g"
    then show ?thesis using assms(2-4) uniq [of new old] by (simp add: reject_def)
  next
    fix i
    assume i: "i < length (eg_entries g)" "claim_key (eg_entries g ! i) = claim_key e"
      "se_sequence (eg_entries g ! i) < se_sequence e"
      and eq: "fst (EvidenceGraph_insert blake3 crypto g e now) = g\<lparr>eg_entries := (eg_entries g)[i := e]\<rparr>"
    have "new \<in> set ((eg_entries g)[i := e])" using assms(3) unfolding eq by simp
    then have "new = e \<or> new \<in> set (eg_entries g)"
      using set_update_subset_insert [of "eg_entries g" i e] by blast
    then show ?thesis
    proof
      assume "new = e"
      then have "old = eg_entries g ! i" using uniq [OF assms(2) nth_mem [OF i(1)]] assms(4) i(2) by simp
      then show ?thesis using i(3) \<open>new = e\<close> by simp
    qed (use uniq [OF _ assms(2,4)] in blast)
  next
    fix kept
    assume k: "claim_key e \<notin> claim_key ` set (eg_entries g)" "kept = eg_entries g \<and> length kept < tpo_max_evidence (eg_policy g)
         \<or> (\<exists>i. kept = remove_at i (eg_entries g) \<and> (eg_entries g \<noteq> [] \<longrightarrow> i < length (eg_entries g)))"
      and eq: "fst (EvidenceGraph_insert blake3 crypto g e now) = g\<lparr>eg_entries := kept @ [e]\<rparr>"
    have "set kept \<subseteq> set (eg_entries g)" using k(2) by (elim disjE exE conjE) (simp_all add: set_remove_at)
    moreover have "new \<in> set (kept @ [e])" using assms(3) unfolding eq by simp
    ultimately have "new = e \<or> new \<in> set (eg_entries g)" by auto
    then show ?thesis
    proof
      assume "new = e"
      then show ?thesis using k(1) assms(2,4) image_eqI [of "claim_key e" claim_key old] by simp
    qed (use uniq [OF _ assms(2,4)] in blast)
  qed
qed

text \<open>Endorsements weigh exactly as many distinct identities as endorse the subject, are not the subject, and
  themselves have live positive evidence from somebody else, capped by the policy. A cluster that only endorses
  itself weighs nothing.\<close>

theorem endorsements_need_outside_evidence:
  "tdn_endorsement_influence (EvidenceGraph_decision g subject now) =
     usat (min (tpo_max_endorsements_per_issuer (eg_policy g))
       (card (se_issuer ` {e \<in> set (eg_entries g). se_subject e = subject \<and> se_expires_at e \<ge> now
          \<and> se_kind e = EK_Endorsement \<and> se_issuer e \<noteq> subject
          \<and> (\<exists>c\<in>set (eg_entries g). se_subject c = se_issuer e \<and> se_issuer c \<noteq> se_issuer e
               \<and> se_expires_at c \<ge> now \<and> is_positive (se_kind c))})))"
proof -
  have "vouched g subject now (endorsements g subject now) =
      se_issuer ` {e \<in> set (eg_entries g). se_subject e = subject \<and> se_expires_at e \<ge> now
          \<and> se_kind e = EK_Endorsement \<and> se_issuer e \<noteq> subject
          \<and> (\<exists>c\<in>set (eg_entries g). se_subject c = se_issuer e \<and> se_issuer c \<noteq> se_issuer e
               \<and> se_expires_at c \<ge> now \<and> is_positive (se_kind c))}"
    unfolding vouched_def endorser_has_direct_def live_about_def by (rule arg_cong [of _ _ "image se_issuer"]) auto
  then show ?thesis by (simp only: decision_endorsements)
qed

text \<open>No issuer counts for more than three direct successes of a subject, so every further success needs
  another issuer.\<close>

theorem issuer_counts_at_most_three_successes:
  assumes "graph_wf blake3 crypto g"
  shows "tdn_direct_successes (EvidenceGraph_decision g subject now) \<le>
    3 * (tdn_independent_issuers (EvidenceGraph_decision g subject now) + 1)"
proof -
  let ?es = "filter (\<lambda>item. is_success (se_kind item)) (direct_about g subject now)"
  have "distinct (map claim_key ?es)"
    using assms by (simp add: graph_wf_def direct_about_def live_about_def distinct_map_filter)
  moreover have "\<forall>e\<in>set ?es. se_subject e = subject \<and> is_success (se_kind e)"
    by (auto simp: direct_about_def dest: live_subject)
  ultimately have "length ?es \<le> 3 * card (se_issuer ` set ?es)" by (rule successes_by_issuer)
  also have "card (se_issuer ` set ?es) \<le> card (insert subject (independent_issuers g subject now))"
    by (rule card_mono) (auto simp: independent_issuers_def)
  also have "\<dots> \<le> card (independent_issuers g subject now) + 1"
    by (metis Suc_eq_plus1 card_insert_le_m1 card.infinite card_insert_if finite_insert le_SucI order_refl zero_le)
  finally show ?thesis by (simp add: EvidenceGraph_decision_def direct_successes_def)
qed

text \<open>C27: reports at second hand alone neither quarantine nor degrade a subject, whatever their number, and lower
  its score by at most twice the policy's limit.\<close>

theorem hearsay_cannot_quarantine:
  assumes "\<forall>e\<in>set (live_about g subject now). se_kind e = EK_ViolationReport"
    and "1 \<le> tpo_quarantine_negative_evidence (eg_policy g)"
    and "1 \<le> tpo_trusted_direct_successes (eg_policy g)" and "1 \<le> tpo_established_direct_successes (eg_policy g)"
  shows "\<not> tdn_quarantined (EvidenceGraph_decision g subject now)
    \<and> tdn_maturity (EvidenceGraph_decision g subject now) = IM_New
    \<and> negative_score g subject now \<le> 2 * tpo_max_indirect_negative_influence (eg_policy g)"
proof -
  have none: "direct_about g subject now = []" using assms(1) by (simp add: direct_about_def)
  then have "direct_failures g subject now = 0" "direct_successes g subject now = 0" "local_direct_failures g subject now = 0"
    by (simp_all add: direct_failures_def direct_successes_def local_direct_failures_def)
  with assms none show ?thesis
    by (simp add: EvidenceGraph_decision_def maturity_of_def negative_score_def indirect_negative_reports_def usat_def)
qed

theorem hearsay_cannot_quarantine_witness:
  "\<not> tdn_quarantined (EvidenceGraph_decision (sample_graph [sample_evidence 1 2 EK_ViolationReport 3]) (filled 2) 20)"
proof -
  let ?g = "sample_graph [sample_evidence 1 2 EK_ViolationReport 3]"
  have "eg_entries ?g = [sample_evidence 1 2 EK_ViolationReport 3]" "eg_policy ?g = TrustPolicy_default"
    by (subst sample_graph_entries; auto)+
  then show ?thesis
    using hearsay_cannot_quarantine [of ?g "filled 2" 20]
    by (simp add: live_about_def TrustPolicy_default_def default_negative_threshold_def)
qed

text \<open>Evidence a subject signs about itself counts as direct success: under the default policy two observers
  that only saw the subject online, and three successes the subject reported about itself, make it established.\<close>

theorem self_reported_success_establishes:
  "\<exists>g subject now. graph_wf sample_hash sample_crypto g \<and> eg_policy g = TrustPolicy_default
     \<and> se_issuer ` {e \<in> set (eg_entries g). is_success (se_kind e)} = {subject}
     \<and> tdn_maturity (EvidenceGraph_decision g subject now) = IM_Established"
proof -
  let ?es = "[sample_evidence 2 2 EK_JobCompleted 1, sample_evidence 2 2 EK_Evaluation 1,
    sample_evidence 2 2 EK_ArtifactVerified 1, sample_evidence 3 2 EK_ObservedOnline 1, sample_evidence 4 2 EK_ObservedOnline 1]"
  let ?g = "sample_graph ?es"
  have g: "?g = \<lparr>eg_policy = TrustPolicy_default, eg_entries = ?es, eg_rejected = 0, eg_local_issuer = Some (filled 99)\<rparr>"
    by (rule sample_graph_entries) auto
  have "direct_about ?g (filled 2) 20 = ?es" by (simp add: g direct_about_def live_about_def)
  then have d: "direct_failures ?g (filled 2) 20 = 0" "direct_successes ?g (filled 2) 20 = 3"
    "local_direct_failures ?g (filled 2) 20 = 0" "independent_issuers ?g (filled 2) 20 = {filled 3, filled 4}"
    by (auto simp: direct_failures_def direct_successes_def local_direct_failures_def independent_issuers_def
        is_negative_def is_success_def)
  have "indirect_negative_reports ?g (filled 2) 20 = 0"
    by (simp add: g indirect_negative_reports_def live_about_def)
  then have "tdn_maturity (EvidenceGraph_decision ?g (filled 2) 20) = IM_Established"
    using d by (simp add: EvidenceGraph_decision_def maturity_of_def negative_score_def usat_def g TrustPolicy_default_def
        default_negative_threshold_def)
  moreover have "se_issuer ` {e \<in> set (eg_entries ?g). is_success (se_kind e)} = {filled 2}"
    by (auto simp: g is_success_def intro!: image_eqI [where x = "sample_evidence 2 2 EK_JobCompleted 1"])
  moreover have "eg_policy ?g = TrustPolicy_default" by (simp add: g)
  ultimately show ?thesis using sample_graph_wf [of ?es] by blast
qed

end
