(* ===== verification/Security_Types.thy ===== *)
theory Security_Types
  imports Fabric_Algorithms Trust BTree_Map "HOL-Library.Char_ord" "HOL-Library.Option_ord"
begin

text \<open>
  The types of \<^verbatim>\<open>intelligence/src/security.rs\<close>: policy, events, training contributions, state claims, and the local
  security state with its ordered maps. \<^verbatim>\<open>postcard\<close> and Ed25519 are the fields of a record of parameters.
\<close>

section \<open>Types\<close>

definition MAX_SECURITY_DETAIL :: usize where "MAX_SECURITY_DETAIL = 256"
definition MAX_SECURITY_SCOPE :: usize where "MAX_SECURITY_SCOPE = 128"
definition MAX_CLAIM_KEY :: usize where "MAX_CLAIM_KEY = 128"

datatype SecurityProfile = SP_Open | SP_Balanced | SP_Strict

datatype SecurityEventKind =
    SK_ReplayRejected
  | SK_StaleStateRejected
  | SK_DuplicateContributionRejected
  | SK_EquivocationDetected
  | SK_InvalidStateRejected
  | SK_ArtifactCorrupt
  | SK_CheckpointCorrupt
  | SK_OptimizerStateRejected
  | SK_CapabilityFailed
  | SK_TrainingUpdateRejected
  | SK_EvaluatorDisagreement
  | SK_EvaluatorSelection
  | SK_DhtPoisoningRejected
  | SK_ResourceRateLimited
  | SK_PeerQuarantined

datatype CriticalRole =
    CR_CheckpointProvider
  | CR_OptimizerReplica
  | CR_TensorRecoveryProvider
  | CR_Aggregator
  | CR_Evaluator
  | CR_PlanParticipant

record SecurityPolicy =
  spo_profile :: SecurityProfile
  spo_max_events :: usize
  spo_max_replay_entries :: usize
  spo_max_claims :: usize
  spo_quarantine_seconds :: u64
  spo_min_direct_successes_for_critical_role :: usize
  spo_max_direct_failures_for_critical_role :: usize
  spo_max_training_value :: i64
  spo_max_challenge_per_peer_window :: u16
  spo_challenge_window_seconds :: u64
  spo_max_evaluators_per_source_group :: usize
  spo_direct_observation_ttl_seconds :: u64

definition security_observation_ttl :: u64 where "security_observation_ttl = 900"

definition SecurityPolicy_default :: SecurityPolicy where
  "SecurityPolicy_default = \<lparr>spo_profile = SP_Balanced, spo_max_events = 2048, spo_max_replay_entries = 4096,
     spo_max_claims = 2048, spo_quarantine_seconds = 300, spo_min_direct_successes_for_critical_role = 1,
     spo_max_direct_failures_for_critical_role = 2, spo_max_training_value = 100 * TRAINING_SCALE,
     spo_max_challenge_per_peer_window = 8, spo_challenge_window_seconds = 60,
     spo_max_evaluators_per_source_group = 1, spo_direct_observation_ttl_seconds = security_observation_ttl\<rparr>"

fun for_profile :: "SecurityProfile \<Rightarrow> SecurityPolicy" where
  "for_profile SP_Open = SecurityPolicy_default\<lparr>spo_profile := SP_Open,
     spo_min_direct_successes_for_critical_role := 0, spo_max_direct_failures_for_critical_role := 3,
     spo_max_challenge_per_peer_window := 4\<rparr>"
| "for_profile SP_Balanced = SecurityPolicy_default\<lparr>spo_profile := SP_Balanced\<rparr>"
| "for_profile SP_Strict = SecurityPolicy_default\<lparr>spo_profile := SP_Strict,
     spo_min_direct_successes_for_critical_role := 2, spo_max_direct_failures_for_critical_role := 1,
     spo_max_challenge_per_peer_window := 4, spo_quarantine_seconds := 600\<rparr>"

definition SecurityPolicy_validate :: "SecurityPolicy \<Rightarrow> SecurityError + unit" where
  "SecurityPolicy_validate p = err_if
     (spo_max_events p = 0 \<or> spo_max_replay_entries p = 0 \<or> spo_max_claims p = 0 \<or> spo_quarantine_seconds p = 0
      \<or> spo_challenge_window_seconds p = 0 \<or> spo_max_challenge_per_peer_window p = 0
      \<or> spo_max_evaluators_per_source_group p = 0 \<or> spo_max_training_value p \<le> 0
      \<or> spo_direct_observation_ttl_seconds p = 0)
     (SE_InvalidPolicy ''V6 security bounds must be positive'')"

record SecurityEvent =
  sev_sequence :: u64
  sev_observed_at :: u64
  sev_subject :: "NodeId option"
  sev_kind :: SecurityEventKind
  sev_scope :: string
  sev_detail :: string

record TrainingContribution =
  tcb_job_id :: JobId
  tcb_worker :: NodeId
  tcb_branch :: ArtifactId
  tcb_plan_generation :: u64
  tcb_generation :: u64
  tcb_sequence :: u64
  tcb_values :: "i64 list"

record TrainingContext =
  tcx_job_id :: JobId
  tcx_branch :: ArtifactId
  tcx_plan_generation :: u64
  tcx_generation :: u64

datatype TrainingAdmission = TA_Accepted | TA_Duplicate

record CapabilityConfidence =
  cco_successful_challenges :: u32
  cco_failed_challenges :: u32
  cco_successful_tasks :: u32
  cco_failed_tasks :: u32
  cco_last_observed_at :: u64

definition confidence_permille :: "CapabilityConfidence \<Rightarrow> u16" where
  "confidence_permille c =
    (let successes = sat_add (cco_successful_challenges c) (cco_successful_tasks c);
         failures = sat_add (cco_failed_challenges c) (cco_failed_tasks c);
         total = sat_add successes failures
     in if total = 0 then 0 else ucast (min (sat_mul successes 1000 div total) 1000))"

record PeerObservation =
  pob_direct_successes :: u32
  pob_direct_failures :: u32
  pob_last_observed_at :: u64

record SignedStateClaim =
  ssc_signer :: NodeId
  ssc_signer_public_key :: "32 bytes"
  ssc_object :: string
  ssc_job_id :: "JobId option"
  ssc_branch :: "ArtifactId option"
  ssc_generation :: u64
  ssc_sequence :: u64
  ssc_digest :: ArtifactId
  ssc_expires_at :: u64
  ssc_signature :: "u8 list"

record EquivocationProof =
  eqp_first :: SignedStateClaim
  eqp_second :: SignedStateClaim

text \<open>The keys of the maps derive their order field by field, which is the order of tuples.\<close>

type_synonym ReplayKey = "JobId \<times> NodeId \<times> ArtifactId \<times> u64 \<times> u64"
type_synonym StreamKey = "JobId \<times> NodeId \<times> ArtifactId"
type_synonym ClaimKey = "NodeId \<times> string \<times> JobId option \<times> ArtifactId option \<times> u64 \<times> u64"
type_synonym CapabilityKey = "NodeId \<times> BackendKind"

fun backend_rank :: "BackendKind \<Rightarrow> nat" where
  "backend_rank BK_Cpu = 0"
| "backend_rank BK_Cuda = 1"
| "backend_rank BK_Rocm = 2"
| "backend_rank BK_Metal = 3"

instantiation BackendKind :: linorder
begin

definition less_eq_BackendKind :: "BackendKind \<Rightarrow> BackendKind \<Rightarrow> bool" where
  "less_eq_BackendKind a b \<longleftrightarrow> backend_rank a \<le> backend_rank b"

definition less_BackendKind :: "BackendKind \<Rightarrow> BackendKind \<Rightarrow> bool" where
  "less_BackendKind a b \<longleftrightarrow> backend_rank a < backend_rank b"

instance
proof
  fix a b :: BackendKind
  show "a \<le> b \<Longrightarrow> b \<le> a \<Longrightarrow> a = b"
    by (cases a; cases b) (simp_all add: less_eq_BackendKind_def)
qed (auto simp: less_eq_BackendKind_def less_BackendKind_def)

end

fun maturity_rank :: "IdentityMaturity \<Rightarrow> nat" where
  "maturity_rank IM_New = 0"
| "maturity_rank IM_Observed = 1"
| "maturity_rank IM_Established = 2"
| "maturity_rank IM_TrustedLocally = 3"
| "maturity_rank IM_Degraded = 4"
| "maturity_rank IM_Quarantined = 5"

record TrustAssessment =
  tas_peer :: NodeId
  tas_score :: int
  tas_maturity :: IdentityMaturity
  tas_direct_successes :: u32
  tas_direct_failures :: u32
  tas_quarantined :: bool
  tas_reason :: string

record LocalSecurityState =
  lss_local_node :: NodeId
  lss_policy :: SecurityPolicy
  lss_events :: "SecurityEvent list"
  lss_replay :: "(ReplayKey, ArtifactId) btree"
  lss_rejected_replay :: "(ReplayKey, ArtifactId) btree"
  lss_latest :: "(StreamKey, u64 \<times> u64) btree"
  lss_contexts :: "(JobId, TrainingContext) btree"
  lss_claims :: "(ClaimKey, SignedStateClaim) btree"
  lss_authenticated_claims :: "(ClaimKey, ArtifactId) btree"
  lss_quarantined :: "(NodeId, u64) btree"
  lss_capabilities :: "(CapabilityKey, CapabilityConfidence) btree"
  lss_observations :: "(NodeId, PeerObservation) btree"
  lss_next_event_sequence :: u64

text \<open>The third-party functions: \<^verbatim>\<open>postcard\<close> on the two signed or hashed tuples, and Ed25519.\<close>

record ('k, 'g) security_crypto =
  sc_encode_contribution :: "JobId \<times> NodeId \<times> ArtifactId \<times> u64 \<times> u64 \<times> u64 \<times> i64 list \<Rightarrow> string + u8 list"
  sc_encode_claim :: "NodeId \<times> 32 bytes \<times> string \<times> JobId option \<times> ArtifactId option \<times> u64 \<times> u64 \<times> ArtifactId \<times> u64
    \<Rightarrow> string + u8 list"
  sc_verifying_key :: "32 bytes \<Rightarrow> 'k option"
  sc_signature :: "u8 list \<Rightarrow> 'g option"
  sc_verify :: "'k \<Rightarrow> u8 list \<Rightarrow> 'g \<Rightarrow> bool"

end
