(* ===== verification/Security_State.thy ===== *)
theory Security_State
  imports Security_Types Step_System
begin

text \<open>
  The methods of \<^verbatim>\<open>LocalSecurityState\<close> in \<^verbatim>\<open>intelligence/src/security.rs\<close>, with their early returns in the order
  of the source, and the selection of evaluators. A method with \<^verbatim>\<open>&mut self\<close> returns the new state beside its
  result. The invariant is what \<^verbatim>\<open>validate\<close> checks of a persisted state.
\<close>

section \<open>The event log\<close>

text \<open>A string is its UTF-8 bytes. \<^verbatim>\<open>chars().take(n)\<close> cuts before the start of the next character.\<close>

definition is_continuation :: "char \<Rightarrow> bool" where
  "is_continuation c \<longleftrightarrow> 128 \<le> (of_char c :: nat) \<and> (of_char c :: nat) < 192"

function take_chars :: "nat \<Rightarrow> string \<Rightarrow> string" where
  "take_chars 0 s = []"
| "take_chars (Suc n) [] = []"
| "take_chars (Suc n) (c # cs) =
     c # takeWhile is_continuation cs @ take_chars n (dropWhile is_continuation cs)"
  by pat_completeness auto
termination by lexicographic_order

definition truncate_text :: "string \<Rightarrow> usize \<Rightarrow> string" where
  "truncate_text value mx = take_chars mx value"

definition event :: "LocalSecurityState \<Rightarrow> u64 \<Rightarrow> NodeId option \<Rightarrow> SecurityEventKind \<Rightarrow> string \<Rightarrow> string \<Rightarrow> LocalSecurityState" where
  "event s observed_at subject k scope0 detail0 =
    (let scope = truncate_text scope0 MAX_SECURITY_SCOPE; detail = truncate_text detail0 MAX_SECURITY_DETAIL
     in if \<exists>e\<in>set (lss_events s). sev_subject e = subject \<and> sev_kind e = k \<and> sev_scope e = scope \<and> sev_detail e = detail
        then s
        else let kept = (if length (lss_events s) \<ge> spo_max_events (lss_policy s) then drop 1 (lss_events s) else lss_events s)
             in s\<lparr>lss_next_event_sequence := sat_add (lss_next_event_sequence s) 1,
                  lss_events := kept @ [\<lparr>sev_sequence = lss_next_event_sequence s, sev_observed_at = observed_at,
                    sev_subject = subject, sev_kind = k, sev_scope = scope, sev_detail = detail\<rparr>]\<rparr>)"

definition record_event :: "LocalSecurityState \<Rightarrow> u64 \<Rightarrow> NodeId option \<Rightarrow> SecurityEventKind \<Rightarrow> string \<Rightarrow> string \<Rightarrow> LocalSecurityState" where
  "record_event s observed_at subject k scope detail = event s observed_at subject k scope detail"

section \<open>Construction and validation\<close>

definition LocalSecurityState_new :: "NodeId \<Rightarrow> SecurityPolicy \<Rightarrow> SecurityError + LocalSecurityState" where
  "LocalSecurityState_new local_node policy = and_then (SecurityPolicy_validate policy) (\<lambda>_. Inr \<lparr>
     lss_local_node = local_node, lss_policy = policy, lss_events = [], lss_replay = bt_new,
     lss_rejected_replay = bt_new, lss_latest = bt_new, lss_contexts = bt_new, lss_claims = bt_new,
     lss_authenticated_claims = bt_new, lss_quarantined = bt_new, lss_capabilities = bt_new,
     lss_observations = bt_new, lss_next_event_sequence = 1\<rparr>)"

definition LocalSecurityState_validate :: "LocalSecurityState \<Rightarrow> SecurityError + unit" where
  "LocalSecurityState_validate s = all_ok [
     SecurityPolicy_validate (lss_policy s),
     err_if (lss_local_node s = filled 0
       \<or> length (lss_events s) > spo_max_events (lss_policy s)
       \<or> bt_len (lss_replay s) > spo_max_replay_entries (lss_policy s)
       \<or> bt_len (lss_rejected_replay s) > spo_max_replay_entries (lss_policy s)
       \<or> bt_len (lss_claims s) > spo_max_claims (lss_policy s)
       \<or> bt_len (lss_authenticated_claims s) > spo_max_claims (lss_policy s))
       (SE_InvalidRecord ''persisted V6 security state exceeds local bounds''),
     err_if (\<exists>e\<in>set (lss_events s). length (sev_scope e) > MAX_SECURITY_SCOPE \<or> length (sev_detail e) > MAX_SECURITY_DETAIL)
       (SE_InvalidRecord ''persisted security event exceeds local bounds'')]"

section \<open>Quarantine\<close>

definition is_quarantined :: "LocalSecurityState \<Rightarrow> NodeId \<Rightarrow> u64 \<Rightarrow> LocalSecurityState \<times> bool" where
  "is_quarantined s peer now =
    (let live = bt_retain (\<lambda>_ until. if until \<ge> now then Some until else None) (lss_quarantined s)
     in (s\<lparr>lss_quarantined := live\<rparr>, is_some_and (bt_get live peer) (\<lambda>until. until \<ge> now)))"

definition quarantine :: "LocalSecurityState \<Rightarrow> NodeId \<Rightarrow> u64 \<Rightarrow> SecurityEventKind \<Rightarrow> string \<Rightarrow> LocalSecurityState" where
  "quarantine s peer now k detail =
    (let until = sat_add now (spo_quarantine_seconds (lss_policy s));
         value = (case bt_get (lss_quarantined s) peer of None \<Rightarrow> until | Some v \<Rightarrow> max v until);
         s1 = s\<lparr>lss_quarantined := bt_insert peer value (lss_quarantined s)\<rparr>
     in event (event s1 now (Some peer) k ''quarantine'' detail) now (Some peer) SK_PeerQuarantined
          ''quarantine'' ''local quarantine applied; no network-wide ban was published'')"

section \<open>Training contributions\<close>

definition observe_context :: "LocalSecurityState \<Rightarrow> TrainingContext \<Rightarrow> u64 \<Rightarrow> LocalSecurityState \<times> (SecurityError + unit)" where
  "observe_context s context now =
    (if tcx_job_id context = filled 0 \<or> tcx_branch context = filled 0 \<or> tcx_plan_generation context = 0
        \<or> tcx_generation context = 0
     then (event s now None SK_InvalidStateRejected ''training_context'' ''zero or missing lineage field'',
           Inl (SE_InvalidRecord ''training context lineage is incomplete''))
     else if is_some_and (bt_get (lss_contexts s) (tcx_job_id context)) (\<lambda>previous.
         tcx_plan_generation context < tcx_plan_generation previous \<or> tcx_generation context < tcx_generation previous)
     then (event s now None SK_StaleStateRejected ''training_context'' ''older plan or model generation'',
           Inl SE_StaleTraining)
     else if is_some_and (bt_get (lss_contexts s) (tcx_job_id context)) (\<lambda>previous.
         tcx_plan_generation context = tcx_plan_generation previous \<and> tcx_generation context = tcx_generation previous
         \<and> tcx_branch context \<noteq> tcx_branch previous)
     then (event s now None SK_EquivocationDetected ''training_context'' ''conflicting branch at the same generation'',
           Inl SE_TrainingEquivocation)
     else (s\<lparr>lss_contexts := bt_insert (tcx_job_id context) context (lss_contexts s)\<rparr>, Ok))"

definition contribution_digest :: "hash_fn \<Rightarrow> ('k, 'g) security_crypto \<Rightarrow> TrainingContribution \<Rightarrow> ArtifactId" where
  "contribution_digest blake3 crypto c = from_bytes_hashed blake3
     (case sc_encode_contribution crypto (tcb_job_id c, tcb_worker c, tcb_branch c, tcb_plan_generation c,
        tcb_generation c, tcb_sequence c, tcb_values c) of Inl _ \<Rightarrow> [] | Inr bytes \<Rightarrow> bytes)"

definition replay_key :: "TrainingContribution \<Rightarrow> ReplayKey" where
  "replay_key c = (tcb_job_id c, tcb_worker c, tcb_branch c, tcb_generation c, tcb_sequence c)"

definition stream_key :: "TrainingContribution \<Rightarrow> StreamKey" where
  "stream_key c = (tcb_job_id c, tcb_worker c, tcb_branch c)"

function bound_map :: "('k::linorder, 'v) btree \<Rightarrow> usize \<Rightarrow> ('k, 'v) btree" where
  "bound_map m max_entries =
    (if bt_len m \<ge> max_entries then
       (case bt_entries m of [] \<Rightarrow> m | (key, _) # _ \<Rightarrow> bound_map (bt_remove key m) max_entries)
     else m)"
  by pat_completeness auto
termination
proof (relation "measure (\<lambda>(m, _). bt_len m)")
  fix m :: "('k::linorder, 'v) btree" and max_entries :: nat and e es key v
  assume "bt_entries m = e # es" "(key, v) = e"
  then have "bt_entries m = (key, v) # es" by simp
  from bt_first(2,3) [OF this] show "((bt_remove key m, max_entries), m, max_entries) \<in> measure (\<lambda>(m, _). bt_len m)"
    by simp
qed simp

declare bound_map.simps [simp del]

definition contribution_out_of_bounds :: "LocalSecurityState \<Rightarrow> TrainingContribution \<Rightarrow> bool" where
  "contribution_out_of_bounds s c \<longleftrightarrow> tcb_job_id c = filled 0 \<or> tcb_branch c = filled 0
     \<or> tcb_plan_generation c = 0 \<or> tcb_generation c = 0 \<or> tcb_sequence c = 0 \<or> tcb_values c = []
     \<or> length (tcb_values c) > MAX_V4_VECTOR
     \<or> (\<exists>value\<in>set (tcb_values c). unsigned_abs value > unsigned_abs (spo_max_training_value (lss_policy s)))"

text \<open>The part of \<^verbatim>\<open>admit_training_update\<close> after the context was observed.\<close>

definition admit_position :: "LocalSecurityState \<Rightarrow> TrainingContribution \<Rightarrow> ArtifactId \<Rightarrow> u64 \<Rightarrow>
    LocalSecurityState \<times> (SecurityError + TrainingAdmission)" where
  "admit_position s c digest now =
    (if is_some_and (bt_get (lss_latest s) (stream_key c)) (\<lambda>(generation, sequence).
         tcb_generation c < generation \<or> (tcb_generation c = generation \<and> tcb_sequence c < sequence))
     then (event s now (Some (tcb_worker c)) SK_StaleStateRejected ''training_update'' ''older generation or sequence'',
           Inl SE_StaleTraining)
     else if bt_get (lss_replay s) (replay_key c) \<noteq> None
     then let bounded = bound_map (lss_rejected_replay s) (spo_max_replay_entries (lss_policy s));
              noted = (if bt_get bounded (replay_key c) = None then bt_insert (replay_key c) digest bounded else bounded)
          in (quarantine (s\<lparr>lss_rejected_replay := noted\<rparr>) (tcb_worker c) now SK_EquivocationDetected
                ''same contribution sequence carried different values'', Inl SE_TrainingEquivocation)
     else (s\<lparr>lss_replay := bt_insert (replay_key c) digest (bound_map (lss_replay s) (spo_max_replay_entries (lss_policy s))),
             lss_latest := bt_insert (stream_key c) (tcb_generation c, tcb_sequence c) (lss_latest s)\<rparr>,
           Inr TA_Accepted))"

definition admit_training_update :: "hash_fn \<Rightarrow> ('k, 'g) security_crypto \<Rightarrow> LocalSecurityState \<Rightarrow> TrainingContribution \<Rightarrow>
    NodeId list \<Rightarrow> u64 \<Rightarrow> LocalSecurityState \<times> (SecurityError + TrainingAdmission)" where
  "admit_training_update blake3 crypto s c members now =
    (if tcb_worker c \<notin> set members
     then (event s now (Some (tcb_worker c)) SK_TrainingUpdateRejected ''training_update''
             ''worker is outside the authenticated job membership'', Inl SE_UnauthorizedTraining)
     else if contribution_out_of_bounds s c
     then (event s now (Some (tcb_worker c)) SK_TrainingUpdateRejected ''training_update''
             ''lineage, vector, or magnitude bound failed'', Inl SE_TrainingBounds)
     else let digest = contribution_digest blake3 crypto c
       in if bt_get (lss_replay s) (replay_key c) = Some digest \<or> bt_get (lss_rejected_replay s) (replay_key c) = Some digest
          then (event s now (Some (tcb_worker c)) SK_DuplicateContributionRejected ''training_update''
                  ''same signed contribution was submitted twice'', Inl SE_DuplicateTraining)
          else case is_quarantined s (tcb_worker c) now of
            (s1, True) \<Rightarrow> (event s1 now (Some (tcb_worker c)) SK_TrainingUpdateRejected ''training_update''
                  ''worker is locally quarantined'', Inl SE_Quarantined)
          | (s1, False) \<Rightarrow>
              (case observe_context s1 \<lparr>tcx_job_id = tcb_job_id c, tcx_branch = tcb_branch c,
                  tcx_plan_generation = tcb_plan_generation c, tcx_generation = tcb_generation c\<rparr> now of
                 (s2, Inl e) \<Rightarrow> (s2, Inl e)
               | (s2, Inr _) \<Rightarrow> admit_position s2 c digest now))"

section \<open>Observations\<close>

definition record_direct_observation :: "LocalSecurityState \<Rightarrow> NodeId \<Rightarrow> bool \<Rightarrow> u64 \<Rightarrow> LocalSecurityState" where
  "record_direct_observation s peer success now =
    (let old = (case bt_get (lss_observations s) peer of
           None \<Rightarrow> \<lparr>pob_direct_successes = 0, pob_direct_failures = 0, pob_last_observed_at = now\<rparr>
         | Some observation \<Rightarrow> observation);
         counted = (if success then old\<lparr>pob_direct_successes := sat_add (pob_direct_successes old) 1\<rparr>
                    else old\<lparr>pob_direct_failures := sat_add (pob_direct_failures old) 1\<rparr>);
         s1 = s\<lparr>lss_observations := bt_insert peer (counted\<lparr>pob_last_observed_at := now\<rparr>) (lss_observations s)\<rparr>
     in if \<not> success then event s1 now (Some peer) SK_TrainingUpdateRejected ''direct_observation''
          ''direct job observation failed'' else s1)"

definition confidence_entry :: "LocalSecurityState \<Rightarrow> NodeId \<Rightarrow> BackendKind \<Rightarrow> u64 \<Rightarrow> CapabilityConfidence" where
  "confidence_entry s peer backend now = (case bt_get (lss_capabilities s) (peer, backend) of
     None \<Rightarrow> \<lparr>cco_successful_challenges = 0, cco_failed_challenges = 0, cco_successful_tasks = 0, cco_failed_tasks = 0,
               cco_last_observed_at = now\<rparr>
   | Some confidence \<Rightarrow> confidence)"

definition record_capability_challenge :: "LocalSecurityState \<Rightarrow> NodeId \<Rightarrow> BackendKind \<Rightarrow> bool \<Rightarrow> u64 \<Rightarrow> LocalSecurityState" where
  "record_capability_challenge s peer backend success now =
    (let old = confidence_entry s peer backend now;
         counted = (if success then old\<lparr>cco_successful_challenges := sat_add (cco_successful_challenges old) 1\<rparr>
                    else old\<lparr>cco_failed_challenges := sat_add (cco_failed_challenges old) 1\<rparr>);
         s1 = s\<lparr>lss_capabilities := bt_insert (peer, backend) (counted\<lparr>cco_last_observed_at := now\<rparr>) (lss_capabilities s)\<rparr>
     in if \<not> success then event s1 now (Some peer) SK_CapabilityFailed ''capability_challenge''
          ''challenge result did not verify the advertised backend'' else s1)"

definition record_capability_task :: "LocalSecurityState \<Rightarrow> NodeId \<Rightarrow> BackendKind \<Rightarrow> bool \<Rightarrow> u64 \<Rightarrow> LocalSecurityState" where
  "record_capability_task s peer backend success now =
    (let old = confidence_entry s peer backend now;
         counted = (if success then old\<lparr>cco_successful_tasks := sat_add (cco_successful_tasks old) 1\<rparr>
                    else old\<lparr>cco_failed_tasks := sat_add (cco_failed_tasks old) 1\<rparr>)
     in s\<lparr>lss_capabilities := bt_insert (peer, backend) (counted\<lparr>cco_last_observed_at := now\<rparr>) (lss_capabilities s)\<rparr>)"

definition capability_confidence :: "LocalSecurityState \<Rightarrow> NodeId \<Rightarrow> BackendKind \<Rightarrow> CapabilityConfidence option" where
  "capability_confidence s peer backend = bt_get (lss_capabilities s) (peer, backend)"

section \<open>Assessment and critical roles\<close>

definition fresh_observation :: "LocalSecurityState \<Rightarrow> NodeId \<Rightarrow> u64 \<Rightarrow> PeerObservation" where
  "fresh_observation s peer now =
    (let observation = (case bt_get (lss_observations s) peer of
           None \<Rightarrow> \<lparr>pob_direct_successes = 0, pob_direct_failures = 0, pob_last_observed_at = 0\<rparr>
         | Some observation \<Rightarrow> observation)
     in if pob_last_observed_at observation = 0
           \<or> sat_sub now (pob_last_observed_at observation) \<le> spo_direct_observation_ttl_seconds (lss_policy s)
        then observation
        else \<lparr>pob_direct_successes = 0, pob_direct_failures = 0, pob_last_observed_at = pob_last_observed_at observation\<rparr>)"

definition sat_i16 :: "int \<Rightarrow> int" where
  "sat_i16 x = clamp (- 32768) 32767 x"

definition assessment_score :: "PeerObservation \<Rightarrow> int" where
  "assessment_score observation =
    (let positive = sat_i16 (int (unat (min (pob_direct_successes observation) 20)) * 5);
         negative = sat_i16 (int (unat (min (pob_direct_failures observation) 20)) * 12)
     in clamp (- 100) 100 (sat_i16 (positive - negative)))"

definition assessment_maturity :: "PeerObservation \<Rightarrow> bool \<Rightarrow> IdentityMaturity" where
  "assessment_maturity observation quarantined =
    (if quarantined then IM_Quarantined
     else if assessment_score observation < 0 then IM_Degraded
     else if pob_direct_successes observation \<ge> 3 then IM_Established
     else if pob_direct_successes observation > 0 then IM_Observed
     else IM_New)"

fun assessment_reason :: "IdentityMaturity \<Rightarrow> string" where
  "assessment_reason IM_New = ''no direct local observation''"
| "assessment_reason IM_Observed = ''bounded direct observation exists''"
| "assessment_reason IM_Established = ''repeated direct observation exists''"
| "assessment_reason IM_TrustedLocally = ''local trust threshold satisfied''"
| "assessment_reason IM_Degraded = ''recent direct failures outweigh successes''"
| "assessment_reason IM_Quarantined = ''temporary local quarantine is active''"

definition assessment :: "LocalSecurityState \<Rightarrow> NodeId \<Rightarrow> u64 \<Rightarrow> LocalSecurityState \<times> TrustAssessment" where
  "assessment s peer now =
    (let observation = fresh_observation s peer now;
         (s1, quarantined) = is_quarantined s peer now;
         maturity = assessment_maturity observation quarantined
     in (s1, \<lparr>tas_peer = peer, tas_score = assessment_score observation, tas_maturity = maturity,
           tas_direct_successes = pob_direct_successes observation, tas_direct_failures = pob_direct_failures observation,
           tas_quarantined = quarantined, tas_reason = assessment_reason maturity\<rparr>))"

definition requires_observation :: "SecurityPolicy \<Rightarrow> CriticalRole \<Rightarrow> bool" where
  "requires_observation policy role \<longleftrightarrow>
     role \<in> {CR_CheckpointProvider, CR_OptimizerReplica, CR_TensorRecoveryProvider, CR_Aggregator, CR_Evaluator}
     \<and> spo_profile policy \<noteq> SP_Open"

definition eligible_for_critical_role :: "LocalSecurityState \<Rightarrow> NodeId \<Rightarrow> CriticalRole \<Rightarrow> u64 \<Rightarrow> LocalSecurityState \<times> bool" where
  "eligible_for_critical_role s peer role now =
    (case is_quarantined s peer now of
       (s1, True) \<Rightarrow> (s1, False)
     | (s1, False) \<Rightarrow>
         (case assessment s1 peer now of
            (s2, a) \<Rightarrow> (s2,
              (\<not> requires_observation (lss_policy s2) role
                \<or> tas_direct_successes a \<ge> of_nat (spo_min_direct_successes_for_critical_role (lss_policy s2)))
              \<and> tas_direct_failures a \<le> of_nat (spo_max_direct_failures_for_critical_role (lss_policy s2))
              \<and> tas_maturity a \<noteq> IM_Degraded \<and> tas_maturity a \<noteq> IM_Quarantined)))"

section \<open>State claims\<close>

definition claim_signing_bytes :: "('k, 'g) security_crypto \<Rightarrow> SignedStateClaim \<Rightarrow> SecurityError + u8 list" where
  "claim_signing_bytes crypto c = map_err SE_InvalidRecord (sc_encode_claim crypto
     (ssc_signer c, ssc_signer_public_key c, ssc_object c, ssc_job_id c, ssc_branch c, ssc_generation c,
      ssc_sequence c, ssc_digest c, ssc_expires_at c))"

definition verify_claim :: "hash_fn \<Rightarrow> ('k, 'g) security_crypto \<Rightarrow> SignedStateClaim \<Rightarrow> u64 \<Rightarrow> SecurityError + unit" where
  "verify_claim blake3 crypto c now =
    (if ssc_signer c \<noteq> from_public_key blake3 (ssc_signer_public_key c) \<or> ssc_expires_at c < now
        \<or> ssc_object c = [] \<or> length (ssc_object c) > MAX_CLAIM_KEY
     then Inl (SE_InvalidRecord ''claim identity or expiry is invalid'')
     else and_then (claim_signing_bytes crypto c) (\<lambda>bytes.
       case sc_verifying_key crypto (ssc_signer_public_key c) of
         None \<Rightarrow> Inl SE_InvalidEquivocationProof
       | Some key \<Rightarrow> (case sc_signature crypto (ssc_signature c) of
           None \<Rightarrow> Inl SE_InvalidEquivocationProof
         | Some signature \<Rightarrow> err_if (\<not> sc_verify crypto key bytes signature) SE_InvalidEquivocationProof)))"

definition EquivocationProof_verify :: "hash_fn \<Rightarrow> ('k, 'g) security_crypto \<Rightarrow> EquivocationProof \<Rightarrow> u64 \<Rightarrow> bool" where
  "EquivocationProof_verify blake3 crypto p now \<longleftrightarrow>
     ssc_signer (eqp_first p) = ssc_signer (eqp_second p)
     \<and> ssc_signer_public_key (eqp_first p) = ssc_signer_public_key (eqp_second p)
     \<and> ssc_object (eqp_first p) = ssc_object (eqp_second p)
     \<and> ssc_job_id (eqp_first p) = ssc_job_id (eqp_second p)
     \<and> ssc_branch (eqp_first p) = ssc_branch (eqp_second p)
     \<and> ssc_generation (eqp_first p) = ssc_generation (eqp_second p)
     \<and> ssc_sequence (eqp_first p) = ssc_sequence (eqp_second p)
     \<and> ssc_digest (eqp_first p) \<noteq> ssc_digest (eqp_second p)
     \<and> \<not> is_err (verify_claim blake3 crypto (eqp_first p) now)
     \<and> \<not> is_err (verify_claim blake3 crypto (eqp_second p) now)"

text \<open>The eviction of the first key before a claim is inserted into a full map.\<close>

definition make_room :: "('k::linorder, 'v) btree \<Rightarrow> usize \<Rightarrow> ('k, 'v) btree" where
  "make_room m max_claims = (if bt_len m \<ge> max_claims
     then case bt_entries m of [] \<Rightarrow> m | (key, _) # _ \<Rightarrow> bt_remove key m else m)"

definition state_claim_key :: "SignedStateClaim \<Rightarrow> ClaimKey" where
  "state_claim_key c = (ssc_signer c, ssc_object c, ssc_job_id c, ssc_branch c, ssc_generation c, ssc_sequence c)"

definition observe_claim :: "hash_fn \<Rightarrow> ('k, 'g) security_crypto \<Rightarrow> LocalSecurityState \<Rightarrow> SignedStateClaim \<Rightarrow> u64 \<Rightarrow>
    LocalSecurityState \<times> (SecurityError + EquivocationProof option)" where
  "observe_claim blake3 crypto s c now =
    (case verify_claim blake3 crypto c now of
       Inl e \<Rightarrow> (s, Inl e)
     | Inr _ \<Rightarrow>
       if length (ssc_object c) > MAX_CLAIM_KEY \<or> ssc_signer c = filled 0 \<or> ssc_sequence c = 0 \<or> ssc_generation c = 0
          \<or> ssc_digest c = filled 0
       then (s, Inl (SE_InvalidRecord ''state claim bounds are invalid''))
       else case bt_get (lss_claims s) (state_claim_key c) of
         Some previous \<Rightarrow>
           if ssc_digest previous = ssc_digest c then (s, Inr None)
           else let proof = \<lparr>eqp_first = previous, eqp_second = c\<rparr>
             in if \<not> EquivocationProof_verify blake3 crypto proof now then (s, Inl SE_InvalidEquivocationProof)
                else (quarantine s (ssc_signer c) now SK_EquivocationDetected
                        ''two valid signed claims conflict at one generation and sequence'', Inr (Some proof))
       | None \<Rightarrow> (s\<lparr>lss_claims := bt_insert (state_claim_key c) c (make_room (lss_claims s) (spo_max_claims (lss_policy s)))\<rparr>,
                  Inr None))"

definition observe_authenticated_claim :: "LocalSecurityState \<Rightarrow> NodeId \<Rightarrow> string \<Rightarrow> JobId option \<Rightarrow> ArtifactId option \<Rightarrow>
    u64 \<Rightarrow> u64 \<Rightarrow> ArtifactId \<Rightarrow> u64 \<Rightarrow> LocalSecurityState \<times> (SecurityError + bool)" where
  "observe_authenticated_claim s signer object job_id branch generation sequence digest now =
    (if signer = filled 0 \<or> object = [] \<or> length object > MAX_CLAIM_KEY \<or> generation = 0 \<or> sequence = 0 \<or> digest = filled 0
     then (event s now (Some signer) SK_InvalidStateRejected ''authenticated_claim'' ''state claim bounds are invalid'',
           Inl (SE_InvalidRecord ''authenticated state claim bounds are invalid''))
     else let key = (signer, object, job_id, branch, generation, sequence)
       in case bt_get (lss_authenticated_claims s) key of
         Some previous \<Rightarrow>
           if previous = digest then (s, Inr False)
           else (quarantine s signer now SK_EquivocationDetected
                   ''authenticated peer sent conflicting state for one generation and sequence'',
                 Inl SE_TrainingEquivocation)
       | None \<Rightarrow> (s\<lparr>lss_authenticated_claims := bt_insert key digest
                      (make_room (lss_authenticated_claims s) (spo_max_claims (lss_policy s)))\<rparr>, Inr True))"

section \<open>Selection of evaluators\<close>

record EvaluatorCandidate =
  evc_node :: NodeId
  evc_maturity :: IdentityMaturity
  evc_direct_successes :: u32
  evc_source_group :: u16

record EvaluatorSelection =
  evs_selected :: "NodeId list"
  evs_source_groups :: usize
  evs_rejected :: "NodeId list"

definition deterministic_rank :: "hash_fn \<Rightarrow> u64 \<Rightarrow> NodeId \<Rightarrow> u64" where
  "deterministic_rank blake3 seed node = from_le_bytes (take 8 (as_bytes (blake3 (to_le_bytes 8 seed @ as_bytes node))))"

definition unfit :: "EvaluatorCandidate \<Rightarrow> bool" where
  "unfit candidate \<longleftrightarrow> evc_maturity candidate \<in> {IM_Degraded, IM_Quarantined}"

definition evaluator_order :: "hash_fn \<Rightarrow> u64 \<Rightarrow> EvaluatorCandidate \<Rightarrow> int \<times> u64 \<times> int \<times> NodeId" where
  "evaluator_order blake3 seed c = (- int (maturity_rank (evc_maturity c)), deterministic_rank blake3 seed (evc_node c),
     - int (unat (min (evc_direct_successes c) 3)), evc_node c)"

fun pick_diverse :: "usize \<Rightarrow> usize \<Rightarrow> NodeId list \<times> (u16, usize) btree \<Rightarrow> EvaluatorCandidate list \<Rightarrow>
    NodeId list \<times> (u16, usize) btree" where
  "pick_diverse wanted max_per_source_group acc [] = acc"
| "pick_diverse wanted max_per_source_group (selected, group_counts) (c # cs) =
    (if length selected \<ge> wanted then (selected, group_counts)
     else let count_for_group = (case bt_get group_counts (evc_source_group c) of None \<Rightarrow> 0 | Some n \<Rightarrow> n)
       in if count_for_group \<ge> max max_per_source_group 1
          then pick_diverse wanted max_per_source_group (selected, group_counts) cs
          else pick_diverse wanted max_per_source_group
            (selected @ [evc_node c], bt_insert (evc_source_group c) (count_for_group + 1) group_counts) cs)"

fun pick_remaining :: "usize \<Rightarrow> NodeId list \<Rightarrow> EvaluatorCandidate list \<Rightarrow> NodeId list" where
  "pick_remaining wanted selected [] = selected"
| "pick_remaining wanted selected (c # cs) =
    (if length selected \<ge> wanted then selected
     else if evc_node c \<notin> set selected then pick_remaining wanted (selected @ [evc_node c]) cs
     else pick_remaining wanted selected cs)"

definition select_evaluators :: "hash_fn \<Rightarrow> EvaluatorCandidate list \<Rightarrow> usize \<Rightarrow> u64 \<Rightarrow> usize \<Rightarrow> EvaluatorSelection" where
  "select_evaluators blake3 candidates wanted seed max_per_source_group =
    (let ordered = sort_key (evaluator_order blake3 seed) (filter (\<lambda>c. \<not> unfit c) candidates);
         (diverse, group_counts) = pick_diverse wanted max_per_source_group ([], bt_new) ordered;
         selected = pick_remaining wanted diverse ordered
     in \<lparr>evs_selected = selected, evs_source_groups = bt_len group_counts,
         evs_rejected = map evc_node (filter unfit candidates)
           @ map evc_node (filter (\<lambda>c. evc_node c \<notin> set selected) ordered)\<rparr>)"

section \<open>The operations as a transition system\<close>

datatype security_op =
    RecordEvent u64 "NodeId option" SecurityEventKind string string
  | IsQuarantined NodeId u64
  | ObserveContext TrainingContext u64
  | AdmitUpdate TrainingContribution "NodeId list" u64
  | DirectObservation NodeId bool u64
  | CapabilityChallenge NodeId BackendKind bool u64
  | CapabilityTask NodeId BackendKind bool u64
  | Assess NodeId u64
  | CriticalRole NodeId CriticalRole u64
  | ObserveClaim SignedStateClaim u64
  | ObserveAuthenticatedClaim NodeId string "JobId option" "ArtifactId option" u64 u64 ArtifactId u64

fun security_step :: "hash_fn \<Rightarrow> ('k, 'g) security_crypto \<Rightarrow> security_op \<Rightarrow> LocalSecurityState \<Rightarrow> LocalSecurityState" where
  "security_step blake3 crypto (RecordEvent now subject k scope detail) s = record_event s now subject k scope detail"
| "security_step blake3 crypto (IsQuarantined peer now) s = fst (is_quarantined s peer now)"
| "security_step blake3 crypto (ObserveContext context now) s = fst (observe_context s context now)"
| "security_step blake3 crypto (AdmitUpdate c members now) s = fst (admit_training_update blake3 crypto s c members now)"
| "security_step blake3 crypto (DirectObservation peer success now) s = record_direct_observation s peer success now"
| "security_step blake3 crypto (CapabilityChallenge peer backend success now) s =
     record_capability_challenge s peer backend success now"
| "security_step blake3 crypto (CapabilityTask peer backend success now) s = record_capability_task s peer backend success now"
| "security_step blake3 crypto (Assess peer now) s = fst (assessment s peer now)"
| "security_step blake3 crypto (CriticalRole peer role now) s = fst (eligible_for_critical_role s peer role now)"
| "security_step blake3 crypto (ObserveClaim c now) s = fst (observe_claim blake3 crypto s c now)"
| "security_step blake3 crypto (ObserveAuthenticatedClaim signer object job branch generation sequence digest now) s =
     fst (observe_authenticated_claim s signer object job branch generation sequence digest now)"

fun op_time :: "security_op \<Rightarrow> u64" where
  "op_time (RecordEvent now _ _ _ _) = now"
| "op_time (IsQuarantined _ now) = now"
| "op_time (ObserveContext _ now) = now"
| "op_time (AdmitUpdate _ _ now) = now"
| "op_time (DirectObservation _ _ now) = now"
| "op_time (CapabilityChallenge _ _ _ now) = now"
| "op_time (CapabilityTask _ _ _ now) = now"
| "op_time (Assess _ now) = now"
| "op_time (CriticalRole _ _ now) = now"
| "op_time (ObserveClaim _ now) = now"
| "op_time (ObserveAuthenticatedClaim _ _ _ _ _ _ _ now) = now"

text \<open>Texts of one-byte characters, as all callers pass them.\<close>

definition ascii :: "string \<Rightarrow> bool" where
  "ascii s \<longleftrightarrow> list_all (\<lambda>c. \<not> is_continuation c) s"

fun ascii_op :: "security_op \<Rightarrow> bool" where
  "ascii_op (RecordEvent _ _ _ scope detail) \<longleftrightarrow> ascii scope \<and> ascii detail"
| "ascii_op _ \<longleftrightarrow> True"

section \<open>Lemmas on the parts\<close>

lemma take_chars_ascii: "ascii s \<Longrightarrow> take_chars n s = take n s"
proof (induction n s rule: take_chars.induct)
  case (3 n c cs)
  then have "takeWhile is_continuation cs = []" "dropWhile is_continuation cs = cs"
    by (cases cs; simp add: ascii_def)+
  with 3 show ?case by (simp add: ascii_def)
qed simp_all

lemma length_truncate_text: "ascii s \<Longrightarrow> length (truncate_text s n) \<le> n"
  by (simp add: truncate_text_def take_chars_ascii)

lemma ascii_texts [simp]:
  "ascii ''quarantine''" "ascii ''training_context''" "ascii ''training_update''" "ascii ''direct_observation''"
  "ascii ''capability_challenge''" "ascii ''authenticated_claim''"
  "ascii ''local quarantine applied; no network-wide ban was published''"
  "ascii ''zero or missing lineage field''" "ascii ''older plan or model generation''"
  "ascii ''conflicting branch at the same generation''" "ascii ''older generation or sequence''"
  "ascii ''same contribution sequence carried different values''"
  "ascii ''worker is outside the authenticated job membership''"
  "ascii ''lineage, vector, or magnitude bound failed''" "ascii ''same signed contribution was submitted twice''"
  "ascii ''worker is locally quarantined''" "ascii ''direct job observation failed''"
  "ascii ''challenge result did not verify the advertised backend''"
  "ascii ''two valid signed claims conflict at one generation and sequence''"
  "ascii ''state claim bounds are invalid''"
  "ascii ''authenticated peer sent conflicting state for one generation and sequence''"
  by code_simp+

lemma event_fields [simp]:
  "lss_local_node (event s t subj k sc d) = lss_local_node s" "lss_policy (event s t subj k sc d) = lss_policy s"
  "lss_replay (event s t subj k sc d) = lss_replay s" "lss_rejected_replay (event s t subj k sc d) = lss_rejected_replay s"
  "lss_latest (event s t subj k sc d) = lss_latest s" "lss_contexts (event s t subj k sc d) = lss_contexts s"
  "lss_claims (event s t subj k sc d) = lss_claims s"
  "lss_authenticated_claims (event s t subj k sc d) = lss_authenticated_claims s"
  "lss_quarantined (event s t subj k sc d) = lss_quarantined s"
  "lss_observations (event s t subj k sc d) = lss_observations s"
  by (simp_all add: event_def Let_def)

lemma bound_map_len: "0 < n \<Longrightarrow> bt_len (bound_map m n) < n"
  by (induction m n rule: bound_map.induct)
    (subst bound_map.simps, auto simp: bt_len_def split: list.splits)

lemma bound_map_sub: "bt_get (bound_map m n) k = Some v \<Longrightarrow> bt_get m k = Some v"
proof (induction m n rule: bound_map.induct)
  case (1 m n)
  show ?case
  proof (cases "n \<le> bt_len m \<and> bt_entries m \<noteq> []")
    case True
    then obtain key w es where first: "bt_entries m = (key, w) # es" by (cases "bt_entries m") auto
    with True "1.prems" have "bt_get (bound_map (bt_remove key m) n) k = Some v"
      by (simp add: bound_map.simps [of m n])
    then have "bt_get (bt_remove key m) k = Some v" using "1.IH" True first by simp
    then show ?thesis by (simp split: if_splits)
  next
    case False
    with "1.prems" show ?thesis by (auto simp: bound_map.simps [of m n] split: if_splits)
  qed
qed

lemma bound_map_id: "bt_len m < n \<Longrightarrow> bound_map m n = m"
  by (simp add: bound_map.simps)

lemma make_room_len: "bt_len m \<le> n \<Longrightarrow> 0 < n \<Longrightarrow> bt_len (make_room m n) < n"
  by (auto simp: make_room_def bt_first bt_len_0_iff [symmetric] split: list.splits)

end
