(* ===== verification/Compute.thy ===== *)
theory Compute
  imports Security_Types
begin

text \<open>
  The compute boundary of \<^verbatim>\<open>intelligence/src/compute.rs\<close>: the checks of a task, the reference CPU backend with its
  queue and memory reservations, and the registry with health, challenges and evidence. The accelerator backends
  exist only in builds with their feature enabled and call drivers; the registry of the default build holds the CPU
  backend. Integer overflow in an unchecked operation is the wrap-around of a release build.
\<close>

section \<open>Tasks\<close>

definition MAX_TASK_ELEMENTS :: u64 where "MAX_TASK_ELEMENTS = 128 * 128"
definition MAX_TASK_BYTES :: u64 where "MAX_TASK_BYTES = 8 * 1024 * 1024"
definition MAX_QUEUE :: u16 where "MAX_QUEUE = 32"

datatype ComputeOperation =
    MatrixVector u16 u16
  | MatrixTransposeVector u16 u16
  | Affine i64 i64
  | Gradient i64
  | ElementwiseMultiply
  | Challenge

record ComputeTask =
  cta_operation :: ComputeOperation
  cta_requirements :: ComputeRequirements
  cta_input_elements :: u64
  cta_output_elements :: u64
  cta_graph_generation :: u64
  cta_model_generation :: u64
  cta_shard_id :: u16
  cta_deadline_ms :: u32

record ComputeInput =
  cin_values :: "i64 list"
  cin_format :: NumericFormat

record PreparedTask =
  prt_task :: ComputeTask
  prt_backend :: BackendKind
  prt_reserved_bytes :: u64

record ComputeOutput =
  cou_values :: "i64 list"
  cou_format :: NumericFormat
  cou_backend :: BackendKind
  cou_elapsed_micros :: u64
  cou_converted :: bool

datatype ComputeError =
    CE_Unavailable
  | CE_Unsupported
  | CE_InvalidTask string
  | CE_OutOfMemory
  | CE_QueueFull
  | CE_Timeout
  | CE_NativeFailure string
  | CE_Overflow

fun ComputeError_to_string :: "ComputeError \<Rightarrow> string" where
  "ComputeError_to_string CE_Unavailable = ''backend is unavailable''"
| "ComputeError_to_string CE_Unsupported = ''backend does not support the requested task''"
| "ComputeError_to_string (CE_InvalidTask m) = ''compute task is malformed: '' @ m"
| "ComputeError_to_string CE_OutOfMemory = ''compute task exceeds safe memory''"
| "ComputeError_to_string CE_QueueFull = ''compute task queue is full''"
| "ComputeError_to_string CE_Timeout = ''compute task timed out''"
| "ComputeError_to_string (CE_NativeFailure m) = ''native backend failed: '' @ m"
| "ComputeError_to_string CE_Overflow = ''checked arithmetic overflow''"

definition checked_add :: "u64 \<Rightarrow> u64 \<Rightarrow> ComputeError + u64" where
  "checked_add a b = (if unat a + unat b < 2 ^ 64 then Inr (a + b) else Inl CE_Overflow)"

definition checked_mul :: "u64 \<Rightarrow> u64 \<Rightarrow> ComputeError + u64" where
  "checked_mul a b = (if unat a * unat b < 2 ^ 64 then Inr (a * b) else Inl CE_Overflow)"

definition apply_memory_share :: "u64 \<Rightarrow> u64 option \<Rightarrow> u64 \<times> bool" where
  "apply_memory_share available_bytes shared_bytes = (case shared_bytes of
     Some limit \<Rightarrow> if limit = 0 then (1, False) else (max (min available_bytes limit) 1, True)
   | None \<Rightarrow> (max available_bytes 1, True))"

definition checked_elements :: "u64 \<Rightarrow> ComputeError + u64" where
  "checked_elements elements =
    (if elements = 0 \<or> elements > MAX_TASK_ELEMENTS
     then Inl (CE_InvalidTask ''tensor element count is outside the bounded task limit'')
     else checked_mul elements 8)"

fun operation_shape :: "ComputeOperation \<Rightarrow> u64 \<Rightarrow> u64 \<Rightarrow> ComputeError + unit" where
  "operation_shape (MatrixVector rows cols) input_elements output_elements =
     err_if (rows = 0 \<or> cols = 0 \<or> ucast cols \<noteq> input_elements \<or> ucast rows \<noteq> output_elements)
       (CE_InvalidTask ''matrix-vector shape does not match task metadata'')"
| "operation_shape (MatrixTransposeVector rows cols) input_elements output_elements =
     err_if (rows = 0 \<or> cols = 0 \<or> ucast rows \<noteq> input_elements \<or> ucast cols \<noteq> output_elements)
       (CE_InvalidTask ''transposed matrix-vector shape does not match task metadata'')"
| "operation_shape (Affine _ _) input_elements output_elements =
     err_if (input_elements \<noteq> output_elements) (CE_InvalidTask ''elementwise shape does not match task metadata'')"
| "operation_shape (Gradient _) input_elements output_elements =
     err_if (input_elements \<noteq> output_elements) (CE_InvalidTask ''elementwise shape does not match task metadata'')"
| "operation_shape ElementwiseMultiply _ _ = Ok"
| "operation_shape Challenge _ _ = Ok"

definition validate_task_shape :: "ComputeTask \<Rightarrow> ComputeError + unit" where
  "validate_task_shape task =
    (if cta_graph_generation task = 0 \<or> cta_model_generation task = 0 \<or> cta_deadline_ms task = 0
        \<or> cta_deadline_ms task > 120000 \<or> cr_required_memory_bytes (cta_requirements task) = 0
     then Inl (CE_InvalidTask ''generation, deadline, or memory requirement is invalid'')
     else and_then (checked_elements (cta_input_elements task)) (\<lambda>input_bytes.
          and_then (checked_elements (cta_output_elements task)) (\<lambda>output_bytes.
          and_then (and_then (checked_add input_bytes output_bytes)
              (\<lambda>value. checked_add value (cr_required_memory_bytes (cta_requirements task)))) (\<lambda>all_bytes.
          if all_bytes > MAX_TASK_BYTES then Inl CE_OutOfMemory
          else operation_shape (cta_operation task) (cta_input_elements task) (cta_output_elements task)))))"

definition safe_memory :: "BackendCapabilities \<Rightarrow> u64" where
  "safe_memory c = sat_mul (bc_available_memory_bytes c) (ucast (sat_sub 1000 (bc_safety_margin_permille c))) div 1000"

definition validate_requirements :: "BackendCapabilities \<Rightarrow> ComputeTask \<Rightarrow> ComputeError + unit" where
  "validate_requirements c task =
    (let r = cta_requirements task in all_ok [
     validate_task_shape task,
     err_if (\<not> bc_runtime_available c \<or> bc_health c = BH_Unavailable) CE_Unavailable,
     err_if (cr_required_backend r \<noteq> Some (bc_kind c) \<and> bc_kind c \<notin> set (cr_allowed_backends r)) CE_Unsupported,
     err_if (cr_required_memory_bytes r > safe_memory c
       \<or> sat_add (cta_input_elements task) (cta_output_elements task) > bc_max_tensor_elements c
       \<or> (\<exists>format\<in>set (cr_required_formats r). format \<notin> set (bc_formats c))
       \<or> (\<exists>feature\<in>set (cr_required_features r). feature \<notin> set (bc_features c))) CE_Unsupported])"

section \<open>The CPU backend\<close>

record CpuBackend =
  cpu_capabilities :: BackendCapabilities
  cpu_queued :: u16
  cpu_reserved_bytes :: u64

text \<open>\<open>device_memory\<close> is what the host reports and \<open>arch\<close> the architecture of the build.\<close>

definition CpuBackend_new :: "u64 \<Rightarrow> string \<Rightarrow> u64 option \<Rightarrow> CpuBackend" where
  "CpuBackend_new device_memory arch shared_memory_bytes =
    (case apply_memory_share device_memory shared_memory_bytes of (available_memory, sharing_enabled) \<Rightarrow>
     \<lparr>cpu_capabilities = \<lparr>bc_kind = BK_Cpu, bc_runtime_version = ''native-reference-1'', bc_device_count = 1,
        bc_device_memory_bytes = device_memory, bc_available_memory_bytes = available_memory, bc_formats = [NF_F32],
        bc_max_tensor_elements = MAX_TASK_ELEMENTS,
        bc_features = [CF_MatrixMultiply, CF_TensorParallel, CF_PipelineStage, CF_DeterministicKernel],
        bc_device_architecture = Some arch, bc_driver_available = True, bc_runtime_available = sharing_enabled,
        bc_peer_to_peer = False, bc_unified_memory = True, bc_max_concurrent_tasks = 2, bc_safety_margin_permille = 100,
        bc_health = (if sharing_enabled then BH_Ready else BH_Unavailable), bc_physical_verified = True,
        bc_observed_successes = 0, bc_observed_failures = 0\<rparr>,
      cpu_queued = 0, cpu_reserved_bytes = 0\<rparr>)"

definition cpu_prepare :: "CpuBackend \<Rightarrow> ComputeTask \<Rightarrow> CpuBackend \<times> (ComputeError + PreparedTask)" where
  "cpu_prepare b task =
    (case and_then (validate_requirements (cpu_capabilities b) task) (\<lambda>_.
        and_then (checked_add (cta_input_elements task) (cta_output_elements task)) (\<lambda>elements.
        and_then (checked_mul elements 8) (\<lambda>bytes.
        checked_add (cr_required_memory_bytes (cta_requirements task)) bytes))) of
       Inl e \<Rightarrow> (b, Inl e)
     | Inr reserved_bytes \<Rightarrow>
         if sat_add (cpu_reserved_bytes b) reserved_bytes > safe_memory (cpu_capabilities b) then (b, Inl CE_OutOfMemory)
         else if cpu_queued b \<ge> sat_add (bc_max_concurrent_tasks (cpu_capabilities b)) MAX_QUEUE then (b, Inl CE_QueueFull)
         else (b\<lparr>cpu_queued := sat_add (cpu_queued b) 1, cpu_reserved_bytes := sat_add (cpu_reserved_bytes b) reserved_bytes\<rparr>,
               Inr \<lparr>prt_task = task, prt_backend = BK_Cpu, prt_reserved_bytes = reserved_bytes\<rparr>))"

abbreviation value_clamp :: "int \<Rightarrow> i64" where
  "value_clamp \<equiv> clamp (- 1000000000) 1000000000"

definition sat_mul_i64 :: "i64 \<Rightarrow> i64 \<Rightarrow> i64" where
  "sat_mul_i64 a b = clamp_i64 (a * b)"

text \<open>\<^verbatim>\<open>sum::<i64>()\<close> adds from the left and wraps at each step.\<close>

definition wrapping_sum :: "i64 list \<Rightarrow> i64" where
  "wrapping_sum vals = fold (\<lambda>v total. wrap_i64 (total + v)) vals 0"

text \<open>
  The product \<^verbatim>\<open>rows * cols\<close> of the buffer check is one of \<^verbatim>\<open>u16\<close>. A shape whose product does not fit panics in a
  debug build; in a release build the buffer is compared with the wrapped product, and indexing past its end panics.
\<close>

fun run_operation :: "ComputeOperation \<Rightarrow> i64 list list \<Rightarrow> ComputeError + i64 list" where
  "run_operation (MatrixVector rows cols) inputs = (case inputs of
     [weights, input] \<Rightarrow>
       if length weights \<noteq> unat (rows * cols) \<or> length input \<noteq> unat cols
       then Inl (CE_InvalidTask ''matrix-vector buffers do not match checked dimensions'')
       else Inr (map (\<lambda>row. value_clamp (sum_list (map2 (*) (take (unat cols) (drop (row * unat cols) weights)) input)))
              [0..<unat rows])
   | _ \<Rightarrow> Inl (CE_InvalidTask ''matrix-vector buffers do not match checked dimensions''))"
| "run_operation (MatrixTransposeVector rows cols) inputs = (case inputs of
     [weights, upstream] \<Rightarrow>
       if length weights \<noteq> unat (rows * cols) \<or> length upstream \<noteq> unat rows
       then Inl (CE_InvalidTask ''transposed matrix-vector buffers do not match checked dimensions'')
       else Inr (map (\<lambda>col. wrapping_sum (map (\<lambda>row. sat_mul_i64 (weights ! (row * unat cols + col)) (upstream ! row))
              [0..<unat rows])) [0..<unat cols])
   | _ \<Rightarrow> Inl (CE_InvalidTask ''transposed matrix-vector buffers do not match checked dimensions''))"
| "run_operation (Affine coefficient bias) inputs = (case inputs of
     [input] \<Rightarrow> Inr (map (\<lambda>value. value_clamp (value * coefficient + bias)) input)
   | _ \<Rightarrow> Inl (CE_InvalidTask ''affine task requires one input''))"
| "run_operation (Gradient coefficient) inputs = (case inputs of
     [input] \<Rightarrow> Inr (map (\<lambda>value. value_clamp (value * coefficient)) input)
   | _ \<Rightarrow> Inl (CE_InvalidTask ''gradient task requires one input''))"
| "run_operation ElementwiseMultiply inputs = (case inputs of
     [left, right] \<Rightarrow>
       if length left \<noteq> length right then Inl (CE_InvalidTask ''elementwise multiply buffers do not match'')
       else Inr (map2 sat_mul_i64 left right)
   | _ \<Rightarrow> Inl (CE_InvalidTask ''elementwise multiply buffers do not match''))"
| "run_operation Challenge inputs = (case inputs of
     [input] \<Rightarrow> Inr (map (\<lambda>value. clamp_i64 (sat_mul_i64 value 2 + 1)) input)
   | _ \<Rightarrow> Inl (CE_InvalidTask ''challenge task requires one input''))"

text \<open>\<open>elapsed\<close> is the time the operation took, in microseconds.\<close>

definition cpu_execute :: "u64 \<Rightarrow> CpuBackend \<Rightarrow> PreparedTask \<Rightarrow> ComputeInput list \<Rightarrow> CpuBackend \<times> (ComputeError + ComputeOutput)" where
  "cpu_execute elapsed b prepared inputs =
    (if \<exists>input\<in>set inputs. cin_format input \<noteq> NF_F32 then (b, Inl CE_Unsupported)
     else case run_operation (cta_operation (prt_task prepared)) (map cin_values inputs) of
       Inl e \<Rightarrow> (b, Inl e)
     | Inr vals \<Rightarrow> (b\<lparr>cpu_queued := sat_sub (cpu_queued b) 1,
                      cpu_reserved_bytes := sat_sub (cpu_reserved_bytes b) (prt_reserved_bytes prepared)\<rparr>,
         Inr \<lparr>cou_values = vals, cou_format = NF_F32, cou_backend = BK_Cpu, cou_elapsed_micros = max elapsed 1,
              cou_converted = False\<rparr>))"

definition cpu_synchronize :: "CpuBackend \<Rightarrow> CpuBackend" where
  "cpu_synchronize b = b\<lparr>cpu_queued := 0, cpu_reserved_bytes := 0\<rparr>"

section \<open>The registry\<close>

record BackendRegistry =
  br_backends :: "(BackendKind, CpuBackend) btree"
  br_evidence :: "(BackendKind, CapabilityEvidenceRecord) btree"
  br_health_overrides :: "(BackendKind, BackendHealth) btree"

definition register_backend :: "CpuBackend \<Rightarrow> BackendRegistry \<Rightarrow> BackendRegistry" where
  "register_backend b r = r\<lparr>br_health_overrides := bt_remove (bc_kind (cpu_capabilities b)) (br_health_overrides r),
     br_backends := bt_insert (bc_kind (cpu_capabilities b)) b (br_backends r)\<rparr>"

definition discover_with_memory_shares :: "u64 \<Rightarrow> string \<Rightarrow> u64 option \<Rightarrow> BackendRegistry" where
  "discover_with_memory_shares device_memory arch shared_ram_bytes =
     register_backend (CpuBackend_new device_memory arch shared_ram_bytes)
       \<lparr>br_backends = bt_new, br_evidence = bt_new, br_health_overrides = bt_new\<rparr>"

definition registry_capability :: "BackendRegistry \<Rightarrow> CpuBackend \<Rightarrow> BackendCapabilities" where
  "registry_capability r b =
    (let c = cpu_capabilities b;
         c = (case bt_get (br_health_overrides r) (bc_kind c) of
                None \<Rightarrow> c
              | Some health \<Rightarrow> c\<lparr>bc_health := health,
                  bc_runtime_available := (if health = BH_Unavailable then False else bc_runtime_available c)\<rparr>)
     in case bt_get (br_evidence r) (bc_kind c) of
          None \<Rightarrow> c
        | Some evidence \<Rightarrow> c\<lparr>bc_observed_successes := cer_successful_challenges evidence,
            bc_observed_failures := cer_failed_challenges evidence\<rparr>)"

definition registry_capabilities :: "BackendRegistry \<Rightarrow> BackendCapabilities list" where
  "registry_capabilities r = sort_key (\<lambda>c. backend_rank (bc_kind c)) (map (registry_capability r) (bt_values (br_backends r)))"

definition advertised_capabilities :: "BackendRegistry \<Rightarrow> BackendCapabilities list" where
  "advertised_capabilities r =
     filter (\<lambda>c. bc_runtime_available c \<and> bc_health c \<noteq> BH_Unavailable) (registry_capabilities r)"

definition registry_health :: "BackendRegistry \<Rightarrow> BackendKind \<Rightarrow> BackendHealth" where
  "registry_health r which = (case bt_get (br_health_overrides r) which of
     Some health \<Rightarrow> health
   | None \<Rightarrow> (case bt_get (br_backends r) which of
       Some b \<Rightarrow> bc_health (cpu_capabilities b) | None \<Rightarrow> BH_Unavailable))"

definition set_health :: "BackendKind \<Rightarrow> BackendHealth \<Rightarrow> BackendRegistry \<Rightarrow> BackendRegistry" where
  "set_health which health r = r\<lparr>br_health_overrides := bt_insert which health (br_health_overrides r)\<rparr>"

definition registry_synchronize :: "BackendKind \<Rightarrow> BackendRegistry \<Rightarrow> BackendRegistry \<times> (ComputeError + unit)" where
  "registry_synchronize which r = (case bt_get (br_backends r) which of
     None \<Rightarrow> (r, Inl CE_Unavailable)
   | Some b \<Rightarrow> (r\<lparr>br_backends := bt_insert which (cpu_synchronize b) (br_backends r)\<rparr>, Inr ()))"

definition backend_fault :: "ComputeError + 'a \<Rightarrow> bool" where
  "backend_fault result = (case result of
     Inl CE_Unavailable \<Rightarrow> True | Inl (CE_NativeFailure _) \<Rightarrow> True | Inl CE_OutOfMemory \<Rightarrow> True | Inl CE_Timeout \<Rightarrow> True
   | _ \<Rightarrow> False)"

text \<open>A prepared task runs, is measured against its deadline, and releases its reservation.\<close>

definition run_prepared :: "u64 \<Rightarrow> CpuBackend \<Rightarrow> PreparedTask \<Rightarrow> ComputeInput list \<Rightarrow> CpuBackend \<times> (ComputeError + ComputeOutput)" where
  "run_prepared elapsed b prepared inputs =
    (case cpu_execute elapsed b prepared inputs of
       (b, Inl e) \<Rightarrow> (cpu_synchronize b, Inl e)
     | (b, Inr output) \<Rightarrow>
         if cou_elapsed_micros output > sat_mul (ucast (cta_deadline_ms (prt_task prepared))) 1000
         then (cpu_synchronize b, Inl CE_Timeout) else (b, Inr output))"

definition registry_execute :: "u64 \<Rightarrow> BackendKind \<Rightarrow> ComputeTask \<Rightarrow> ComputeInput list \<Rightarrow> BackendRegistry \<Rightarrow>
    BackendRegistry \<times> (ComputeError + ComputeOutput)" where
  "registry_execute elapsed which task inputs r =
    (if registry_health r which = BH_Unavailable then (r, Inl CE_Unavailable)
     else case bt_get (br_backends r) which of
       None \<Rightarrow> (r, Inl CE_Unavailable)
     | Some b \<Rightarrow>
         (case validate_requirements (cpu_capabilities b) task of
            Inl e \<Rightarrow> (r, Inl e)
          | Inr _ \<Rightarrow>
              (case cpu_prepare b task of
                 (b, Inl e) \<Rightarrow> (r\<lparr>br_backends := bt_insert which b (br_backends r)\<rparr>, Inl e)
               | (b, Inr prepared) \<Rightarrow>
                   (case run_prepared elapsed b prepared inputs of (b, result) \<Rightarrow>
                      (r\<lparr>br_backends := bt_insert which b (br_backends r),
                         br_health_overrides := (if backend_fault result
                           then bt_insert which BH_Unavailable (br_health_overrides r) else br_health_overrides r)\<rparr>, result)))))"

section \<open>Challenges\<close>

definition seed_as_i64 :: "u64 \<Rightarrow> i64" where
  "seed_as_i64 seed = sint seed"

definition challenge_elements :: "CapabilityChallenge \<Rightarrow> u32" where
  "challenge_elements c = max (min (cc_input_elements c) (ucast MAX_TASK_ELEMENTS)) 1"

definition challenge_task :: "CapabilityChallenge \<Rightarrow> ComputeTask" where
  "challenge_task c =
    (let n = challenge_elements c
     in \<lparr>cta_operation = Challenge,
         cta_requirements = \<lparr>cr_task_kind = CT_CapabilityChallenge, cr_required_backend = Some (cc_backend c),
           cr_allowed_backends = [cc_backend c], cr_required_formats = [cc_format c],
           cr_required_memory_bytes = sat_mul (ucast n) 8, cr_max_tensor_elements = ucast n,
           cr_required_features = [CF_DeterministicKernel], cr_kernel_id = ''v5.capability.challenge.v1'',
           cr_kernel_version = 1, cr_fallback_backends = [], cr_fallback_allowed = False\<rparr>,
         cta_input_elements = ucast n, cta_output_elements = ucast n, cta_graph_generation = 1, cta_model_generation = 1,
         cta_shard_id = 0, cta_deadline_ms = cc_deadline_ms c\<rparr>)"

definition challenge_input :: "CapabilityChallenge \<Rightarrow> i64 list" where
  "challenge_input c = map (\<lambda>index. wrap_i64 (seed_as_i64 (cc_seed c) + int index)) [0..<unat (challenge_elements c)]"

definition challenge_expected :: "CapabilityChallenge \<Rightarrow> i64 list" where
  "challenge_expected c = map (\<lambda>index. clamp_i64 (sat_mul_i64 (wrap_i64 (seed_as_i64 (cc_seed c) + int index)) 2 + 1))
     [0..<unat (challenge_elements c)]"

definition i64_le_bytes :: "i64 \<Rightarrow> u8 list" where
  "i64_le_bytes value = to_le_bytes 8 (word_of_int value :: u64)"

definition challenge_result :: "hash_fn \<Rightarrow> u64 \<Rightarrow> CapabilityChallenge \<Rightarrow> ComputeError + ComputeOutput \<Rightarrow> BackendHealth \<Rightarrow> CapabilityChallengeResult" where
  "challenge_result blake3 elapsed c result health =
    (let bytes = sat_mul (ucast (challenge_elements c)) 8;
         base = \<lparr>ccr_challenge_id = cc_challenge_id c, ccr_worker = cc_worker c, ccr_backend = cc_backend c,
           ccr_success = False, ccr_output_hash = filled 0, ccr_elapsed_micros = max elapsed 1, ccr_allocated_bytes = bytes,
           ccr_health = health, ccr_error = None\<rparr>
     in case result of
          Inr output \<Rightarrow>
            if cou_values output \<noteq> challenge_expected c
            then base\<lparr>ccr_error := Some ''capability challenge output mismatch''\<rparr>
            else base\<lparr>ccr_success := True, ccr_output_hash := blake3 (concat (map i64_le_bytes (cou_values output)))\<rparr>
        | Inl e \<Rightarrow> base\<lparr>ccr_allocated_bytes := 0, ccr_error := Some (ComputeError_to_string e)\<rparr>)"

definition record_challenge :: "CapabilityChallenge \<Rightarrow> u64 \<Rightarrow> CapabilityChallengeResult \<Rightarrow> BackendRegistry \<Rightarrow> BackendRegistry" where
  "record_challenge c now_secs result r =
    (let entry = (case bt_get (br_evidence r) (cc_backend c) of
           Some entry \<Rightarrow> entry
         | None \<Rightarrow> \<lparr>cer_worker = cc_worker c, cer_backend = cc_backend c, cer_observed_at = now_secs,
             cer_successful_challenges = 0, cer_failed_challenges = 0, cer_successful_tasks = 0, cer_failed_tasks = 0,
             cer_last_throughput_micros = 1, cer_last_error = None\<rparr>);
         entry = entry\<lparr>cer_observed_at := now_secs, cer_last_throughput_micros := ccr_elapsed_micros result\<rparr>;
         entry = (if ccr_success result
           then entry\<lparr>cer_successful_challenges := sat_add (cer_successful_challenges entry) 1, cer_last_error := None\<rparr>
           else entry\<lparr>cer_failed_challenges := sat_add (cer_failed_challenges entry) 1, cer_last_error := ccr_error result\<rparr>)
     in r\<lparr>br_evidence := bt_insert (cc_backend c) entry (br_evidence r)\<rparr>)"

text \<open>\<open>task_elapsed\<close> is the time of the operation, \<open>elapsed\<close> that of the whole challenge.\<close>

definition registry_challenge :: "hash_fn \<Rightarrow> u64 \<Rightarrow> u64 \<Rightarrow> CapabilityChallenge \<Rightarrow> u64 \<Rightarrow> BackendRegistry \<Rightarrow>
    BackendRegistry \<times> CapabilityChallengeResult" where
  "registry_challenge blake3 task_elapsed elapsed c now_secs r =
    (case registry_execute task_elapsed (cc_backend c) (challenge_task c)
        [\<lparr>cin_values = challenge_input c, cin_format = cc_format c\<rparr>] r of
       (r, result) \<Rightarrow>
         let outcome = challenge_result blake3 elapsed c result (registry_health r (cc_backend c))
         in (record_challenge c now_secs outcome r, outcome))"

definition new_challenge :: "JobId \<Rightarrow> NodeId \<Rightarrow> BackendKind \<Rightarrow> NumericFormat \<Rightarrow> u64 \<Rightarrow> CapabilityChallenge" where
  "new_challenge job_id worker backend format seed = \<lparr>
     cc_challenge_id = of_bytes (to_le_bytes 8 seed @ to_le_bytes 8 seed), cc_job_id = job_id, cc_worker = worker,
     cc_backend = backend, cc_task_kind = CT_CapabilityChallenge, cc_format = format, cc_input_elements = 16,
     cc_seed = seed, cc_deadline_ms = 5000\<rparr>"

section \<open>Profiles and requirements\<close>

definition reference_backend_capability :: "BackendKind \<Rightarrow> u64 \<Rightarrow> bool \<Rightarrow> BackendCapabilities" where
  "reference_backend_capability which memory_bytes physical_verified =
    (let memory_bytes = max memory_bytes 1
     in \<lparr>bc_kind = which, bc_runtime_version = ''reference-profile-1'', bc_device_count = 1,
         bc_device_memory_bytes = memory_bytes, bc_available_memory_bytes = memory_bytes, bc_formats = [NF_F32],
         bc_max_tensor_elements = MAX_TASK_ELEMENTS,
         bc_features = [CF_MatrixMultiply, CF_TensorParallel, CF_PipelineStage, CF_DeterministicKernel],
         bc_device_architecture = None, bc_driver_available = physical_verified, bc_runtime_available = True,
         bc_peer_to_peer = False, bc_unified_memory = (which = BK_Cpu \<or> which = BK_Metal), bc_max_concurrent_tasks = 1,
         bc_safety_margin_permille = 100, bc_health = BH_Ready, bc_physical_verified = physical_verified,
         bc_observed_successes = 0, bc_observed_failures = 0\<rparr>)"

definition backend_can_run :: "BackendCapabilities \<Rightarrow> ComputeRequirements \<Rightarrow> bool" where
  "backend_can_run c requirements \<longleftrightarrow> \<not> is_err (validate_requirements c
     \<lparr>cta_operation = Challenge, cta_requirements = requirements, cta_input_elements = 1, cta_output_elements = 1,
      cta_graph_generation = 1, cta_model_generation = 1, cta_shard_id = 0, cta_deadline_ms = 1000\<rparr>)"

definition backend_satisfies_requirements :: "BackendCapabilities \<Rightarrow> ComputeRequirements \<Rightarrow> bool" where
  "backend_satisfies_requirements c r \<longleftrightarrow>
     (if \<not> bc_runtime_available c \<or> bc_health c = BH_Unavailable then False
      else if bc_observed_failures c > 0 \<and> bc_observed_successes c = 0 then False
      else if cr_required_backend r \<noteq> Some (bc_kind c) \<and> bc_kind c \<notin> set (cr_allowed_backends r) then False
      else cr_required_memory_bytes r \<le> safe_memory c \<and> cr_max_tensor_elements r \<le> bc_max_tensor_elements c
           \<and> (\<forall>format\<in>set (cr_required_formats r). format \<in> set (bc_formats c))
           \<and> (\<forall>feature\<in>set (cr_required_features r). feature \<in> set (bc_features c)))"

definition default_requirements :: "ComputeTaskKind \<Rightarrow> BackendKind \<Rightarrow> u64 \<Rightarrow> string \<Rightarrow> ComputeRequirements" where
  "default_requirements task_kind backend elements kernel_id = \<lparr>cr_task_kind = task_kind,
     cr_required_backend = Some backend, cr_allowed_backends = [backend], cr_required_formats = [NF_F32],
     cr_required_memory_bytes = max (sat_mul elements 8) 8, cr_max_tensor_elements = max elements 1,
     cr_required_features = [CF_DeterministicKernel], cr_kernel_id = kernel_id, cr_kernel_version = 1,
     cr_fallback_backends = [], cr_fallback_allowed = False\<rparr>"

end
