(* ===== verification/Node_State.thy ===== *)
theory Node_State
  imports Effects Message_Validation Validation_Text Security_State Compute
begin

text \<open>
  The state a node keeps for training-fabric jobs: the \<^verbatim>\<open>v4_*\<close> maps of \<^verbatim>\<open>Node\<close> in \<^verbatim>\<open>node/src/lib.rs\<close>, the
  local records of \<^verbatim>\<open>node/src/frontier_training.rs\<close>, the state files behind them, the content hashes, and what a
  restart restores. A \<^verbatim>\<open>HashMap\<close> is the ordered map; no result depends on the order of its entries. A handler runs
  as one step: it returns the new node and \<^verbatim>\<open>Ok\<close> or the error, and what it hands to the transport is appended to
  \<open>vn_outbox\<close>.
\<close>

section \<open>Errors\<close>

fun SecurityError_to_string :: "SecurityError \<Rightarrow> string" where
  "SecurityError_to_string (SE_InvalidPolicy m) = ''invalid V6 security policy: '' @ m"
| "SecurityError_to_string (SE_InvalidRecord m) = ''security record is malformed: '' @ m"
| "SecurityError_to_string SE_UnauthorizedTraining = ''training contributor is not authorized for this group''"
| "SecurityError_to_string SE_StaleTraining = ''training contribution is stale''"
| "SecurityError_to_string SE_DuplicateTraining = ''training contribution is a duplicate''"
| "SecurityError_to_string SE_TrainingEquivocation = ''training contributor equivocated''"
| "SecurityError_to_string SE_Quarantined = ''peer is locally quarantined''"
| "SecurityError_to_string SE_TrainingBounds = ''training contribution exceeds the local safety bound''"
| "SecurityError_to_string SE_InvalidEquivocationProof = ''equivocation proof is invalid''"

text \<open>The errors the handlers raise; the text of an I/O, network or storage error is given by the environment.\<close>

datatype NodeError =
    NE_Io string
  | NE_InvalidConfig string
  | NE_Network string
  | NE_Storage string

fun NodeError_to_string :: "NodeError \<Rightarrow> string" where
  "NodeError_to_string (NE_Io m) = ''node I/O failed: '' @ m"
| "NodeError_to_string (NE_InvalidConfig m) = ''invalid node configuration: '' @ m"
| "NodeError_to_string (NE_Network m) = ''network failed: '' @ m"
| "NodeError_to_string (NE_Storage m) = ''storage failed: '' @ m"

section \<open>Local records\<close>

definition V4_MAX_WORKERS :: usize where "V4_MAX_WORKERS = 16"
definition V4_MAX_STATE_BYTES :: usize where "V4_MAX_STATE_BYTES = 64 * 1024"
definition V4_MAX_AGGREGATION_REQUESTS :: usize where "V4_MAX_AGGREGATION_REQUESTS = 1024"
definition V4_MAX_PLAN_PROPOSALS :: usize where "V4_MAX_PLAN_PROPOSALS = 128"
definition V4_MAX_TENSOR_SHARDS :: usize where "V4_MAX_TENSOR_SHARDS = 256"
definition V4_MAX_PIPELINE_STAGES :: usize where "V4_MAX_PIPELINE_STAGES = 256"
definition V4_CHECKPOINT_HISTORY :: usize where "V4_CHECKPOINT_HISTORY = 2"

record V4LocalDataShard =
  vld_job_id :: JobId
  vld_shard_id :: u16
  vld_plan_generation :: u64
  vld_ownership_generation :: u64
  vld_hash :: ArtifactId
  vld_bytes :: "u8 list"

record V4LocalTensorShard =
  vlt_job_id :: JobId
  vlt_plan_generation :: u64
  vlt_model_generation :: u64
  vlt_shard_id :: u16
  vlt_rows :: u16
  vlt_cols :: u16
  vlt_row_offset :: u16
  vlt_weights :: "i64 list"
  vlt_state_hash :: ArtifactId
  vlt_state_generation :: u64
  vlt_last_sequence :: u64

record V4LocalOptimizerState =
  vlo_job_id :: JobId
  vlo_plan_generation :: u64
  vlo_model_generation :: u64
  vlo_optimizer_generation :: u64
  vlo_shard_id :: u16
  vlo_values :: "i64 list"
  vlo_state_hash :: ArtifactId
  vlo_state_generation :: u64
  vlo_last_sequence :: u64

record V4LocalPipelineStage =
  vlp_job_id :: JobId
  vlp_plan_generation :: u64
  vlp_stage_id :: u16
  vlp_stage_count :: u16
  vlp_coefficient :: i64
  vlp_bias :: i64
  vlp_state_hash :: ArtifactId

record V4IntegratedElectionRecord =
  vel_job_id :: JobId
  vel_graph_generation :: u64
  vel_graph_hash :: ArtifactId
  vel_term :: u64
  vel_candidate :: NodeId
  vel_vote_hash :: ArtifactId

datatype V4Inbound =
    VI_Message NodeId TrainingV4Message
  | VI_PeerDisconnected NodeId

record V4CollectiveState =
  vcs_job_id :: JobId
  vcs_plan_generation :: u64
  vcs_generation :: u64
  vcs_expected_contributors :: u16
  vcs_expected_groups :: u16
  vcs_group_id :: u16
  vcs_parent :: "NodeId option"
  vcs_reply_to :: NodeId
  vcs_value_len :: usize
  vcs_contributions :: "(NodeId, i64 list) btree"
  vcs_groups :: "(u16, i64 list \<times> u16) btree"

record V4ByzantineState =
  vbs_job_id :: JobId
  vbs_plan_generation :: u64
  vbs_generation :: u64
  vbs_aggregator :: NodeId
  vbs_expected_updates :: u16
  vbs_policy :: V4ByzantinePolicy
  vbs_reply_to :: NodeId
  vbs_value_len :: usize
  vbs_updates :: "(NodeId, u64 \<times> i64 list) btree"
  vbs_completed :: "V4ByzantineResult option"

section \<open>State files and the node\<close>

record V4IntegratedBranchCommit =
  vbc_job_id :: JobId
  vbc_parent_branch :: ArtifactId
  vbc_branch :: ArtifactId
  vbc_parent_graph_generation :: u64
  vbc_graph_generation :: u64
  vbc_failed_member :: NodeId
  vbc_policy :: V4ReconciliationPolicy
  vbc_plan_hash :: ArtifactId
  vbc_commit_hash :: ArtifactId

text \<open>
  The names under the \<^verbatim>\<open>state\<close> directory: each prefix of the source is a constructor, and the numbers printed
  into the name are its arguments.
\<close>

datatype v4_file =
    F_data_shard JobId u16
  | F_training_state JobId
  | F_integrated_graph JobId
  | F_integrated_state JobId
  | F_integrated_election JobId
  | F_plan JobId
  | F_plan_proposal JobId
  | F_optimizer_state JobId u16
  | F_optimizer_shard JobId u16
  | F_checkpoint JobId u64
  | F_tensor_shard JobId u16
  | F_pipeline_stage JobId u16
  | F_integrated_branch JobId u64
  | F_security

record V4Disk =
  vd_data_shards :: "(JobId \<times> u16, V4LocalDataShard) btree"
  vd_training_states :: "(JobId, V4TrainingStateRecord) btree"
  vd_integrated_graphs :: "(JobId, V4ExecutionGraph) btree"
  vd_integrated_states :: "(JobId, V4IntegratedStateRecord) btree"
  vd_integrated_elections :: "(JobId, V4IntegratedElectionRecord) btree"
  vd_plans :: "(JobId, V4TrainingPlan) btree"
  vd_plan_proposals :: "(JobId, V4TrainingPlan) btree"
  vd_optimizer_states :: "(JobId \<times> u16, V4LocalOptimizerState) btree"
  vd_optimizer_shards :: "(JobId \<times> u16, V4OptimizerShardRecord) btree"
  vd_checkpoints :: "(JobId \<times> u64, V4CheckpointRecord) btree"
  vd_tensor_shards :: "(JobId \<times> u16, V4LocalTensorShard) btree"
  vd_pipeline_stages :: "(JobId \<times> u16, V4LocalPipelineStage) btree"
  vd_integrated_branches :: "(JobId \<times> u64, V4IntegratedBranchCommit) btree"
  vd_security :: "LocalSecurityState option"

record V4Node =
  vn_node_id :: NodeId
  vn_security :: LocalSecurityState
  vn_jobs :: "(JobId, V4Inbound list) btree"
  vn_data_shards :: "(JobId \<times> u16, V4LocalDataShard) btree"
  vn_tensor_shards :: "(JobId \<times> u16, V4LocalTensorShard) btree"
  vn_pipeline_stages :: "(JobId \<times> u16, V4LocalPipelineStage) btree"
  vn_collectives :: "(JobId, V4CollectiveState) btree"
  vn_byzantine :: "(JobId, V4ByzantineState) btree"
  vn_training_states :: "(JobId, V4TrainingStateRecord) btree"
  vn_integrated_states :: "(JobId, V4IntegratedStateRecord) btree"
  vn_integrated_graphs :: "(JobId, V4ExecutionGraph) btree"
  vn_integrated_elections :: "(JobId, V4IntegratedElectionRecord) btree"
  vn_optimizer_states :: "(JobId \<times> u16, V4LocalOptimizerState) btree"
  vn_optimizer_shards :: "(JobId \<times> u16, V4OptimizerShardRecord) btree"
  vn_checkpoints :: "(JobId \<times> u64, V4CheckpointRecord) btree"
  vn_plans :: "(JobId, V4TrainingPlan) btree"
  vn_plan_proposals :: "(JobId, V4TrainingPlan) btree"
  vn_compute :: BackendRegistry
  vn_v5_challenge_windows :: "(NodeId, u64 \<times> u16) btree"
  vn_disk :: V4Disk
  vn_outbox :: "(NodeId \<times> Message) list"

text \<open>
  The environment of one step: the clock, the text of the error with which a write or a removal of a state file
  fails if it does, the error with which a frame for a peer is refused by the transport, the microseconds a compute
  task and a challenge take, and what reaches the mailbox of a job while the step waits for an answer.
\<close>

record v4_env =
  ve_now :: u64
  ve_write_error :: "v4_file \<Rightarrow> string option"
  ve_remove_error :: "v4_file \<Rightarrow> string option"
  ve_send_error :: "NodeId \<Rightarrow> string option"
  ve_elapsed :: "ComputeTask \<Rightarrow> u64"
  ve_challenge_elapsed :: u64
  ve_incoming :: "V4Inbound list"

text \<open>
  The third-party encoders: \<^verbatim>\<open>serde_json::to_vec(..).unwrap_or_default()\<close> of each hashed value,
  \<^verbatim>\<open>postcard::to_allocvec\<close> of a plan (no value when it fails), blake3 and hex.
\<close>

record v4_codec =
  vc_blake3 :: hash_fn
  vc_hex :: "u8 list \<Rightarrow> string"
  vc_postcard_plan :: "V4TrainingPlan \<Rightarrow> u8 list option"
  vc_json_training_state :: "V4TrainingStateRecord \<Rightarrow> u8 list"
  vc_json_optimizer_shard :: "V4OptimizerShardRecord \<Rightarrow> u8 list"
  vc_json_optimizer_state :: "JobId \<times> u64 \<times> u64 \<times> u64 \<times> u16 \<times> i64 list \<times> u64 \<times> u64 \<Rightarrow> u8 list"
  vc_json_checkpoint :: "V4CheckpointRecord \<Rightarrow> u8 list"
  vc_json_graph :: "V4ExecutionGraph \<Rightarrow> u8 list"
  vc_json_integrated_state :: "V4IntegratedStateRecord \<Rightarrow> u8 list"
  vc_json_election :: "V4IntegratedElectionRecord \<Rightarrow> u8 list"
  vc_json_tensor :: "u16 \<times> u16 \<times> u16 \<times> i64 list \<Rightarrow> u8 list"
  vc_json_pipeline :: "i64 \<times> i64 \<Rightarrow> u8 list"
  vc_json_branch :: "JobId \<times> ArtifactId \<times> u64 \<times> NodeId \<times> NodeId option \<Rightarrow> u8 list"
  vc_json_branch_commit :: "V4IntegratedBranchCommit \<Rightarrow> u8 list"

section \<open>Content hashes\<close>

definition hash_plan :: "v4_codec \<Rightarrow> V4TrainingPlan \<Rightarrow> ArtifactId" where
  "hash_plan codec plan = from_bytes_hashed (vc_blake3 codec)
     (case vc_postcard_plan codec (plan\<lparr>vp_plan_hash := filled 0\<rparr>) of
        Some encoded \<Rightarrow> encoded
      | None \<Rightarrow> map (\<lambda>c. of_char c) ''intelligence-network:v4-plan:serialization-error'')"

definition training_state_hash :: "v4_codec \<Rightarrow> V4TrainingStateRecord \<Rightarrow> ArtifactId" where
  "training_state_hash codec state = from_bytes_hashed (vc_blake3 codec)
     (vc_json_training_state codec (state\<lparr>vts_state_hash := filled 0\<rparr>))"

definition optimizer_shard_hash :: "v4_codec \<Rightarrow> V4OptimizerShardRecord \<Rightarrow> ArtifactId" where
  "optimizer_shard_hash codec shard = from_bytes_hashed (vc_blake3 codec)
     (vc_json_optimizer_shard codec (shard\<lparr>vos_state_hash := filled 0\<rparr>))"

definition optimizer_state_hash :: "v4_codec \<Rightarrow> V4OptimizerStateInstall \<Rightarrow> ArtifactId" where
  "optimizer_state_hash codec state = from_bytes_hashed (vc_blake3 codec)
     (vc_json_optimizer_state codec (vosi_job_id state, vosi_plan_generation state, vosi_model_generation state,
        vosi_optimizer_generation state, vosi_shard_id state, vosi_values state, vosi_state_generation state,
        vosi_last_sequence state))"

definition checkpoint_hash :: "v4_codec \<Rightarrow> V4CheckpointRecord \<Rightarrow> ArtifactId" where
  "checkpoint_hash codec checkpoint = from_bytes_hashed (vc_blake3 codec)
     (vc_json_checkpoint codec (checkpoint\<lparr>vck_manifest_hash := filled 0\<rparr>))"

definition execution_graph_hash :: "v4_codec \<Rightarrow> V4ExecutionGraph \<Rightarrow> ArtifactId" where
  "execution_graph_hash codec graph = from_bytes_hashed (vc_blake3 codec)
     (vc_json_graph codec (graph\<lparr>vg_graph_hash := filled 0\<rparr>))"

definition integrated_state_hash :: "v4_codec \<Rightarrow> V4IntegratedStateRecord \<Rightarrow> ArtifactId" where
  "integrated_state_hash codec state = from_bytes_hashed (vc_blake3 codec)
     (vc_json_integrated_state codec (state\<lparr>vis_state_hash := filled 0\<rparr>))"

definition integrated_election_hash :: "v4_codec \<Rightarrow> V4IntegratedElectionRecord \<Rightarrow> ArtifactId" where
  "integrated_election_hash codec election = from_bytes_hashed (vc_blake3 codec)
     (vc_json_election codec (election\<lparr>vel_vote_hash := filled 0\<rparr>))"

definition tensor_hash :: "v4_codec \<Rightarrow> i64 list \<Rightarrow> u16 \<Rightarrow> u16 \<Rightarrow> u16 \<Rightarrow> ArtifactId" where
  "tensor_hash codec weights rows cols row_offset =
     from_bytes_hashed (vc_blake3 codec) (vc_json_tensor codec (rows, cols, row_offset, weights))"

definition pipeline_hash :: "v4_codec \<Rightarrow> i64 \<Rightarrow> i64 \<Rightarrow> ArtifactId" where
  "pipeline_hash codec coefficient bias = from_bytes_hashed (vc_blake3 codec) (vc_json_pipeline codec (coefficient, bias))"

definition valid_local_tensor_shard :: "v4_codec \<Rightarrow> V4LocalTensorShard \<Rightarrow> bool" where
  "valid_local_tensor_shard codec shard \<longleftrightarrow> vlt_plan_generation shard > 0 \<and> vlt_model_generation shard > 0
     \<and> vlt_rows shard > 0 \<and> vlt_cols shard > 0
     \<and> usat (unat (vlt_rows shard) * unat (vlt_cols shard)) = length (vlt_weights shard)
     \<and> length (vlt_weights shard) \<le> MAX_V4_VECTOR * MAX_V4_VECTOR
     \<and> usat (unat (vlt_row_offset shard) + unat (vlt_rows shard)) \<le> MAX_V4_VECTOR
     \<and> (\<forall>weight\<in>set (vlt_weights shard). unsigned_abs weight \<le> 1000000000)
     \<and> tensor_hash codec (vlt_weights shard) (vlt_rows shard) (vlt_cols shard) (vlt_row_offset shard) = vlt_state_hash shard"

definition valid_local_optimizer_state :: "v4_codec \<Rightarrow> V4LocalOptimizerState \<Rightarrow> bool" where
  "valid_local_optimizer_state codec state \<longleftrightarrow>
    \<not> (vlo_plan_generation state = 0 \<or> vlo_model_generation state = 0 \<or> vlo_optimizer_generation state = 0
       \<or> vlo_state_generation state = 0 \<or> vlo_values state = [] \<or> length (vlo_values state) > MAX_V4_VECTOR
       \<or> (\<exists>value\<in>set (vlo_values state). unsigned_abs value > 1000000000))
    \<and> optimizer_state_hash codec \<lparr>vosi_job_id = vlo_job_id state, vosi_plan_generation = vlo_plan_generation state,
        vosi_model_generation = vlo_model_generation state, vosi_optimizer_generation = vlo_optimizer_generation state,
        vosi_shard_id = vlo_shard_id state, vosi_values = vlo_values state, vosi_state_hash = filled 0,
        vosi_state_generation = vlo_state_generation state, vosi_sequence = 1,
        vosi_last_sequence = vlo_last_sequence state, vosi_source = filled 0\<rparr> = vlo_state_hash state"

section \<open>Errors of a node\<close>

abbreviation invalid_config :: "string \<Rightarrow> NodeError + 'a" where
  "invalid_config m \<equiv> Inl (NE_InvalidConfig m)"

definition validated :: "check \<Rightarrow> NodeError + unit" where
  "validated c = map_err (\<lambda>error. NE_InvalidConfig (ValidationError_to_string error)) c"

section \<open>State files\<close>

definition write_json :: "v4_env \<Rightarrow> v4_file \<Rightarrow> (V4Disk \<Rightarrow> V4Disk) \<Rightarrow> V4Node \<Rightarrow> V4Node \<times> (NodeError + unit)" where
  "write_json env file f s = (case ve_write_error env file of
     Some e \<Rightarrow> (s, Inl (NE_Storage e))
   | None \<Rightarrow> (s\<lparr>vn_disk := f (vn_disk s)\<rparr>, Inr ()))"

definition persist_data_shard :: "v4_env \<Rightarrow> V4LocalDataShard \<Rightarrow> V4Node \<Rightarrow> V4Node \<times> (NodeError + unit)" where
  "persist_data_shard env shard = write_json env (F_data_shard (vld_job_id shard) (vld_shard_id shard))
     (vd_data_shards_update (bt_insert (vld_job_id shard, vld_shard_id shard) shard))"

definition persist_plan :: "v4_env \<Rightarrow> V4TrainingPlan \<Rightarrow> V4Node \<Rightarrow> V4Node \<times> (NodeError + unit)" where
  "persist_plan env plan = write_json env (F_plan (vp_job_id plan)) (vd_plans_update (bt_insert (vp_job_id plan) plan))"

definition persist_plan_proposal :: "v4_env \<Rightarrow> V4TrainingPlan \<Rightarrow> V4Node \<Rightarrow> V4Node \<times> (NodeError + unit)" where
  "persist_plan_proposal env plan = write_json env (F_plan_proposal (vp_job_id plan))
     (vd_plan_proposals_update (bt_insert (vp_job_id plan) plan))"

definition remove_plan_proposal :: "v4_env \<Rightarrow> JobId \<Rightarrow> V4Node \<Rightarrow> V4Node \<times> (NodeError + unit)" where
  "remove_plan_proposal env job_id s =
    (if bt_get (vd_plan_proposals (vn_disk s)) job_id = None then (s, Inr ())
     else case ve_remove_error env (F_plan_proposal job_id) of
       Some e \<Rightarrow> (s, Inl (NE_Io e))
     | None \<Rightarrow> (s\<lparr>vn_disk := vd_plan_proposals_update (bt_remove job_id) (vn_disk s)\<rparr>, Inr ()))"

definition persist_training_state :: "v4_env \<Rightarrow> V4TrainingStateRecord \<Rightarrow> V4Node \<Rightarrow> V4Node \<times> (NodeError + unit)" where
  "persist_training_state env state = write_json env (F_training_state (vts_job_id state))
     (vd_training_states_update (bt_insert (vts_job_id state) state))"

definition persist_optimizer_shard :: "v4_env \<Rightarrow> V4OptimizerShardRecord \<Rightarrow> V4Node \<Rightarrow> V4Node \<times> (NodeError + unit)" where
  "persist_optimizer_shard env shard = write_json env (F_optimizer_shard (vos_job_id shard) (vos_shard_id shard))
     (vd_optimizer_shards_update (bt_insert (vos_job_id shard, vos_shard_id shard) shard))"

definition persist_optimizer_state :: "v4_env \<Rightarrow> V4LocalOptimizerState \<Rightarrow> V4Node \<Rightarrow> V4Node \<times> (NodeError + unit)" where
  "persist_optimizer_state env state = write_json env (F_optimizer_state (vlo_job_id state) (vlo_shard_id state))
     (vd_optimizer_states_update (bt_insert (vlo_job_id state, vlo_shard_id state) state))"

definition persist_tensor_shard :: "v4_env \<Rightarrow> V4LocalTensorShard \<Rightarrow> V4Node \<Rightarrow> V4Node \<times> (NodeError + unit)" where
  "persist_tensor_shard env shard = write_json env (F_tensor_shard (vlt_job_id shard) (vlt_shard_id shard))
     (vd_tensor_shards_update (bt_insert (vlt_job_id shard, vlt_shard_id shard) shard))"

definition persist_pipeline_stage :: "v4_env \<Rightarrow> V4LocalPipelineStage \<Rightarrow> V4Node \<Rightarrow> V4Node \<times> (NodeError + unit)" where
  "persist_pipeline_stage env stage = write_json env (F_pipeline_stage (vlp_job_id stage) (vlp_stage_id stage))
     (vd_pipeline_stages_update (bt_insert (vlp_job_id stage, vlp_stage_id stage) stage))"

definition persist_execution_graph :: "v4_env \<Rightarrow> V4ExecutionGraph \<Rightarrow> V4Node \<Rightarrow> V4Node \<times> (NodeError + unit)" where
  "persist_execution_graph env graph = write_json env (F_integrated_graph (vg_job_id graph))
     (vd_integrated_graphs_update (bt_insert (vg_job_id graph) graph))"

definition persist_integrated_state :: "v4_env \<Rightarrow> V4IntegratedStateRecord \<Rightarrow> V4Node \<Rightarrow> V4Node \<times> (NodeError + unit)" where
  "persist_integrated_state env state = write_json env (F_integrated_state (vis_job_id state))
     (vd_integrated_states_update (bt_insert (vis_job_id state) state))"

definition persist_integrated_election :: "v4_env \<Rightarrow> V4IntegratedElectionRecord \<Rightarrow> V4Node \<Rightarrow> V4Node \<times> (NodeError + unit)" where
  "persist_integrated_election env election = write_json env (F_integrated_election (vel_job_id election))
     (vd_integrated_elections_update (bt_insert (vel_job_id election) election))"

definition persist_integrated_branch_commit :: "v4_codec \<Rightarrow> v4_env \<Rightarrow> V4ExecutionGraph \<Rightarrow> V4ExecutionGraph \<Rightarrow> NodeId \<Rightarrow>
    V4ReconciliationPolicy \<Rightarrow> V4Node \<Rightarrow> V4Node \<times> (NodeError + unit)" where
  "persist_integrated_branch_commit codec env old_graph graph failed policy =
    (let unsigned = \<lparr>vbc_job_id = vg_job_id graph, vbc_parent_branch = vg_branch old_graph, vbc_branch = vg_branch graph,
           vbc_parent_graph_generation = vg_graph_generation old_graph, vbc_graph_generation = vg_graph_generation graph,
           vbc_failed_member = failed, vbc_policy = policy, vbc_plan_hash = vg_plan_hash graph, vbc_commit_hash = filled 0\<rparr>;
         commit = unsigned\<lparr>vbc_commit_hash := from_bytes_hashed (vc_blake3 codec) (vc_json_branch_commit codec unsigned)\<rparr>
     in write_json env (F_integrated_branch (vg_job_id graph) (vg_graph_generation graph))
          (vd_integrated_branches_update (bt_insert (vg_job_id graph, vg_graph_generation graph) commit)))"

text \<open>The removal of superseded checkpoint manifests stops at the first file that cannot be removed.\<close>

fun remove_checkpoints :: "v4_env \<Rightarrow> JobId \<Rightarrow> u64 list \<Rightarrow> V4Node \<Rightarrow> V4Node \<times> (NodeError + unit)" where
  "remove_checkpoints env job_id [] s = (s, Inr ())"
| "remove_checkpoints env job_id (generation # generations) s =
    (case ve_remove_error env (F_checkpoint job_id generation) of
       Some e \<Rightarrow> (s, Inl (NE_Io e))
     | None \<Rightarrow> remove_checkpoints env job_id generations
         (s\<lparr>vn_disk := vd_checkpoints_update (bt_remove (job_id, generation)) (vn_disk s)\<rparr>))"

definition prune_checkpoint_history :: "v4_env \<Rightarrow> JobId \<Rightarrow> usize \<Rightarrow> V4Node \<Rightarrow> V4Node \<times> (NodeError + unit)" where
  "prune_checkpoint_history env job_id retain s = remove_checkpoints env job_id
     (drop retain (rev (sort (map (\<lambda>((_, generation), _). generation)
        (filter (\<lambda>((job, _), _). job = job_id) (bt_entries (vd_checkpoints (vn_disk s)))))))) s"

definition persist_checkpoint :: "v4_env \<Rightarrow> V4CheckpointRecord \<Rightarrow> V4Node \<Rightarrow> V4Node \<times> (NodeError + unit)" where
  "persist_checkpoint env checkpoint s =
     try_then (prune_checkpoint_history env (vck_job_id checkpoint) (V4_CHECKPOINT_HISTORY - 1) s) (\<lambda>s _.
     try_then (write_json env (F_checkpoint (vck_job_id checkpoint) (vck_checkpoint_generation checkpoint))
       (vd_checkpoints_update (bt_insert (vck_job_id checkpoint, vck_checkpoint_generation checkpoint) checkpoint)) s) (\<lambda>s _.
     prune_checkpoint_history env (vck_job_id checkpoint) V4_CHECKPOINT_HISTORY s))"

definition persist_security_state :: "v4_env \<Rightarrow> V4Node \<Rightarrow> V4Node" where
  "persist_security_state env s = fst (write_json env F_security (vd_security_update (\<lambda>_. Some (vn_security s))) s)"

section \<open>Restart\<close>

text \<open>
  \<^verbatim>\<open>restore\<close> visits the state files and keeps the records that pass their checks, under the key of the record
  itself.
\<close>

definition restore_map :: "('v \<Rightarrow> ('k::linorder, 'v) btree \<Rightarrow> bool) \<Rightarrow> ('v \<Rightarrow> 'k) \<Rightarrow> ('k, 'v) btree \<Rightarrow> ('k, 'v) btree \<Rightarrow> ('k, 'v) btree" where
  "restore_map valid key files m = fold (\<lambda>v m. if valid v m then bt_insert (key v) v m else m) (bt_values files) m"

definition restore :: "v4_codec \<Rightarrow> V4Node \<Rightarrow> V4Node" where
  "restore codec s = (let d = vn_disk s in s\<lparr>
     vn_data_shards := restore_map (\<lambda>shard _. length (vld_bytes shard) \<le> V4_MAX_STATE_BYTES
         \<and> from_bytes_hashed (vc_blake3 codec) (vld_bytes shard) = vld_hash shard)
       (\<lambda>shard. (vld_job_id shard, vld_shard_id shard)) (vd_data_shards d) (vn_data_shards s),
     vn_training_states := restore_map (\<lambda>state _. vts_state_hash state = training_state_hash codec state
         \<and> \<not> is_err (v4_training_state_check state))
       vts_job_id (vd_training_states d) (vn_training_states s),
     vn_integrated_graphs := restore_map (\<lambda>graph _. vg_graph_hash graph = execution_graph_hash codec graph
         \<and> \<not> is_err (v4_execution_graph_check graph))
       vg_job_id (vd_integrated_graphs d) (vn_integrated_graphs s),
     vn_integrated_states := restore_map (\<lambda>state _. vis_state_hash state = integrated_state_hash codec state
         \<and> \<not> is_err (v4_integrated_state_check state))
       vis_job_id (vd_integrated_states d) (vn_integrated_states s),
     vn_integrated_elections := restore_map (\<lambda>election _. vel_vote_hash election = integrated_election_hash codec election
         \<and> vel_graph_generation election > 0 \<and> vel_term election > 0)
       vel_job_id (vd_integrated_elections d) (vn_integrated_elections s),
     vn_plans := restore_map (\<lambda>plan _. vp_plan_hash plan = hash_plan codec plan \<and> \<not> is_err (v4_plan_check plan))
       vp_job_id (vd_plans d) (vn_plans s),
     vn_plan_proposals := restore_map (\<lambda>plan m. vp_parent_plan_hash plan \<noteq> None
         \<and> vp_plan_hash plan = hash_plan codec plan \<and> \<not> is_err (v4_plan_check plan)
         \<and> bt_len m < V4_MAX_PLAN_PROPOSALS)
       vp_job_id (vd_plan_proposals d) (vn_plan_proposals s),
     vn_optimizer_states := restore_map (\<lambda>state _. valid_local_optimizer_state codec state)
       (\<lambda>state. (vlo_job_id state, vlo_shard_id state)) (vd_optimizer_states d) (vn_optimizer_states s),
     vn_optimizer_shards := restore_map (\<lambda>shard _. vos_state_hash shard = optimizer_shard_hash codec shard
         \<and> \<not> is_err (v4_optimizer_shard_check shard))
       (\<lambda>shard. (vos_job_id shard, vos_shard_id shard)) (vd_optimizer_shards d) (vn_optimizer_shards s),
     vn_checkpoints := restore_map (\<lambda>checkpoint _. vck_manifest_hash checkpoint = checkpoint_hash codec checkpoint
         \<and> \<not> is_err (v4_checkpoint_check checkpoint))
       (\<lambda>checkpoint. (vck_job_id checkpoint, vck_checkpoint_generation checkpoint)) (vd_checkpoints d) (vn_checkpoints s),
     vn_tensor_shards := restore_map (\<lambda>shard m. valid_local_tensor_shard codec shard \<and> bt_len m < V4_MAX_TENSOR_SHARDS)
       (\<lambda>shard. (vlt_job_id shard, vlt_shard_id shard)) (vd_tensor_shards d) (vn_tensor_shards s),
     vn_pipeline_stages := restore_map (\<lambda>stage m. 2 \<le> vlp_stage_count stage \<and> vlp_stage_count stage \<le> 16
         \<and> vlp_stage_id stage < vlp_stage_count stage \<and> unsigned_abs (vlp_coefficient stage) \<le> 1000000000
         \<and> pipeline_hash codec (vlp_coefficient stage) (vlp_bias stage) = vlp_state_hash stage
         \<and> bt_len m < V4_MAX_PIPELINE_STAGES)
       (\<lambda>stage. (vlp_job_id stage, vlp_stage_id stage)) (vd_pipeline_stages d) (vn_pipeline_stages s)\<rparr>)"

text \<open>
  A node that starts on the state directory of \<open>s\<close>: empty maps, the security ledger of the directory when it is
  well-formed and of this identity, then \<^verbatim>\<open>restore\<close>. \<open>fresh\<close> is the ledger a node builds when it has none, and
  \<open>registry\<close> the backends it discovers.
\<close>

definition start_node :: "v4_codec \<Rightarrow> LocalSecurityState \<Rightarrow> BackendRegistry \<Rightarrow> V4Node \<Rightarrow> V4Node" where
  "start_node codec fresh registry s = restore codec \<lparr>vn_node_id = vn_node_id s,
     vn_security = (case vd_security (vn_disk s) of
         Some state \<Rightarrow> if lss_local_node state = vn_node_id s \<and> \<not> is_err (LocalSecurityState_validate state) then state else fresh
       | None \<Rightarrow> fresh),
     vn_jobs = bt_new, vn_data_shards = bt_new, vn_tensor_shards = bt_new, vn_pipeline_stages = bt_new,
     vn_collectives = bt_new, vn_byzantine = bt_new, vn_training_states = bt_new, vn_integrated_states = bt_new,
     vn_integrated_graphs = bt_new, vn_integrated_elections = bt_new, vn_optimizer_states = bt_new,
     vn_optimizer_shards = bt_new, vn_checkpoints = bt_new, vn_plans = bt_new, vn_plan_proposals = bt_new,
     vn_compute = registry, vn_v5_challenge_windows = bt_new, vn_disk = vn_disk s, vn_outbox = vn_outbox s\<rparr>"

section \<open>Messages out and mailboxes\<close>

definition send_message :: "v4_env \<Rightarrow> NodeId \<Rightarrow> Message \<Rightarrow> V4Node \<Rightarrow> V4Node \<times> (NodeError + unit)" where
  "send_message env peer message s = (case ve_send_error env peer of
     Some e \<Rightarrow> (s, Inl (NE_Network e))
   | None \<Rightarrow> (s\<lparr>vn_outbox := vn_outbox s @ [(peer, message)]\<rparr>, Inr ()))"

definition send_to :: "v4_env \<Rightarrow> NodeId \<Rightarrow> TrainingV4Message \<Rightarrow> V4Node \<Rightarrow> V4Node \<times> (NodeError + unit)" where
  "send_to env peer message s = send_message env peer (M_TrainingV4 message) s"

text \<open>The two attempts of a control message have the outcome the environment gives for the peer.\<close>

definition send_control_message :: "v4_env \<Rightarrow> NodeId \<Rightarrow> TrainingV4Message \<Rightarrow> V4Node \<Rightarrow> V4Node \<times> bool" where
  "send_control_message env peer message s =
    (case send_to env peer message s of (s, Inl _) \<Rightarrow> (s, False) | (s, Inr _) \<Rightarrow> (s, True))"

definition send_v4_control_message :: "v4_codec \<Rightarrow> v4_env \<Rightarrow> NodeId \<Rightarrow> TrainingV4Message \<Rightarrow> V4Node \<Rightarrow> V4Node \<times> (NodeError + unit)" where
  "send_v4_control_message codec env peer message s =
    (case send_control_message env peer message s of
       (s, True) \<Rightarrow> (s, Inr ())
     | (s, False) \<Rightarrow> (s, invalid_config (''V4 control response could not reach peer '' @ vc_hex codec (as_bytes peer))))"

definition create_job :: "JobId \<Rightarrow> V4Node \<Rightarrow> V4Node" where
  "create_job job_id s = s\<lparr>vn_jobs := bt_insert job_id [] (vn_jobs s)\<rparr>"

text \<open>A message for the local job goes to its mailbox.\<close>

definition mailbox_send :: "JobId \<Rightarrow> V4Inbound \<Rightarrow> V4Node \<Rightarrow> V4Node" where
  "mailbox_send job_id inbound s = (case bt_get (vn_jobs s) job_id of
     None \<Rightarrow> s
   | Some queue \<Rightarrow> s\<lparr>vn_jobs := bt_insert job_id (queue @ [inbound]) (vn_jobs s)\<rparr>)"

definition deliver_v4_message :: "v4_codec \<Rightarrow> v4_env \<Rightarrow> NodeId \<Rightarrow> JobId \<Rightarrow> TrainingV4Message \<Rightarrow> V4Node \<Rightarrow> V4Node \<times> (NodeError + unit)" where
  "deliver_v4_message codec env peer job_id message s =
    (if peer = vn_node_id s
     then if bt_get (vn_jobs s) job_id = None then (s, invalid_config ''local V4 job mailbox is unavailable'')
          else (mailbox_send job_id (VI_Message peer message) s, Inr ())
     else send_v4_control_message codec env peer message s)"

definition peer_disconnected :: "NodeId \<Rightarrow> V4Node \<Rightarrow> V4Node" where
  "peer_disconnected peer s = s\<lparr>vn_jobs := bt_retain (\<lambda>_ queue. Some (queue @ [VI_PeerDisconnected peer])) (vn_jobs s)\<rparr>"

section \<open>Claims of authenticated peers\<close>

definition observe_peer_claim :: "v4_env \<Rightarrow> NodeId \<Rightarrow> string \<Rightarrow> JobId option \<Rightarrow> ArtifactId option \<Rightarrow> u64 \<Rightarrow> u64 \<Rightarrow> ArtifactId \<Rightarrow>
    V4Node \<Rightarrow> V4Node \<times> (NodeError + unit)" where
  "observe_peer_claim env peer object job_id branch generation sequence digest s =
    (case observe_authenticated_claim (vn_security s) peer object job_id branch generation sequence digest (ve_now env) of
       (security, Inl e) \<Rightarrow> (s\<lparr>vn_security := security\<rparr>, invalid_config (SecurityError_to_string e))
     | (security, Inr _) \<Rightarrow> (persist_security_state env (s\<lparr>vn_security := security\<rparr>), Inr ()))"

definition authorized_reference_plan :: "v4_codec \<Rightarrow> V4Node \<Rightarrow> NodeId \<Rightarrow> JobId \<Rightarrow> u64 \<Rightarrow> NodeError + V4TrainingPlan" where
  "authorized_reference_plan codec s peer job_id plan_generation = (case bt_get (vn_plans s) job_id of
     None \<Rightarrow> invalid_config ''V4 operation has no active plan''
   | Some plan \<Rightarrow>
       if vp_proposer plan \<noteq> peer \<or> vp_plan_generation plan \<noteq> plan_generation \<or> vn_node_id s \<notin> set (vp_workers plan)
          \<or> vp_plan_hash plan \<noteq> hash_plan codec plan \<or> is_err (v4_plan_check plan)
       then invalid_config ''V4 operation is not authorized by the active plan''
       else Inr plan)"

end
