(* ===== verification/Node_Jobs.thy ===== *)
theory Node_Jobs
  imports Node_State
begin

text \<open>
  The control plane of a training-fabric job in \<^verbatim>\<open>node/src/frontier_training.rs\<close>: activation of plans and plan
  proposals, installation of execution graphs, replicated job state, liveness probes and the votes of a
  coordinator election.
\<close>

section \<open>Plans\<close>

definition rebound_data_shard :: "NodeId \<Rightarrow> V4TrainingPlan \<Rightarrow> (JobId \<times> u16) \<Rightarrow> V4LocalDataShard \<Rightarrow> V4LocalDataShard option" where
  "rebound_data_shard local plan key shard =
    (if fst key \<noteq> vp_job_id plan then None
     else case find (\<lambda>candidate. vso_shard_id candidate = snd key) (vp_shards plan) of
       None \<Rightarrow> None
     | Some ownership \<Rightarrow>
         if (local \<in> set (vso_owners ownership) \<or> local \<in> set (vso_replicas ownership))
            \<and> vso_content_hash ownership = vld_hash shard
            \<and> vso_ownership_generation ownership \<ge> vld_ownership_generation shard
         then Some (shard\<lparr>vld_plan_generation := vp_plan_generation plan,
                          vld_ownership_generation := vso_ownership_generation ownership\<rparr>)
         else None)"

definition rebound_tensor_shard :: "NodeId \<Rightarrow> V4TrainingPlan \<Rightarrow> (JobId \<times> u16) \<Rightarrow> V4LocalTensorShard \<Rightarrow> V4LocalTensorShard option" where
  "rebound_tensor_shard local plan key shard =
    (if fst key \<noteq> vp_job_id plan then None
     else case find (\<lambda>candidate. vso_shard_id candidate = snd key) (vp_shards plan) of
       None \<Rightarrow> None
     | Some ownership \<Rightarrow>
         if vso_model_generation ownership = vlt_model_generation shard
            \<and> vso_content_hash ownership = vlt_state_hash shard
            \<and> (local \<in> set (vso_owners ownership) \<or> local \<in> set (vso_replicas ownership))
         then Some (shard\<lparr>vlt_plan_generation := vp_plan_generation plan\<rparr>)
         else None)"

definition rebound_pipeline_stage :: "NodeId \<Rightarrow> V4TrainingPlan \<Rightarrow> (JobId \<times> u16) \<Rightarrow> V4LocalPipelineStage \<Rightarrow> V4LocalPipelineStage option" where
  "rebound_pipeline_stage local plan key stage =
    (if fst key = vp_job_id plan \<and> vp_pipeline_stages plan = vlp_stage_count stage \<and> local \<in> set (vp_workers plan)
     then Some (stage\<lparr>vlp_plan_generation := vp_plan_generation plan\<rparr>) else None)"

text \<open>The entries a pass over a map changes, and the map after it.\<close>

definition rebound_entries :: "('k::linorder \<Rightarrow> 'v \<Rightarrow> 'v option) \<Rightarrow> ('k, 'v) btree \<Rightarrow> 'v list" where
  "rebound_entries f m = List.map_filter (\<lambda>(k, v). f k v) (bt_entries m)"

definition rebound_map :: "('k::linorder \<Rightarrow> 'v \<Rightarrow> 'v option) \<Rightarrow> ('k, 'v) btree \<Rightarrow> ('k, 'v) btree" where
  "rebound_map f m = bt_retain (\<lambda>k v. case f k v of None \<Rightarrow> Some v | Some w \<Rightarrow> Some w) m"

definition sync_local_data_shards_to_plan :: "v4_env \<Rightarrow> V4TrainingPlan \<Rightarrow> V4Node \<Rightarrow> V4Node" where
  "sync_local_data_shards_to_plan env plan s =
    (let f = rebound_data_shard (vn_node_id s) plan
     in fold (\<lambda>shard s. fst (persist_data_shard env shard s)) (rebound_entries f (vn_data_shards s))
          (s\<lparr>vn_data_shards := rebound_map f (vn_data_shards s)\<rparr>))"

definition sync_local_execution_state_to_plan :: "v4_env \<Rightarrow> V4TrainingPlan \<Rightarrow> V4Node \<Rightarrow> V4Node" where
  "sync_local_execution_state_to_plan env plan s =
    (let s = sync_local_data_shards_to_plan env plan s;
         f = rebound_tensor_shard (vn_node_id s) plan;
         s = fold (\<lambda>shard s. fst (persist_tensor_shard env shard s)) (rebound_entries f (vn_tensor_shards s))
               (s\<lparr>vn_tensor_shards := rebound_map f (vn_tensor_shards s)\<rparr>);
         g = rebound_pipeline_stage (vn_node_id s) plan
     in fold (\<lambda>stage s. fst (persist_pipeline_stage env stage s)) (rebound_entries g (vn_pipeline_stages s))
          (s\<lparr>vn_pipeline_stages := rebound_map g (vn_pipeline_stages s)\<rparr>))"

definition plan_update_by_worker :: "V4Node \<Rightarrow> NodeId \<Rightarrow> V4TrainingPlan \<Rightarrow> V4TrainingPlan \<Rightarrow> bool" where
  "plan_update_by_worker s peer plan current \<longleftrightarrow> peer \<in> set (vp_workers current)
     \<and> vp_parent_plan_hash plan = Some (vp_plan_hash current)
     \<and> vp_plan_generation plan > vp_plan_generation current
     \<and> (vn_node_id s \<in> set (vp_workers plan) \<or> vp_proposer current = vn_node_id s)"

definition plan_delivered_again :: "V4Node \<Rightarrow> NodeId \<Rightarrow> V4TrainingPlan \<Rightarrow> V4TrainingPlan \<Rightarrow> bool" where
  "plan_delivered_again s peer plan current \<longleftrightarrow> vp_plan_generation current = vp_plan_generation plan
     \<and> vp_plan_hash current = vp_plan_hash plan
     \<and> (peer = vp_proposer plan \<or> peer \<in> set (vp_workers current))
     \<and> (vn_node_id s \<in> set (vp_workers plan) \<or> vp_proposer plan = vn_node_id s)"

definition plan_accepted :: "v4_codec \<Rightarrow> V4Node \<Rightarrow> NodeId \<Rightarrow> V4TrainingPlan \<Rightarrow> bool \<Rightarrow> bool" where
  "plan_accepted codec s peer plan claim_conflict \<longleftrightarrow>
    (let current = bt_get (vn_plans s) (vp_job_id plan);
         valid_plan = (vp_plan_hash plan = hash_plan codec plan \<and> \<not> is_err (v4_plan_check plan));
         proposer_delivery = (peer = vp_proposer plan
           \<and> (vn_node_id s \<in> set (vp_workers plan) \<or> vp_proposer plan = vn_node_id s))
     in (\<not> claim_conflict \<and> valid_plan
         \<and> (proposer_delivery \<or> is_some_and current (plan_update_by_worker s peer plan)
            \<or> is_some_and current (plan_delivered_again s peer plan)))
        \<and> (case current of None \<Rightarrow> True | Some current \<Rightarrow>
             vp_plan_generation plan > vp_plan_generation current
             \<or> (vp_plan_generation plan = vp_plan_generation current \<and> vp_plan_hash plan = vp_plan_hash current)))"

definition plan_reason :: "v4_codec \<Rightarrow> V4Node \<Rightarrow> V4TrainingPlan \<Rightarrow> bool \<Rightarrow> string" where
  "plan_reason codec s plan accepted =
    (if accepted then ''active plan persisted''
     else if \<not> (vp_plan_hash plan = hash_plan codec plan \<and> \<not> is_err (v4_plan_check plan))
     then ''active plan hash or validation failed''
     else case bt_get (vn_plans s) (vp_job_id plan) of
       Some current \<Rightarrow>
         if vp_plan_generation plan = vp_plan_generation current \<and> vp_plan_hash plan \<noteq> vp_plan_hash current
         then ''same plan generation has a conflicting hash (local='' @ vc_hex codec (as_bytes (vp_plan_hash current)) @ '')''
         else ''active plan generation/hash mismatch (local_generation='' @ decimal (unat (vp_plan_generation current))
              @ '', local_hash='' @ vc_hex codec (as_bytes (vp_plan_hash current)) @ '')''
     | None \<Rightarrow> ''active plan authorization, validation, or generation check failed'')"

definition adopt_plan :: "v4_env \<Rightarrow> V4TrainingPlan \<Rightarrow> V4Node \<Rightarrow> V4Node" where
  "adopt_plan env plan s =
    (let s = s\<lparr>vn_plans := bt_insert (vp_job_id plan) plan (vn_plans s)\<rparr>;
         remove_proposal = (bt_get (vn_plan_proposals s) (vp_job_id plan) \<noteq> None);
         s = s\<lparr>vn_plan_proposals := bt_remove (vp_job_id plan) (vn_plan_proposals s)\<rparr>;
         s = (if remove_proposal then fst (remove_plan_proposal env (vp_job_id plan) s) else s)
     in sync_local_execution_state_to_plan env plan s)"

definition receive_plan :: "v4_codec \<Rightarrow> v4_env \<Rightarrow> NodeId \<Rightarrow> V4TrainingPlan \<Rightarrow> V4Node \<Rightarrow> V4Node" where
  "receive_plan codec env peer plan s =
    (let (security, claim) = observe_authenticated_claim (vn_security s) peer ''v4.plan'' (Some (vp_job_id plan))
           (Some (vp_branch plan)) (vp_plan_generation plan) (vp_plan_generation plan) (vp_plan_hash plan) (ve_now env);
         claim_conflict = is_err claim;
         s = s\<lparr>vn_security := security\<rparr>;
         s = (if claim_conflict then persist_security_state env s else s);
         accepted = plan_accepted codec s peer plan claim_conflict;
         reason = plan_reason codec s plan accepted;
         (s, accepted, reason) =
           (if accepted then case persist_plan env plan s of
                (s, Inl error) \<Rightarrow> (s, False, ''active plan persistence failed: '' @ NodeError_to_string error)
              | (s, Inr _) \<Rightarrow> (adopt_plan env plan s, True, reason)
            else (s, False, reason))
     in fst (send_control_message env peer (V4_PlanAck \<lparr>vpa_job_id = vp_job_id plan,
          vpa_plan_generation = vp_plan_generation plan, vpa_plan_hash = vp_plan_hash plan,
          vpa_accepted = accepted, vpa_reason = reason\<rparr>) s))"

definition proposal_accepted :: "v4_codec \<Rightarrow> V4Node \<Rightarrow> NodeId \<Rightarrow> V4TrainingPlan \<Rightarrow> bool" where
  "proposal_accepted codec s peer plan \<longleftrightarrow>
    (let current = bt_get (vn_plans s) (vp_job_id plan)
     in peer = vp_proposer plan
        \<and> (vn_node_id s \<in> set (vp_workers plan)
           \<or> is_some_and current (\<lambda>current. vn_node_id s \<in> set (vp_workers current)))
        \<and> vp_parent_plan_hash plan \<noteq> None \<and> vp_plan_hash plan = hash_plan codec plan
        \<and> \<not> is_err (v4_plan_check plan)
        \<and> (case current of None \<Rightarrow> True | Some current \<Rightarrow>
             vp_parent_plan_hash plan = Some (vp_plan_hash current)
             \<and> vp_plan_generation plan > vp_plan_generation current))"

definition proposal_reason :: "v4_codec \<Rightarrow> NodeId \<Rightarrow> V4TrainingPlan \<Rightarrow> bool \<Rightarrow> string" where
  "proposal_reason codec peer plan accepted =
    (if accepted then ''proposal persisted for activation''
     else if peer \<noteq> vp_proposer plan then ''proposal sender is not the authenticated proposer''
     else if vp_parent_plan_hash plan = None then ''proposal has no parent plan hash''
     else if vp_plan_hash plan \<noteq> hash_plan codec plan \<or> is_err (v4_plan_check plan) then ''proposal hash or validation failed''
     else ''proposal parent does not match the local active plan'')"

definition store_proposal :: "v4_env \<Rightarrow> V4TrainingPlan \<Rightarrow> V4Node \<Rightarrow> V4Node \<times> (NodeError + unit)" where
  "store_proposal env plan s =
    (let known = bt_get (vn_plan_proposals s) (vp_job_id plan)
     in if is_some_and known (\<lambda>existing. \<not> vp_plan_generation plan \<ge> vp_plan_generation existing) then (s, Inr ())
        else if bt_len (vn_plan_proposals s) \<ge> V4_MAX_PLAN_PROPOSALS \<and> known = None
        then (s, invalid_config ''V4 plan proposal cache is full'')
        else try_then (persist_plan_proposal env plan s)
          (\<lambda>s _. (s\<lparr>vn_plan_proposals := bt_insert (vp_job_id plan) plan (vn_plan_proposals s)\<rparr>, Inr ())))"

definition receive_plan_proposal :: "v4_codec \<Rightarrow> v4_env \<Rightarrow> NodeId \<Rightarrow> V4TrainingPlan \<Rightarrow> V4Node \<Rightarrow> V4Node \<times> (NodeError + unit)" where
  "receive_plan_proposal codec env peer plan s =
     try_then (observe_peer_claim env peer ''v4.plan_proposal'' (Some (vp_job_id plan)) (Some (vp_branch plan))
       (vp_plan_generation plan) (vp_plan_generation plan) (vp_plan_hash plan) s) (\<lambda>s _.
     let accepted = proposal_accepted codec s peer plan
     in try_then (if accepted then store_proposal env plan s else (s, Inr ())) (\<lambda>s _.
        case send_control_message env peer (V4_PlanProposalAck \<lparr>vppa_job_id = vp_job_id plan,
            vppa_plan_generation = vp_plan_generation plan, vppa_proposal_hash = vp_plan_hash plan,
            vppa_accepted = accepted, vppa_reason = proposal_reason codec peer plan accepted\<rparr>) s of
          (s, sent) \<Rightarrow>
            if \<not> sent then (s, invalid_config ''V4 proposal acknowledgement could not reach the proposer'')
            else if \<not> accepted then (s, invalid_config ''V4 proposal is not authorized by the current plan lineage'')
            else (s, Inr ())))"

section \<open>Execution graphs\<close>

definition valid_integrated_election_certificate :: "V4ExecutionGraph \<Rightarrow> V4ExecutionGraph \<Rightarrow> bool" where
  "valid_integrated_election_certificate parent candidate \<longleftrightarrow>
     vg_parent_graph_generation candidate = Some (vg_graph_generation parent)
     \<and> vg_graph_generation candidate = sat_add (vg_graph_generation parent) 1
     \<and> vg_coordination_term candidate > vg_coordination_term parent
     \<and> card (set (vg_election_certificate candidate)) = length (vg_election_certificate candidate)
     \<and> length (vg_election_certificate candidate) > length (vg_workers parent) div 2
     \<and> vg_coordinator candidate \<in> set (vg_election_certificate candidate)
     \<and> (\<forall>voter\<in>set (vg_election_certificate candidate). voter \<in> set (vg_workers parent))"

text \<open>Indexing \<^verbatim>\<open>graph.shards[0]\<close> panics on a graph without shards; validation refuses such a graph.\<close>

definition integrated_state :: "v4_codec \<Rightarrow> V4ExecutionGraph \<Rightarrow> V4IntegratedPhase \<Rightarrow> u64 \<Rightarrow> u64 \<Rightarrow> i64 \<Rightarrow> i64 \<Rightarrow> u32 \<Rightarrow>
    V4IntegratedStateRecord option" where
  "integrated_state codec graph phase window target_windows initial_loss_micros current_loss_micros recovery_count =
    (case vg_shards graph of [] \<Rightarrow> None | shard # _ \<Rightarrow>
       let state = \<lparr>vis_job_id = vg_job_id graph, vis_graph_generation = vg_graph_generation graph,
             vis_plan_hash = vg_plan_hash graph, vis_branch = vg_branch graph, vis_coordinator = vg_coordinator graph,
             vis_phase = phase, vis_window = window, vis_target_windows = target_windows,
             vis_initial_loss_micros = initial_loss_micros, vis_current_loss_micros = current_loss_micros,
             vis_checkpoint_generation = vg_checkpoint_generation graph,
             vis_model_generation = vso_model_generation shard,
             vis_optimizer_generation = vg_optimizer_generation graph,
             vis_membership_epoch = vg_membership_epoch graph,
             vis_collective_generation = vg_collective_generation graph, vis_recovery_count = recovery_count,
             vis_state_hash = filled 0\<rparr>
       in Some (state\<lparr>vis_state_hash := integrated_state_hash codec state\<rparr>))"

text \<open>The graph a node knows fences the graph it is sent.\<close>

definition graph_fence :: "V4ExecutionGraph \<Rightarrow> V4ExecutionGraph \<Rightarrow> NodeError + unit" where
  "graph_fence current graph = all_ok [
     err_if (vg_graph_generation current > vg_graph_generation graph) (NE_InvalidConfig ''integrated V4 start is stale''),
     err_if (vg_graph_generation current = vg_graph_generation graph
         \<and> (vg_graph_hash current \<noteq> vg_graph_hash graph \<or> vg_plan_hash current \<noteq> vg_plan_hash graph
            \<or> vg_branch current \<noteq> vg_branch graph \<or> vg_coordinator current \<noteq> vg_coordinator graph))
       (NE_InvalidConfig ''integrated V4 graph generation has a conflicting hash or coordinator''),
     err_if (vg_graph_generation current < vg_graph_generation graph
         \<and> vg_coordinator current \<noteq> vg_coordinator graph
         \<and> \<not> valid_integrated_election_certificate current graph)
       (NE_InvalidConfig ''integrated V4 coordinator replacement lacks a parent-graph majority certificate'')]"

definition advance_integrated_state :: "v4_codec \<Rightarrow> V4ExecutionGraph \<Rightarrow> V4IntegratedStateRecord \<Rightarrow> V4IntegratedStateRecord" where
  "advance_integrated_state codec graph state =
    (if vis_graph_generation state < vg_graph_generation graph
     then let advanced = state\<lparr>vis_graph_generation := vg_graph_generation graph, vis_plan_hash := vg_plan_hash graph,
             vis_membership_epoch := vg_membership_epoch graph, vis_coordinator := vg_coordinator graph,
             vis_optimizer_generation := vg_optimizer_generation graph,
             vis_checkpoint_generation := vg_checkpoint_generation graph, vis_branch := vg_branch graph,
             vis_phase := IP_Reconfiguring\<rparr>
          in advanced\<lparr>vis_state_hash := integrated_state_hash codec advanced\<rparr>
     else state)"

text \<open>
  The tasks a new participant or driver spawns after the acknowledgement are not part of the step. A panic is the
  error \<open>shards_missing\<close>, which a validated graph never gives.
\<close>

abbreviation shards_missing :: NodeError where
  "shards_missing \<equiv> NE_InvalidConfig ''index out of bounds''"

definition start_authorized :: "V4Node \<Rightarrow> NodeId \<Rightarrow> V4IntegratedStart \<Rightarrow> bool" where
  "start_authorized s peer start \<longleftrightarrow>
     (vn_node_id s = vg_coordinator (vist_graph start) \<and> peer = vist_reply_to start
      \<or> vn_node_id s \<in> set (vg_workers (vist_graph start)) \<and> peer = vg_coordinator (vist_graph start))
     \<and> vg_proposer (vist_graph start) = vg_coordinator (vist_graph start)"

definition acknowledge_start :: "v4_env \<Rightarrow> NodeId \<Rightarrow> V4IntegratedStart \<Rightarrow> V4Node \<Rightarrow> V4Node \<times> (NodeError + unit)" where
  "acknowledge_start env peer start s =
    (let graph = vist_graph start;
         already_running = (bt_get (vn_jobs s) (vg_job_id graph) \<noteq> None);
         s = (if already_running then s else create_job (vg_job_id graph) s);
         reply_peer = (if vn_node_id s = vg_coordinator graph \<and> peer = vist_reply_to start then peer else vg_coordinator graph)
     in case send_control_message env reply_peer (V4_IntegratedAck \<lparr>via_job_id = vg_job_id graph,
            via_graph_generation = vg_graph_generation graph, via_worker = vn_node_id s, via_accepted = True,
            via_reason = ''durable graph persisted''\<rparr>) s of
          (s, True) \<Rightarrow> (s, Inr ())
        | (s, False) \<Rightarrow>
            (if already_running then s else s\<lparr>vn_jobs := bt_remove (vg_job_id graph) (vn_jobs s)\<rparr>,
             invalid_config ''integrated V4 graph acknowledgement could not reach the proposer''))"

definition store_started_state :: "v4_codec \<Rightarrow> v4_env \<Rightarrow> NodeId \<Rightarrow> V4IntegratedStart \<Rightarrow> V4Node \<Rightarrow> V4Node \<times> (NodeError + unit)" where
  "store_started_state codec env peer start s =
    (case (case bt_get (vn_integrated_states s) (vg_job_id (vist_graph start)) of
         Some state \<Rightarrow> Some state
       | None \<Rightarrow> integrated_state codec (vist_graph start) IP_Preparing 0 (vist_windows start) 0 0 0) of
       None \<Rightarrow> (s, Inl shards_missing)
     | Some existing \<Rightarrow>
         let state = advance_integrated_state codec (vist_graph start) existing
         in try_then (persist_integrated_state env state s) (\<lambda>s _.
            acknowledge_start env peer start
              (s\<lparr>vn_integrated_states := bt_insert (vis_job_id state) state (vn_integrated_states s)\<rparr>)))"

definition install_started_graph :: "v4_codec \<Rightarrow> v4_env \<Rightarrow> NodeId \<Rightarrow> V4IntegratedStart \<Rightarrow> V4Node \<Rightarrow> V4Node \<times> (NodeError + unit)" where
  "install_started_graph codec env peer start s =
     try_then (persist_plan env (vist_plan start) s) (\<lambda>s _.
     try_then (persist_execution_graph env (vist_graph start) s) (\<lambda>s _.
     store_started_state codec env peer start
       (s\<lparr>vn_plans := bt_insert (vp_job_id (vist_plan start)) (vist_plan start) (vn_plans s),
          vn_integrated_graphs := bt_insert (vg_job_id (vist_graph start)) (vist_graph start) (vn_integrated_graphs s)\<rparr>)))"

definition receive_integrated_start :: "v4_codec \<Rightarrow> v4_env \<Rightarrow> NodeId \<Rightarrow> V4IntegratedStart \<Rightarrow> V4Node \<Rightarrow> V4Node \<times> (NodeError + unit)" where
  "receive_integrated_start codec env peer start s =
    (let graph = vist_graph start in
     checked (validated (v4_integrated_start_check start)) s (\<lambda>_.
     try_then (observe_peer_claim env peer ''v4.execution_graph'' (Some (vg_job_id graph)) (Some (vg_branch graph))
       (vg_graph_generation graph) (max (vg_coordination_term graph) 1) (vg_graph_hash graph) s) (\<lambda>s _.
     if \<not> start_authorized s peer start
     then (s, invalid_config ''integrated V4 start sender is not an authorized job member'')
     else checked (case bt_get (vn_integrated_graphs s) (vg_job_id graph) of
                     None \<Rightarrow> Inr () | Some current \<Rightarrow> graph_fence current graph) s (\<lambda>_.
     install_started_graph codec env peer start s))))"

section \<open>Replicated job state and probes\<close>

definition state_progress :: "V4IntegratedStateRecord \<Rightarrow> u64 \<times> u64 \<times> u64" where
  "state_progress state = (vis_graph_generation state, vis_checkpoint_generation state, vis_window state)"

definition receive_integrated_state :: "v4_codec \<Rightarrow> v4_env \<Rightarrow> NodeId \<Rightarrow> V4IntegratedStateRecord \<Rightarrow> V4Node \<Rightarrow> V4Node \<times> (NodeError + unit)" where
  "receive_integrated_state codec env peer state s =
    (let ack = (\<lambda>accepted. V4_IntegratedStateAck \<lparr>visa_job_id = vis_job_id state,
           visa_graph_generation = vis_graph_generation state, visa_state_hash = vis_state_hash state,
           visa_worker = vn_node_id s, visa_accepted = accepted\<rparr>) in
     checked (validated (v4_integrated_state_check state)) s (\<lambda>_.
     if vis_state_hash state \<noteq> integrated_state_hash codec state
     then (s, invalid_config ''integrated V4 state hash mismatch'')
     else case bt_get (vn_integrated_graphs s) (vis_job_id state) of
       None \<Rightarrow> (s, invalid_config ''integrated V4 graph is unknown'')
     | Some graph \<Rightarrow>
         if peer \<notin> set (vg_workers graph) \<or> vg_graph_generation graph \<noteq> vis_graph_generation state
            \<or> vg_plan_hash graph \<noteq> vis_plan_hash state \<or> vg_branch graph \<noteq> vis_branch state
         then (s, invalid_config ''integrated V4 state sender or graph generation is unauthorized'')
         else if peer \<noteq> vis_coordinator state
         then (fst (send_control_message env peer (ack False) s), Inr ())
         else let accepted = (case bt_get (vn_integrated_states s) (vis_job_id state) of
                None \<Rightarrow> True | Some current \<Rightarrow> state_progress state \<ge> state_progress current)
           in try_then (if accepted
                then try_then (persist_integrated_state env state s)
                  (\<lambda>s _. (s\<lparr>vn_integrated_states := bt_insert (vis_job_id state) state (vn_integrated_states s)\<rparr>, Inr ()))
                else (s, Inr ()))
              (\<lambda>s _. (fst (send_control_message env peer (ack accepted) s), Inr ()))))"

definition receive_integrated_probe :: "v4_env \<Rightarrow> NodeId \<Rightarrow> V4IntegratedProbe \<Rightarrow> V4Node \<Rightarrow> V4Node \<times> (NodeError + unit)" where
  "receive_integrated_probe env peer probe s =
     checked (validated (v4_integrated_probe_check probe)) s (\<lambda>_.
     if peer \<noteq> vpr_requester probe
     then (s, invalid_config ''integrated V4 liveness probe sender does not match requester'')
     else case bt_get (vn_integrated_graphs s) (vpr_job_id probe) of
       None \<Rightarrow> (s, invalid_config ''integrated V4 probe graph is unknown'')
     | Some graph \<Rightarrow>
         let accepted = (vg_graph_generation graph = vpr_graph_generation probe \<and> vg_graph_hash graph = vpr_graph_hash probe
               \<and> peer \<in> set (vg_workers graph))
         in case send_to env peer (V4_IntegratedProbeAck \<lparr>vpra_request_id = vpr_request_id probe,
                vpra_job_id = vpr_job_id probe, vpra_graph_generation = vpr_graph_generation probe,
                vpra_responder = vn_node_id s, vpra_accepted = accepted\<rparr>) s of
              (s, Inr _) \<Rightarrow> (s, Inr ())
            | (s, Inl _) \<Rightarrow> (s, invalid_config ''integrated liveness probe response could not reach requester''))"

definition receive_integrated_probe_ack :: "NodeId \<Rightarrow> V4IntegratedProbeAck \<Rightarrow> V4Node \<Rightarrow> V4Node \<times> (NodeError + unit)" where
  "receive_integrated_probe_ack peer ack s =
     checked (validated (v4_integrated_probe_ack_check ack)) s (\<lambda>_.
     if peer \<noteq> vpra_responder ack
     then (s, invalid_config ''integrated V4 liveness probe acknowledgement sender does not match responder'')
     else if bt_get (vn_jobs s) (vpra_job_id ack) = None
     then (s, invalid_config ''integrated V4 probe job is unknown'')
     else (mailbox_send (vpra_job_id ack) (VI_Message peer (V4_IntegratedProbeAck ack)) s, Inr ()))"

section \<open>Votes\<close>

definition can_replace :: "V4IntegratedElectionRequest \<Rightarrow> V4IntegratedElectionRecord option \<Rightarrow> bool" where
  "can_replace request known = (case known of None \<Rightarrow> True | Some existing \<Rightarrow>
     vel_graph_generation existing \<noteq> vier_graph_generation request
     \<or> vel_graph_hash existing \<noteq> vier_graph_hash request
     \<or> vier_term request > vel_term existing
     \<or> (vier_term request = vel_term existing \<and> vel_candidate existing = vier_candidate request))"

definition vote_record :: "v4_codec \<Rightarrow> JobId \<Rightarrow> u64 \<Rightarrow> ArtifactId \<Rightarrow> u64 \<Rightarrow> NodeId \<Rightarrow> V4IntegratedElectionRecord" where
  "vote_record codec job_id graph_generation graph_hash term candidate =
    (let record = \<lparr>vel_job_id = job_id, vel_graph_generation = graph_generation, vel_graph_hash = graph_hash,
           vel_term = term, vel_candidate = candidate, vel_vote_hash = filled 0\<rparr>
     in record\<lparr>vel_vote_hash := integrated_election_hash codec record\<rparr>)"

text \<open>Why a request is refused before the vote of the term is looked at; none when it may be granted.\<close>

definition vote_refusal :: "V4Node \<Rightarrow> V4ExecutionGraph \<Rightarrow> V4IntegratedStateRecord \<Rightarrow> NodeId \<Rightarrow> V4IntegratedElectionRequest \<Rightarrow> string option" where
  "vote_refusal s graph state peer request =
    (if peer \<noteq> vier_candidate request then Some ''election sender is not the candidate''
     else if peer \<notin> set (vg_workers graph) then Some ''election candidate is not a graph member''
     else if vg_graph_generation graph \<noteq> vier_graph_generation request \<or> vg_graph_hash graph \<noteq> vier_graph_hash request
          \<or> vg_branch graph \<noteq> vier_branch request
     then Some ''election graph generation or branch is stale''
     else if vg_coordinator graph = vn_node_id s then Some ''current coordinator will not vote for a replacement''
     else if vis_phase state \<notin> {IP_Running, IP_Partitioned} then Some ''graph transition is not in a voteable stable phase''
     else if vier_term request \<le> vg_coordination_term graph then Some ''election term is not newer than the active graph''
     else None)"

definition cast_vote :: "v4_codec \<Rightarrow> v4_env \<Rightarrow> NodeId \<Rightarrow> V4IntegratedElectionRequest \<Rightarrow> V4ExecutionGraph \<Rightarrow> V4IntegratedStateRecord \<Rightarrow>
    V4Node \<Rightarrow> V4Node \<times> (NodeError + bool \<times> string)" where
  "cast_vote codec env peer request graph state s = (case vote_refusal s graph state peer request of
     Some reason \<Rightarrow> (s, Inr (False, reason))
   | None \<Rightarrow>
       if can_replace request (bt_get (vn_integrated_elections s) (vier_job_id request))
       then let record = vote_record codec (vier_job_id request) (vier_graph_generation request) (vier_graph_hash request)
              (vier_term request) (vier_candidate request)
         in try_then (persist_integrated_election env record s) (\<lambda>s _.
            (s\<lparr>vn_integrated_elections := bt_insert (vier_job_id request) record (vn_integrated_elections s)\<rparr>,
             Inr (True, ''majority-election vote persisted'')))
       else (s, Inr (False, ''a different candidate already owns this election term'')))"

definition send_vote :: "v4_env \<Rightarrow> NodeId \<Rightarrow> V4IntegratedElectionRequest \<Rightarrow> bool \<Rightarrow> string \<Rightarrow> V4Node \<Rightarrow> V4Node \<times> (NodeError + unit)" where
  "send_vote env peer request granted reason s =
    (case send_control_message env peer (V4_IntegratedElectionVote \<lparr>viev_job_id = vier_job_id request,
         viev_graph_generation = vier_graph_generation request, viev_graph_hash = vier_graph_hash request,
         viev_term = vier_term request, viev_candidate = vier_candidate request, viev_voter = vn_node_id s,
         viev_granted = granted, viev_reason = reason\<rparr>) s of
       (s, True) \<Rightarrow> (s, Inr ())
     | (s, False) \<Rightarrow> (s, invalid_config ''integrated election vote could not reach candidate''))"

definition receive_integrated_election_request :: "v4_codec \<Rightarrow> v4_env \<Rightarrow> NodeId \<Rightarrow> V4IntegratedElectionRequest \<Rightarrow> V4Node \<Rightarrow>
    V4Node \<times> (NodeError + unit)" where
  "receive_integrated_election_request codec env peer request s =
     checked (validated (v4_integrated_election_request_check request)) s (\<lambda>_.
     case bt_get (vn_integrated_graphs s) (vier_job_id request) of
       None \<Rightarrow> (s, invalid_config ''integrated election graph is unknown'')
     | Some graph \<Rightarrow> case bt_get (vn_integrated_states s) (vier_job_id request) of
         None \<Rightarrow> (s, invalid_config ''integrated election state is unknown'')
       | Some state \<Rightarrow> try_then (cast_vote codec env peer request graph state s) (\<lambda>s (granted, reason).
           send_vote env peer request granted reason s))"

end
