(* ===== verification/Node_Collective.thy ===== *)
theory Node_Collective
  imports Node_State
begin

text \<open>
  Aggregation in \<^verbatim>\<open>node/src/frontier_training.rs\<close>: the hierarchical collective, in which every group aggregator is
  a root that combines the aggregates of all groups, the aggregation of updates under a Byzantine policy, and the
  reconciliation of branches.
\<close>

section \<open>Sums of vectors\<close>

definition add_values :: "i64 list \<Rightarrow> i64 list \<Rightarrow> i64 list" where
  "add_values sums vals = map2 (\<lambda>slot value. clamp_i64 (slot + value)) sums vals @ drop (length vals) sums"

definition sum_values :: "i64 list list \<Rightarrow> i64 list" where
  "sum_values vectors = fold (\<lambda>vals sums. add_values sums vals) vectors
     (replicate (case vectors of [] \<Rightarrow> 0 | first # _ \<Rightarrow> length first) 0)"

section \<open>The collective\<close>

definition collective_strategy :: "V4TrainingPlan \<Rightarrow> bool" where
  "collective_strategy plan \<longleftrightarrow> vp_strategy plan \<in> {PS_LocalSgd, PS_Hybrid}"

text \<open>The total of the groups of a request, once all of them are known.\<close>

definition collective_finish :: "V4CollectiveState \<Rightarrow> u16 \<Rightarrow> (i64 list \<times> u16) option" where
  "collective_finish state expected_groups =
    (if bt_len (vcs_groups state) = unat expected_groups
     then Some (sum_values (map fst (bt_values (vcs_groups state))),
                fold (\<lambda>(_, n) all_n. sat_add all_n n) (bt_values (vcs_groups state)) 0)
     else None)"

definition collective_result :: "JobId \<Rightarrow> JobId \<Rightarrow> u64 \<Rightarrow> u64 \<Rightarrow> i64 list \<Rightarrow> u16 \<Rightarrow> u16 \<Rightarrow> V4CollectiveResult" where
  "collective_result request_id job_id plan_generation generation vals contributors groups =
    \<lparr>vcr_request_id = request_id, vcr_job_id = job_id, vcr_plan_generation = plan_generation,
     vcr_generation = generation, vcr_values = vals, vcr_group_count = groups, vcr_max_fan_in = 2,
     vcr_contributor_bytes = sat_mul (sat_mul (ucast contributors) (of_nat (length vals))) 8,
     vcr_root_received_bytes = sat_mul (sat_mul (ucast groups) (of_nat (length vals))) 8\<rparr>"

definition same_request :: "V4CollectiveState \<Rightarrow> JobId \<Rightarrow> u64 \<Rightarrow> u64 \<Rightarrow> u16 \<Rightarrow> NodeId \<Rightarrow> usize \<Rightarrow> bool" where
  "same_request state job_id plan_generation generation expected_groups reply_to value_len \<longleftrightarrow>
     vcs_job_id state = job_id \<and> vcs_plan_generation state = plan_generation \<and> vcs_generation state = generation
     \<and> vcs_expected_groups state = expected_groups \<and> vcs_reply_to state = reply_to \<and> vcs_value_len state = value_len"

definition new_collective :: "JobId \<Rightarrow> u64 \<Rightarrow> u64 \<Rightarrow> u16 \<Rightarrow> u16 \<Rightarrow> u16 \<Rightarrow> NodeId option \<Rightarrow> NodeId \<Rightarrow> usize \<Rightarrow> V4CollectiveState" where
  "new_collective job_id plan_generation generation expected_contributors expected_groups group_id parent reply_to value_len =
    \<lparr>vcs_job_id = job_id, vcs_plan_generation = plan_generation, vcs_generation = generation,
     vcs_expected_contributors = expected_contributors, vcs_expected_groups = expected_groups, vcs_group_id = group_id,
     vcs_parent = parent, vcs_reply_to = reply_to, vcs_value_len = value_len, vcs_contributions = bt_new,
     vcs_groups = bt_new\<rparr>"

text \<open>
  A group aggregate enters the record of its request, by the handler of an aggregate and by the completion of the
  local group. The record is created when the request is new and the limit allows it.
\<close>

definition insert_group :: "JobId \<Rightarrow> V4CollectiveState \<Rightarrow> u16 \<Rightarrow> i64 list \<Rightarrow> u16 \<Rightarrow> string \<Rightarrow> string \<Rightarrow> V4Node \<Rightarrow>
    V4Node \<times> (NodeError + V4CollectiveState)" where
  "insert_group request_id fresh group_id vals contributors generation_conflict group_conflict s =
    (if bt_get (vn_collectives s) request_id = None \<and> bt_len (vn_collectives s) \<ge> V4_MAX_AGGREGATION_REQUESTS
     then (s, invalid_config ''V4 collective request limit reached'')
     else let state = (case bt_get (vn_collectives s) request_id of None \<Rightarrow> fresh | Some state \<Rightarrow> state);
              s = s\<lparr>vn_collectives := bt_insert request_id state (vn_collectives s)\<rparr>
       in if \<not> same_request state (vcs_job_id fresh) (vcs_plan_generation fresh) (vcs_generation fresh)
               (vcs_expected_groups fresh) (vcs_reply_to fresh) (vcs_value_len fresh)
          then (s, invalid_config generation_conflict)
          else case bt_get (vcs_groups state) group_id of
            Some known \<Rightarrow> if known = (vals, contributors) then (s, Inr state) else (s, invalid_config group_conflict)
          | None \<Rightarrow>
              let state = state\<lparr>vcs_groups := bt_insert group_id (vals, contributors) (vcs_groups state)\<rparr>
              in (s\<lparr>vn_collectives := bt_insert request_id state (vn_collectives s)\<rparr>, Inr state))"

definition finish_collective_group :: "v4_codec \<Rightarrow> v4_env \<Rightarrow> JobId \<Rightarrow> JobId \<Rightarrow> u64 \<Rightarrow> u64 \<Rightarrow> u16 \<Rightarrow> i64 list \<Rightarrow> u16 \<Rightarrow> u16 \<Rightarrow> NodeId \<Rightarrow>
    V4Node \<Rightarrow> V4Node \<times> (NodeError + unit)" where
  "finish_collective_group codec env request_id job_id plan_generation generation group_id vals contributors expected_groups
     reply_to s =
     try_then (insert_group request_id (new_collective job_id plan_generation generation 0 expected_groups group_id None
         reply_to (length vals)) group_id vals contributors ''V4 collective completion generation conflict''
         ''V4 collective completion has conflicting group values'' s) (\<lambda>s state.
     case collective_finish state expected_groups of
       None \<Rightarrow> (s, Inr ())
     | Some (sums, all_contributors) \<Rightarrow>
         deliver_v4_message codec env reply_to job_id (V4_CollectiveResult (collective_result request_id job_id
             plan_generation generation sums all_contributors expected_groups))
           (s\<lparr>vn_collectives := bt_remove request_id (vn_collectives s)\<rparr>))"

definition receive_collective_aggregate :: "v4_codec \<Rightarrow> v4_env \<Rightarrow> NodeId \<Rightarrow> V4CollectiveAggregate \<Rightarrow> V4Node \<Rightarrow> V4Node \<times> (NodeError + unit)" where
  "receive_collective_aggregate codec env peer a s =
     checked (authorized_reference_plan codec s (vca_reply_to a) (vca_job_id a) (vca_plan_generation a)) s (\<lambda>plan.
     if \<not> collective_strategy plan \<or> vca_aggregator a \<notin> set (vp_workers plan) \<or> vca_aggregator a \<noteq> peer
     then (s, invalid_config ''V4 collective aggregate is not authorized by the plan'')
     else try_then (insert_group (vca_request_id a) (new_collective (vca_job_id a) (vca_plan_generation a) (vca_generation a)
         0 (vca_expected_groups a) 0 None (vca_reply_to a) (length (vca_values a))) (vca_group_id a) (vca_values a)
         (vca_contributors a) ''V4 collective aggregate generation conflict''
         ''V4 collective duplicate group has conflicting values'' s) (\<lambda>s state.
     case collective_finish state (vcs_expected_groups state) of
       None \<Rightarrow> (s, Inr ())
     | Some (sums, contributors) \<Rightarrow>
         deliver_v4_message codec env (vcs_reply_to state) (vca_job_id a) (V4_CollectiveResult (collective_result
             (vca_request_id a) (vca_job_id a) (vca_plan_generation a) (vca_generation a) sums contributors
             (vcs_expected_groups state)))
           (s\<lparr>vn_collectives := bt_remove (vca_request_id a) (vn_collectives s)\<rparr>)))"

text \<open>
  A contribution enters the record of its request; the sum of the group is the result when the last one arrives.
  A record that an aggregate created takes its group from the first contribution.
\<close>

definition contribution_state :: "V4CollectiveContribute \<Rightarrow> V4CollectiveState" where
  "contribution_state c = new_collective (vcc_job_id c) (vcc_plan_generation c) (vcc_generation c)
     (vcc_expected_contributors c) (vcc_expected_groups c) (vcc_group_id c) (vcc_parent c) (vcc_reply_to c)
     (length (vcc_values c))"

definition adopt_group :: "V4CollectiveContribute \<Rightarrow> V4CollectiveState \<Rightarrow> V4CollectiveState" where
  "adopt_group c state =
    (if vcs_expected_contributors state = 0
     then state\<lparr>vcs_expected_contributors := vcc_expected_contributors c, vcs_group_id := vcc_group_id c,
                vcs_parent := vcc_parent c\<rparr>
     else state)"

definition contribution_conflicts :: "V4CollectiveContribute \<Rightarrow> V4CollectiveState \<Rightarrow> bool" where
  "contribution_conflicts c state \<longleftrightarrow>
     \<not> same_request state (vcc_job_id c) (vcc_plan_generation c) (vcc_generation c) (vcc_expected_groups c)
         (vcc_reply_to c) (length (vcc_values c))
     \<or> (vcs_expected_contributors state \<noteq> 0
        \<and> (vcs_expected_contributors state \<noteq> vcc_expected_contributors c \<or> vcs_group_id state \<noteq> vcc_group_id c
           \<or> vcs_parent state \<noteq> vcc_parent c))"

definition complete_group :: "V4CollectiveState \<Rightarrow> V4CollectiveState \<times> i64 list option" where
  "complete_group state =
    (if bt_len (vcs_contributions state) = unat (vcs_expected_contributors state)
     then let sums = sum_values (bt_values (vcs_contributions state))
       in (state\<lparr>vcs_groups := bt_insert (vcs_group_id state) (sums, vcs_expected_contributors state) (vcs_groups state),
                 vcs_contributions := bt_new\<rparr>, Some sums)
     else (state, None))"

definition insert_contribution :: "V4CollectiveContribute \<Rightarrow> V4Node \<Rightarrow>
    V4Node \<times> (NodeError + V4CollectiveState \<times> i64 list option)" where
  "insert_contribution c s =
    (if bt_get (vn_collectives s) (vcc_request_id c) = None \<and> bt_len (vn_collectives s) \<ge> V4_MAX_AGGREGATION_REQUESTS
     then (s, invalid_config ''V4 collective request limit reached'')
     else let state = (case bt_get (vn_collectives s) (vcc_request_id c) of
                None \<Rightarrow> contribution_state c | Some state \<Rightarrow> state);
              put = (\<lambda>state. s\<lparr>vn_collectives := bt_insert (vcc_request_id c) state (vn_collectives s)\<rparr>)
       in if contribution_conflicts c state
          then (put state, invalid_config ''V4 collective state conflicts with existing generation'')
          else let state = adopt_group c state
            in case bt_get (vcs_contributions state) (vcc_contributor c) of
                 Some known \<Rightarrow>
                   if known = vcc_values c
                   then case complete_group state of (state, sums) \<Rightarrow> (put state, Inr (state, sums))
                   else (put state, invalid_config ''V4 collective duplicate contributor has conflicting values'')
               | None \<Rightarrow>
                   (case complete_group (state\<lparr>vcs_contributions :=
                        bt_insert (vcc_contributor c) (vcc_values c) (vcs_contributions state)\<rparr>) of
                      (state, sums) \<Rightarrow> (put state, Inr (state, sums))))"

definition receive_collective_contribution :: "v4_codec \<Rightarrow> v4_env \<Rightarrow> NodeId \<Rightarrow> V4CollectiveContribute \<Rightarrow> V4Node \<Rightarrow>
    V4Node \<times> (NodeError + unit)" where
  "receive_collective_contribution codec env peer c s =
     checked (authorized_reference_plan codec s (vcc_reply_to c) (vcc_job_id c) (vcc_plan_generation c)) s (\<lambda>plan.
     if \<not> collective_strategy plan \<or> vcc_contributor c \<notin> set (vp_workers plan) \<or> vcc_aggregator c \<notin> set (vp_workers plan)
        \<or> is_some_and (vcc_parent c) (\<lambda>parent. parent \<notin> set (vp_workers plan))
     then (s, invalid_config ''V4 collective contribution is not authorized by the plan'')
     else if vcc_aggregator c \<noteq> vn_node_id s
     then if vcc_contributor c \<noteq> vn_node_id s
          then (s, invalid_config ''V4 collective forward is not bound to the local contributor'')
          else deliver_v4_message codec env (vcc_aggregator c) (vcc_job_id c) (V4_CollectiveContribute c) s
     else if vcc_contributor c \<noteq> vn_node_id s \<and> vcc_contributor c \<noteq> peer
     then (s, invalid_config ''V4 collective contributor/aggregator binding failed'')
     else try_then (insert_contribution c s) (\<lambda>s (state, complete).
     case complete of
       None \<Rightarrow> (s, Inr ())
     | Some vals \<Rightarrow>
         try_then (case vcs_parent state of
             None \<Rightarrow> (s, Inr ())
           | Some parent \<Rightarrow> deliver_v4_message codec env parent (vcc_job_id c) (V4_CollectiveAggregate
               \<lparr>vca_request_id = vcc_request_id c, vca_job_id = vcc_job_id c, vca_plan_generation = vcc_plan_generation c,
                vca_generation = vcc_generation c, vca_group_id = vcs_group_id state, vca_aggregator = vn_node_id s,
                vca_values = vals, vca_contributors = vcs_expected_contributors state,
                vca_expected_groups = vcs_expected_groups state, vca_reply_to = vcs_reply_to state\<rparr>) s) (\<lambda>s _.
         finish_collective_group codec env (vcc_request_id c) (vcc_job_id c) (vcc_plan_generation c) (vcc_generation c)
           (vcs_group_id state) vals (vcs_expected_contributors state) (vcs_expected_groups state) (vcs_reply_to state) s)))"

section \<open>Updates under a Byzantine policy\<close>

definition byzantine_state :: "V4ByzantineUpdate \<Rightarrow> V4ByzantineState" where
  "byzantine_state u = \<lparr>vbs_job_id = vbu_job_id u, vbs_plan_generation = vbu_plan_generation u,
     vbs_generation = vbu_generation u, vbs_aggregator = vbu_aggregator u, vbs_expected_updates = vbu_expected_updates u,
     vbs_policy = vbu_policy u, vbs_reply_to = vbu_reply_to u, vbs_value_len = length (vbu_values u),
     vbs_updates = bt_new, vbs_completed = None\<rparr>"

definition same_lineage :: "V4ByzantineState \<Rightarrow> V4ByzantineUpdate \<Rightarrow> bool" where
  "same_lineage state u \<longleftrightarrow> vbs_job_id state = vbu_job_id u \<and> vbs_plan_generation state = vbu_plan_generation u
     \<and> vbs_generation state = vbu_generation u \<and> vbs_policy state = vbu_policy u \<and> vbs_reply_to state = vbu_reply_to u"

definition outlier :: "i64 list \<Rightarrow> bool" where
  "outlier vals \<longleftrightarrow> (\<exists>value\<in>set vals. unsigned_abs value > 100)"

text \<open>The result of a request whose updates are all known, and the workers it rejects.\<close>

definition byzantine_result :: "V4ByzantineUpdate \<Rightarrow> V4ByzantineState \<Rightarrow> NodeError + V4ByzantineResult" where
  "byzantine_result u state =
     map_err (\<lambda>error. NE_InvalidConfig (V4PlannerError_to_string error))
      (and_then (aggregate_updates (vbs_policy state) (map snd (bt_values (vbs_updates state))) 100) (\<lambda>report.
       let rejected_workers = map fst (filter (\<lambda>(_, _, vals). outlier vals) (bt_entries (vbs_updates state)))
       in Inr \<lparr>vbr_request_id = vbu_request_id u, vbr_job_id = vbu_job_id u, vbr_plan_generation = vbu_plan_generation u,
            vbr_generation = vbu_generation u, vbr_policy = vbu_policy u, vbr_aggregate = vbp_aggregate report,
            vbr_accepted_workers = filter (\<lambda>worker. worker \<notin> set rejected_workers) (map fst (bt_entries (vbs_updates state))),
            vbr_rejected_workers = rejected_workers, vbr_robust = (vbu_policy u \<noteq> BP_Mean)\<rparr>))"

definition record_rejections :: "v4_env \<Rightarrow> NodeId list \<Rightarrow> V4Node \<Rightarrow> V4Node" where
  "record_rejections env workers s =
    (if workers = [] then s
     else persist_security_state env (s\<lparr>vn_security := fold (\<lambda>worker security.
         record_event security (ve_now env) (Some worker) SK_TrainingUpdateRejected ''v4_byzantine_aggregation''
           ''bounded robust aggregation excluded an outlier update'') workers (vn_security s)\<rparr>))"

text \<open>An admitted update enters the record of its request.\<close>

definition insert_update :: "v4_env \<Rightarrow> V4ByzantineUpdate \<Rightarrow> V4Node \<Rightarrow> V4Node \<times> (NodeError + unit)" where
  "insert_update env u s =
    (let known = bt_get (vn_byzantine s) (vbu_request_id u);
         put = (\<lambda>state s. s\<lparr>vn_byzantine := bt_insert (vbu_request_id u) state (vn_byzantine s)\<rparr>)
     in case Option.bind known vbs_completed of
       Some result \<Rightarrow>
         if \<not> is_some_and known (\<lambda>state. same_lineage state u)
         then (s, invalid_config ''V4 Byzantine replay has conflicting lineage'')
         else send_to env (vbu_reply_to u) (V4_ByzantineResult result) s
     | None \<Rightarrow>
         if known = None \<and> bt_len (vn_byzantine s) \<ge> V4_MAX_AGGREGATION_REQUESTS
         then (s, invalid_config ''V4 Byzantine aggregation request limit reached'')
         else let state = (case known of None \<Rightarrow> byzantine_state u | Some state \<Rightarrow> state)
           in if \<not> same_lineage state u \<or> vbs_aggregator state \<noteq> vbu_aggregator u
                 \<or> vbs_expected_updates state \<noteq> vbu_expected_updates u \<or> vbs_value_len state \<noteq> length (vbu_values u)
              then (put state s, invalid_config ''V4 Byzantine update generation conflict'')
              else if is_some_and (bt_get (vbs_updates state) (vbu_worker u)) (\<lambda>entry. entry \<noteq> (vbu_sequence u, vbu_values u))
              then (put state s, invalid_config ''V4 Byzantine duplicate worker has conflicting update'')
              else let state = state\<lparr>vbs_updates := bt_insert (vbu_worker u) (vbu_sequence u, vbu_values u) (vbs_updates state)\<rparr>
                in if bt_len (vbs_updates state) = unat (vbs_expected_updates state)
                   then case byzantine_result u state of
                     Inl e \<Rightarrow> (put state s, Inl e)
                   | Inr result \<Rightarrow>
                       send_to env (vbs_reply_to state) (V4_ByzantineResult result)
                         (put (state\<lparr>vbs_updates := bt_new, vbs_completed := Some result\<rparr>)
                           (record_rejections env (vbr_rejected_workers result) s))
                   else (put state s, Inr ()))"

definition receive_byzantine_update :: "('k, 'g) security_crypto \<Rightarrow> v4_codec \<Rightarrow> v4_env \<Rightarrow> NodeId \<Rightarrow> V4ByzantineUpdate \<Rightarrow> V4Node \<Rightarrow>
    V4Node \<times> (NodeError + unit)" where
  "receive_byzantine_update crypto codec env peer u s =
     checked (authorized_reference_plan codec s (vbu_reply_to u) (vbu_job_id u) (vbu_plan_generation u)) s (\<lambda>plan.
     if vp_strategy plan \<noteq> PS_LocalSgd \<or> vbu_worker u \<notin> set (vp_workers plan) \<or> vbu_aggregator u \<notin> set (vp_workers plan)
     then (s, invalid_config ''V4 Byzantine update is not authorized by the plan'')
     else if vbu_aggregator u \<noteq> vn_node_id s
     then if vbu_worker u \<noteq> vn_node_id s
          then (s, invalid_config ''V4 update forward is not bound to the local worker'')
          else send_to env (vbu_aggregator u) (V4_ByzantineUpdate u) s
     else if vbu_worker u \<noteq> vn_node_id s \<and> vbu_worker u \<noteq> peer
     then (s, invalid_config ''V4 update worker binding failed'')
     else case admit_training_update (vc_blake3 codec) crypto (vn_security s) \<lparr>tcb_job_id = vbu_job_id u,
           tcb_worker = vbu_worker u, tcb_branch = vp_branch plan, tcb_plan_generation = vbu_plan_generation u,
           tcb_generation = vbu_generation u, tcb_sequence = vbu_sequence u, tcb_values = vbu_values u\<rparr>
           (vp_workers plan) (ve_now env) of
         (security, Inl e) \<Rightarrow> (s\<lparr>vn_security := security\<rparr>,
            invalid_config (''V6 training update rejected: '' @ SecurityError_to_string e))
       | (security, Inr _) \<Rightarrow> insert_update env u (persist_security_state env (s\<lparr>vn_security := security\<rparr>)))"

section \<open>Reconciliation\<close>

definition receive_reconcile :: "v4_codec \<Rightarrow> v4_env \<Rightarrow> NodeId \<Rightarrow> V4ReconcileRequest \<Rightarrow> V4Node \<Rightarrow> V4Node \<times> (NodeError + unit)" where
  "receive_reconcile codec env peer request s =
    (if peer = vn_node_id s then (s, invalid_config ''V4 reconciliation cannot target the local requester'')
     else case reconcile_branches (vc_blake3 codec) (vc_hex codec) (vrq_left request) (vrq_right request)
         (vrq_policy request) (vrq_left_value request) (vrq_right_value request) of
       Inl e \<Rightarrow> (s, invalid_config (V4PlannerError_to_string e))
     | Inr decision \<Rightarrow> send_to env peer (V4_ReconcileResult \<lparr>vrr_request_id = vrq_request_id request,
         vrr_job_id = vrq_job_id request, vrr_plan_generation = vrq_plan_generation request,
         vrr_accepted = vbd_accepted decision, vrr_branch = vbd_branch decision, vrr_merged_value = vbd_value decision,
         vrr_reason = vbd_reason decision\<rparr>) s)"

end
