(* ===== verification/Node_Replication.thy ===== *)
theory Node_Replication
  imports Node_State
begin

text \<open>
  Replicated training state in \<^verbatim>\<open>node/src/frontier_training.rs\<close>: training state records, optimizer shards,
  checkpoint manifests, the migration of data shards, and the installation and replication of tensor shards and
  optimizer state.
\<close>

section \<open>Replicated records\<close>

definition send_state_ack :: "v4_env \<Rightarrow> NodeId \<Rightarrow> V4StateAck \<Rightarrow> V4Node \<Rightarrow> V4Node \<times> (NodeError + unit)" where
  "send_state_ack env peer ack s = send_to env peer (V4_StateAck ack) s"

definition training_progress :: "V4TrainingStateRecord \<Rightarrow> u64 \<times> u64 \<times> u64 \<times> u64 \<times> u64" where
  "training_progress r = (vts_plan_generation r, vts_membership_epoch r, vts_coordination_term r,
     vts_optimizer_generation r, vts_checkpoint_generation r)"

definition receive_state_record :: "v4_codec \<Rightarrow> v4_env \<Rightarrow> NodeId \<Rightarrow> V4TrainingStateRecord \<Rightarrow> V4Node \<Rightarrow> V4Node \<times> (NodeError + unit)" where
  "receive_state_record codec env peer record s =
     try_then (observe_peer_claim env peer ''v4.training_state'' (Some (vts_job_id record)) (Some (vts_branch record))
       (max (vts_checkpoint_generation record) 1) (max (vts_optimizer_generation record) 1) (vts_state_hash record) s) (\<lambda>s _.
     if peer \<noteq> vts_coordinator record \<and> peer \<notin> set (vts_workers record)
        \<or> vts_state_hash record \<noteq> training_state_hash codec record \<or> is_err (v4_training_state_check record)
     then (s, invalid_config ''V4 training state failed authorization or integrity validation'')
     else
       let accepted = (case bt_get (vn_training_states s) (vts_job_id record) of None \<Rightarrow> True | Some current \<Rightarrow>
             training_progress record > training_progress current
             \<or> (training_progress record = training_progress current \<and> vts_state_hash current = vts_state_hash record))
       in try_then (if accepted
            then try_then (persist_training_state env record s)
              (\<lambda>s _. (s\<lparr>vn_training_states := bt_insert (vts_job_id record) record (vn_training_states s)\<rparr>, Inr ()))
            else (s, Inr ()))
          (\<lambda>s _. send_state_ack env peer \<lparr>vsa_job_id = vts_job_id record, vsa_plan_generation = vts_plan_generation record,
             vsa_generation = vts_checkpoint_generation record, vsa_kind = SAK_TrainingState,
             vsa_state_hash = vts_state_hash record, vsa_accepted = accepted\<rparr> s))"

definition receive_optimizer_shard :: "v4_codec \<Rightarrow> v4_env \<Rightarrow> NodeId \<Rightarrow> V4OptimizerShardRecord \<Rightarrow> V4Node \<Rightarrow> V4Node \<times> (NodeError + unit)" where
  "receive_optimizer_shard codec env peer record s =
     try_then (observe_peer_claim env peer (''v4.optimizer_state/'' @ decimal (unat (vos_shard_id record)))
       (Some (vos_job_id record)) None (vos_optimizer_generation record) (max (vos_plan_generation record) 1)
       (vos_state_hash record) s) (\<lambda>s _.
     if (vos_owner record \<noteq> vn_node_id s \<and> vn_node_id s \<notin> set (vos_replicas record))
        \<or> vos_state_hash record \<noteq> optimizer_shard_hash codec record \<or> is_err (v4_optimizer_shard_check record)
     then (s, invalid_config ''V4 optimizer shard failed authorization or integrity validation'')
     else
       let key = (vos_job_id record, vos_shard_id record);
           accepted = (case bt_get (vn_optimizer_shards s) key of None \<Rightarrow> True | Some current \<Rightarrow>
             vos_optimizer_generation record > vos_optimizer_generation current
             \<or> (vos_optimizer_generation record = vos_optimizer_generation current
                \<and> vos_state_hash record = vos_state_hash current))
       in try_then (if accepted
            then try_then (persist_optimizer_shard env record s)
              (\<lambda>s _. (s\<lparr>vn_optimizer_shards := bt_insert key record (vn_optimizer_shards s)\<rparr>, Inr ()))
            else (s, Inr ()))
          (\<lambda>s _. send_state_ack env peer \<lparr>vsa_job_id = vos_job_id record, vsa_plan_generation = vos_plan_generation record,
             vsa_generation = vos_optimizer_generation record, vsa_kind = SAK_OptimizerShard,
             vsa_state_hash = vos_state_hash record, vsa_accepted = accepted\<rparr> s))"

definition receive_checkpoint_record :: "v4_codec \<Rightarrow> v4_env \<Rightarrow> NodeId \<Rightarrow> V4CheckpointRecord \<Rightarrow> V4Node \<Rightarrow> V4Node \<times> (NodeError + unit)" where
  "receive_checkpoint_record codec env peer record s =
     try_then (observe_peer_claim env peer ''v4.checkpoint'' (Some (vck_job_id record)) (Some (vck_branch record))
       (vck_checkpoint_generation record) (max (vck_plan_generation record) 1) (vck_manifest_hash record) s) (\<lambda>s _.
     if vn_node_id s \<notin> set (vck_providers record) \<or> vck_manifest_hash record \<noteq> checkpoint_hash codec record
        \<or> is_err (v4_checkpoint_check record)
     then (s, invalid_config ''V4 checkpoint failed provider authorization or integrity validation'')
     else
       let key = (vck_job_id record, vck_checkpoint_generation record);
           accepted = (case bt_get (vn_checkpoints s) key of None \<Rightarrow> True | Some current \<Rightarrow>
             vck_manifest_hash record = vck_manifest_hash current
             \<or> vck_checkpoint_generation record > vck_checkpoint_generation current)
       in try_then (if accepted
            then try_then (persist_checkpoint env record s)
              (\<lambda>s _. (s\<lparr>vn_checkpoints := bt_insert key record (vn_checkpoints s)\<rparr>, Inr ()))
            else (s, Inr ()))
          (\<lambda>s _. send_state_ack env peer \<lparr>vsa_job_id = vck_job_id record, vsa_plan_generation = vck_plan_generation record,
             vsa_generation = vck_checkpoint_generation record, vsa_kind = SAK_Checkpoint,
             vsa_state_hash = vck_manifest_hash record, vsa_accepted = accepted\<rparr> s))"

section \<open>Migration of data shards\<close>

definition send_migration_ack :: "v4_env \<Rightarrow> NodeId \<Rightarrow> V4ShardMigration \<Rightarrow> bool \<Rightarrow> V4Node \<Rightarrow> V4Node \<times> (NodeError + unit)" where
  "send_migration_ack env peer migration verified s = send_to env peer (V4_ShardMigrationAck
     \<lparr>vsma_job_id = vsm_job_id migration, vsma_plan_generation = vsm_plan_generation migration,
      vsma_shard_id = vsm_shard_id migration, vsma_owner = vn_node_id s,
      vsma_ownership_generation = vsm_ownership_generation migration, vsma_content_hash = vsm_content_hash migration,
      vsma_verified = verified, vsma_phase = vsm_phase migration\<rparr>) s"

definition prepare_migration :: "v4_codec \<Rightarrow> v4_env \<Rightarrow> NodeId \<Rightarrow> V4ShardMigration \<Rightarrow> V4Node \<Rightarrow> V4Node \<times> (NodeError + unit)" where
  "prepare_migration codec env peer migration s =
    (let key = (vsm_job_id migration, vsm_shard_id migration);
         shard = \<lparr>vld_job_id = vsm_job_id migration, vld_shard_id = vsm_shard_id migration,
           vld_plan_generation = vsm_plan_generation migration,
           vld_ownership_generation = vsm_ownership_generation migration,
           vld_hash = vsm_content_hash migration, vld_bytes = vsm_state migration\<rparr>
     in if vsm_state migration = [] \<or> length (vsm_state migration) > V4_MAX_STATE_BYTES
        then (s, invalid_config ''V4 migration payload is empty or oversized'')
        else if from_bytes_hashed (vc_blake3 codec) (vsm_state migration) \<noteq> vsm_content_hash migration
        then (s, invalid_config ''V4 migration hash does not match state'')
        else case bt_get (vn_data_shards s) key of
          Some existing \<Rightarrow>
            if vld_ownership_generation existing = vsm_ownership_generation migration
               \<and> vld_hash existing = vsm_content_hash migration \<and> vld_bytes existing = vsm_state migration
            then send_migration_ack env peer migration True s
            else (s, invalid_config ''V4 migration would overwrite a different prepared shard'')
        | None \<Rightarrow>
            try_then (persist_data_shard env shard s) (\<lambda>s _.
              send_migration_ack env peer migration True
                (s\<lparr>vn_data_shards := bt_insert key shard (vn_data_shards s)\<rparr>)))"

definition abort_migration :: "v4_env \<Rightarrow> V4ShardMigration \<Rightarrow> V4Node \<Rightarrow> V4Node \<times> (NodeError + unit)" where
  "abort_migration env migration s =
    (let key = (vsm_job_id migration, vsm_shard_id migration)
     in if is_some_and (bt_get (vn_data_shards s) key) (\<lambda>shard.
             vld_ownership_generation shard = vsm_ownership_generation migration \<and> vld_hash shard = vsm_content_hash migration)
        then let s = s\<lparr>vn_data_shards := bt_remove key (vn_data_shards s)\<rparr>
          in if bt_get (vd_data_shards (vn_disk s)) key = None then (s, Inr ())
             else case ve_remove_error env (F_data_shard (fst key) (snd key)) of
               Some e \<Rightarrow> (s, Inl (NE_Io e))
             | None \<Rightarrow> (s\<lparr>vn_disk := vd_data_shards_update (bt_remove key) (vn_disk s)\<rparr>, Inr ())
        else (s, Inr ()))"

definition receive_shard_migration :: "v4_codec \<Rightarrow> v4_env \<Rightarrow> NodeId \<Rightarrow> V4ShardMigration \<Rightarrow> V4Node \<Rightarrow> V4Node \<times> (NodeError + unit)" where
  "receive_shard_migration codec env peer migration s =
    (if vsm_to migration \<noteq> vn_node_id s \<or> vsm_from migration \<noteq> peer
     then (s, invalid_config ''V4 migration peer binding failed'')
     else case vsm_phase migration of
       MP_Prepare \<Rightarrow> prepare_migration codec env peer migration s
     | MP_Commit \<Rightarrow>
         (case bt_get (vn_data_shards s) (vsm_job_id migration, vsm_shard_id migration) of
            None \<Rightarrow> (s, invalid_config ''V4 migration commit has no verified prepared state'')
          | Some shard \<Rightarrow>
              if vld_hash shard \<noteq> vsm_content_hash migration
                 \<or> vld_ownership_generation shard \<noteq> vsm_ownership_generation migration
              then (s, invalid_config ''V4 migration commit has no verified prepared state'')
              else send_migration_ack env peer migration True s)
     | MP_Abort \<Rightarrow> abort_migration env migration s)"

text \<open>
  The source of a migration waits for the acknowledgements of the target. \<open>incoming\<close> is what reaches its mailbox
  while it waits, up to the time limit: the function holds a sender of the mailbox, so waiting ends with a message
  or with the time limit, whose error leaves the function.
\<close>

fun await_migration_ack :: "NodeId \<Rightarrow> V4ShardMigrationPhase \<Rightarrow> ArtifactId \<Rightarrow> u64 \<Rightarrow> V4Inbound list \<Rightarrow> NodeError + V4Inbound list" where
  "await_migration_ack target phase hash generation [] = invalid_config ''V4 operation timed out''"
| "await_migration_ack target phase hash generation (VI_Message peer (V4_ShardMigrationAck ack) # incoming) =
    (if peer = target \<and> vsma_phase ack = phase \<and> vsma_verified ack \<and> vsma_content_hash ack = hash
        \<and> vsma_ownership_generation ack = generation
     then Inr incoming else await_migration_ack target phase hash generation incoming)"
| "await_migration_ack target phase hash generation (_ # incoming) = await_migration_ack target phase hash generation incoming"

definition transfer_shard_without_plan_commit :: "v4_env \<Rightarrow> V4LocalDataShard \<Rightarrow> NodeId \<Rightarrow> u64 \<Rightarrow> u64 \<Rightarrow> V4Inbound list \<Rightarrow>
    V4Node \<Rightarrow> V4Node \<times> (NodeError + unit)" where
  "transfer_shard_without_plan_commit env shard target plan_generation ownership_generation incoming s =
    (let migration = \<lparr>vsm_job_id = vld_job_id shard, vsm_plan_generation = plan_generation,
           vsm_shard_id = vld_shard_id shard, vsm_from = vn_node_id s, vsm_to = target,
           vsm_ownership_generation = ownership_generation, vsm_content_hash = vld_hash shard,
           vsm_state = vld_bytes shard, vsm_phase = MP_Prepare\<rparr>;
         (s, result) =
           try_then (send_to env target (V4_ShardMigration migration) (create_job (vld_job_id shard) s)) (\<lambda>s _.
           checked (await_migration_ack target MP_Prepare (vld_hash shard) ownership_generation incoming) s (\<lambda>incoming.
           try_then (send_to env target (V4_ShardMigration (migration\<lparr>vsm_state := [], vsm_phase := MP_Commit\<rparr>)) s) (\<lambda>s _.
           checked (await_migration_ack target MP_Commit (vld_hash shard) ownership_generation incoming) s (\<lambda>_.
           (s, Inr ())))))
     in (s\<lparr>vn_jobs := bt_remove (vld_job_id shard) (vn_jobs s)\<rparr>, result))"

definition migration_authorized :: "v4_codec \<Rightarrow> V4Node \<Rightarrow> V4ShardMigrationRequest \<Rightarrow> V4TrainingPlan \<Rightarrow> V4TrainingPlan \<Rightarrow>
    V4LocalDataShard option \<Rightarrow> bool" where
  "migration_authorized codec s request current proposal local_shard \<longleftrightarrow>
    (let of_request = (\<lambda>shard. vso_shard_id shard = vsmq_shard_id request)
     in vp_proposer proposal = vsmq_proposer request \<and> vp_plan_hash proposal = vsmq_proposal_hash request
        \<and> vp_parent_plan_hash proposal = Some (vp_plan_hash current)
        \<and> vp_plan_generation proposal = vsmq_plan_generation request
        \<and> vp_plan_hash proposal = hash_plan codec proposal \<and> \<not> is_err (v4_plan_check proposal)
        \<and> vp_plan_generation current < vp_plan_generation proposal
        \<and> is_some_and (find of_request (vp_shards current)) (\<lambda>shard.
            vso_owners shard = [vn_node_id s] \<and> vso_content_hash shard = vsmq_content_hash request
            \<and> sat_add (vso_ownership_generation shard) 1 = vsmq_ownership_generation request)
        \<and> is_some_and (find of_request (vp_shards proposal)) (\<lambda>shard.
            vso_owners shard = [vsmq_to request] \<and> vso_content_hash shard = vsmq_content_hash request
            \<and> vso_ownership_generation shard = vsmq_ownership_generation request
            \<and> vsmq_to request \<in> set (vp_workers proposal))
        \<and> is_some_and local_shard (\<lambda>shard. vld_plan_generation shard = vp_plan_generation current
            \<and> vld_ownership_generation shard = sat_sub (vsmq_ownership_generation request) 1
            \<and> vld_hash shard = vsmq_content_hash request
            \<and> from_bytes_hashed (vc_blake3 codec) (vld_bytes shard) = vld_hash shard))"

definition receive_shard_migration_request :: "v4_codec \<Rightarrow> v4_env \<Rightarrow> NodeId \<Rightarrow> V4ShardMigrationRequest \<Rightarrow> V4Inbound list \<Rightarrow>
    V4Node \<Rightarrow> V4Node \<times> (NodeError + unit)" where
  "receive_shard_migration_request codec env peer request incoming s =
    (let (s, accepted, reason) =
       (if peer = vsmq_proposer request \<and> vsmq_from request = vn_node_id s
        then case (bt_get (vn_plans s) (vsmq_job_id request), bt_get (vn_plan_proposals s) (vsmq_job_id request)) of
          (Some current, Some proposal) \<Rightarrow>
            (let local_shard = bt_get (vn_data_shards s) (vsmq_job_id request, vsmq_shard_id request)
             in if migration_authorized codec s request current proposal local_shard
                then case local_shard of
                  Some shard \<Rightarrow>
                    (case transfer_shard_without_plan_commit env shard (vsmq_to request) (vsmq_plan_generation request)
                        (vsmq_ownership_generation request) incoming s of
                       (s, Inr _) \<Rightarrow> (s, True, ''verified transfer completed; active plan unchanged'')
                     | (s, Inl error) \<Rightarrow> (s, False, NodeError_to_string error))
                | None \<Rightarrow> (s, False, ''request did not match an active plan proposal'')
                else (s, False, ''request failed active/proposed ownership validation''))
        | _ \<Rightarrow> (s, False, ''request did not match an active plan proposal'')
        else (s, False, ''migration request sender or source binding failed''))
     in send_to env (vsmq_reply_to request) (V4_ShardMigrationResult \<lparr>vsmr_request_id = vsmq_request_id request,
          vsmr_job_id = vsmq_job_id request, vsmr_plan_generation = vsmq_plan_generation request,
          vsmr_shard_id = vsmq_shard_id request, vsmr_from = vsmq_from request, vsmr_to = vsmq_to request,
          vsmr_ownership_generation = vsmq_ownership_generation request,
          vsmr_content_hash = vsmq_content_hash request, vsmr_accepted = accepted, vsmr_reason = reason\<rparr>) s)"

section \<open>Tensor shards\<close>

definition tensor_strategy :: "V4TrainingPlan \<Rightarrow> bool" where
  "tensor_strategy plan \<longleftrightarrow> vp_strategy plan \<in> {PS_TensorParallel, PS_Hybrid}"

definition owns_plan_shard :: "V4Node \<Rightarrow> V4TrainingPlan \<Rightarrow> u16 \<Rightarrow> u64 \<Rightarrow> bool" where
  "owns_plan_shard s plan shard_id model_generation \<longleftrightarrow>
     (\<exists>shard\<in>set (vp_shards plan). vso_shard_id shard = shard_id \<and> vso_model_generation shard = model_generation
        \<and> vn_node_id s \<in> set (vso_owners shard))"

definition send_tensor_install_ack :: "v4_codec \<Rightarrow> v4_env \<Rightarrow> NodeId \<Rightarrow> V4TensorInstall \<Rightarrow> ArtifactId \<Rightarrow> V4Node \<Rightarrow> V4Node \<times> (NodeError + unit)" where
  "send_tensor_install_ack codec env peer install state_hash s = send_v4_control_message codec env peer
     (V4_TensorInstallAck \<lparr>vtia_job_id = vti_job_id install, vtia_plan_generation = vti_plan_generation install,
        vtia_shard_id = vti_shard_id install, vtia_state_hash = state_hash, vtia_accepted = True\<rparr>) s"

definition same_layout :: "V4LocalTensorShard \<Rightarrow> V4TensorInstall \<Rightarrow> bool" where
  "same_layout existing install \<longleftrightarrow> vlt_model_generation existing = vti_model_generation install
     \<and> vlt_rows existing = vti_rows install \<and> vlt_cols existing = vti_cols install
     \<and> vlt_row_offset existing = vti_row_offset install"

definition store_tensor_shard :: "v4_env \<Rightarrow> (JobId \<times> u16) \<Rightarrow> V4LocalTensorShard \<Rightarrow> V4Node \<Rightarrow> V4Node \<times> (NodeError + unit)" where
  "store_tensor_shard env key shard s = try_then (persist_tensor_shard env shard s)
     (\<lambda>s _. (s\<lparr>vn_tensor_shards := bt_insert key shard (vn_tensor_shards s)\<rparr>, Inr ()))"

definition receive_tensor_install :: "v4_codec \<Rightarrow> v4_env \<Rightarrow> NodeId \<Rightarrow> V4TensorInstall \<Rightarrow> V4Node \<Rightarrow> V4Node \<times> (NodeError + unit)" where
  "receive_tensor_install codec env peer install s =
    (let key = (vti_job_id install, vti_shard_id install);
         shard = \<lparr>vlt_job_id = vti_job_id install, vlt_plan_generation = vti_plan_generation install,
           vlt_model_generation = vti_model_generation install, vlt_shard_id = vti_shard_id install,
           vlt_rows = vti_rows install, vlt_cols = vti_cols install, vlt_row_offset = vti_row_offset install,
           vlt_weights = vti_weights install, vlt_state_hash = vti_state_hash install, vlt_state_generation = 1,
           vlt_last_sequence = 0\<rparr>
     in checked (validated (v4_tensor_install_check install)) s (\<lambda>_.
     if tensor_hash codec (vti_weights install) (vti_rows install) (vti_cols install) (vti_row_offset install) \<noteq> vti_state_hash install
     then (s, invalid_config ''V4 tensor shard integrity check failed'')
     else checked (authorized_reference_plan codec s peer (vti_job_id install) (vti_plan_generation install)) s (\<lambda>plan.
     if \<not> tensor_strategy plan \<or> vp_tensor_degree plan \<noteq> 2 \<or> vp_model_generation plan \<noteq> vti_model_generation install
        \<or> \<not> owns_plan_shard s plan (vti_shard_id install) (vti_model_generation install)
     then (s, invalid_config ''V4 tensor install is not authorized for this plan shard'')
     else case bt_get (vn_tensor_shards s) key of
       Some existing \<Rightarrow>
         if vlt_plan_generation existing = vti_plan_generation install \<and> same_layout existing install
            \<and> vlt_weights existing = vti_weights install \<and> vlt_state_hash existing = vti_state_hash install
         then send_tensor_install_ack codec env peer install (vti_state_hash install) s
         else if vlt_plan_generation existing < vti_plan_generation install \<and> same_layout existing install
            \<and> valid_local_tensor_shard codec existing
         then let promoted = existing\<lparr>vlt_plan_generation := vti_plan_generation install\<rparr>
           in try_then (store_tensor_shard env key promoted s) (\<lambda>s _.
              send_tensor_install_ack codec env peer install (vlt_state_hash promoted) s)
         else (s, invalid_config ''V4 tensor shard conflicts with existing state'')
     | None \<Rightarrow>
         if bt_len (vn_tensor_shards s) \<ge> V4_MAX_TENSOR_SHARDS
         then (s, invalid_config ''V4 tensor shard entry limit reached'')
         else try_then (store_tensor_shard env key shard s) (\<lambda>s _.
              send_tensor_install_ack codec env peer install (vlt_state_hash shard) s))))"

definition replica_authorized :: "V4Node \<Rightarrow> NodeId \<Rightarrow> V4TensorReplica \<Rightarrow> V4TrainingPlan \<Rightarrow> bool" where
  "replica_authorized s peer replica plan \<longleftrightarrow> tensor_strategy plan
     \<and> vp_plan_generation plan = vtr_plan_generation replica \<and> vp_tensor_degree plan = 2
     \<and> vn_node_id s \<in> set (vp_workers plan) \<and> peer \<in> set (vp_workers plan) \<and> vtr_source replica \<in> set (vp_workers plan)
     \<and> (\<exists>shard\<in>set (vp_shards plan). vso_shard_id shard = vtr_shard_id replica
          \<and> vso_model_generation shard = vtr_model_generation replica
          \<and> vso_ownership_generation shard \<le> vtr_ownership_generation replica
          \<and> vn_node_id s \<in> set (vso_replicas shard)
          \<and> (vtr_source replica \<in> set (vso_owners shard) \<or> vtr_source replica \<in> set (vso_replicas shard)))"

definition replica_shard :: "V4TensorReplica \<Rightarrow> V4LocalTensorShard" where
  "replica_shard replica = \<lparr>vlt_job_id = vtr_job_id replica, vlt_plan_generation = vtr_plan_generation replica,
     vlt_model_generation = vtr_model_generation replica, vlt_shard_id = vtr_shard_id replica,
     vlt_rows = vtr_rows replica, vlt_cols = vtr_cols replica, vlt_row_offset = vtr_row_offset replica,
     vlt_weights = vtr_weights replica, vlt_state_hash = vtr_state_hash replica,
     vlt_state_generation = vtr_state_generation replica, vlt_last_sequence = vtr_last_sequence replica\<rparr>"

text \<open>What the replica map holds after the payload, and whether it is acknowledged.\<close>

definition merge_replica :: "v4_codec \<Rightarrow> V4LocalTensorShard \<Rightarrow> (JobId \<times> u16, V4LocalTensorShard) btree \<Rightarrow>
    (JobId \<times> u16, V4LocalTensorShard) btree \<times> bool" where
  "merge_replica codec incoming shards =
    (let key = (vlt_job_id incoming, vlt_shard_id incoming)
     in case bt_get shards key of
          None \<Rightarrow> (bt_insert key incoming shards, True)
        | Some existing \<Rightarrow>
            if vlt_state_generation existing > vlt_state_generation incoming
               \<and> vlt_model_generation existing = vlt_model_generation incoming
               \<and> vlt_rows existing = vlt_rows incoming \<and> vlt_cols existing = vlt_cols incoming
               \<and> vlt_row_offset existing = vlt_row_offset incoming \<and> valid_local_tensor_shard codec existing
            then (shards, True)
            else if vlt_state_generation existing = vlt_state_generation incoming
                 \<and> vlt_state_hash existing \<noteq> vlt_state_hash incoming
            then (shards, False)
            else (bt_insert key incoming shards, True))"

definition receive_tensor_replica :: "v4_codec \<Rightarrow> v4_env \<Rightarrow> NodeId \<Rightarrow> V4TensorReplica \<Rightarrow> V4Node \<Rightarrow> V4Node \<times> (NodeError + unit)" where
  "receive_tensor_replica codec env peer replica s =
     checked (validated (v4_tensor_replica_check replica)) s (\<lambda>_.
     if tensor_hash codec (vtr_weights replica) (vtr_rows replica) (vtr_cols replica) (vtr_row_offset replica) \<noteq> vtr_state_hash replica
     then (s, invalid_config ''V4 tensor replica integrity check failed'')
     else case bt_get (vn_plans s) (vtr_job_id replica) of
       None \<Rightarrow> (s, invalid_config ''V4 replica plan is unavailable'')
     | Some plan \<Rightarrow>
         if \<not> replica_authorized s peer replica plan
         then (s, invalid_config ''V4 tensor replica is not authorized by the active plan'')
         else if \<not> valid_local_tensor_shard codec (replica_shard replica)
         then (s, invalid_config ''V4 tensor replica shape or bounds are invalid'')
         else case merge_replica codec (replica_shard replica) (vn_tensor_shards s) of
           (shards, accepted) \<Rightarrow>
             let s = s\<lparr>vn_tensor_shards := shards\<rparr>
             in try_then (if accepted then persist_tensor_shard env (replica_shard replica) s else (s, Inr ())) (\<lambda>s _.
                send_v4_control_message codec env peer (V4_TensorReplicaAck \<lparr>vtra_job_id = vtr_job_id replica,
                  vtra_plan_generation = vtr_plan_generation replica, vtra_shard_id = vtr_shard_id replica,
                  vtra_state_hash = vtr_state_hash replica, vtra_state_generation = vtr_state_generation replica,
                  vtra_accepted = accepted\<rparr>) s))"

section \<open>Optimizer state\<close>

definition promote_optimizer_state :: "v4_codec \<Rightarrow> V4LocalOptimizerState \<Rightarrow> V4OptimizerStateInstall \<Rightarrow> V4LocalOptimizerState" where
  "promote_optimizer_state codec existing install =
    (let promoted = \<lparr>vosi_job_id = vlo_job_id existing,
           vosi_plan_generation = max (vlo_plan_generation existing) (vosi_plan_generation install),
           vosi_model_generation = vlo_model_generation existing,
           vosi_optimizer_generation = max (vlo_optimizer_generation existing) (vosi_optimizer_generation install),
           vosi_shard_id = vlo_shard_id existing, vosi_values = vlo_values existing, vosi_state_hash = filled 0,
           vosi_state_generation = max (vlo_state_generation existing) (vosi_state_generation install),
           vosi_sequence = max (max (vlo_last_sequence existing) (vosi_last_sequence install)) 1,
           vosi_last_sequence = max (vlo_last_sequence existing) (vosi_last_sequence install), vosi_source = filled 0\<rparr>
     in \<lparr>vlo_job_id = vosi_job_id promoted, vlo_plan_generation = vosi_plan_generation promoted,
         vlo_model_generation = vosi_model_generation promoted,
         vlo_optimizer_generation = vosi_optimizer_generation promoted, vlo_shard_id = vosi_shard_id promoted,
         vlo_values = vosi_values promoted, vlo_state_hash = optimizer_state_hash codec promoted,
         vlo_state_generation = vosi_state_generation promoted, vlo_last_sequence = vosi_last_sequence promoted\<rparr>)"

definition optimizer_install_authorized :: "V4Node \<Rightarrow> NodeId \<Rightarrow> V4OptimizerStateInstall \<Rightarrow> V4TrainingPlan \<Rightarrow> V4ExecutionGraph \<Rightarrow>
    V4OptimizerPlacement \<Rightarrow> bool" where
  "optimizer_install_authorized s peer install plan graph placement \<longleftrightarrow>
     vp_strategy plan = PS_Hybrid \<and> vg_graph_generation graph \<noteq> 0
     \<and> vp_plan_generation plan = vosi_plan_generation install \<and> vp_plan_hash plan = vg_plan_hash graph
     \<and> \<not> is_err (v4_plan_check plan) \<and> vop_generation placement = vosi_optimizer_generation install
     \<and> (vop_owner placement = vosi_source install \<or> vosi_source install \<in> set (vop_replicas placement))
     \<and> (vop_owner placement = vn_node_id s \<or> vn_node_id s \<in> set (vop_replicas placement))
     \<and> (peer = vp_proposer plan \<or> peer = vosi_source install \<or> vop_owner placement = peer
        \<or> peer \<in> set (vop_replicas placement))
     \<and> vn_node_id s \<in> set (vp_workers plan) \<and> peer \<in> set (vp_workers plan) \<and> vosi_source install \<in> set (vp_workers plan)"

definition installed_optimizer_state :: "V4OptimizerStateInstall \<Rightarrow> V4LocalOptimizerState" where
  "installed_optimizer_state install = \<lparr>vlo_job_id = vosi_job_id install, vlo_plan_generation = vosi_plan_generation install,
     vlo_model_generation = vosi_model_generation install, vlo_optimizer_generation = vosi_optimizer_generation install,
     vlo_shard_id = vosi_shard_id install, vlo_values = vosi_values install, vlo_state_hash = vosi_state_hash install,
     vlo_state_generation = vosi_state_generation install, vlo_last_sequence = vosi_last_sequence install\<rparr>"

text \<open>Whether the state is acknowledged, and the state that replaces the known one, if any.\<close>

definition merge_optimizer_state :: "v4_codec \<Rightarrow> V4OptimizerStateInstall \<Rightarrow> V4LocalOptimizerState option \<Rightarrow>
    NodeError + bool \<times> V4LocalOptimizerState option" where
  "merge_optimizer_state codec install known =
    (let incoming = installed_optimizer_state install
     in case known of
          None \<Rightarrow> Inr (True, Some incoming)
        | Some current \<Rightarrow>
            if vlo_model_generation current \<noteq> vlo_model_generation incoming
               \<or> length (vlo_values current) \<noteq> length (vlo_values incoming)
            then invalid_config ''V4 optimizer state conflicts with model lineage''
            else if vlo_state_generation current > vlo_state_generation incoming then Inr (True, None)
            else if vlo_state_generation current = vlo_state_generation incoming
            then if vlo_state_hash current = vlo_state_hash incoming then Inr (True, None)
                 else if (vlo_plan_generation incoming > vlo_plan_generation current
                          \<or> vlo_optimizer_generation incoming > vlo_optimizer_generation current)
                         \<and> valid_local_optimizer_state codec current
                 then Inr (True, Some (promote_optimizer_state codec current install))
                 else Inr (False, None)
            else Inr (True, Some incoming))"

definition receive_optimizer_state_install :: "v4_codec \<Rightarrow> v4_env \<Rightarrow> NodeId \<Rightarrow> V4OptimizerStateInstall \<Rightarrow> V4Node \<Rightarrow>
    V4Node \<times> (NodeError + unit)" where
  "receive_optimizer_state_install codec env peer install s =
    (let key = (vosi_job_id install, vosi_shard_id install) in
     checked (validated (v4_optimizer_state_install_check install)) s (\<lambda>_.
     if optimizer_state_hash codec install \<noteq> vosi_state_hash install
     then (s, invalid_config ''V4 optimizer state integrity check failed'')
     else checked (case bt_get (vn_plans s) (vosi_job_id install) of
         None \<Rightarrow> invalid_config ''V4 optimizer plan is unavailable'' | Some plan \<Rightarrow> Inr plan) s (\<lambda>plan.
     checked (case bt_get (vn_integrated_graphs s) (vosi_job_id install) of
         None \<Rightarrow> invalid_config ''V4 optimizer graph is unavailable'' | Some graph \<Rightarrow> Inr graph) s (\<lambda>graph.
     checked (case find (\<lambda>placement. vop_shard_id placement = vosi_shard_id install) (vg_optimizer_shards graph) of
         None \<Rightarrow> invalid_config ''V4 optimizer placement is unavailable'' | Some placement \<Rightarrow> Inr placement) s (\<lambda>placement.
     if \<not> optimizer_install_authorized s peer install plan graph placement
     then (s, invalid_config ''V4 optimizer state is not authorized by the active graph'')
     else if is_some_and (bt_get (vn_tensor_shards s) key) (\<lambda>model. length (vlt_weights model) \<noteq> length (vosi_values install))
     then (s, invalid_config ''V4 optimizer state does not match model shard'')
     else checked (merge_optimizer_state codec install (bt_get (vn_optimizer_states s) key)) s (\<lambda>(accepted, replacement).
     try_then (case replacement of
         None \<Rightarrow> (s, Inr ())
       | Some replacement \<Rightarrow> try_then (persist_optimizer_state env replacement s)
           (\<lambda>s _. (s\<lparr>vn_optimizer_states := bt_insert key replacement (vn_optimizer_states s)\<rparr>, Inr ()))) (\<lambda>s _.
     let acknowledged_hash = (case bt_get (vn_optimizer_states s) key of
           Some state \<Rightarrow> vlo_state_hash state | None \<Rightarrow> vosi_state_hash install)
     in send_v4_control_message codec env peer (V4_OptimizerStateAck \<lparr>vosa_job_id = vosi_job_id install,
          vosa_plan_generation = vosi_plan_generation install,
          vosa_optimizer_generation = vosi_optimizer_generation install, vosa_shard_id = vosi_shard_id install,
          vosa_state_hash = acknowledged_hash, vosa_state_generation = vosi_state_generation install,
          vosa_accepted = accepted\<rparr>) s)))))))"

end
