(* ===== verification/Node_Dataplane.thy ===== *)
theory Node_Dataplane
  imports Node_Replication
begin

text \<open>
  The data plane of \<^verbatim>\<open>node/src/frontier_training.rs\<close>: tensor and pipeline steps run on the local compute backend,
  the update of weights and optimizer state, and their replication.
\<close>

section \<open>Compute tasks\<close>

definition backend_assignment :: "V4TrainingPlan \<Rightarrow> NodeId \<Rightarrow> ComputeTaskKind \<Rightarrow> BackendAssignment option" where
  "backend_assignment plan worker task_kind =
     find (\<lambda>assignment. ba_worker assignment = worker \<and> ba_task_kind assignment = task_kind) (vp_backend_assignments plan)"

definition compute_task_requirements :: "V4TrainingPlan \<Rightarrow> NodeId \<Rightarrow> ComputeTaskKind \<Rightarrow> u64 \<Rightarrow> string \<Rightarrow> BackendKind \<times> ComputeRequirements" where
  "compute_task_requirements plan worker task_kind elements kernel_id = (case backend_assignment plan worker task_kind of
     Some assignment \<Rightarrow> (ba_backend assignment, ba_requirements assignment)
   | None \<Rightarrow> (BK_Cpu, default_requirements task_kind BK_Cpu elements kernel_id))"

fun task_kernel_id :: "ComputeTaskKind \<Rightarrow> string" where
  "task_kernel_id CT_TensorForward = ''v5.tensor.forward.v1''"
| "task_kernel_id CT_TensorBackward = ''v5.tensor.backward.v1''"
| "task_kernel_id CT_PipelineForward = ''v5.pipeline.forward.v1''"
| "task_kernel_id CT_PipelineBackward = ''v5.pipeline.backward.v1''"
| "task_kernel_id _ = ''v5.training.reference.v1''"

fun backend_debug :: "BackendKind \<Rightarrow> string" where
  "backend_debug BK_Cpu = ''Cpu''"
| "backend_debug BK_Cuda = ''Cuda''"
| "backend_debug BK_Rocm = ''Rocm''"
| "backend_debug BK_Metal = ''Metal''"

fun try_fallbacks :: "v4_env \<Rightarrow> BackendKind list \<Rightarrow> ComputeTask \<Rightarrow> ComputeInput list \<Rightarrow> BackendRegistry \<Rightarrow>
    BackendRegistry \<times> ComputeOutput option" where
  "try_fallbacks env [] task inputs r = (r, None)"
| "try_fallbacks env (fallback # fallbacks) task inputs r =
    (let fallback_task = task\<lparr>cta_requirements := (cta_requirements task)\<lparr>cr_required_backend := Some fallback,
           cr_allowed_backends := [fallback]\<rparr>\<rparr>
     in case registry_execute (ve_elapsed env fallback_task) fallback fallback_task inputs r of
          (r, Inr output) \<Rightarrow> (r, Some output)
        | (r, Inl _) \<Rightarrow> try_fallbacks env fallbacks task inputs r)"

definition execute_backend_task :: "v4_env \<Rightarrow> V4TrainingPlan \<Rightarrow> ComputeTaskKind \<Rightarrow> ComputeOperation \<Rightarrow> u64 \<Rightarrow> u64 \<Rightarrow> i64 list list \<Rightarrow>
    u64 \<Rightarrow> u64 \<Rightarrow> u16 \<Rightarrow> u32 \<Rightarrow> V4Node \<Rightarrow> V4Node \<times> (NodeError + i64 list)" where
  "execute_backend_task env plan task_kind operation input_elements output_elements inputs graph_generation
     model_generation shard_id deadline_ms s =
    (let (backend, requirements) = compute_task_requirements plan (vn_node_id s) task_kind
           (max (sat_add input_elements output_elements) 1) (task_kernel_id task_kind);
         task = \<lparr>cta_operation = operation, cta_requirements = requirements, cta_input_elements = input_elements,
           cta_output_elements = output_elements, cta_graph_generation = max graph_generation 1,
           cta_model_generation = max model_generation 1, cta_shard_id = shard_id,
           cta_deadline_ms = max 1 (min deadline_ms 120000)\<rparr>;
         buffers = map (\<lambda>vals. \<lparr>cin_values = vals, cin_format = NF_F32\<rparr>) inputs
     in case registry_execute (ve_elapsed env task) backend task buffers (vn_compute s) of
          (r, Inr output) \<Rightarrow> (s\<lparr>vn_compute := r\<rparr>, Inr (cou_values output))
        | (r, Inl error) \<Rightarrow>
            if cr_fallback_allowed requirements
            then (case try_fallbacks env (cr_fallback_backends requirements) task buffers r of
                 (r, Some output) \<Rightarrow> (s\<lparr>vn_compute := r\<rparr>, Inr (cou_values output))
               | (r, None) \<Rightarrow> (s\<lparr>vn_compute := r\<rparr>, invalid_config (''backend task failed on '' @ backend_debug backend
                    @ '' with explicit fallback policy: '' @ ComputeError_to_string error)))
            else (s\<lparr>vn_compute := r\<rparr>, invalid_config (''backend task failed on '' @ backend_debug backend
                    @ '': '' @ ComputeError_to_string error)))"

section \<open>Tensor steps\<close>

definition receive_tensor_forward :: "v4_codec \<Rightarrow> v4_env \<Rightarrow> NodeId \<Rightarrow> V4TensorForward \<Rightarrow> V4Node \<Rightarrow> V4Node \<times> (NodeError + unit)" where
  "receive_tensor_forward codec env peer f s =
     checked (authorized_reference_plan codec s peer (vtf_job_id f) (vtf_plan_generation f)) s (\<lambda>plan.
     if \<not> tensor_strategy plan \<or> vp_tensor_degree plan \<noteq> 2 \<or> vp_model_generation plan \<noteq> vtf_model_generation f
        \<or> \<not> owns_plan_shard s plan (vtf_shard_id f) (vtf_model_generation f)
     then (s, invalid_config ''V4 tensor forward is not authorized for this plan shard'')
     else case bt_get (vn_tensor_shards s) (vtf_job_id f, vtf_shard_id f) of
       None \<Rightarrow> (s, invalid_config ''V4 tensor shard is unavailable'')
     | Some shard \<Rightarrow>
         if vlt_plan_generation shard \<noteq> vtf_plan_generation f \<or> vlt_model_generation shard \<noteq> vtf_model_generation f
            \<or> unat (vlt_cols shard) \<noteq> length (vtf_input f)
         then (s, invalid_config ''V4 tensor forward generation or shape mismatch'')
         else try_then (execute_backend_task env plan CT_TensorForward (MatrixVector (vlt_rows shard) (vlt_cols shard))
             (ucast (vlt_cols shard)) (ucast (vlt_rows shard)) [vlt_weights shard, vtf_input f] (vtf_plan_generation f)
             (vtf_model_generation f) (vtf_shard_id f) 8000 s) (\<lambda>s output.
           deliver_v4_message codec env peer (vtf_job_id f) (V4_TensorForwardResult \<lparr>vtfr_request_id = vtf_request_id f,
             vtfr_job_id = vtf_job_id f, vtfr_plan_generation = vtf_plan_generation f, vtfr_shard_id = vtf_shard_id f,
             vtfr_sequence = vtf_sequence f, vtfr_output = output, vtfr_state_hash = vlt_state_hash shard\<rparr>) s))"

text \<open>One step of the weights against a gradient, in millionths.\<close>

definition descend :: "i64 \<Rightarrow> i64 list \<Rightarrow> i64 list \<Rightarrow> i64 list" where
  "descend learning_rate_micros weights gradients =
     map2 (\<lambda>weight gradient. value_clamp (weight - (gradient * learning_rate_micros) sdiv 1000000)) weights gradients
       @ drop (length gradients) weights"

definition stepped_optimizer_values :: "i64 list \<Rightarrow> i64 list \<Rightarrow> i64 list" where
  "stepped_optimizer_values vals gradients = map2 (\<lambda>value gradient. value_clamp (clamp_i64 (value + gradient))) vals gradients"

text \<open>The frames to the replicas: the new node and how many of them were handed to the transport.\<close>

fun send_to_replicas :: "v4_env \<Rightarrow> TrainingV4Message \<Rightarrow> NodeId list \<Rightarrow> V4Node \<Rightarrow> V4Node \<times> usize" where
  "send_to_replicas env message [] s = (s, 0)"
| "send_to_replicas env message (replica # replicas) s =
    (if replica = vn_node_id s then send_to_replicas env message replicas s
     else case send_control_message env replica message s of
       (s, sent) \<Rightarrow> (case send_to_replicas env message replicas s of (s, n) \<Rightarrow> (s, if sent then usat (Suc n) else n)))"

definition update_optimizer_state_and_replicate :: "v4_codec \<Rightarrow> v4_env \<Rightarrow> JobId \<Rightarrow> u64 \<Rightarrow> u16 \<Rightarrow> i64 list \<Rightarrow> u64 \<Rightarrow> V4Node \<Rightarrow>
    V4Node \<times> (NodeError + (ArtifactId \<times> u64) option)" where
  "update_optimizer_state_and_replicate codec env job_id plan_generation shard_id gradients sequence s =
    (case bt_get (vn_integrated_graphs s) job_id of
       None \<Rightarrow> (s, Inr None)
     | Some graph \<Rightarrow>
         let plan_hash = (case bt_get (vn_plans s) job_id of Some plan \<Rightarrow> vp_plan_hash plan | None \<Rightarrow> filled 0);
             key = (job_id, shard_id);
             existing = bt_get (vn_optimizer_states s) key;
             vals = (case existing of Some state \<Rightarrow> vlo_values state | None \<Rightarrow> replicate (length gradients) 0)
         in if vg_plan_hash graph \<noteq> plan_hash
            then (s, invalid_config ''integrated optimizer graph is not bound to the active plan'')
            else case find (\<lambda>placement. vop_shard_id placement = shard_id) (vg_optimizer_shards graph) of
              None \<Rightarrow> (s, invalid_config ''integrated optimizer placement is missing'')
            | Some placement \<Rightarrow>
                if vop_owner placement \<noteq> vn_node_id s
                then (s, invalid_config ''only the current optimizer owner may apply a shard update'')
                else case find (\<lambda>shard. vso_shard_id shard = shard_id) (vg_shards graph) of
                  None \<Rightarrow> (s, invalid_config ''integrated optimizer model shard is missing'')
                | Some shard \<Rightarrow>
                    if length vals \<noteq> length gradients
                    then (s, invalid_config ''optimizer update does not match model shard state'')
                    else if is_some_and existing (\<lambda>state. sequence \<le> vlo_last_sequence state)
                    then (s, invalid_config ''optimizer update sequence is stale or replayed'')
                    else let state_generation = sat_add (case existing of Some state \<Rightarrow> vlo_state_generation state | None \<Rightarrow> 1) 1;
                             unhashed = \<lparr>vosi_job_id = job_id, vosi_plan_generation = plan_generation,
                               vosi_model_generation = vso_model_generation shard,
                               vosi_optimizer_generation = vop_generation placement, vosi_shard_id = shard_id,
                               vosi_values = stepped_optimizer_values vals gradients, vosi_state_hash = filled 0,
                               vosi_state_generation = state_generation, vosi_sequence = sequence,
                               vosi_last_sequence = sequence, vosi_source = vn_node_id s\<rparr>;
                             install = unhashed\<lparr>vosi_state_hash := optimizer_state_hash codec unhashed\<rparr>;
                             state = installed_optimizer_state install
                      in if \<not> valid_local_optimizer_state codec state
                         then (s, invalid_config ''computed optimizer state failed local validation'')
                         else try_then (persist_optimizer_state env state s) (\<lambda>s _.
                           let s = s\<lparr>vn_optimizer_states := bt_insert key state (vn_optimizer_states s)\<rparr>
                           in case send_to_replicas env (V4_OptimizerStateInstall install) (vop_replicas placement) s of
                                (s, replicated) \<Rightarrow>
                                  if vop_replicas placement \<noteq> [] \<and> replicated = 0
                                  then (s, invalid_config ''optimizer state has no reachable replica'')
                                  else (s, Inr (Some (vosi_state_hash install, state_generation)))))"

definition tensor_replica_of :: "V4Node \<Rightarrow> V4LocalTensorShard \<Rightarrow> V4ShardOwnership \<Rightarrow> V4TensorReplica" where
  "tensor_replica_of s shard ownership = \<lparr>vtr_job_id = vlt_job_id shard, vtr_plan_generation = vlt_plan_generation shard,
     vtr_model_generation = vlt_model_generation shard, vtr_shard_id = vlt_shard_id shard, vtr_rows = vlt_rows shard,
     vtr_cols = vlt_cols shard, vtr_row_offset = vlt_row_offset shard, vtr_weights = vlt_weights shard,
     vtr_state_hash = vlt_state_hash shard, vtr_state_generation = vlt_state_generation shard,
     vtr_last_sequence = vlt_last_sequence shard, vtr_ownership_generation = vso_ownership_generation ownership,
     vtr_source = vn_node_id s\<rparr>"

text \<open>The shard after a backward step that is not a repetition of the last one.\<close>

definition descended_shard :: "v4_codec \<Rightarrow> V4TensorBackward \<Rightarrow> i64 list \<Rightarrow> V4LocalTensorShard \<Rightarrow> V4LocalTensorShard" where
  "descended_shard codec b gradients shard =
    (let weights = descend (vtb_learning_rate_micros b) (vlt_weights shard) gradients
     in shard\<lparr>vlt_weights := weights, vlt_state_generation := sat_add (vlt_state_generation shard) 1,
              vlt_last_sequence := vtb_sequence b,
              vlt_state_hash := tensor_hash codec weights (vlt_rows shard) (vlt_cols shard) (vlt_row_offset shard)\<rparr>)"

definition receive_tensor_backward :: "v4_codec \<Rightarrow> v4_env \<Rightarrow> NodeId \<Rightarrow> V4TensorBackward \<Rightarrow> V4Node \<Rightarrow> V4Node \<times> (NodeError + unit)" where
  "receive_tensor_backward codec env peer b s =
     checked (authorized_reference_plan codec s peer (vtb_job_id b) (vtb_plan_generation b)) s (\<lambda>plan.
     if \<not> tensor_strategy plan \<or> vp_tensor_degree plan \<noteq> 2 \<or> vp_model_generation plan \<noteq> vtb_model_generation b
        \<or> \<not> owns_plan_shard s plan (vtb_shard_id b) (vtb_model_generation b)
     then (s, invalid_config ''V4 tensor backward is not authorized for this plan shard'')
     else case bt_get (vn_tensor_shards s) (vtb_job_id b, vtb_shard_id b) of
       None \<Rightarrow> (s, invalid_config ''V4 tensor shard is unavailable'')
     | Some shard \<Rightarrow>
         if vlt_plan_generation shard \<noteq> vtb_plan_generation b \<or> vlt_model_generation shard \<noteq> vtb_model_generation b
            \<or> unat (vlt_cols shard) \<noteq> length (vtb_input b) \<or> unat (vlt_rows shard) \<noteq> length (vtb_upstream b)
         then (s, invalid_config ''V4 tensor backward generation or shape mismatch'')
         else if vtb_sequence b < vlt_last_sequence shard
         then (s, invalid_config ''V4 tensor backward sequence is stale or replayed'')
         else let already_applied = (vtb_sequence b = vlt_last_sequence shard);
                  repeated_upstream = concat (map (\<lambda>row. replicate (unat (vlt_cols shard)) (vtb_upstream b ! row)) [0..<unat (vlt_rows shard)]);
                  elements = of_nat (length (vlt_weights shard));
                  job_id = vtb_job_id b
           in try_then (execute_backend_task env plan CT_TensorBackward ElementwiseMultiply elements elements
                [vlt_weights shard, repeated_upstream] (vtb_plan_generation b) (vtb_model_generation b) (vtb_shard_id b) 8000 s) (\<lambda>s gradients.
              try_then (execute_backend_task env plan CT_TensorBackward (MatrixTransposeVector (vlt_rows shard) (vlt_cols shard))
                (ucast (vlt_rows shard)) (ucast (vlt_cols shard)) [vlt_weights shard, vtb_upstream b] (vtb_plan_generation b)
                (vtb_model_generation b) (vtb_shard_id b) 8000 s) (\<lambda>s input_gradient.
              let shard = (if already_applied then shard else descended_shard codec b gradients shard)
              in try_then (if already_applied then (s, Inr ())
                   else store_tensor_shard env (vlt_job_id shard, vlt_shard_id shard) shard s) (\<lambda>s _.
                 try_then (if already_applied
                     then (s, Inr (map_option (\<lambda>state. (vlo_state_hash state, vlo_state_generation state))
                                     (bt_get (vn_optimizer_states s) (job_id, vtb_shard_id b))))
                     else update_optimizer_state_and_replicate codec env job_id (vtb_plan_generation b) (vtb_shard_id b)
                            gradients (vtb_sequence b) s) (\<lambda>s optimizer.
                 let s = (case find (\<lambda>candidate. vso_shard_id candidate = vlt_shard_id shard) (vp_shards plan) of
                       None \<Rightarrow> s
                     | Some ownership \<Rightarrow> fst (send_to_replicas env (V4_TensorReplica (tensor_replica_of s shard ownership))
                         (vso_replicas ownership) s))
                 in deliver_v4_message codec env peer job_id (V4_TensorBackwardResult
                      \<lparr>vtbr_request_id = vtb_request_id b, vtbr_job_id = job_id, vtbr_plan_generation = vtb_plan_generation b,
                       vtbr_shard_id = vtb_shard_id b, vtbr_sequence = vtb_sequence b, vtbr_weight_gradient = gradients,
                       vtbr_input_gradient = input_gradient, vtbr_state_hash = vlt_state_hash shard,
                       vtbr_state_generation = vlt_state_generation shard,
                       vtbr_optimizer_state_hash = map_option fst optimizer,
                       vtbr_optimizer_state_generation = (case optimizer of Some (_, generation) \<Rightarrow> generation | None \<Rightarrow> 0)\<rparr>) s)))))"

section \<open>Pipeline stages\<close>

definition authorized_integrated_pipeline_context :: "v4_codec \<Rightarrow> V4Node \<Rightarrow> NodeId \<Rightarrow> JobId \<Rightarrow> u64 \<Rightarrow>
    NodeError + (V4TrainingPlan \<times> V4ExecutionGraph) option" where
  "authorized_integrated_pipeline_context codec s peer job_id plan_generation =
    (case bt_get (vn_integrated_graphs s) job_id of
       None \<Rightarrow> Inr None
     | Some graph \<Rightarrow>
         (case bt_get (vn_plans s) job_id of
            None \<Rightarrow> invalid_config ''integrated V4 operation has no active graph plan''
          | Some plan \<Rightarrow>
              if vg_graph_generation graph > 0 \<and> vg_graph_hash graph = execution_graph_hash codec graph
                 \<and> vg_plan_hash graph = vp_plan_hash plan \<and> vp_plan_generation plan = plan_generation
                 \<and> vp_plan_hash plan = hash_plan codec plan \<and> \<not> is_err (v4_plan_check plan)
                 \<and> \<not> is_err (v4_execution_graph_check graph) \<and> vg_proposer graph = vg_coordinator graph
                 \<and> vp_proposer plan = vg_coordinator graph \<and> vn_node_id s \<in> set (vg_workers graph)
                 \<and> peer \<in> set (vg_workers graph) \<and> vp_workers plan = vg_workers graph
              then Inr (Some (plan, graph))
              else invalid_config (''integrated V4 operation is not authorized by graph generation ''
                @ decimal (unat (vg_graph_generation graph)) @ '' (peer='' @ vc_hex codec (as_bytes peer)
                @ '', requested_plan_generation='' @ decimal (unat plan_generation)
                @ '', active_plan_generation='' @ decimal (unat (vp_plan_generation plan)) @ '')'')))"

definition graph_stage :: "V4ExecutionGraph \<Rightarrow> u16 \<Rightarrow> V4PipelineStageAssignment option" where
  "graph_stage graph stage_id = find (\<lambda>stage. vps_stage_id stage = stage_id) (vg_pipeline_stages graph)"

definition pipeline_strategy :: "V4TrainingPlan \<Rightarrow> bool" where
  "pipeline_strategy plan \<longleftrightarrow> vp_strategy plan \<in> {PS_PipelineParallel, PS_Hybrid}"

definition send_pipeline_install_ack :: "v4_codec \<Rightarrow> v4_env \<Rightarrow> NodeId \<Rightarrow> V4PipelineInstall \<Rightarrow> V4Node \<Rightarrow> V4Node \<times> (NodeError + unit)" where
  "send_pipeline_install_ack codec env peer install s = send_v4_control_message codec env peer
     (V4_PipelineInstallAck \<lparr>vpia_job_id = vpi_job_id install, vpia_plan_generation = vpi_plan_generation install,
        vpia_stage_id = vpi_stage_id install, vpia_state_hash = vpi_state_hash install, vpia_accepted = True\<rparr>) s"

definition same_stage :: "V4LocalPipelineStage \<Rightarrow> V4PipelineInstall \<Rightarrow> bool" where
  "same_stage existing install \<longleftrightarrow> vlp_stage_count existing = vpi_stage_count install
     \<and> vlp_coefficient existing = vpi_coefficient install \<and> vlp_bias existing = vpi_bias install
     \<and> vlp_state_hash existing = vpi_state_hash install"

definition store_pipeline_stage :: "v4_env \<Rightarrow> (JobId \<times> u16) \<Rightarrow> V4LocalPipelineStage \<Rightarrow> V4Node \<Rightarrow> V4Node \<times> (NodeError + unit)" where
  "store_pipeline_stage env key stage s = try_then (persist_pipeline_stage env stage s)
     (\<lambda>s _. (s\<lparr>vn_pipeline_stages := bt_insert key stage (vn_pipeline_stages s)\<rparr>, Inr ()))"

definition receive_pipeline_install :: "v4_codec \<Rightarrow> v4_env \<Rightarrow> NodeId \<Rightarrow> V4PipelineInstall \<Rightarrow> V4Node \<Rightarrow> V4Node \<times> (NodeError + unit)" where
  "receive_pipeline_install codec env peer install s =
    (let key = (vpi_job_id install, vpi_stage_id install);
         stage = \<lparr>vlp_job_id = vpi_job_id install, vlp_plan_generation = vpi_plan_generation install,
           vlp_stage_id = vpi_stage_id install, vlp_stage_count = vpi_stage_count install,
           vlp_coefficient = vpi_coefficient install, vlp_bias = vpi_bias install, vlp_state_hash = vpi_state_hash install\<rparr> in
     checked (validated (v4_pipeline_install_check install)) s (\<lambda>_.
     if pipeline_hash codec (vpi_coefficient install) (vpi_bias install) \<noteq> vpi_state_hash install
     then (s, invalid_config ''V4 pipeline stage integrity check failed'')
     else checked (authorized_integrated_pipeline_context codec s peer (vpi_job_id install) (vpi_plan_generation install)) s (\<lambda>integrated.
     checked (case integrated of
         Some (plan, graph) \<Rightarrow>
           if is_some_and (graph_stage graph (vpi_stage_id install)) (\<lambda>stage.
               (vps_worker stage = vn_node_id s \<or> vn_node_id s \<in> set (vps_replicas stage)) \<and> peer = vg_coordinator graph)
           then Inr plan
           else invalid_config ''integrated V4 pipeline install sender or stage target is unauthorized''
       | None \<Rightarrow> authorized_reference_plan codec s peer (vpi_job_id install) (vpi_plan_generation install)) s (\<lambda>plan.
     if \<not> pipeline_strategy plan \<or> vp_pipeline_stages plan \<noteq> vpi_stage_count install \<or> vpi_stage_count install \<noteq> 2
        \<or> vpi_stage_id install \<ge> vpi_stage_count install \<or> vn_node_id s \<notin> set (vp_workers plan)
     then (s, invalid_config ''V4 pipeline install is not authorized for this plan stage'')
     else case bt_get (vn_pipeline_stages s) key of
       Some existing \<Rightarrow>
         if vlp_plan_generation existing = vpi_plan_generation install \<and> same_stage existing install
         then send_pipeline_install_ack codec env peer install s
         else if vlp_plan_generation existing < vpi_plan_generation install \<and> same_stage existing install
         then try_then (store_pipeline_stage env key (existing\<lparr>vlp_plan_generation := vpi_plan_generation install\<rparr>) s)
                (\<lambda>s _. send_pipeline_install_ack codec env peer install s)
         else (s, invalid_config ''V4 pipeline stage conflicts with existing state'')
     | None \<Rightarrow>
         if bt_len (vn_pipeline_stages s) \<ge> V4_MAX_PIPELINE_STAGES
         then (s, invalid_config ''V4 pipeline stage entry limit reached'')
         else try_then (store_pipeline_stage env key stage s) (\<lambda>s _. send_pipeline_install_ack codec env peer install s)))))"

text \<open>
  The route of a frame. In an integrated job it follows the stages of the graph; otherwise the proposer starts the
  first stage and a worker sends to the next.
\<close>

definition forward_route_integrated :: "V4Node \<Rightarrow> NodeId \<Rightarrow> V4PipelineForward \<Rightarrow> V4ExecutionGraph \<Rightarrow> bool" where
  "forward_route_integrated s peer f graph = (case (graph_stage graph 0, graph_stage graph 1) of
     (Some stage_zero, Some stage_one) \<Rightarrow>
       vpf_reply_to f = vg_coordinator graph
       \<and> is_some_and (graph_stage graph (vpf_stage_id f)) (\<lambda>stage. vps_worker stage = vn_node_id s)
       \<and> (if vpf_stage_id f = 0 then peer = vg_coordinator graph \<and> vpf_next_stage f = Some (vps_worker stage_one)
          else if vpf_stage_id f = 1 then peer = vps_worker stage_zero \<and> vpf_next_stage f = None
          else False)
   | _ \<Rightarrow> False)"

definition forward_route_reference :: "V4Node \<Rightarrow> NodeId \<Rightarrow> V4PipelineForward \<Rightarrow> V4TrainingPlan \<Rightarrow> bool" where
  "forward_route_reference s peer f plan \<longleftrightarrow>
    (let direct_stage_one_from_local_stage_zero = (vpf_stage_id f = 1 \<and> peer = vp_proposer plan
           \<and> is_some_and (bt_get (vn_integrated_graphs s) (vpf_job_id f)) (\<lambda>graph.
               vg_plan_hash graph = vp_plan_hash plan \<and> vg_graph_generation graph > 0
               \<and> (case vg_pipeline_stages graph of
                    [stage_zero, stage_one] \<Rightarrow> vps_worker stage_zero = vp_proposer plan \<and> vps_worker stage_one = vn_node_id s
                  | _ \<Rightarrow> False)))
     in (vpf_stage_id f = 0 \<and> peer = vp_proposer plan)
        \<or> (vpf_stage_id f > 0 \<and> (peer \<noteq> vp_proposer plan \<or> direct_stage_one_from_local_stage_zero)))"

definition pipeline_context :: "v4_codec \<Rightarrow> V4Node \<Rightarrow> NodeId \<Rightarrow> NodeId \<Rightarrow> JobId \<Rightarrow> u64 \<Rightarrow>
    NodeError + V4TrainingPlan \<times> V4ExecutionGraph option" where
  "pipeline_context codec s peer reply_to job_id plan_generation =
     and_then (authorized_integrated_pipeline_context codec s peer job_id plan_generation) (\<lambda>integrated.
     case integrated of
       Some (plan, graph) \<Rightarrow> Inr (plan, Some graph)
     | None \<Rightarrow> and_then (authorized_reference_plan codec s reply_to job_id plan_generation) (\<lambda>plan. Inr (plan, None)))"

definition receive_pipeline_forward :: "v4_codec \<Rightarrow> v4_env \<Rightarrow> NodeId \<Rightarrow> V4PipelineForward \<Rightarrow> V4Node \<Rightarrow> V4Node \<times> (NodeError + unit)" where
  "receive_pipeline_forward codec env peer f s =
     checked (pipeline_context codec s peer (vpf_reply_to f) (vpf_job_id f) (vpf_plan_generation f)) s (\<lambda>(plan, integrated).
     let route_authorized = (case integrated of
           Some graph \<Rightarrow> forward_route_integrated s peer f graph | None \<Rightarrow> forward_route_reference s peer f plan)
     in if \<not> pipeline_strategy plan \<or> vp_pipeline_stages plan \<noteq> vpf_stage_count f \<or> vpf_stage_count f \<noteq> 2
           \<or> vpf_stage_id f \<ge> vpf_stage_count f \<or> vn_node_id s \<notin> set (vp_workers plan)
           \<or> is_some_and (vpf_next_stage f) (\<lambda>next_stage. next_stage \<notin> set (vp_workers plan)) \<or> \<not> route_authorized
        then (s, invalid_config ''V4 pipeline forward is not authorized for this plan route'')
        else case bt_get (vn_pipeline_stages s) (vpf_job_id f, vpf_stage_id f) of
          None \<Rightarrow> (s, invalid_config ''V4 pipeline stage is unavailable'')
        | Some stage \<Rightarrow>
            if vlp_plan_generation stage \<noteq> vpf_plan_generation f \<or> vlp_stage_count stage \<noteq> vpf_stage_count f
               \<or> vlp_stage_count stage \<noteq> 2
            then (s, invalid_config ''V4 pipeline generation mismatch'')
            else try_then (execute_backend_task env plan CT_PipelineForward (Affine (vlp_coefficient stage) (vlp_bias stage))
                (of_nat (length (vpf_activation f))) (of_nat (length (vpf_activation f))) [vpf_activation f]
                (vpf_plan_generation f) 1 (vpf_stage_id f) (ucast (min (vpf_deadline_ms f) 0xFFFFFFFF)) s) (\<lambda>s activation.
              case vpf_next_stage f of
                Some next_stage \<Rightarrow>
                  if sat_add (vpf_stage_id f) 1 \<ge> vpf_stage_count f
                  then (s, invalid_config ''V4 pipeline stage has an invalid successor'')
                  else deliver_v4_message codec env next_stage (vpf_job_id f) (V4_PipelineForward
                    \<lparr>vpf_request_id = vpf_request_id f, vpf_job_id = vpf_job_id f, vpf_plan_generation = vpf_plan_generation f,
                     vpf_stage_id = vpf_stage_id f + 1, vpf_stage_count = vpf_stage_count f, vpf_microbatch = vpf_microbatch f,
                     vpf_activation = activation, vpf_next_stage = None, vpf_reply_to = vpf_reply_to f,
                     vpf_deadline_ms = vpf_deadline_ms f\<rparr>) s
              | None \<Rightarrow>
                  if sat_add (vpf_stage_id f) 1 \<noteq> vpf_stage_count f
                  then (s, invalid_config ''V4 pipeline stage is missing its required successor'')
                  else deliver_v4_message codec env (vpf_reply_to f) (vpf_job_id f) (V4_PipelineForwardResult
                    \<lparr>vpfr_request_id = vpf_request_id f, vpfr_job_id = vpf_job_id f, vpfr_plan_generation = vpf_plan_generation f,
                     vpfr_microbatch = vpf_microbatch f, vpfr_stage_id = vpf_stage_id f, vpfr_activation = activation,
                     vpfr_state_hash = vlp_state_hash stage\<rparr>) s))"

definition backward_route_integrated :: "V4Node \<Rightarrow> NodeId \<Rightarrow> V4PipelineBackward \<Rightarrow> V4ExecutionGraph \<Rightarrow> bool" where
  "backward_route_integrated s peer b graph = (case (graph_stage graph 0, graph_stage graph 1) of
     (Some stage_zero, Some stage_one) \<Rightarrow>
       vg_coordinator graph = vpb_reply_to b
       \<and> is_some_and (graph_stage graph (vpb_stage_id b)) (\<lambda>stage. vps_worker stage = vn_node_id s)
       \<and> (if vpb_stage_id b = 0 then peer = vps_worker stage_one \<and> vpb_previous_stage b = None
          else if vpb_stage_id b = 1 then peer = vg_coordinator graph \<and> vpb_previous_stage b = Some (vps_worker stage_zero)
          else False)
   | _ \<Rightarrow> False)"

definition receive_pipeline_backward :: "v4_codec \<Rightarrow> v4_env \<Rightarrow> NodeId \<Rightarrow> V4PipelineBackward \<Rightarrow> V4Node \<Rightarrow> V4Node \<times> (NodeError + unit)" where
  "receive_pipeline_backward codec env peer b s =
     checked (pipeline_context codec s peer (vpb_reply_to b) (vpb_job_id b) (vpb_plan_generation b)) s (\<lambda>(plan, integrated).
     let route_authorized = (case integrated of
           Some graph \<Rightarrow> backward_route_integrated s peer b graph
         | None \<Rightarrow> (vpb_stage_id b = 1 \<and> peer = vp_proposer plan) \<or> (vpb_stage_id b = 0 \<and> peer \<noteq> vp_proposer plan))
     in if \<not> pipeline_strategy plan \<or> vp_pipeline_stages plan \<noteq> vpb_stage_count b \<or> vpb_stage_count b \<noteq> 2
           \<or> vpb_stage_id b \<ge> vpb_stage_count b \<or> vn_node_id s \<notin> set (vp_workers plan)
           \<or> is_some_and (vpb_previous_stage b) (\<lambda>previous_stage. previous_stage \<notin> set (vp_workers plan)) \<or> \<not> route_authorized
        then (s, invalid_config ''V4 pipeline backward is not authorized for this plan route'')
        else case bt_get (vn_pipeline_stages s) (vpb_job_id b, vpb_stage_id b) of
          None \<Rightarrow> (s, invalid_config ''V4 pipeline stage is unavailable'')
        | Some stage \<Rightarrow>
            if vlp_plan_generation stage \<noteq> vpb_plan_generation b \<or> vlp_stage_count stage \<noteq> vpb_stage_count b
               \<or> vlp_stage_count stage \<noteq> 2 \<or> vpb_stage_id b \<ge> vpb_stage_count b
            then (s, invalid_config ''V4 pipeline backward generation mismatch'')
            else if vpb_previous_stage b \<noteq> None \<and> vpb_stage_id b = 0
            then (s, invalid_config ''V4 pipeline stage zero cannot send backward to a previous stage'')
            else if vpb_previous_stage b = None \<and> vpb_stage_id b \<noteq> 0
            then (s, invalid_config ''V4 pipeline backward route terminated before stage zero'')
            else try_then (execute_backend_task env plan CT_PipelineBackward (Gradient (vlp_coefficient stage))
                (of_nat (length (vpb_gradient b))) (of_nat (length (vpb_gradient b))) [vpb_gradient b]
                (vpb_plan_generation b) 1 (vpb_stage_id b) (ucast (min (vpb_deadline_ms b) 0xFFFFFFFF)) s) (\<lambda>s gradient.
              case vpb_previous_stage b of
                Some previous_stage \<Rightarrow> deliver_v4_message codec env previous_stage (vpb_job_id b) (V4_PipelineBackward
                    \<lparr>vpb_request_id = vpb_request_id b, vpb_job_id = vpb_job_id b, vpb_plan_generation = vpb_plan_generation b,
                     vpb_stage_id = sat_sub (vpb_stage_id b) 1, vpb_stage_count = vpb_stage_count b,
                     vpb_microbatch = vpb_microbatch b, vpb_gradient = gradient, vpb_previous_stage = None,
                     vpb_reply_to = vpb_reply_to b, vpb_deadline_ms = vpb_deadline_ms b\<rparr>) s
              | None \<Rightarrow> deliver_v4_message codec env (vpb_reply_to b) (vpb_job_id b) (V4_PipelineBackwardResult
                    \<lparr>vpbr_request_id = vpb_request_id b, vpbr_job_id = vpb_job_id b, vpbr_plan_generation = vpb_plan_generation b,
                     vpbr_microbatch = vpb_microbatch b, vpbr_stage_id = vpb_stage_id b, vpbr_gradient = gradient,
                     vpbr_state_hash = vlp_state_hash stage\<rparr>) s))"

end
