(* ===== verification/Node_Handler.thy ===== *)
theory Node_Handler
  imports Node_Jobs Node_Collective Node_Dataplane
begin

text \<open>
  \<^verbatim>\<open>handle_message\<close> of \<^verbatim>\<open>node/src/frontier_training.rs\<close> and \<^verbatim>\<open>handle_v5_message\<close> of \<^verbatim>\<open>node/src/lib.rs\<close>: what a node
  does with a message of an authenticated peer, and the events of a node as steps.
\<close>

section \<open>Dispatch\<close>

fun message_job_id :: "TrainingV4Message \<Rightarrow> JobId" where
  "message_job_id (V4_Plan v) = vp_job_id v"
| "message_job_id (V4_StateRecord v) = vts_job_id v"
| "message_job_id (V4_OptimizerShard v) = vos_job_id v"
| "message_job_id (V4_CheckpointRecord v) = vck_job_id v"
| "message_job_id (V4_StateAck v) = vsa_job_id v"
| "message_job_id (V4_ShardMigration v) = vsm_job_id v"
| "message_job_id (V4_ShardMigrationAck v) = vsma_job_id v"
| "message_job_id (V4_TensorInstall v) = vti_job_id v"
| "message_job_id (V4_TensorInstallAck v) = vtia_job_id v"
| "message_job_id (V4_TensorForward v) = vtf_job_id v"
| "message_job_id (V4_TensorForwardResult v) = vtfr_job_id v"
| "message_job_id (V4_TensorBackward v) = vtb_job_id v"
| "message_job_id (V4_TensorBackwardResult v) = vtbr_job_id v"
| "message_job_id (V4_PipelineInstall v) = vpi_job_id v"
| "message_job_id (V4_PipelineInstallAck v) = vpia_job_id v"
| "message_job_id (V4_PipelineForward v) = vpf_job_id v"
| "message_job_id (V4_PipelineForwardResult v) = vpfr_job_id v"
| "message_job_id (V4_PipelineBackward v) = vpb_job_id v"
| "message_job_id (V4_PipelineBackwardResult v) = vpbr_job_id v"
| "message_job_id (V4_CollectiveContribute v) = vcc_job_id v"
| "message_job_id (V4_CollectiveAggregate v) = vca_job_id v"
| "message_job_id (V4_CollectiveResult v) = vcr_job_id v"
| "message_job_id (V4_Branch v) = vtbn_job_id v"
| "message_job_id (V4_Reconcile v) = vrq_job_id v"
| "message_job_id (V4_ReconcileResult v) = vrr_job_id v"
| "message_job_id (V4_ByzantineUpdate v) = vbu_job_id v"
| "message_job_id (V4_ByzantineResult v) = vbr_job_id v"
| "message_job_id (V4_PlanAck v) = vpa_job_id v"
| "message_job_id (V4_PlanProposal v) = vp_job_id v"
| "message_job_id (V4_PlanProposalAck v) = vppa_job_id v"
| "message_job_id (V4_ShardMigrationRequest v) = vsmq_job_id v"
| "message_job_id (V4_ShardMigrationResult v) = vsmr_job_id v"
| "message_job_id (V4_IntegratedStart v) = vg_job_id (vist_graph v)"
| "message_job_id (V4_IntegratedAck v) = via_job_id v"
| "message_job_id (V4_IntegratedState v) = vis_job_id v"
| "message_job_id (V4_IntegratedStateAck v) = visa_job_id v"
| "message_job_id (V4_IntegratedElectionRequest v) = vier_job_id v"
| "message_job_id (V4_IntegratedElectionVote v) = viev_job_id v"
| "message_job_id (V4_IntegratedResult v) = vir_job_id v"
| "message_job_id (V4_TensorReplica v) = vtr_job_id v"
| "message_job_id (V4_TensorReplicaAck v) = vtra_job_id v"
| "message_job_id (V4_OptimizerStateInstall v) = vosi_job_id v"
| "message_job_id (V4_OptimizerStateAck v) = vosa_job_id v"
| "message_job_id (V4_IntegratedProbe v) = vpr_job_id v"
| "message_job_id (V4_IntegratedProbeAck v) = vpra_job_id v"

text \<open>The error of a handler is logged; the messages without a handler go to the mailbox of their job.\<close>

definition handle_message :: "('k, 'g) security_crypto \<Rightarrow> v4_codec \<Rightarrow> v4_env \<Rightarrow> NodeId \<Rightarrow> TrainingV4Message \<Rightarrow> V4Node \<Rightarrow> V4Node" where
  "handle_message crypto codec env peer message s = (case message of
     V4_PlanProposal v \<Rightarrow> fst (receive_plan_proposal codec env peer v s)
   | V4_ShardMigrationRequest v \<Rightarrow> fst (receive_shard_migration_request codec env peer v (ve_incoming env) s)
   | V4_ShardMigration v \<Rightarrow> fst (receive_shard_migration codec env peer v s)
   | V4_TensorInstall v \<Rightarrow> fst (receive_tensor_install codec env peer v s)
   | V4_TensorForward v \<Rightarrow> fst (receive_tensor_forward codec env peer v s)
   | V4_TensorBackward v \<Rightarrow> fst (receive_tensor_backward codec env peer v s)
   | V4_PipelineInstall v \<Rightarrow> fst (receive_pipeline_install codec env peer v s)
   | V4_PipelineForward v \<Rightarrow> fst (receive_pipeline_forward codec env peer v s)
   | V4_PipelineBackward v \<Rightarrow> fst (receive_pipeline_backward codec env peer v s)
   | V4_CollectiveContribute v \<Rightarrow> fst (receive_collective_contribution codec env peer v s)
   | V4_CollectiveAggregate v \<Rightarrow> fst (receive_collective_aggregate codec env peer v s)
   | V4_ByzantineUpdate v \<Rightarrow> fst (receive_byzantine_update crypto codec env peer v s)
   | V4_IntegratedStart v \<Rightarrow> fst (receive_integrated_start codec env peer v s)
   | V4_IntegratedState v \<Rightarrow> fst (receive_integrated_state codec env peer v s)
   | V4_IntegratedProbe v \<Rightarrow> fst (receive_integrated_probe env peer v s)
   | V4_IntegratedProbeAck v \<Rightarrow> fst (receive_integrated_probe_ack peer v s)
   | V4_IntegratedElectionRequest v \<Rightarrow> fst (receive_integrated_election_request codec env peer v s)
   | V4_TensorReplica v \<Rightarrow> fst (receive_tensor_replica codec env peer v s)
   | V4_OptimizerStateInstall v \<Rightarrow> fst (receive_optimizer_state_install codec env peer v s)
   | V4_Reconcile v \<Rightarrow> fst (receive_reconcile codec env peer v s)
   | V4_Plan v \<Rightarrow> receive_plan codec env peer v s
   | V4_StateRecord v \<Rightarrow> fst (receive_state_record codec env peer v s)
   | V4_OptimizerShard v \<Rightarrow> fst (receive_optimizer_shard codec env peer v s)
   | V4_CheckpointRecord v \<Rightarrow> fst (receive_checkpoint_record codec env peer v s)
   | _ \<Rightarrow> mailbox_send (message_job_id message) (VI_Message peer message) s)"

section \<open>Capability challenges\<close>

text \<open>At most eight challenges of a peer in a window of sixty seconds.\<close>

definition challenge_window :: "u64 \<Rightarrow> NodeId \<Rightarrow> (NodeId, u64 \<times> u16) btree \<Rightarrow> (NodeId, u64 \<times> u16) btree \<times> bool" where
  "challenge_window now peer windows =
    (let entry = (case bt_get windows peer of None \<Rightarrow> (now, 0) | Some entry \<Rightarrow> entry);
         entry = (if sat_sub now (fst entry) \<ge> 60 then (now, 0) else entry)
     in if snd entry \<ge> 8 then (bt_insert peer entry windows, False)
        else (bt_insert peer (fst entry, sat_add (snd entry) 1) windows, True))"

definition handle_v5_message :: "v4_codec \<Rightarrow> v4_env \<Rightarrow> NodeId \<Rightarrow> TrainingV5Message \<Rightarrow> V4Node \<Rightarrow> V4Node" where
  "handle_v5_message codec env peer message s = (case message of
     V5_CapabilityChallenge challenge \<Rightarrow>
       if cc_worker challenge \<noteq> vn_node_id s \<or> cc_task_kind challenge \<noteq> CT_CapabilityChallenge then s
       else if \<not> is_some_and (bt_get (vn_plans s) (cc_job_id challenge)) (\<lambda>plan.
             peer \<in> set (vp_workers plan) \<or> vp_proposer plan = peer) then s
       else let now = max (ve_now env) 1
         in case challenge_window now peer (vn_v5_challenge_windows s) of
              (windows, allowed) \<Rightarrow>
                let s = s\<lparr>vn_v5_challenge_windows := windows\<rparr>
                in if \<not> allowed then s
                   else case registry_challenge (vc_blake3 codec) (ve_elapsed env (challenge_task challenge))
                       (ve_challenge_elapsed env) challenge now (vn_compute s) of
                     (registry, result) \<Rightarrow> fst (send_message env peer
                       (M_TrainingV5 (V5_CapabilityChallengeResult result)) (s\<lparr>vn_compute := registry\<rparr>))
   | V5_CapabilityChallengeResult result \<Rightarrow>
       if ccr_worker result \<noteq> peer then s
       else if is_err (Message_validate (vc_blake3 codec) (M_TrainingV5 (V5_CapabilityChallengeResult result))) then s
       else persist_security_state env (s\<lparr>vn_security := record_capability_challenge (vn_security s) peer
              (ccr_backend result) (ccr_success result) (ve_now env)\<rparr>)
   | V5_CapabilityEvidence evidence \<Rightarrow> s)"

section \<open>Events\<close>

text \<open>A node receives a message, sees a peer disconnect, or stops and starts again on its state directory.\<close>

datatype v4_event =
    EV_Message v4_env NodeId TrainingV4Message
  | EV_V5 v4_env NodeId TrainingV5Message
  | EV_Disconnected NodeId
  | EV_Restart LocalSecurityState BackendRegistry

fun node_step :: "('k, 'g) security_crypto \<Rightarrow> v4_codec \<Rightarrow> v4_event \<Rightarrow> V4Node \<Rightarrow> V4Node" where
  "node_step crypto codec (EV_Message env peer message) s = handle_message crypto codec env peer message s"
| "node_step crypto codec (EV_V5 env peer message) s = handle_v5_message codec env peer message s"
| "node_step crypto codec (EV_Disconnected peer) s = peer_disconnected peer s"
| "node_step crypto codec (EV_Restart fresh registry) s = start_node codec fresh registry s"

end
