(* ===== verification/Election.thy ===== *)
theory Election
  imports Node_Handler
begin

text \<open>
  The replacement of the coordinator of an integrated job in \<^verbatim>\<open>node/src/frontier_training.rs\<close>: the liveness probe
  of the members, the decision of a participant to take over, the candidacy with its own vote, and the collection of
  votes. A message list given to a step is what its mailbox receives while it waits, up to the time limit.
\<close>

section \<open>Probing the members\<close>

fun send_probes :: "v4_env \<Rightarrow> V4IntegratedProbe \<Rightarrow> NodeId list \<Rightarrow> V4Node \<Rightarrow> V4Node \<times> NodeId list" where
  "send_probes env probe [] s = (s, [])"
| "send_probes env probe (peer # peers) s =
    (case send_to env peer (V4_IntegratedProbe probe) s of
       (s, Inl _) \<Rightarrow> send_probes env probe peers s
     | (s, Inr _) \<Rightarrow> (case send_probes env probe peers s of (s, pending) \<Rightarrow> (s, peer # pending)))"

fun collect_probe_acks :: "JobId \<Rightarrow> V4ExecutionGraph \<Rightarrow> NodeId list \<Rightarrow> V4Inbound list \<Rightarrow> NodeId list" where
  "collect_probe_acks request_id graph [] incoming = []"
| "collect_probe_acks request_id graph pending [] = []"
| "collect_probe_acks request_id graph pending (VI_Message peer (V4_IntegratedProbeAck ack) # incoming) =
    (if vpra_request_id ack = request_id \<and> vpra_job_id ack = vg_job_id graph
        \<and> vpra_graph_generation ack = vg_graph_generation graph \<and> vpra_responder ack = peer \<and> vpra_accepted ack
        \<and> peer \<in> set pending
     then peer # collect_probe_acks request_id graph (filter (\<lambda>p. p \<noteq> peer) pending) incoming
     else collect_probe_acks request_id graph pending incoming)"
| "collect_probe_acks request_id graph pending (_ # incoming) = collect_probe_acks request_id graph pending incoming"

text \<open>\<open>request_id\<close> is the random identifier of the round.\<close>

definition probe_integrated_members :: "v4_env \<Rightarrow> JobId \<Rightarrow> V4ExecutionGraph \<Rightarrow> V4IntegratedStateRecord \<Rightarrow> V4Inbound list \<Rightarrow>
    V4Node \<Rightarrow> V4Node \<times> NodeId list" where
  "probe_integrated_members env request_id graph state incoming s =
    (case send_probes env \<lparr>vpr_request_id = request_id, vpr_job_id = vg_job_id graph,
         vpr_graph_generation = vg_graph_generation graph, vpr_graph_hash = vg_graph_hash graph,
         vpr_state_hash = vis_state_hash state, vpr_requester = vn_node_id s\<rparr>
         (filter (\<lambda>worker. worker \<noteq> vn_node_id s) (remdups (vg_workers graph))) s of
       (s, pending) \<Rightarrow> (s, collect_probe_acks request_id graph pending incoming))"

definition graph_quorum :: "V4ExecutionGraph \<Rightarrow> usize" where
  "graph_quorum graph = length (vg_workers graph) div 2 + 1"

definition has_integrated_reconfiguration_quorum :: "v4_env \<Rightarrow> JobId \<Rightarrow> V4ExecutionGraph \<Rightarrow> V4IntegratedStateRecord \<Rightarrow> NodeId \<Rightarrow>
    V4Inbound list \<Rightarrow> V4Node \<Rightarrow> V4Node \<times> bool" where
  "has_integrated_reconfiguration_quorum env request_id graph state failed incoming s =
    (case probe_integrated_members env request_id graph state incoming s of
       (s, confirmed) \<Rightarrow>
         (s, length (filter (\<lambda>candidate. candidate \<noteq> failed \<and> (candidate = vn_node_id s \<or> candidate \<in> set confirmed))
                (vg_workers graph)) \<ge> graph_quorum graph))"

section \<open>Candidacy\<close>

definition eligible_members :: "NodeId \<Rightarrow> V4ExecutionGraph \<Rightarrow> NodeId list \<Rightarrow> NodeId list" where
  "eligible_members local graph confirmed = sort (filter (\<lambda>worker. (worker = local \<or> worker \<in> set confirmed)
     \<and> worker \<noteq> vg_coordinator graph) (vg_workers graph))"

definition candidate_term :: "V4Node \<Rightarrow> V4ExecutionGraph \<Rightarrow> u64" where
  "candidate_term s graph =
    (let previous_term = (case bt_get (vn_integrated_elections s) (vg_job_id graph) of
           Some record \<Rightarrow> if vel_graph_generation record = vg_graph_generation graph
               \<and> vel_graph_hash record = vg_graph_hash graph \<and> vel_candidate record = vn_node_id s
             then Some (vel_term record) else None
         | None \<Rightarrow> None)
     in max (sat_add (case previous_term of Some t \<Rightarrow> t | None \<Rightarrow> vg_coordination_term graph) 1)
          (sat_add (vg_coordination_term graph) 1))"

text \<open>The node votes for itself, on disk and then in memory, whatever it voted before.\<close>

definition vote_for_self :: "v4_codec \<Rightarrow> v4_env \<Rightarrow> V4ExecutionGraph \<Rightarrow> u64 \<Rightarrow> V4Node \<Rightarrow> V4Node \<times> (NodeError + unit)" where
  "vote_for_self codec env graph trm s =
    (let self_vote = vote_record codec (vg_job_id graph) (vg_graph_generation graph) (vg_graph_hash graph) trm (vn_node_id s)
     in try_then (persist_integrated_election env self_vote s)
          (\<lambda>s _. (s\<lparr>vn_integrated_elections := bt_insert (vg_job_id graph) self_vote (vn_integrated_elections s)\<rparr>, Inr ())))"

fun send_election_requests :: "v4_env \<Rightarrow> V4IntegratedElectionRequest \<Rightarrow> NodeId list \<Rightarrow> V4Node \<Rightarrow> V4Node \<times> NodeId list" where
  "send_election_requests env request [] s = (s, [])"
| "send_election_requests env request (voter # voters) s =
    (case send_control_message env voter (V4_IntegratedElectionRequest request) s of
       (s, False) \<Rightarrow> send_election_requests env request voters s
     | (s, True) \<Rightarrow> (case send_election_requests env request voters s of (s, pending) \<Rightarrow> (s, voter # pending)))"

definition vote_matches :: "V4ExecutionGraph \<Rightarrow> u64 \<Rightarrow> NodeId \<Rightarrow> NodeId \<Rightarrow> V4IntegratedElectionVote \<Rightarrow> bool" where
  "vote_matches graph trm local peer vote \<longleftrightarrow> viev_job_id vote = vg_job_id graph
     \<and> viev_graph_generation vote = vg_graph_generation graph \<and> viev_graph_hash vote = vg_graph_hash graph
     \<and> viev_term vote = trm \<and> viev_candidate vote = local \<and> viev_voter vote = peer"

fun collect_votes :: "V4ExecutionGraph \<Rightarrow> u64 \<Rightarrow> NodeId \<Rightarrow> usize \<Rightarrow> NodeId list \<Rightarrow> NodeId list \<Rightarrow> V4Inbound list \<Rightarrow> NodeId list" where
  "collect_votes graph trm local quorum votes pending incoming =
    (if length votes \<ge> quorum \<or> pending = [] then votes
     else case incoming of
       [] \<Rightarrow> votes
     | VI_Message peer (V4_IntegratedElectionVote vote) # incoming \<Rightarrow>
         if vote_matches graph trm local peer vote \<and> peer \<in> set pending
         then collect_votes graph trm local quorum (if viev_granted vote then peer # votes else votes)
                (filter (\<lambda>p. p \<noteq> peer) pending) incoming
         else collect_votes graph trm local quorum votes pending incoming
     | _ # incoming \<Rightarrow> collect_votes graph trm local quorum votes pending incoming)"

declare collect_votes.simps [simp del]

definition request_integrated_election :: "v4_codec \<Rightarrow> v4_env \<Rightarrow> V4ExecutionGraph \<Rightarrow> V4IntegratedStateRecord \<Rightarrow> NodeId list \<Rightarrow>
    V4Inbound list \<Rightarrow> V4Node \<Rightarrow> V4Node \<times> (NodeError + NodeId list)" where
  "request_integrated_election codec env graph state confirmed incoming s =
     checked (case bt_get (vn_integrated_graphs s) (vg_job_id graph) of
         None \<Rightarrow> invalid_config ''integrated election graph disappeared'' | Some g \<Rightarrow> Inr g) s (\<lambda>current_graph.
     checked (case bt_get (vn_integrated_states s) (vg_job_id graph) of
         None \<Rightarrow> invalid_config ''integrated election state disappeared'' | Some st \<Rightarrow> Inr st) s (\<lambda>current_state.
     if vg_graph_hash current_graph \<noteq> vg_graph_hash graph \<or> vg_graph_generation current_graph \<noteq> vg_graph_generation graph
        \<or> vis_phase current_state \<notin> {IP_Running, IP_Partitioned}
     then (s, invalid_config ''integrated election graph changed before voting'')
     else if vg_coordinator current_graph \<noteq> vg_coordinator graph
     then (s, invalid_config ''integrated election already has a replacement coordinator'')
     else if (case eligible_members (vn_node_id s) graph confirmed of [] \<Rightarrow> True | first # _ \<Rightarrow> first \<noteq> vn_node_id s)
     then (s, invalid_config ''another eligible member owns the deterministic election slot'')
     else let trm = candidate_term s graph
       in try_then (vote_for_self codec env graph trm s) (\<lambda>s _.
          case send_election_requests env \<lparr>vier_request_id = vg_job_id graph, vier_job_id = vg_job_id graph,
              vier_graph_generation = vg_graph_generation graph, vier_graph_hash = vg_graph_hash graph,
              vier_branch = vg_branch graph, vier_state_hash = vis_state_hash state, vier_term = trm,
              vier_candidate = vn_node_id s\<rparr> (filter (\<lambda>voter. voter \<noteq> vn_node_id s) (vg_workers graph)) s of
            (s, pending) \<Rightarrow>
              let votes = collect_votes graph trm (vn_node_id s) (graph_quorum graph) [vn_node_id s] (remdups pending) incoming
              in if length votes < graph_quorum graph
                 then (s, invalid_config (''integrated coordinator election did not reach quorum: '' @ decimal (length votes)
                        @ ''/'' @ decimal (graph_quorum graph)))
                 else (s, Inr (sort votes)))))"

section \<open>Takeover\<close>

definition V4_TAKEOVER_MISSES_REQUIRED :: u8 where "V4_TAKEOVER_MISSES_REQUIRED = 3"

text \<open>\<open>TK_Certified\<close> is the point at which the participant holds a certificate and builds the replacement graph.\<close>

datatype takeover =
    TK_CoordinatorAlive
  | TK_TransitionInProgress
  | TK_CoordinatorMissingWithoutQuorum
  | TK_AnotherCandidate
  | TK_Terminal
  | TK_Certified "NodeId list"

definition provides_state :: "V4ExecutionGraph \<Rightarrow> NodeId \<Rightarrow> bool" where
  "provides_state graph candidate \<longleftrightarrow>
     (\<exists>shard\<in>set (vg_shards graph). candidate \<in> set (vso_replicas shard) \<or> candidate \<in> set (vso_owners shard))
     \<or> (\<exists>stage\<in>set (vg_pipeline_stages graph). candidate \<in> set (vps_replicas stage) \<or> vps_worker stage = candidate)"

definition takeover_candidates :: "NodeId \<Rightarrow> V4ExecutionGraph \<Rightarrow> NodeId list \<Rightarrow> NodeId list" where
  "takeover_candidates local graph confirmed =
    (let live = filter (\<lambda>candidate. (candidate = local \<or> candidate \<in> set confirmed) \<and> candidate \<noteq> vg_coordinator graph) (vg_workers graph);
         providers = filter (provides_state graph) live
     in sort (if providers = [] then live else providers))"

definition maybe_take_over_integrated_job :: "v4_codec \<Rightarrow> v4_env \<Rightarrow> JobId \<Rightarrow> JobId \<Rightarrow> u8 \<Rightarrow> V4Inbound list \<Rightarrow> V4Inbound list \<Rightarrow>
    V4Node \<Rightarrow> V4Node \<times> (NodeError + takeover)" where
  "maybe_take_over_integrated_job codec env job_id request_id coordinator_misses probe_incoming vote_incoming s =
     checked (case bt_get (vn_integrated_graphs s) job_id of
         None \<Rightarrow> invalid_config ''takeover graph is unavailable'' | Some g \<Rightarrow> Inr g) s (\<lambda>graph.
     checked (case bt_get (vn_plans s) job_id of
         None \<Rightarrow> invalid_config ''takeover plan is unavailable'' | Some p \<Rightarrow> Inr p) s (\<lambda>plan.
     checked (case bt_get (vn_integrated_states s) job_id of
         None \<Rightarrow> invalid_config ''takeover state is unavailable'' | Some st \<Rightarrow> Inr st) s (\<lambda>state.
     if vis_phase state \<in> {IP_Committed, IP_Failed} then (s, Inr TK_Terminal)
     else if vis_phase state \<in> {IP_Preparing, IP_Reconfiguring} then (s, Inr TK_TransitionInProgress)
     else case probe_integrated_members env request_id graph state probe_incoming s of
       (s, confirmed) \<Rightarrow>
         if vg_coordinator graph \<noteq> vn_node_id s \<and> vg_coordinator graph \<in> set confirmed then (s, Inr TK_CoordinatorAlive)
         else if length (filter (\<lambda>candidate. candidate = vn_node_id s \<or> candidate \<in> set confirmed) (vg_workers graph))
              < graph_quorum graph then (s, Inr TK_CoordinatorMissingWithoutQuorum)
         else if sat_add coordinator_misses 1 < V4_TAKEOVER_MISSES_REQUIRED then (s, Inr TK_CoordinatorMissingWithoutQuorum)
         else if (case takeover_candidates (vn_node_id s) graph confirmed of [] \<Rightarrow> True | first # _ \<Rightarrow> first \<noteq> vn_node_id s)
         then (s, Inr TK_AnotherCandidate)
         else try_then (request_integrated_election codec env graph state confirmed vote_incoming s)
                (\<lambda>s certificate. (s, Inr (TK_Certified certificate))))))"

end
