(* ===== verification/Node_Frame.thy ===== *)
theory Node_Frame
  imports Election
begin

text \<open>
  Which parts of a node the handlers leave alone. The locale \<open>control_frame\<close> is the interface between the control
  state of a job (its graph and the vote of the node, in memory and on disk, and the votes sent) and everything
  else: a property that does not depend on anything else is kept by every handler but the one that installs a graph
  and the one that votes.
\<close>

section \<open>The frame of the control state\<close>

lemma post_phase [post_intros]:
  "post I a \<Longrightarrow> post I b \<Longrightarrow> post I c \<Longrightarrow> post I (case v of MP_Prepare \<Rightarrow> a | MP_Commit \<Rightarrow> b | MP_Abort \<Rightarrow> c)"
  by (cases v) simp_all

fun election_message :: "Message \<Rightarrow> bool" where
  "election_message (M_TrainingV4 (V4_IntegratedElectionVote _)) = True"
| "election_message (M_TrainingV4 (V4_IntegratedElectionRequest _)) = True"
| "election_message _ = False"

locale control_frame =
  fixes I :: "V4Node \<Rightarrow> bool"
  assumes frame_memory:
      "I s \<Longrightarrow> I (s\<lparr>vn_security := security\<rparr>)"
      "I s \<Longrightarrow> I (s\<lparr>vn_jobs := jobs\<rparr>)"
      "I s \<Longrightarrow> I (s\<lparr>vn_data_shards := data_shards\<rparr>)"
      "I s \<Longrightarrow> I (s\<lparr>vn_tensor_shards := tensor_shards\<rparr>)"
      "I s \<Longrightarrow> I (s\<lparr>vn_pipeline_stages := pipeline_stages\<rparr>)"
      "I s \<Longrightarrow> I (s\<lparr>vn_collectives := collectives\<rparr>)"
      "I s \<Longrightarrow> I (s\<lparr>vn_byzantine := byzantine\<rparr>)"
      "I s \<Longrightarrow> I (s\<lparr>vn_training_states := training_states\<rparr>)"
      "I s \<Longrightarrow> I (s\<lparr>vn_integrated_states := integrated_states\<rparr>)"
      "I s \<Longrightarrow> I (s\<lparr>vn_optimizer_states := optimizer_states\<rparr>)"
      "I s \<Longrightarrow> I (s\<lparr>vn_optimizer_shards := optimizer_shards\<rparr>)"
      "I s \<Longrightarrow> I (s\<lparr>vn_checkpoints := checkpoints\<rparr>)"
      "I s \<Longrightarrow> I (s\<lparr>vn_plans := plans\<rparr>)"
      "I s \<Longrightarrow> I (s\<lparr>vn_plan_proposals := proposals\<rparr>)"
      "I s \<Longrightarrow> I (s\<lparr>vn_compute := registry\<rparr>)"
      "I s \<Longrightarrow> I (s\<lparr>vn_v5_challenge_windows := windows\<rparr>)"
    and frame_disk:
      "I s \<Longrightarrow> I (s\<lparr>vn_disk := vd_data_shards_update f1 (vn_disk s)\<rparr>)"
      "I s \<Longrightarrow> I (s\<lparr>vn_disk := vd_training_states_update f2 (vn_disk s)\<rparr>)"
      "I s \<Longrightarrow> I (s\<lparr>vn_disk := vd_integrated_states_update f3 (vn_disk s)\<rparr>)"
      "I s \<Longrightarrow> I (s\<lparr>vn_disk := vd_plans_update f4 (vn_disk s)\<rparr>)"
      "I s \<Longrightarrow> I (s\<lparr>vn_disk := vd_plan_proposals_update f4 (vn_disk s)\<rparr>)"
      "I s \<Longrightarrow> I (s\<lparr>vn_disk := vd_optimizer_states_update f5 (vn_disk s)\<rparr>)"
      "I s \<Longrightarrow> I (s\<lparr>vn_disk := vd_optimizer_shards_update f6 (vn_disk s)\<rparr>)"
      "I s \<Longrightarrow> I (s\<lparr>vn_disk := vd_checkpoints_update f7 (vn_disk s)\<rparr>)"
      "I s \<Longrightarrow> I (s\<lparr>vn_disk := vd_tensor_shards_update f8 (vn_disk s)\<rparr>)"
      "I s \<Longrightarrow> I (s\<lparr>vn_disk := vd_pipeline_stages_update f9 (vn_disk s)\<rparr>)"
      "I s \<Longrightarrow> I (s\<lparr>vn_disk := vd_security_update f10 (vn_disk s)\<rparr>)"
    and frame_send: "I s \<Longrightarrow> \<not> election_message m \<Longrightarrow> I (s\<lparr>vn_outbox := vn_outbox s @ [(peer, m)]\<rparr>)"
begin

lemma write_frame: "I s \<Longrightarrow> (\<And>s. I s \<Longrightarrow> I (s\<lparr>vn_disk := f (vn_disk s)\<rparr>)) \<Longrightarrow> post I (write_json env file f s)"
  by (simp add: post_def write_json_def split: option.splits)

lemma persist_frame [post_intros]:
  "I s \<Longrightarrow> post I (persist_data_shard env a s)"
  "I s \<Longrightarrow> post I (persist_plan env b s)"
  "I s \<Longrightarrow> post I (persist_plan_proposal env b s)"
  "I s \<Longrightarrow> post I (persist_training_state env c s)"
  "I s \<Longrightarrow> post I (persist_optimizer_shard env d s)"
  "I s \<Longrightarrow> post I (persist_optimizer_state env e s)"
  "I s \<Longrightarrow> post I (persist_tensor_shard env f s)"
  "I s \<Longrightarrow> post I (persist_pipeline_stage env g s)"
  "I s \<Longrightarrow> post I (persist_integrated_state env h s)"
  unfolding persist_data_shard_def persist_plan_def persist_plan_proposal_def persist_training_state_def
    persist_optimizer_shard_def persist_optimizer_state_def persist_tensor_shard_def persist_pipeline_stage_def
    persist_integrated_state_def
  by (erule write_frame; erule frame_disk)+

lemma persist_security_frame: "I s \<Longrightarrow> I (persist_security_state env s)"
  unfolding persist_security_state_def by (rule post_fst [where I = I], erule write_frame, erule frame_disk)

lemma remove_proposal_frame [post_intros]: "I s \<Longrightarrow> post I (remove_plan_proposal env job s)"
  unfolding remove_plan_proposal_def by (intro post_intros) (auto intro: frame_disk)

lemma remove_checkpoints_frame: "I s \<Longrightarrow> post I (remove_checkpoints env job gens s)"
  by (induction gens arbitrary: s) (auto intro!: post_intros frame_disk simp: post_def split: option.splits)

lemma persist_checkpoint_frame [post_intros]: "I s \<Longrightarrow> post I (persist_checkpoint env c s)"
  unfolding persist_checkpoint_def prune_checkpoint_history_def
  by (intro post_intros remove_checkpoints_frame write_frame frame_disk)

lemma send_frame [post_intros]:
  "I s \<Longrightarrow> \<not> election_message m \<Longrightarrow> post I (send_message env peer m s)"
  "I s \<Longrightarrow> \<not> election_message (M_TrainingV4 v) \<Longrightarrow> post I (send_to env peer v s)"
  by (auto simp: post_def send_message_def send_to_def split: option.splits intro: frame_send)

lemma send_control_frame [post_intros]:
  "I s \<Longrightarrow> \<not> election_message (M_TrainingV4 v) \<Longrightarrow> post I (send_control_message env peer v s)"
  "I s \<Longrightarrow> \<not> election_message (M_TrainingV4 v) \<Longrightarrow> post I (send_v4_control_message codec env peer v s)"
  using send_frame(2) [of s v env peer]
  by (auto simp: post_def send_control_message_def send_v4_control_message_def split: prod.splits sum.splits bool.splits)

lemma mailbox_frame: "I s \<Longrightarrow> I (mailbox_send job inbound s)"
  by (simp add: mailbox_send_def frame_memory split: option.splits)

lemma deliver_frame [post_intros]:
  "I s \<Longrightarrow> \<not> election_message (M_TrainingV4 v) \<Longrightarrow> post I (deliver_v4_message codec env peer job v s)"
  unfolding deliver_v4_message_def by (intro post_intros mailbox_frame)

lemma claim_frame [post_intros]: "I s \<Longrightarrow> post I (observe_peer_claim env peer obj job branch gen sq digest s)"
  unfolding observe_peer_claim_def
  by (auto simp: post_def split: prod.splits sum.splits intro: frame_memory persist_security_frame)

lemma state_records_frame [post_intros]:
  "I s \<Longrightarrow> post I (receive_state_record codec env peer a s)"
  "I s \<Longrightarrow> post I (receive_optimizer_shard codec env peer b s)"
  "I s \<Longrightarrow> post I (receive_checkpoint_record codec env peer c s)"
  unfolding receive_state_record_def receive_optimizer_shard_def receive_checkpoint_record_def send_state_ack_def
  by (intro post_intros frame_memory; simp)+

lemma plan_proposal_frame [post_intros]: "I s \<Longrightarrow> post I (receive_plan_proposal codec env peer plan s)"
  unfolding receive_plan_proposal_def store_proposal_def
  by (intro post_intros post_case_node frame_memory; simp)

lemma fold_frame: "I s \<Longrightarrow> (\<And>x s. I s \<Longrightarrow> I (f x s)) \<Longrightarrow> I (fold f xs s)"
  by (induction xs arbitrary: s) simp_all

lemma sync_frame: "I s \<Longrightarrow> I (sync_local_execution_state_to_plan env plan s)"
  unfolding sync_local_execution_state_to_plan_def sync_local_data_shards_to_plan_def Let_def
  by (auto intro!: fold_frame frame_memory post_fst [where I = I] persist_frame)

lemma adopt_plan_frame: "I s \<Longrightarrow> I (adopt_plan env plan s)"
  unfolding adopt_plan_def Let_def
  by (auto intro!: sync_frame frame_memory post_fst [where I = I] remove_proposal_frame)

lemma post_eq: "post I r \<Longrightarrow> r = (s', x) \<Longrightarrow> I s'"
  by (simp add: post_def)

lemma plan_frame: "I s \<Longrightarrow> I (receive_plan codec env peer plan s)"
  unfolding receive_plan_def Let_def
  by (auto intro!: post_fst [where I = I] send_control_frame frame_memory persist_security_frame adopt_plan_frame
      split: prod.splits sum.splits if_splits elim!: post_eq [OF persist_frame(2), rotated])

lemma migration_frame [post_intros]: "I s \<Longrightarrow> post I (receive_shard_migration codec env peer m s)"
  unfolding receive_shard_migration_def prepare_migration_def abort_migration_def send_migration_ack_def Let_def
  by (intro post_intros frame_memory frame_disk; simp)

lemma create_job_frame: "I s \<Longrightarrow> I (create_job job s)"
  by (simp add: create_job_def frame_memory)

lemma transfer_frame: "I s \<Longrightarrow> post I (transfer_shard_without_plan_commit env shard target pg og incoming s)"
  unfolding transfer_shard_without_plan_commit_def Let_def
  by (intro post_case_node post_intros create_job_frame frame_memory; simp)

lemma migration_request_frame [post_intros]: "I s \<Longrightarrow> post I (receive_shard_migration_request codec env peer r incoming s)"
  unfolding receive_shard_migration_request_def
  by (auto simp: Let_def split: prod.splits sum.splits option.splits if_splits
      intro!: post_intros elim!: post_eq [OF transfer_frame, rotated])

lemma tensor_install_frame [post_intros]: "I s \<Longrightarrow> post I (receive_tensor_install codec env peer a s)"
  unfolding receive_tensor_install_def send_tensor_install_ack_def store_tensor_shard_def
  by (intro post_intros frame_memory; simp)

lemma tensor_replica_frame [post_intros]: "I s \<Longrightarrow> post I (receive_tensor_replica codec env peer a s)"
  unfolding receive_tensor_replica_def Let_def
  by (intro post_intros post_case_pair frame_memory; simp)

lemma optimizer_install_frame [post_intros]: "I s \<Longrightarrow> post I (receive_optimizer_state_install codec env peer a s)"
  unfolding receive_optimizer_state_install_def
  by (intro post_intros post_case_pair frame_memory; simp)

lemma insert_group_frame [post_intros]: "I s \<Longrightarrow> post I (insert_group request fresh g vals n e1 e2 s)"
  unfolding insert_group_def Let_def by (intro post_intros frame_memory; simp)

lemma finish_group_frame [post_intros]:
  "I s \<Longrightarrow> post I (finish_collective_group codec env request job pg gen g vals n eg reply s)"
  unfolding finish_collective_group_def by (intro post_intros post_case_pair frame_memory; simp)

lemma insert_contribution_frame [post_intros]: "I s \<Longrightarrow> post I (insert_contribution c s)"
  unfolding insert_contribution_def Let_def by (intro post_intros post_case_pair frame_memory; simp)

lemma collective_frame [post_intros]:
  "I s \<Longrightarrow> post I (receive_collective_aggregate codec env peer a s)"
  "I s \<Longrightarrow> post I (receive_collective_contribution codec env peer c s)"
  unfolding receive_collective_aggregate_def receive_collective_contribution_def
  by (intro post_intros post_case_pair frame_memory; simp)+

lemma record_rejections_frame: "I s \<Longrightarrow> I (record_rejections env workers s)"
  by (simp add: record_rejections_def persist_security_frame frame_memory)

lemma insert_update_frame [post_intros]: "I s \<Longrightarrow> post I (insert_update env u s)"
  unfolding insert_update_def Let_def by (intro post_intros frame_memory record_rejections_frame; simp)

lemma byzantine_frame [post_intros]: "I s \<Longrightarrow> post I (receive_byzantine_update crypto codec env peer u s)"
  unfolding receive_byzantine_update_def by (intro post_intros post_case_pair frame_memory persist_security_frame; simp)

lemma reconcile_frame [post_intros]: "I s \<Longrightarrow> post I (receive_reconcile codec env peer r s)"
  unfolding receive_reconcile_def by (intro post_intros; simp)

lemma execute_frame [post_intros]:
  "I s \<Longrightarrow> post I (execute_backend_task env plan k op ie oe inputs gg mg shard dl s)"
  unfolding execute_backend_task_def Let_def by (intro post_intros post_case_pair frame_memory)

lemma tensor_forward_frame [post_intros]: "I s \<Longrightarrow> post I (receive_tensor_forward codec env peer f s)"
  unfolding receive_tensor_forward_def by (intro post_intros; simp)

lemma replicas_frame [post_intros]:
  "I s \<Longrightarrow> \<not> election_message (M_TrainingV4 m) \<Longrightarrow> post I (send_to_replicas env m replicas s)"
  by (induction replicas arbitrary: s) (auto intro!: post_intros post_case_node simp: post_def [of I "(_, 0)"])

lemma optimizer_update_frame [post_intros]:
  "I s \<Longrightarrow> post I (update_optimizer_state_and_replicate codec env job pg shard gradients sq s)"
  unfolding update_optimizer_state_and_replicate_def Let_def
  by (intro post_intros post_case_node frame_memory; simp)

lemma tensor_backward_frame [post_intros]: "I s \<Longrightarrow> post I (receive_tensor_backward codec env peer b s)"
  unfolding receive_tensor_backward_def store_tensor_shard_def Let_def
  by (intro post_intros frame_memory; simp split: option.splits add: post_fst [OF replicas_frame])

lemma pipeline_frame [post_intros]:
  "I s \<Longrightarrow> post I (receive_pipeline_install codec env peer a s)"
  "I s \<Longrightarrow> post I (receive_pipeline_forward codec env peer f s)"
  "I s \<Longrightarrow> post I (receive_pipeline_backward codec env peer b s)"
  unfolding receive_pipeline_install_def receive_pipeline_forward_def receive_pipeline_backward_def
    store_pipeline_stage_def send_pipeline_install_ack_def Let_def
  by (intro post_intros post_case_pair frame_memory; simp)+

lemma integrated_frame [post_intros]:
  "I s \<Longrightarrow> post I (receive_integrated_state codec env peer state s)"
  "I s \<Longrightarrow> post I (receive_integrated_probe env peer probe s)"
  "I s \<Longrightarrow> post I (receive_integrated_probe_ack peer ack s)"
  unfolding receive_integrated_state_def receive_integrated_probe_def receive_integrated_probe_ack_def Let_def
  by (intro post_intros post_case_node frame_memory mailbox_frame post_fst [where I = I] send_control_frame; simp)+

lemma handle_message_frame:
  assumes "I s"
    and "\<And>start. message = V4_IntegratedStart start \<Longrightarrow> post I (receive_integrated_start codec env peer start s)"
    and "\<And>request. message = V4_IntegratedElectionRequest request \<Longrightarrow>
           post I (receive_integrated_election_request codec env peer request s)"
  shows "I (handle_message crypto codec env peer message s)"
  unfolding handle_message_def using assms
  by (cases message) (simp_all add: post_fst [of I] post_intros plan_frame mailbox_frame)

lemma handle_v5_frame: "I s \<Longrightarrow> I (handle_v5_message codec env peer message s)"
  unfolding handle_v5_message_def Let_def
  by (cases message) (auto split: prod.splits intro!: frame_memory persist_security_frame post_fst [where I = I] send_frame)

lemma disconnected_frame: "I s \<Longrightarrow> I (peer_disconnected peer s)"
  by (simp add: peer_disconnected_def frame_memory)

lemma acknowledge_start_frame [post_intros]: "I s \<Longrightarrow> post I (acknowledge_start env peer start s)"
  unfolding acknowledge_start_def Let_def
  by (intro post_case_node post_intros create_job_frame frame_memory; simp add: create_job_frame frame_memory)

text \<open>The handler that installs a graph keeps the property if the installation behind the fence does.\<close>

lemma store_started_frame [post_intros]: "I s \<Longrightarrow> post I (store_started_state codec env peer start s)"
  unfolding store_started_state_def by (intro post_intros frame_memory)

lemma install_frame:
  assumes "I s"
    and install: "\<And>s'. I s' \<Longrightarrow> vn_integrated_graphs s' = vn_integrated_graphs s \<Longrightarrow>
      I (s'\<lparr>vn_integrated_graphs := bt_insert (vg_job_id (vist_graph start)) (vist_graph start) (vn_integrated_graphs s'),
            vn_disk := vd_integrated_graphs_update (bt_insert (vg_job_id (vist_graph start)) (vist_graph start)) (vn_disk s')\<rparr>)"
  shows "post I (install_started_graph codec env peer start s)"
  unfolding install_started_graph_def
proof (rule post_try_then_from [where G = "\<lambda>s'. I s' \<and> vn_integrated_graphs s' = vn_integrated_graphs s"])
  show "post (\<lambda>s'. I s' \<and> vn_integrated_graphs s' = vn_integrated_graphs s) (persist_plan env (vist_plan start) s)"
    using persist_frame(2) [OF \<open>I s\<close>, of env "vist_plan start"]
    by (auto simp: post_def persist_plan_def write_json_def split: option.splits)
next
  fix s1 assume s1: "I s1 \<and> vn_integrated_graphs s1 = vn_integrated_graphs s"
  let ?g = "vist_graph start" and ?p = "vist_plan start"
  have "s1\<lparr>vn_disk := d, vn_plans := p, vn_integrated_graphs := g\<rparr> = s1\<lparr>vn_integrated_graphs := g, vn_disk := d, vn_plans := p\<rparr>"
    for d p g by (rule V4Node.equality) simp_all
  then have "I (s1\<lparr>vn_disk := vd_integrated_graphs_update (bt_insert (vg_job_id ?g) ?g) (vn_disk s1),
      vn_plans := bt_insert (vp_job_id ?p) ?p (vn_plans s1),
      vn_integrated_graphs := bt_insert (vg_job_id ?g) ?g (vn_integrated_graphs s1)\<rparr>)"
    using install [of s1] s1 frame_memory(13) by metis
  from store_started_frame [OF this] s1
  show "post I (try_then (persist_execution_graph env ?g s1) (\<lambda>s _. store_started_state codec env peer start
      (s\<lparr>vn_plans := bt_insert (vp_job_id ?p) ?p (vn_plans s),
         vn_integrated_graphs := bt_insert (vg_job_id ?g) ?g (vn_integrated_graphs s)\<rparr>)))"
    by (auto simp: persist_execution_graph_def write_json_def try_then_def post_def split: option.splits)
qed blast

lemma start_frame:
  assumes "I s"
    and install: "\<And>s'. I s' \<Longrightarrow> vn_integrated_graphs s' = vn_integrated_graphs s \<Longrightarrow>
      v4_integrated_start_check start = Ok \<Longrightarrow>
      (case bt_get (vn_integrated_graphs s) (vg_job_id (vist_graph start)) of
         None \<Rightarrow> True | Some current \<Rightarrow> graph_fence current (vist_graph start) = Ok) \<Longrightarrow>
      I (s'\<lparr>vn_integrated_graphs := bt_insert (vg_job_id (vist_graph start)) (vist_graph start) (vn_integrated_graphs s'),
            vn_disk := vd_integrated_graphs_update (bt_insert (vg_job_id (vist_graph start)) (vist_graph start)) (vn_disk s')\<rparr>)"
  shows "post I (receive_integrated_start codec env peer start s)"
  unfolding receive_integrated_start_def Let_def
proof (rule post_checked_eq, rule \<open>I s\<close>,
    rule post_try_then_from [where G = "\<lambda>s'. I s' \<and> vn_integrated_graphs s' = vn_integrated_graphs s"])
  show "post (\<lambda>s'. I s' \<and> vn_integrated_graphs s' = vn_integrated_graphs s) (observe_peer_claim env peer obj job br g sq d s)"
    for obj job br g sq d
    using claim_frame [OF \<open>I s\<close>, of env peer obj job br g sq d]
    by (auto simp: post_def observe_peer_claim_def persist_security_state_def write_json_def
        split: prod.splits sum.splits option.splits)
next
  fix u s1 x
  assume ok: "validated (v4_integrated_start_check start) = Inr u"
    and s1: "I s1 \<and> vn_integrated_graphs s1 = vn_integrated_graphs s"
  have "post I (checked (case bt_get (vn_integrated_graphs s1) (vg_job_id (vist_graph start)) of
      None \<Rightarrow> Inr () | Some current \<Rightarrow> graph_fence current (vist_graph start)) s1
      (\<lambda>_. install_started_graph codec env peer start s1))"
    using s1 ok by (intro post_checked_eq install_frame install)
      (auto simp: validated_def map_err_def split: option.splits sum.splits)
  then show "post I (if \<not> start_authorized s1 peer start
      then (s1, invalid_config ''integrated V4 start sender is not an authorized job member'')
      else checked (case bt_get (vn_integrated_graphs s1) (vg_job_id (vist_graph start)) of
          None \<Rightarrow> Inr () | Some current \<Rightarrow> graph_fence current (vist_graph start)) s1
        (\<lambda>_. install_started_graph codec env peer start s1))"
    using s1 by (simp add: post_def)
qed blast

end

end
