(* ===== verification/Node_Control.thy ===== *)
theory Node_Control
  imports Node_Frame Step_System
begin

text \<open>
  The control state of a node (the active graph and the vote of every job, in memory and on disk, and the votes it
  has sent) as an abstract transition system, the refinement of it by \<open>node_step\<close>, and what follows for any run of a
  node with restarts and failed writes in it: graphs and votes survive a restart, graphs only move forward through
  the fence, and a term has one vote.
\<close>

section \<open>The abstract control state\<close>

fun granted_vote :: "NodeId \<times> Message \<Rightarrow> V4IntegratedElectionVote option" where
  "granted_vote (peer, M_TrainingV4 (V4_IntegratedElectionVote vote)) = (if viev_granted vote then Some vote else None)"
| "granted_vote _ = None"

record control_state =
  ctl_graphs :: "(JobId, V4ExecutionGraph) btree"
  ctl_elections :: "(JobId, V4IntegratedElectionRecord) btree"
  ctl_stored_graphs :: "(JobId, V4ExecutionGraph) btree"
  ctl_stored_elections :: "(JobId, V4IntegratedElectionRecord) btree"
  ctl_votes :: "V4IntegratedElectionVote list"

definition control_view :: "V4Node \<Rightarrow> control_state" where
  "control_view s = \<lparr>ctl_graphs = vn_integrated_graphs s, ctl_elections = vn_integrated_elections s,
     ctl_stored_graphs = vd_integrated_graphs (vn_disk s), ctl_stored_elections = vd_integrated_elections (vn_disk s),
     ctl_votes = List.map_filter granted_vote (vn_outbox s)\<rparr>"

lemma granted_vote_other [simp]: "\<not> election_message m \<Longrightarrow> granted_vote (peer, m) = None"
  by (cases "(peer, m)" rule: granted_vote.cases) simp_all

lemma map_filter_append [simp]: "List.map_filter f (xs @ ys) = List.map_filter f xs @ List.map_filter f ys"
  by (simp add: List.map_filter_def)

lemma control_view_simps [simp]:
  "ctl_graphs (control_view s) = vn_integrated_graphs s"
  "ctl_elections (control_view s) = vn_integrated_elections s"
  "ctl_stored_graphs (control_view s) = vd_integrated_graphs (vn_disk s)"
  "ctl_stored_elections (control_view s) = vd_integrated_elections (vn_disk s)"
  "ctl_votes (control_view s) = List.map_filter granted_vote (vn_outbox s)"
  by (simp_all add: control_view_def)

text \<open>Everything else of the node is framed: any predicate on the control state meets the contract.\<close>

interpretation ctl: control_frame "\<lambda>s. P (control_view s)" for P
  by unfold_locales (simp_all add: control_view_def List.map_filter_simps)

section \<open>Its transitions\<close>

definition restored_graph :: "v4_codec \<Rightarrow> V4ExecutionGraph \<Rightarrow> bool" where
  "restored_graph codec graph \<longleftrightarrow>
     vg_graph_hash graph = execution_graph_hash codec graph \<and> \<not> is_err (v4_execution_graph_check graph)"

definition restored_election :: "v4_codec \<Rightarrow> V4IntegratedElectionRecord \<Rightarrow> bool" where
  "restored_election codec election \<longleftrightarrow> vel_vote_hash election = integrated_election_hash codec election
     \<and> vel_graph_generation election > 0 \<and> vel_term election > 0"

definition vote_of :: "V4IntegratedElectionRecord \<Rightarrow> V4IntegratedElectionVote \<Rightarrow> bool" where
  "vote_of record vote \<longleftrightarrow> viev_job_id vote = vel_job_id record
     \<and> viev_graph_generation vote = vel_graph_generation record \<and> viev_graph_hash vote = vel_graph_hash record
     \<and> viev_term vote = vel_term record \<and> viev_candidate vote = vel_candidate record"

text \<open>The stored vote of a job gives way to the vote of a later term, to a repetition, or to a vote on another graph.\<close>

definition vote_succeeds :: "V4IntegratedElectionRecord \<Rightarrow> V4IntegratedElectionRecord \<Rightarrow> bool" where
  "vote_succeeds old new \<longleftrightarrow>
     vel_graph_generation old \<noteq> vel_graph_generation new \<or> vel_graph_hash old \<noteq> vel_graph_hash new
     \<or> vel_term old < vel_term new \<or> vel_term old = vel_term new \<and> vel_candidate old = vel_candidate new"

inductive control_step :: "v4_codec \<Rightarrow> V4ExecutionGraph set \<Rightarrow> control_state \<Rightarrow> control_state \<Rightarrow> bool"
  for codec :: v4_codec and offered :: "V4ExecutionGraph set" where
  stutter: "control_step codec offered c c"
| install: "control_step codec offered c (c\<lparr>ctl_graphs := bt_insert (vg_job_id graph) graph (ctl_graphs c),
      ctl_stored_graphs := bt_insert (vg_job_id graph) graph (ctl_stored_graphs c)\<rparr>)"
  if "graph \<in> offered" "v4_execution_graph_check graph = Ok"
    "\<And>current. bt_get (ctl_graphs c) (vg_job_id graph) = Some current \<Longrightarrow> graph_fence current graph = Ok"
| vote: "control_step codec offered c (c\<lparr>ctl_elections := bt_insert (vel_job_id record) record (ctl_elections c),
      ctl_stored_elections := bt_insert (vel_job_id record) record (ctl_stored_elections c),
      ctl_votes := ctl_votes c @ votes\<rparr>)"
  if "restored_election codec record"
    "bt_get (ctl_graphs c) (vel_job_id record) = Some graph"
    "vel_graph_generation record = vg_graph_generation graph" "vel_graph_hash record = vg_graph_hash graph"
    "vg_coordination_term graph < vel_term record" "vel_candidate record \<in> set (vg_workers graph)"
    "\<And>known. bt_get (ctl_elections c) (vel_job_id record) = Some known \<Longrightarrow> vote_succeeds known record"
    "\<forall>v\<in>set votes. vote_of record v"
| restart: "control_step codec offered c
    (c\<lparr>ctl_graphs := restore_map (\<lambda>graph _. restored_graph codec graph) vg_job_id (ctl_stored_graphs c) bt_new,
       ctl_elections := restore_map (\<lambda>election _. restored_election codec election) vel_job_id (ctl_stored_elections c) bt_new\<rparr>)"

fun offered_graphs :: "v4_event \<Rightarrow> V4ExecutionGraph set" where
  "offered_graphs (EV_Message env peer (V4_IntegratedStart start)) = {vist_graph start}"
| "offered_graphs _ = {}"

section \<open>The refinement\<close>

lemma start_checks_graph: "v4_integrated_start_check start = Ok \<Longrightarrow> v4_execution_graph_check (vist_graph start) = Ok"
  by (simp add: v4_integrated_start_check_def result_simps del: all_ok.simps(2))

lemma install_refines:
  "control_step codec {vist_graph start} (control_view s) (control_view (fst (receive_integrated_start codec env peer start s)))"
proof -
  let ?c = "control_view s" and ?g = "vist_graph start"
  let ?c' = "?c\<lparr>ctl_graphs := bt_insert (vg_job_id ?g) ?g (ctl_graphs ?c),
      ctl_stored_graphs := bt_insert (vg_job_id ?g) ?g (ctl_stored_graphs ?c)\<rparr>"
  have "post (\<lambda>s'. control_view s' = ?c \<or> control_view s' = ?c' \<and> control_step codec {?g} ?c ?c')
    (receive_integrated_start codec env peer start s)"
  proof (rule ctl.start_frame [where P = "\<lambda>c. c = ?c \<or> c = ?c' \<and> control_step codec {?g} ?c ?c'"])
    fix s' assume s': "control_view s' = ?c \<or> control_view s' = ?c' \<and> control_step codec {?g} ?c ?c'"
      and same: "vn_integrated_graphs s' = vn_integrated_graphs s"
      and ok: "v4_integrated_start_check start = Ok"
      and fence: "case bt_get (vn_integrated_graphs s) (vg_job_id ?g) of None \<Rightarrow> True | Some current \<Rightarrow> graph_fence current ?g = Ok"
    have "control_step codec {?g} ?c ?c'"
      using fence start_checks_graph [OF ok] by (intro control_step.install) auto
    then show "control_view (s'\<lparr>vn_integrated_graphs := bt_insert (vg_job_id ?g) ?g (vn_integrated_graphs s'),
          vn_disk := vd_integrated_graphs_update (bt_insert (vg_job_id ?g) ?g) (vn_disk s')\<rparr>) = ?c \<or>
        control_view (s'\<lparr>vn_integrated_graphs := bt_insert (vg_job_id ?g) ?g (vn_integrated_graphs s'),
          vn_disk := vd_integrated_graphs_update (bt_insert (vg_job_id ?g) ?g) (vn_disk s')\<rparr>) = ?c' \<and>
        control_step codec {?g} ?c ?c'"
      using s' same by (auto simp: control_view_def bt.insert_overwrites)
  qed simp
  then show ?thesis by (auto simp: post_def intro: control_step.stutter)
qed

lemma vote_record_simps [simp]:
  "vel_job_id (vote_record codec j g h t c) = j" "vel_graph_generation (vote_record codec j g h t c) = g"
  "vel_graph_hash (vote_record codec j g h t c) = h" "vel_term (vote_record codec j g h t c) = t"
  "vel_candidate (vote_record codec j g h t c) = c"
  by (simp_all add: vote_record_def)

lemma vote_record_restored: "0 < g \<Longrightarrow> 0 < t \<Longrightarrow> restored_election codec (vote_record codec j g h t c)"
  by (simp add: restored_election_def vote_record_def Let_def integrated_election_hash_def)

lemma can_replace_iff:
  "can_replace request known \<longleftrightarrow> (\<forall>existing. known = Some existing \<longrightarrow>
     vote_succeeds existing (vote_record codec (vier_job_id request) (vier_graph_generation request)
       (vier_graph_hash request) (vier_term request) (vier_candidate request)))"
  by (auto simp: can_replace_def vote_succeeds_def split: option.splits)

text \<open>A vote that is not granted leaves the control state alone; one that is sent is the record just stored.\<close>

lemma send_vote_view: "\<exists>votes. control_view (fst (send_vote env peer request granted reason s))
     = (control_view s)\<lparr>ctl_votes := ctl_votes (control_view s) @ votes\<rparr> \<and>
   (\<forall>v\<in>set votes. granted \<and> vote_of (vote_record codec (vier_job_id request) (vier_graph_generation request)
      (vier_graph_hash request) (vier_term request) (vier_candidate request)) v)"
  by (auto simp: send_vote_def send_control_message_def send_to_def send_message_def control_view_def vote_of_def
      List.map_filter_simps split: option.splits)

lemma send_refusal_view: "control_view (fst (send_vote env peer request False reason s)) = control_view s"
  using send_vote_view [of env peer request False reason s] by fastforce

lemma stored_vote_refines:
  assumes graph: "bt_get (vn_integrated_graphs s) (vier_job_id request) = Some graph"
    and allowed: "vote_refusal s graph state peer request = None"
      "can_replace request (bt_get (vn_integrated_elections s) (vier_job_id request))"
    and positive: "0 < vier_graph_generation request" "0 < vier_term request"
    and rec: "record = vote_record codec (vier_job_id request) (vier_graph_generation request) (vier_graph_hash request)
      (vier_term request) (vier_candidate request)"
    and stored: "persist_integrated_election env record s = (s', Inr u)"
  shows "control_step codec {} (control_view s) (control_view (fst (send_vote env peer request True reason
    (s'\<lparr>vn_integrated_elections := bt_insert (vier_job_id request) record (vn_integrated_elections s')\<rparr>))))"
proof -
  let ?s = "s'\<lparr>vn_integrated_elections := bt_insert (vier_job_id request) record (vn_integrated_elections s')\<rparr>"
  obtain votes where votes: "control_view (fst (send_vote env peer request True reason ?s))
      = (control_view ?s)\<lparr>ctl_votes := ctl_votes (control_view ?s) @ votes\<rparr>" "\<forall>v\<in>set votes. vote_of record v"
    using send_vote_view [of env peer request True reason ?s codec] unfolding rec by blast
  have view: "control_view ?s = (control_view s)\<lparr>ctl_elections := bt_insert (vel_job_id record) record (ctl_elections (control_view s)),
      ctl_stored_elections := bt_insert (vel_job_id record) record (ctl_stored_elections (control_view s))\<rparr>"
    using stored unfolding rec
    by (auto simp: persist_integrated_election_def write_json_def control_view_def split: option.splits)
  have "control_step codec {} (control_view s)
    ((control_view s)\<lparr>ctl_elections := bt_insert (vel_job_id record) record (ctl_elections (control_view s)),
       ctl_stored_elections := bt_insert (vel_job_id record) record (ctl_stored_elections (control_view s)),
       ctl_votes := ctl_votes (control_view s) @ votes\<rparr>)"
    using graph allowed votes(2) vote_record_restored [OF positive] unfolding rec
    by (intro control_step.vote [where graph = graph])
      (auto simp: vote_refusal_def can_replace_iff [where codec = codec] split: if_splits)
  then show ?thesis by (simp add: votes(1) view)
qed

lemma vote_refines:
  "control_step codec {} (control_view s) (control_view (fst (receive_integrated_election_request codec env peer request s)))"
proof (cases "validated (v4_integrated_election_request_check request)")
  case (Inl e)
  then show ?thesis by (simp add: receive_integrated_election_request_def checked_def control_step.stutter)
next
  case (Inr u)
  then have positive: "0 < vier_graph_generation request" "0 < vier_term request"
    by (auto simp: validated_def v4_integrated_election_request_check_def result_simps map_err_ok word_gt_0
        simp del: all_ok.simps(2))
  have kept: "persist_integrated_election env r s = (s', Inl e) \<Longrightarrow> s' = s" for r s' e
    by (auto simp: persist_integrated_election_def write_json_def split: option.splits)
  show ?thesis
    using Inr stored_vote_refines [OF _ _ _ positive refl]
    by (auto simp: receive_integrated_election_request_def checked_def cast_vote_def try_then_def send_refusal_view
        control_step.stutter Let_def split: option.split prod.split sum.split dest!: kept)
qed

lemma restart_refines: "control_step codec offered (control_view s) (control_view (start_node codec fresh registry s))"
  using control_step.restart [of codec offered "control_view s"]
  by (simp add: start_node_def restore_def Let_def control_view_def restored_graph_def restored_election_def)

lemma control_step_mono: "control_step codec {} c c' \<Longrightarrow> control_step codec offered c c'"
  by (induction rule: control_step.induct) (auto intro: control_step.intros)

lemma node_step_refines: "control_step codec (offered_graphs ev) (control_view s) (control_view (node_step crypto codec ev s))"
proof (cases ev)
  case (EV_Message env peer message)
  let ?P = "control_step codec (offered_graphs ev) (control_view s)"
  have "?P (control_view (handle_message crypto codec env peer message s))"
    by (rule ctl.handle_message_frame [where P = ?P])
      (use vote_refines install_refines control_step_mono in \<open>auto simp: EV_Message post_def intro: control_step.stutter\<close>)
  then show ?thesis by (simp add: EV_Message)
next
  case (EV_V5 env peer message)
  then show ?thesis
    using ctl.handle_v5_frame [of "\<lambda>c. c = control_view s" s codec env peer message] by (simp add: control_step.stutter)
next
  case (EV_Disconnected peer)
  then show ?thesis
    using ctl.disconnected_frame [of "\<lambda>c. c = control_view s" s peer] by (simp add: control_step.stutter)
qed (simp add: restart_refines)

section \<open>What a restart restores\<close>

lemma fold_restore:
  "distinct (map fst xs) \<Longrightarrow> \<forall>(k, v)\<in>set xs. key v = k \<and> valid v \<Longrightarrow>
   bt_get (fold (\<lambda>v m. if valid v then bt_insert (key v) v m else m) (map snd xs) m) k
     = (case map_of xs k of Some v \<Rightarrow> Some v | None \<Rightarrow> bt_get m k)"
  by (induction xs arbitrary: m) (auto split: option.splits dest: map_of_SomeD intro: rev_image_eqI)

lemma restore_map_all:
  assumes "\<And>k v. bt_get files k = Some v \<Longrightarrow> key v = k \<and> valid v"
  shows "restore_map (\<lambda>v _. valid v) key files bt_new = files"
proof (rule bt.ext)
  fix k
  have "\<forall>(k, v)\<in>set (bt_entries files). key v = k \<and> valid v"
    using assms by (auto simp: bt_get_iff)
  then show "bt_get (restore_map (\<lambda>v _. valid v) key files bt_new) k = bt_get files k"
    unfolding restore_map_def bt_values_def by (subst fold_restore) (simp_all add: distinct_bt_keys bt_get.rep_eq split: option.split)
qed

definition control_ok :: "v4_codec \<Rightarrow> control_state \<Rightarrow> bool" where
  "control_ok codec c \<longleftrightarrow> ctl_stored_graphs c = ctl_graphs c \<and> ctl_stored_elections c = ctl_elections c
     \<and> (\<forall>job graph. bt_get (ctl_graphs c) job = Some graph \<longrightarrow> vg_job_id graph = job \<and> restored_graph codec graph)
     \<and> (\<forall>job election. bt_get (ctl_elections c) job = Some election \<longrightarrow>
          vel_job_id election = job \<and> restored_election codec election)"

lemma restart_restores:
  "control_ok codec c \<Longrightarrow> restore_map (\<lambda>graph _. restored_graph codec graph) vg_job_id (ctl_stored_graphs c) bt_new = ctl_graphs c"
  "control_ok codec c \<Longrightarrow>
    restore_map (\<lambda>election _. restored_election codec election) vel_job_id (ctl_stored_elections c) bt_new = ctl_elections c"
  by (simp_all add: control_ok_def restore_map_all)

text \<open>A sender that offers a graph has hashed it.\<close>

definition hashed_event :: "v4_codec \<Rightarrow> v4_event \<Rightarrow> bool" where
  "hashed_event codec ev \<longleftrightarrow> (\<forall>graph\<in>offered_graphs ev. vg_graph_hash graph = execution_graph_hash codec graph)"

lemma control_step_ok:
  assumes "control_step codec offered c c'" "control_ok codec c"
    and "\<forall>graph\<in>offered. vg_graph_hash graph = execution_graph_hash codec graph"
  shows "control_ok codec c'"
  using assms
proof (induction rule: control_step.induct)
  case (restart c)
  then show ?case by (simp add: restart_restores)
qed (auto simp: control_ok_def restored_graph_def)

section \<open>One vote in a term\<close>

text \<open>What the stored graph and vote say of a vote that was sent.\<close>

definition vote_bound :: "control_state \<Rightarrow> V4IntegratedElectionVote \<Rightarrow> bool" where
  "vote_bound c v \<longleftrightarrow> (\<exists>graph. bt_get (ctl_graphs c) (viev_job_id v) = Some graph
     \<and> viev_graph_generation v \<le> vg_graph_generation graph
     \<and> (viev_graph_generation v = vg_graph_generation graph \<longrightarrow> viev_graph_hash v = vg_graph_hash graph
        \<and> (\<exists>known. bt_get (ctl_elections c) (viev_job_id v) = Some known
             \<and> vel_graph_generation known = viev_graph_generation v \<and> vel_graph_hash known = viev_graph_hash v
             \<and> (viev_term v < vel_term known \<or> viev_term v = vel_term known \<and> viev_candidate v = vel_candidate known))))"

definition same_election :: "V4IntegratedElectionVote \<Rightarrow> V4IntegratedElectionVote \<Rightarrow> bool" where
  "same_election v w \<longleftrightarrow> viev_job_id v = viev_job_id w \<and> viev_graph_generation v = viev_graph_generation w
     \<and> viev_term v = viev_term w"

definition votes_ok :: "v4_codec \<Rightarrow> control_state \<Rightarrow> bool" where
  "votes_ok codec c \<longleftrightarrow> control_ok codec c \<and> (\<forall>v\<in>set (ctl_votes c). vote_bound c v)
     \<and> (\<forall>v\<in>set (ctl_votes c). \<forall>w\<in>set (ctl_votes c). same_election v w \<longrightarrow>
          viev_candidate v = viev_candidate w \<and> viev_graph_hash v = viev_graph_hash w)"

lemma graph_fence_iff:
  "graph_fence current graph = Inr u \<longleftrightarrow> vg_graph_generation current \<le> vg_graph_generation graph
     \<and> (vg_graph_generation current = vg_graph_generation graph \<longrightarrow>
          vg_graph_hash current = vg_graph_hash graph \<and> vg_plan_hash current = vg_plan_hash graph
          \<and> vg_branch current = vg_branch graph \<and> vg_coordinator current = vg_coordinator graph)
     \<and> (vg_coordinator current \<noteq> vg_coordinator graph \<longrightarrow> valid_integrated_election_certificate current graph)"
  by (auto simp: graph_fence_def result_simps not_less simp del: all_ok.simps(2))

lemma install_keeps_bound:
  "vote_bound c v \<Longrightarrow> (\<And>current. bt_get (ctl_graphs c) (vg_job_id graph) = Some current \<Longrightarrow> graph_fence current graph = Ok) \<Longrightarrow>
   vote_bound (c\<lparr>ctl_graphs := bt_insert (vg_job_id graph) graph (ctl_graphs c), ctl_stored_graphs := d\<rparr>) v"
  unfolding vote_bound_def graph_fence_iff by fastforce

lemma vote_keeps_bound:
  assumes "vote_bound c v" "bt_get (ctl_graphs c) (vel_job_id new) = Some graph"
    and "vel_graph_generation new = vg_graph_generation graph" "vel_graph_hash new = vg_graph_hash graph"
    and "\<And>known. bt_get (ctl_elections c) (vel_job_id new) = Some known \<Longrightarrow> vote_succeeds known new"
  shows "vote_bound (c\<lparr>ctl_elections := bt_insert (vel_job_id new) new (ctl_elections c), ctl_stored_elections := d, ctl_votes := vs\<rparr>) v"
  using assms unfolding vote_bound_def vote_succeeds_def by fastforce

lemma new_vote_bound:
  assumes "bt_get (ctl_graphs c) (vel_job_id new) = Some graph" "vote_of new v"
    and "vel_graph_generation new = vg_graph_generation graph" "vel_graph_hash new = vg_graph_hash graph"
  shows "vote_bound (c\<lparr>ctl_elections := bt_insert (vel_job_id new) new (ctl_elections c), ctl_stored_elections := d, ctl_votes := vs\<rparr>) v"
  using assms by (simp add: vote_bound_def vote_of_def)

lemma new_vote_unique:
  assumes "vote_bound c w" "same_election v w" "vote_of new v" "bt_get (ctl_graphs c) (vel_job_id new) = Some graph"
    and "vel_graph_generation new = vg_graph_generation graph" "vel_graph_hash new = vg_graph_hash graph"
    and "\<And>known. bt_get (ctl_elections c) (vel_job_id new) = Some known \<Longrightarrow> vote_succeeds known new"
  shows "viev_candidate v = viev_candidate w \<and> viev_graph_hash v = viev_graph_hash w"
  using assms unfolding vote_bound_def vote_of_def same_election_def vote_succeeds_def by fastforce

lemma same_election_sym: "same_election v w \<Longrightarrow> same_election w v"
  by (simp add: same_election_def)

lemma control_step_votes:
  assumes "control_step codec offered c c'" "votes_ok codec c"
    and "\<forall>graph\<in>offered. vg_graph_hash graph = execution_graph_hash codec graph"
  shows "votes_ok codec c'"
  using assms(1,2) control_step_ok [OF assms(1) _ assms(3)]
proof (induction rule: control_step.induct)
  case (install graph c)
  then show ?case by (auto simp: votes_ok_def install_keeps_bound)
next
  case (vote new c graph votes)
  note unique = new_vote_unique [OF _ _ _ vote(2-4,7)]
  have "viev_candidate v = viev_candidate w \<and> viev_graph_hash v = viev_graph_hash w"
    if "v \<in> set (ctl_votes c @ votes)" "w \<in> set (ctl_votes c @ votes)" "same_election v w" for v w
    using that vote.prems(1) vote(8) unique [of w v] unique [of v w] same_election_sym [of v w]
    unfolding votes_ok_def by (auto simp: vote_of_def)
  moreover have "vote_bound (c\<lparr>ctl_elections := bt_insert (vel_job_id new) new (ctl_elections c),
      ctl_stored_elections := bt_insert (vel_job_id new) new (ctl_stored_elections c), ctl_votes := ctl_votes c @ votes\<rparr>) v"
    if "v \<in> set (ctl_votes c @ votes)" for v
    using that vote.prems(1) vote(8) vote_keeps_bound [OF _ vote(2-4,7)] new_vote_bound [OF vote(2) _ vote(3,4)]
    unfolding votes_ok_def by auto
  ultimately show ?case using vote.prems unfolding votes_ok_def by simp
next
  case (restart c)
  then show ?case by (simp add: votes_ok_def restart_restores vote_bound_def)
qed simp

interpretation votes: guarded_system "node_step crypto codec" "\<lambda>s. votes_ok codec (control_view s)" "hashed_event codec" for crypto codec
  by unfold_locales (rule control_step_votes [OF node_step_refines], simp_all add: hashed_event_def)

section \<open>The lineage of a graph\<close>

abbreviation graph_lineage :: "V4ExecutionGraph \<Rightarrow> V4ExecutionGraph \<Rightarrow> bool" where
  "graph_lineage \<equiv> (\<lambda>current graph. graph_fence current graph = Ok)\<^sup>*\<^sup>*"

lemma lineage_forward: "graph_lineage g g' \<Longrightarrow> vg_graph_generation g \<le> vg_graph_generation g'"
  by (induction rule: rtranclp_induct) (auto simp: graph_fence_iff)

lemma lineage_same_generation:
  "graph_lineage g g' \<Longrightarrow> vg_graph_generation g = vg_graph_generation g' \<Longrightarrow>
   vg_graph_hash g = vg_graph_hash g' \<and> vg_plan_hash g = vg_plan_hash g' \<and> vg_branch g = vg_branch g'
     \<and> vg_coordinator g = vg_coordinator g'"
proof (induction rule: rtranclp_induct)
  case (step g1 g2)
  then have "vg_graph_generation g = vg_graph_generation g1" "vg_graph_generation g1 = vg_graph_generation g2"
    using lineage_forward [OF step(1)] by (auto simp: graph_fence_iff)
  then show ?case using step by (auto simp: graph_fence_iff)
qed simp

text \<open>On the way to another coordinator there is a first change of it, and that change has a certificate.\<close>

lemma lineage_certified:
  "graph_lineage g g' \<Longrightarrow> vg_coordinator g' \<noteq> vg_coordinator g \<Longrightarrow>
   \<exists>p q. graph_lineage g p \<and> vg_coordinator p = vg_coordinator g \<and> vg_coordinator q \<noteq> vg_coordinator p
     \<and> valid_integrated_election_certificate p q \<and> graph_lineage q g'"
proof (induction rule: rtranclp_induct)
  case (step g1 g2)
  show ?case
  proof (cases "vg_coordinator g1 = vg_coordinator g")
    case True
    then have "valid_integrated_election_certificate g1 g2"
      using step by (simp add: graph_fence_iff)
    then show ?thesis using step True by (metis rtranclp.rtrancl_refl)
  next
    case False
    then show ?thesis using step by (meson rtranclp.rtrancl_into_rtrancl)
  qed
qed simp

definition carries_lineage :: "v4_codec \<Rightarrow> JobId \<Rightarrow> V4ExecutionGraph \<Rightarrow> control_state \<Rightarrow> bool" where
  "carries_lineage codec job g c \<longleftrightarrow> control_ok codec c \<and> (\<exists>g'. bt_get (ctl_graphs c) job = Some g' \<and> graph_lineage g g')"

lemma control_step_lineage:
  assumes "control_step codec offered c c'" "carries_lineage codec job g c"
    and "\<forall>graph\<in>offered. vg_graph_hash graph = execution_graph_hash codec graph"
  shows "carries_lineage codec job g c'"
  using assms(1,2) control_step_ok [OF assms(1) _ assms(3)]
proof (induction rule: control_step.induct)
  case (install graph c)
  then show ?case
    by (auto simp: carries_lineage_def intro: rtranclp.rtrancl_into_rtrancl)
next
  case (restart c)
  then show ?case by (simp add: carries_lineage_def restart_restores)
qed (auto simp: carries_lineage_def)

interpretation lineage: guarded_system "node_step crypto codec" "\<lambda>s. carries_lineage codec job g (control_view s)" "hashed_event codec"
  for crypto codec job g
  by unfold_locales (rule control_step_lineage [OF node_step_refines], simp_all add: hashed_event_def)

interpretation control: guarded_system "node_step crypto codec" "\<lambda>s. control_ok codec (control_view s)" "hashed_event codec" for crypto codec
  by unfold_locales (rule control_step_ok [OF node_step_refines], simp_all add: hashed_event_def)

lemma start_node_restores_control:
  assumes "control_ok codec (control_view s)"
  shows "control_view (start_node codec fresh registry s) = control_view s"
  using restart_restores [OF assms] assms
  by (simp add: start_node_def restore_def Let_def control_view_def restored_graph_def restored_election_def)

end
