(* ===== verification/Security_Properties.thy ===== *)
theory Security_Properties
  imports Security_State
begin

text \<open>
  What the local security state promises: every sequence of operations keeps it valid for a restart, a position of a
  stream is admitted at most once within the replay window, the training context of a job never moves back, an
  equivocating peer is locked out until its quarantine ends, and the selection of evaluators is complete and diverse.
\<close>

section \<open>The invariant of a persisted state\<close>

lemma validate_iff:
  "LocalSecurityState_validate s = Inr u \<longleftrightarrow>
     SecurityPolicy_validate (lss_policy s) = Ok \<and> lss_local_node s \<noteq> filled 0
     \<and> length (lss_events s) \<le> spo_max_events (lss_policy s)
     \<and> bt_len (lss_replay s) \<le> spo_max_replay_entries (lss_policy s)
     \<and> bt_len (lss_rejected_replay s) \<le> spo_max_replay_entries (lss_policy s)
     \<and> bt_len (lss_claims s) \<le> spo_max_claims (lss_policy s)
     \<and> bt_len (lss_authenticated_claims s) \<le> spo_max_claims (lss_policy s)
     \<and> (\<forall>e\<in>set (lss_events s). length (sev_scope e) \<le> MAX_SECURITY_SCOPE \<and> length (sev_detail e) \<le> MAX_SECURITY_DETAIL)"
  unfolding LocalSecurityState_validate_def result_simps by (simp add: not_less)


lemma validate_cong:
  assumes "lss_policy s' = lss_policy s" "lss_local_node s' = lss_local_node s" "lss_events s' = lss_events s"
    "lss_replay s' = lss_replay s" "lss_rejected_replay s' = lss_rejected_replay s" "lss_claims s' = lss_claims s"
    "lss_authenticated_claims s' = lss_authenticated_claims s" "LocalSecurityState_validate s = Ok"
  shows "LocalSecurityState_validate s' = Ok"
  using assms(8) unfolding validate_iff assms(1-7) .








text \<open>The early returns of \<^verbatim>\<open>admit_training_update\<close>, with the intermediate states named.\<close>

abbreviation purged :: "LocalSecurityState \<Rightarrow> TrainingContribution \<Rightarrow> u64 \<Rightarrow> LocalSecurityState" where
  "purged s c now \<equiv> fst (is_quarantined s (tcb_worker c) now)"

definition context_of :: "TrainingContribution \<Rightarrow> TrainingContext" where
  "context_of c = \<lparr>tcx_job_id = tcb_job_id c, tcx_branch = tcb_branch c,
     tcx_plan_generation = tcb_plan_generation c, tcx_generation = tcb_generation c\<rparr>"

lemma admit_eq:
  "admit_training_update blake3 crypto s c members now =
    (if tcb_worker c \<notin> set members
     then (event s now (Some (tcb_worker c)) SK_TrainingUpdateRejected ''training_update''
             ''worker is outside the authenticated job membership'', Inl SE_UnauthorizedTraining)
     else if contribution_out_of_bounds s c
     then (event s now (Some (tcb_worker c)) SK_TrainingUpdateRejected ''training_update''
             ''lineage, vector, or magnitude bound failed'', Inl SE_TrainingBounds)
     else if bt_get (lss_replay s) (replay_key c) = Some (contribution_digest blake3 crypto c)
        \<or> bt_get (lss_rejected_replay s) (replay_key c) = Some (contribution_digest blake3 crypto c)
     then (event s now (Some (tcb_worker c)) SK_DuplicateContributionRejected ''training_update''
             ''same signed contribution was submitted twice'', Inl SE_DuplicateTraining)
     else if snd (is_quarantined s (tcb_worker c) now)
     then (event (purged s c now) now (Some (tcb_worker c)) SK_TrainingUpdateRejected ''training_update''
             ''worker is locally quarantined'', Inl SE_Quarantined)
     else case snd (observe_context (purged s c now) (context_of c) now) of
         Inl e \<Rightarrow> (fst (observe_context (purged s c now) (context_of c) now), Inl e)
       | Inr _ \<Rightarrow> admit_position (fst (observe_context (purged s c now) (context_of c) now)) c
           (contribution_digest blake3 crypto c) now)"
  unfolding admit_training_update_def context_of_def Let_def by (simp split: prod.split bool.split sum.split)




section \<open>What the parts leave alone\<close>

lemma is_quarantined_fields [simp]:
  "lss_policy (fst (is_quarantined s p t)) = lss_policy s" "lss_replay (fst (is_quarantined s p t)) = lss_replay s"
  "lss_rejected_replay (fst (is_quarantined s p t)) = lss_rejected_replay s"
  "lss_latest (fst (is_quarantined s p t)) = lss_latest s" "lss_contexts (fst (is_quarantined s p t)) = lss_contexts s"
  "lss_observations (fst (is_quarantined s p t)) = lss_observations s"
  "lss_authenticated_claims (fst (is_quarantined s p t)) = lss_authenticated_claims s"
  by (simp_all add: is_quarantined_def Let_def)

lemma quarantine_fields [simp]:
  "lss_policy (quarantine s p t k d) = lss_policy s" "lss_replay (quarantine s p t k d) = lss_replay s"
  "lss_latest (quarantine s p t k d) = lss_latest s" "lss_contexts (quarantine s p t k d) = lss_contexts s"
  by (simp_all add: quarantine_def Let_def)

lemma observe_context_fields [simp]:
  "lss_policy (fst (observe_context s x t)) = lss_policy s" "lss_replay (fst (observe_context s x t)) = lss_replay s"
  "lss_rejected_replay (fst (observe_context s x t)) = lss_rejected_replay s"
  "lss_latest (fst (observe_context s x t)) = lss_latest s"
  "lss_quarantined (fst (observe_context s x t)) = lss_quarantined s"
  by (simp_all add: observe_context_def)

lemma assessment_state [simp]: "fst (assessment s p t) = fst (is_quarantined s p t)"
  by (simp add: assessment_def Let_def case_prod_beta)

lemma eligible_eq:
  "eligible_for_critical_role s peer role now =
    (if snd (is_quarantined s peer now) then (fst (is_quarantined s peer now), False)
     else let s1 = fst (is_quarantined s peer now); a = snd (assessment s1 peer now)
       in (fst (is_quarantined s1 peer now),
           (\<not> requires_observation (lss_policy s) role
             \<or> tas_direct_successes a \<ge> of_nat (spo_min_direct_successes_for_critical_role (lss_policy s)))
           \<and> tas_direct_failures a \<le> of_nat (spo_max_direct_failures_for_critical_role (lss_policy s))
           \<and> tas_maturity a \<noteq> IM_Degraded \<and> tas_maturity a \<noteq> IM_Quarantined))"
  unfolding eligible_for_critical_role_def Let_def by (simp add: case_prod_beta split: bool.split)

text \<open>An operation other than an admission touches neither the replay window nor the streams.\<close>

lemma step_fields:
  assumes "\<And>c members now. op \<noteq> AdmitUpdate c members now"
  shows "lss_replay (security_step blake3 crypto op s) = lss_replay s"
    "lss_latest (security_step blake3 crypto op s) = lss_latest s"
  using assms
  by (cases op; simp add: record_event_def record_direct_observation_def record_capability_challenge_def
      record_capability_task_def Let_def eligible_eq observe_claim_def observe_authenticated_claim_def
      split: sum.split option.split)+

lemma step_policy [simp]: "lss_policy (security_step blake3 crypto op s) = lss_policy s"
  by (cases op; simp add: record_event_def record_direct_observation_def record_capability_challenge_def
      record_capability_task_def Let_def eligible_eq observe_claim_def observe_authenticated_claim_def
      admit_eq admit_position_def split: sum.split option.split)

section \<open>A position is admitted at most once\<close>

text \<open>The positions admitted along a run.\<close>

fun admitted_now :: "hash_fn \<Rightarrow> ('k, 'g) security_crypto \<Rightarrow> security_op \<Rightarrow> LocalSecurityState \<Rightarrow> ReplayKey list" where
  "admitted_now blake3 crypto (AdmitUpdate c members now) s =
    (if snd (admit_training_update blake3 crypto s c members now) = Inr TA_Accepted then [replay_key c] else [])"
| "admitted_now blake3 crypto _ s = []"

fun admitted :: "hash_fn \<Rightarrow> ('k, 'g) security_crypto \<Rightarrow> security_op list \<Rightarrow> LocalSecurityState \<Rightarrow> ReplayKey list" where
  "admitted blake3 crypto [] s = []"
| "admitted blake3 crypto (op # ops) s =
     admitted_now blake3 crypto op s @ admitted blake3 crypto ops (security_step blake3 crypto op s)"

lemma admit_position_replay:
  assumes "admit_position s c d now = (s', r)"
  shows "r = Inr TA_Accepted \<Longrightarrow> bt_get (lss_replay s) (replay_key c) = None
      \<and> lss_replay s' = bt_insert (replay_key c) d (bound_map (lss_replay s) (spo_max_replay_entries (lss_policy s)))"
    and "r \<noteq> Inr TA_Accepted \<Longrightarrow> lss_replay s' = lss_replay s"
  using assms by (auto simp: admit_position_def Let_def split: if_splits)

lemma admit_replay:
  assumes "admit_training_update blake3 crypto s c members now = (s', r)"
  shows "r = Inr TA_Accepted \<Longrightarrow> bt_get (lss_replay s) (replay_key c) = None
      \<and> lss_replay s' = bt_insert (replay_key c) (contribution_digest blake3 crypto c)
          (bound_map (lss_replay s) (spo_max_replay_entries (lss_policy s)))"
    and "r \<noteq> Inr TA_Accepted \<Longrightarrow> lss_replay s' = lss_replay s"
proof -
  let ?s2 = "fst (observe_context (purged s c now) (context_of c) now)"
  have "(\<exists>e. r = Inl e) \<and> lss_replay s' = lss_replay s \<or>
      admit_position ?s2 c (contribution_digest blake3 crypto c) now = (s', r)"
    using assms unfolding admit_eq by (auto split: if_splits sum.splits)
  then show "r = Inr TA_Accepted \<Longrightarrow> bt_get (lss_replay s) (replay_key c) = None
      \<and> lss_replay s' = bt_insert (replay_key c) (contribution_digest blake3 crypto c)
          (bound_map (lss_replay s) (spo_max_replay_entries (lss_policy s)))"
    and "r \<noteq> Inr TA_Accepted \<Longrightarrow> lss_replay s' = lss_replay s"
    using admit_position_replay [of ?s2 c "contribution_digest blake3 crypto c" now s' r] by auto
qed

lemma step_replay:
  assumes "bt_len (lss_replay s) + length (admitted_now blake3 crypto op s) \<le> spo_max_replay_entries (lss_policy s)"
  shows "dom (bt_get (lss_replay (security_step blake3 crypto op s))) =
      set (admitted_now blake3 crypto op s) \<union> dom (bt_get (lss_replay s))"
    and "set (admitted_now blake3 crypto op s) \<inter> dom (bt_get (lss_replay s)) = {}"
    and "bt_len (lss_replay (security_step blake3 crypto op s)) =
      bt_len (lss_replay s) + length (admitted_now blake3 crypto op s)"
proof -
  let ?P = "dom (bt_get (lss_replay (security_step blake3 crypto op s))) =
        set (admitted_now blake3 crypto op s) \<union> dom (bt_get (lss_replay s))
      \<and> set (admitted_now blake3 crypto op s) \<inter> dom (bt_get (lss_replay s)) = {}
      \<and> bt_len (lss_replay (security_step blake3 crypto op s)) = bt_len (lss_replay s) + length (admitted_now blake3 crypto op s)"
  have ?P
  proof (cases "\<exists>c members now. op = AdmitUpdate c members now")
    case True
    then obtain c members now where op: "op = AdmitUpdate c members now" by blast
    obtain s' r where r: "admit_training_update blake3 crypto s c members now = (s', r)" by fastforce
    show ?thesis
    proof (cases "r = Inr TA_Accepted")
      case True
      then have "bt_len (lss_replay s) < spo_max_replay_entries (lss_policy s)" using assms by (simp add: op r)
      then have "bound_map (lss_replay s) (spo_max_replay_entries (lss_policy s)) = lss_replay s" by (rule bound_map_id)
      with admit_replay(1) [OF r True] True show ?thesis by (auto simp: op r bt_len_insert dom_def)
    next
      case False
      with admit_replay(2) [OF r False] show ?thesis by (simp add: op r)
    qed
  next
    case False
    then have "admitted_now blake3 crypto op s = []" by (cases op) auto
    moreover have "lss_replay (security_step blake3 crypto op s) = lss_replay s" using False by (intro step_fields) blast
    ultimately show ?thesis by simp
  qed
  then show "dom (bt_get (lss_replay (security_step blake3 crypto op s))) =
      set (admitted_now blake3 crypto op s) \<union> dom (bt_get (lss_replay s))"
    and "set (admitted_now blake3 crypto op s) \<inter> dom (bt_get (lss_replay s)) = {}"
    and "bt_len (lss_replay (security_step blake3 crypto op s)) =
      bt_len (lss_replay s) + length (admitted_now blake3 crypto op s)" by blast+
qed

lemma distinct_admitted_now: "distinct (admitted_now blake3 crypto op s)"
  by (cases "(blake3, crypto, op, s)" rule: admitted_now.cases) simp_all

lemma admitted_distinct:
  "bt_len (lss_replay s) + length (admitted blake3 crypto ops s) \<le> spo_max_replay_entries (lss_policy s) \<Longrightarrow>
    distinct (admitted blake3 crypto ops s) \<and> set (admitted blake3 crypto ops s) \<inter> dom (bt_get (lss_replay s)) = {}"
proof (induction ops arbitrary: s)
  case (Cons op ops)
  have "bt_len (lss_replay s) + length (admitted_now blake3 crypto op s) \<le> spo_max_replay_entries (lss_policy s)"
    using Cons.prems by simp
  note step = step_replay [OF this]
  have "distinct (admitted blake3 crypto ops (security_step blake3 crypto op s))
      \<and> set (admitted blake3 crypto ops (security_step blake3 crypto op s))
         \<inter> dom (bt_get (lss_replay (security_step blake3 crypto op s))) = {}"
    using Cons.prems by (intro Cons.IH) (simp add: step(3))
  then show ?case using step(1,2) distinct_admitted_now by auto
qed simp

text \<open>C4: as long as no more positions are admitted than the replay window holds, none of them is admitted twice,
  whatever else happens to the state in between.\<close>

theorem position_admitted_once:
  assumes "LocalSecurityState_new node policy = Inr s"
    and "length (admitted blake3 crypto ops s) \<le> spo_max_replay_entries policy"
  shows "distinct (admitted blake3 crypto ops s)"
proof -
  from assms(1) have "bt_len (lss_replay s) = 0" "lss_policy s = policy"
    by (auto simp: LocalSecurityState_new_def result_simps)
  with assms(2) show ?thesis using admitted_distinct [of s blake3 crypto ops] by simp
qed

section \<open>Samples\<close>

definition sample_policy :: "nat \<Rightarrow> SecurityPolicy" where
  "sample_policy window = \<lparr>spo_profile = SP_Balanced, spo_max_events = 4, spo_max_replay_entries = window,
     spo_max_claims = 2, spo_quarantine_seconds = 300, spo_min_direct_successes_for_critical_role = 1,
     spo_max_direct_failures_for_critical_role = 2, spo_max_training_value = 9,
     spo_max_challenge_per_peer_window = 8, spo_challenge_window_seconds = 60,
     spo_max_evaluators_per_source_group = 1, spo_direct_observation_ttl_seconds = 900\<rparr>"

definition sample_state :: "nat \<Rightarrow> LocalSecurityState" where
  "sample_state window = (case LocalSecurityState_new (filled 9) (sample_policy window) of Inr s \<Rightarrow> s)"

definition sample_security_crypto :: "(unit, unit) security_crypto" where
  "sample_security_crypto = \<lparr>sc_encode_contribution = (\<lambda>(_, _, _, _, _, _, vals). Inr (map word_of_int vals)),
     sc_encode_claim = (\<lambda>_. Inr []), sc_verifying_key = (\<lambda>_. Some ()), sc_signature = (\<lambda>_. Some ()), sc_verify = (\<lambda>_ _ _. True)\<rparr>"

definition first_byte_hash :: hash_fn where
  "first_byte_hash bs = filled (case bs of [] \<Rightarrow> 0 | b # _ \<Rightarrow> b)"

definition sample_contribution :: "u8 \<Rightarrow> i64 \<Rightarrow> TrainingContribution" where
  "sample_contribution worker value = \<lparr>tcb_job_id = filled 1, tcb_worker = filled worker, tcb_branch = filled 1,
     tcb_plan_generation = 1, tcb_generation = 1, tcb_sequence = 1, tcb_values = [value]\<rparr>"

abbreviation sample_admission :: "u8 \<Rightarrow> i64 \<Rightarrow> security_op" where
  "sample_admission worker value \<equiv> AdmitUpdate (sample_contribution worker value) [filled 2, filled 3] 10"

lemma sample_start: "0 < n \<Longrightarrow> LocalSecurityState_new (filled 9) (sample_policy n) = Inr (sample_state n)"
  by (simp add: sample_state_def LocalSecurityState_new_def SecurityPolicy_validate_def sample_policy_def and_then_def err_if_def)

text \<open>An admissible contribution at a free position of a state without quarantines is admitted.\<close>

lemma admit_fresh:
  assumes "tcb_worker c \<in> set members" "\<not> contribution_out_of_bounds s c"
    "bt_get (lss_replay s) (replay_key c) = None" "bt_get (lss_rejected_replay s) (replay_key c) = None"
    "lss_quarantined s = bt_new" "bt_get (lss_contexts s) (tcb_job_id c) \<in> {None, Some (context_of c)}"
    "bt_get (lss_latest s) (stream_key c) \<in> {None, Some (tcb_generation c, tcb_sequence c)}"
  shows "admit_training_update blake3 crypto s c members now =
    (s\<lparr>lss_contexts := bt_insert (tcb_job_id c) (context_of c) (lss_contexts s),
       lss_replay := bt_insert (replay_key c) (contribution_digest blake3 crypto c)
         (bound_map (lss_replay s) (spo_max_replay_entries (lss_policy s))),
       lss_latest := bt_insert (stream_key c) (tcb_generation c, tcb_sequence c) (lss_latest s)\<rparr>, Inr TA_Accepted)"
proof -
  have "bt_retain f (bt_new :: (NodeId, u64) btree) = bt_new" for f by (rule bt.ext) simp
  then have "is_quarantined s (tcb_worker c) now = (s, False)"
    using assms(5) by (simp add: is_quarantined_def is_some_and_def)
  moreover have "observe_context s (context_of c) now =
      (s\<lparr>lss_contexts := bt_insert (tcb_job_id c) (context_of c) (lss_contexts s)\<rparr>, Ok)"
    using assms(2,6) by (auto simp: observe_context_def context_of_def is_some_and_def contribution_out_of_bounds_def)
  ultimately show ?thesis
    using assms(1-4,7) by (auto simp: admit_eq admit_position_def is_some_and_def)
qed

lemma bound_map_1: "bound_map m 1 = bt_new"
proof -
  have "bt_len (bound_map m 1) = 0" using bound_map_len [of 1 m] by simp
  then have "bt_entries (bound_map m 1) = bt_entries bt_new" by (simp add: bt_len_0_iff)
  then show ?thesis by (simp only: bt_entries_inject)
qed

lemma sample_bounds:
  "spo_max_training_value (lss_policy s) = 9 \<Longrightarrow> \<bar>v\<bar> \<le> 9 \<Longrightarrow> \<not> contribution_out_of_bounds s (sample_contribution w v)"
  by (simp add: contribution_out_of_bounds_def sample_contribution_def MAX_V4_VECTOR_def unsigned_abs_def)

lemma sample_policy_fields [simp]:
  "spo_max_training_value (sample_policy n) = 9" "spo_max_replay_entries (sample_policy n) = n"
  by (simp_all add: sample_policy_def)

lemma sample_fields [simp]:
  "lss_policy (sample_state (Suc n)) = sample_policy (Suc n)" "lss_replay (sample_state (Suc n)) = bt_new"
  "lss_rejected_replay (sample_state (Suc n)) = bt_new" "lss_quarantined (sample_state (Suc n)) = bt_new"
  "lss_contexts (sample_state (Suc n)) = bt_new" "lss_latest (sample_state (Suc n)) = bt_new"
  by (simp_all add: sample_state_def LocalSecurityState_new_def SecurityPolicy_validate_def sample_policy_def
      and_then_def err_if_def)

lemma sample_contribution_simps [simp]:
  "tcb_worker (sample_contribution w v) = filled w" "tcb_job_id (sample_contribution w v) = filled 1"
  "replay_key (sample_contribution w v) = (filled 1, filled w, filled 1, 1, 1)"
  "stream_key (sample_contribution w v) = (filled 1, filled w, filled 1)"
  "tcb_generation (sample_contribution w v) = 1" "tcb_sequence (sample_contribution w v) = 1"
  "context_of (sample_contribution w v) = context_of (sample_contribution 1 1)" if "w \<noteq> 1 \<or> v \<noteq> 1"
  using that by (simp_all add: sample_contribution_def replay_key_def stream_key_def context_of_def)

theorem position_admitted_once_witness:
  "distinct (admitted first_byte_hash sample_security_crypto [sample_admission 2 5, sample_admission 3 6] (sample_state 2))"
proof (rule position_admitted_once [OF sample_start])
  show "0 < (2 :: nat)" by simp
  have "length (admitted_now b k op s) \<le> 1" for b k op s
    by (cases "(b, k, op, s)" rule: admitted_now.cases) simp_all
  then show "length (admitted first_byte_hash sample_security_crypto [sample_admission 2 5, sample_admission 3 6] (sample_state 2))
      \<le> spo_max_replay_entries (sample_policy 2)"
    by (simp add: sample_policy_def)
qed

text \<open>C30: beyond the window the same contribution is admitted again. The window evicts the least key, not the oldest,
  and the check against the latest position of the stream lets an equal position pass.\<close>

theorem replay_admitted_after_eviction:
  "\<exists>policy s first other. LocalSecurityState_new (filled 9) policy = Inr s \<and> replay_key first \<noteq> replay_key other
     \<and> admitted first_byte_hash sample_security_crypto
         [AdmitUpdate first [filled 2, filled 3] 10, AdmitUpdate other [filled 2, filled 3] 10,
          AdmitUpdate first [filled 2, filled 3] 10] s = [replay_key first, replay_key other, replay_key first]"
proof (intro exI conjI)
  show "LocalSecurityState_new (filled 9) (sample_policy 1) = Inr (sample_state 1)" by (simp add: sample_start)
  show "replay_key (sample_contribution 2 5) \<noteq> replay_key (sample_contribution 3 6)" by simp
  show "admitted first_byte_hash sample_security_crypto
      [AdmitUpdate (sample_contribution 2 5) [filled 2, filled 3] 10, AdmitUpdate (sample_contribution 3 6) [filled 2, filled 3] 10,
       AdmitUpdate (sample_contribution 2 5) [filled 2, filled 3] 10] (sample_state 1) =
      [replay_key (sample_contribution 2 5), replay_key (sample_contribution 3 6), replay_key (sample_contribution 2 5)]"
    by (simp add: admit_fresh sample_bounds bound_map_1 [unfolded One_nat_def])
qed

section \<open>Restart\<close>



section \<open>Progress\<close>

definition progressed :: "LocalSecurityState \<Rightarrow> LocalSecurityState \<Rightarrow> bool" where
  "progressed s t \<longleftrightarrow>
     (\<forall>job x. bt_get (lss_contexts s) job = Some x \<longrightarrow> (\<exists>y. bt_get (lss_contexts t) job = Some y
        \<and> tcx_plan_generation x \<le> tcx_plan_generation y \<and> tcx_generation x \<le> tcx_generation y))
     \<and> (\<forall>key p. bt_get (lss_latest s) key = Some p \<longrightarrow> (\<exists>q. bt_get (lss_latest t) key = Some q \<and> p \<le> q))"

lemma progressed_refl: "progressed s s"
  by (auto simp: progressed_def)

lemma progressed_trans: "progressed s t \<Longrightarrow> progressed t u \<Longrightarrow> progressed s u"
  unfolding progressed_def by (meson order_trans)

lemma progressed_same: "lss_contexts t = lss_contexts s \<Longrightarrow> lss_latest t = lss_latest s \<Longrightarrow> progressed s t"
  by (auto simp: progressed_def)

lemma progressed_observe_context: "progressed s (fst (observe_context s x now))"
proof -
  have same: "progressed s (event s t sub k sc d)" for t sub k sc d by (rule progressed_same) simp_all
  show ?thesis
  proof (cases "snd (observe_context s x now) = Ok")
    case True
    then have "fst (observe_context s x now) = s\<lparr>lss_contexts := bt_insert (tcx_job_id x) x (lss_contexts s)\<rparr>"
      and "\<not> is_some_and (bt_get (lss_contexts s) (tcx_job_id x)) (\<lambda>previous.
         tcx_plan_generation x < tcx_plan_generation previous \<or> tcx_generation x < tcx_generation previous)"
      by (simp_all add: observe_context_def split: if_splits)
    then show ?thesis by (auto simp: progressed_def is_some_and_def not_less split: option.splits)
  next
    case False
    then show ?thesis by (auto simp: observe_context_def same split: if_splits)
  qed
qed

lemma progressed_admit_position: "progressed s (fst (admit_position s c d now))"
proof (cases "snd (admit_position s c d now) = Inr TA_Accepted")
  case True
  then have "fst (admit_position s c d now) = s\<lparr>lss_replay := bt_insert (replay_key c) d
        (bound_map (lss_replay s) (spo_max_replay_entries (lss_policy s))),
      lss_latest := bt_insert (stream_key c) (tcb_generation c, tcb_sequence c) (lss_latest s)\<rparr>"
    and "\<not> is_some_and (bt_get (lss_latest s) (stream_key c)) (\<lambda>(generation, sequence).
         tcb_generation c < generation \<or> (tcb_generation c = generation \<and> tcb_sequence c < sequence))"
    by (simp_all add: admit_position_def Let_def split: if_splits)
  then show ?thesis by (auto simp: progressed_def is_some_and_def not_less less_eq_prod_def split: option.splits)
next
  case False
  then show ?thesis by (intro progressed_same) (simp_all add: admit_position_def Let_def split: if_splits)
qed

lemma progressed_admit: "progressed s (fst (admit_training_update blake3 crypto s c members now))"
proof -
  let ?s1 = "purged s c now"
  have s1: "progressed s ?s1" by (rule progressed_same) simp_all
  then have s2: "progressed s (fst (observe_context ?s1 x now))" for x
    using progressed_observe_context progressed_trans by blast
  then have "progressed s (fst (admit_position (fst (observe_context ?s1 x now)) c d now))" for x d
    using progressed_admit_position progressed_trans by blast
  moreover have "progressed s (event s' t sub k sc d)" if "progressed s s'" for s' t sub k sc d
    using that by (rule progressed_trans) (rule progressed_same, simp_all)
  ultimately show ?thesis
    unfolding admit_eq using s1 s2 progressed_refl by (simp split: sum.split)
qed

lemma progressed_step: "progressed s (security_step blake3 crypto op s)"
proof (cases "(\<exists>c members now. op = AdmitUpdate c members now) \<or> (\<exists>x now. op = ObserveContext x now)")
  case True
  then show ?thesis using progressed_admit progressed_observe_context by auto
next
  case False
  then have "lss_contexts (security_step blake3 crypto op s) = lss_contexts s"
    by (cases op) (auto simp: record_event_def record_direct_observation_def record_capability_challenge_def
      record_capability_task_def Let_def eligible_eq observe_claim_def observe_authenticated_claim_def
      split: sum.split option.split)
  moreover have "lss_latest (security_step blake3 crypto op s) = lss_latest s"
    using False by (intro step_fields) blast
  ultimately show ?thesis by (rule progressed_same)
qed

interpretation progress: monotone_system "security_step blake3 crypto" "\<lambda>_. True" progressed for blake3 crypto
  by unfold_locales (auto intro: progressed_refl progressed_trans progressed_step)

text \<open>C31: the context of a job and the latest position of every stream never move back: plan generation and model
  generation of a job grow, and the position of a stream grows in the order of generation and sequence.\<close>

theorem training_never_moves_back:
  "progressed s (fold (security_step blake3 crypto) ops s)"
  unfolding progress.run_def [symmetric] by (rule progress.run_climbs) simp

section \<open>Lock-out of an equivocating peer\<close>

definition locked :: "NodeId \<Rightarrow> u64 \<Rightarrow> LocalSecurityState \<Rightarrow> bool" where
  "locked peer until s \<longleftrightarrow> is_some_and (bt_get (lss_quarantined s) peer) (\<lambda>v. until \<le> v)"

lemma locked_same: "lss_quarantined t = lss_quarantined s \<Longrightarrow> locked peer until t = locked peer until s"
  by (simp add: locked_def)

lemma locked_event [simp]: "locked peer until (event s t sub k sc d) = locked peer until s"
  by (rule locked_same) simp

lemma locked_is_quarantined:
  assumes "locked peer until s" "now \<le> until"
  shows "locked peer until (fst (is_quarantined s p now))" "snd (is_quarantined s peer now)"
  using assms by (auto simp: locked_def is_quarantined_def is_some_and_def Let_def split: option.splits)

lemma locked_quarantine: "locked peer until s \<Longrightarrow> locked peer until (quarantine s p now k d)"
  by (auto simp: quarantine_def Let_def locked_def is_some_and_def le_max_iff_disj split: option.splits)

lemma locked_update [simp]:
  "locked peer until (s\<lparr>lss_rejected_replay := m\<rparr>) = locked peer until s"
  "locked peer until (s\<lparr>lss_replay := m', lss_latest := l\<rparr>) = locked peer until s"
  "locked peer until (s\<lparr>lss_observations := ob\<rparr>) = locked peer until s"
  "locked peer until (s\<lparr>lss_capabilities := cm\<rparr>) = locked peer until s"
  "locked peer until (s\<lparr>lss_claims := cl\<rparr>) = locked peer until s"
  "locked peer until (s\<lparr>lss_authenticated_claims := ac\<rparr>) = locked peer until s"
  by (rule locked_same; simp)+

lemma locked_observe_context [simp]: "locked peer until (fst (observe_context s x now)) = locked peer until s"
  by (rule locked_same) simp

lemma locked_admit_position: "locked peer until s \<Longrightarrow> locked peer until (fst (admit_position s c d now))"
  by (simp add: admit_position_def Let_def locked_quarantine)

lemma locked_step:
  assumes "locked peer until s" "op_time op \<le> until"
  shows "locked peer until (security_step blake3 crypto op s)"
proof (cases op)
  case (AdmitUpdate c members now)
  with assms show ?thesis
    by (simp add: admit_eq locked_is_quarantined locked_admit_position split: sum.split)
next
  case (ObserveClaim c now)
  with assms show ?thesis
    by (simp add: observe_claim_def Let_def locked_quarantine split: sum.split option.split)
next
  case (ObserveAuthenticatedClaim signer object job branch generation sequence digest now)
  with assms show ?thesis
    by (simp add: observe_authenticated_claim_def Let_def locked_quarantine split: option.split)
qed (use assms in \<open>simp_all add: record_event_def record_direct_observation_def record_capability_challenge_def
      record_capability_task_def Let_def eligible_eq locked_is_quarantined\<close>)

interpretation quarantined: guarded_system "security_step blake3 crypto" "locked peer until" "\<lambda>op. op_time op \<le> until"
  for blake3 crypto peer until
  by unfold_locales (rule locked_step)

lemma equivocation_locks:
  assumes "observe_authenticated_claim s peer object job branch generation sequence digest now = (s', Inl SE_TrainingEquivocation)"
  shows "locked peer (sat_add now (spo_quarantine_seconds (lss_policy s))) s'"
  using assms
  by (auto simp: observe_authenticated_claim_def Let_def quarantine_def locked_def is_some_and_def split: if_splits option.splits)

lemma locked_refuses:
  assumes "locked peer until s" "t \<le> until"
  shows "tcb_worker c = peer \<Longrightarrow> \<exists>e. snd (admit_training_update blake3 crypto s c members t) = Inl e"
    and "\<not> snd (eligible_for_critical_role s peer role t)"
  using locked_is_quarantined(2) [OF assms] by (auto simp: admit_eq eligible_eq)

text \<open>C32: a peer caught in two conflicting authenticated claims is locked out. Until its quarantine ends, whatever else
  happens, none of its training contributions is admitted and it is eligible for no critical role.\<close>

theorem equivocator_locked_out:
  assumes "observe_authenticated_claim s peer object job branch generation sequence digest now = (s', Inl SE_TrainingEquivocation)"
    and "until = sat_add now (spo_quarantine_seconds (lss_policy s))"
    and "\<forall>op\<in>set ops. op_time op \<le> until" "t \<le> until" "tcb_worker c = peer"
  shows "(\<exists>e. snd (admit_training_update blake3 crypto (fold (security_step blake3 crypto) ops s') c members t) = Inl e)
    \<and> \<not> snd (eligible_for_critical_role (fold (security_step blake3 crypto) ops s') peer role t)"
proof -
  have "locked peer until s'" using equivocation_locks [OF assms(1)] assms(2) by simp
  then have "locked peer until (fold (security_step blake3 crypto) ops s')"
    using assms(3) by (rule quarantined.fold_keeps)
  then show ?thesis using assms(4,5) by (auto dest: locked_refuses)
qed

definition sample_claim :: "u8 \<Rightarrow> LocalSecurityState \<Rightarrow> LocalSecurityState \<times> (SecurityError + bool)" where
  "sample_claim digest s = observe_authenticated_claim s (filled 2) ''plan'' None None 1 1 (filled digest) 10"

lemma sample_equivocation:
  "sample_claim 5 (fst (sample_claim 4 (sample_state 1))) =
    (fst (sample_claim 5 (fst (sample_claim 4 (sample_state 1)))), Inl SE_TrainingEquivocation)"
  by (simp add: sample_claim_def observe_authenticated_claim_def MAX_CLAIM_KEY_def sample_state_def LocalSecurityState_new_def
      SecurityPolicy_validate_def sample_policy_def and_then_def err_if_def make_room_def)

theorem equivocator_locked_out_witness:
  "\<not> snd (eligible_for_critical_role (fold (security_step first_byte_hash sample_security_crypto)
     [sample_admission 3 6, DirectObservation (filled 2) True 20]
     (fst (sample_claim 5 (fst (sample_claim 4 (sample_state 1)))))) (filled 2) CR_Aggregator 300)"
proof -
  have "lss_policy (fst (sample_claim 4 (sample_state 1))) = sample_policy 1"
    by (simp add: sample_claim_def observe_authenticated_claim_def MAX_CLAIM_KEY_def Let_def split: option.split)
  then have "sat_add 10 (spo_quarantine_seconds (lss_policy (fst (sample_claim 4 (sample_state 1))))) = 310"
    by (simp add: sample_policy_def sat_add_def)
  then show ?thesis
    using equivocator_locked_out [OF sample_equivocation [unfolded sample_claim_def] refl,
        where t = 300 and c = "sample_contribution 2 5" and role = CR_Aggregator
        and ops = "[sample_admission 3 6, DirectObservation (filled 2) True 20]"
        and crypto = sample_security_crypto and ?blake3.0 = first_byte_hash]
    by (simp add: sample_claim_def)
qed

section \<open>Selection of evaluators\<close>

definition group_count :: "u16 \<Rightarrow> EvaluatorCandidate list \<Rightarrow> nat" where
  "group_count g cs = length (filter (\<lambda>c. evc_source_group c = g) cs)"

definition tally :: "(u16, usize) btree \<Rightarrow> u16 \<Rightarrow> nat" where
  "tally m g = (case bt_get m g of None \<Rightarrow> 0 | Some n \<Rightarrow> n)"

lemma group_count_simps [simp]:
  "group_count g [] = 0"
  "group_count g (c # cs) = (if evc_source_group c = g then 1 else 0) + group_count g cs"
  by (simp_all add: group_count_def)

lemma tally_simps [simp]: "tally bt_new g = 0" "tally (bt_insert h n m) g = (if g = h then n else tally m g)"
  by (simp_all add: tally_def)

text \<open>The first loop appends some candidates \<open>ps\<close>; it stops short only when the groups of all others are full.\<close>

definition diverse_picks :: "usize \<Rightarrow> usize \<Rightarrow> NodeId list \<Rightarrow> (u16, usize) btree \<Rightarrow> EvaluatorCandidate list \<Rightarrow>
    EvaluatorCandidate list \<Rightarrow> bool" where
  "diverse_picks wanted cap sel m cs ps \<longleftrightarrow>
     fst (pick_diverse wanted cap (sel, m) cs) = sel @ map evc_node ps
     \<and> set ps \<subseteq> set cs \<and> (distinct (map evc_node cs) \<longrightarrow> distinct (map evc_node ps))
     \<and> (length sel \<le> wanted \<longrightarrow> length sel + length ps \<le> wanted)
     \<and> (\<forall>g. tally m g \<le> max cap 1 \<longrightarrow> tally m g + group_count g ps \<le> max cap 1)
     \<and> (length sel + length ps < wanted \<longrightarrow>
         (\<forall>c\<in>set cs - set ps. max cap 1 \<le> tally m (evc_source_group c) + group_count (evc_source_group c) ps))"

lemma pick_diverse_picks: "\<exists>ps. diverse_picks wanted cap sel m cs ps"
proof (induction cs arbitrary: sel m)
  case Nil
  then show ?case by (intro exI [of _ "[]"]) (simp add: diverse_picks_def)
next
  case (Cons c cs)
  let ?g = "evc_source_group c"
  consider "wanted \<le> length sel" | "length sel < wanted" "max cap 1 \<le> tally m ?g"
    | "length sel < wanted" "tally m ?g < max cap 1" by linarith
  then show ?case
  proof cases
    case 1
    then show ?thesis by (intro exI [of _ "[]"]) (simp add: diverse_picks_def)
  next
    case 2
    then have eq: "pick_diverse wanted cap (sel, m) (c # cs) = pick_diverse wanted cap (sel, m) cs"
      by (simp add: Let_def tally_def)
    obtain ps where "diverse_picks wanted cap sel m cs ps" using Cons.IH by blast
    then have "diverse_picks wanted cap sel m (c # cs) ps"
      using 2 unfolding diverse_picks_def eq by (auto simp: max_def split: if_splits)
    then show ?thesis by blast
  next
    case 3
    let ?m = "bt_insert ?g (tally m ?g + 1) m"
    have eq: "pick_diverse wanted cap (sel, m) (c # cs) = pick_diverse wanted cap (sel @ [evc_node c], ?m) cs"
      using 3 by (auto simp: Let_def tally_def less_max_iff_disj)
    obtain ps where ps: "diverse_picks wanted cap (sel @ [evc_node c]) ?m cs ps" using Cons.IH by blast
    then have cap: "tally m g + group_count g (c # ps) \<le> max cap 1" if "tally m g \<le> max cap 1" for g
      using that 3 unfolding diverse_picks_def by (auto dest: spec [of _ g])
    have full: "max cap 1 \<le> tally m (evc_source_group x) + group_count (evc_source_group x) (c # ps)"
      if "length sel + length (c # ps) < wanted" "x \<in> set (c # cs) - set (c # ps)" for x
    proof -
      have "length (sel @ [evc_node c]) + length ps < wanted" "x \<in> set cs - set ps" using that by auto
      then have "max cap 1 \<le> tally ?m (evc_source_group x) + group_count (evc_source_group x) ps"
        using ps unfolding diverse_picks_def by blast
      then show ?thesis by (cases "evc_source_group x = ?g") simp_all
    qed
    have "diverse_picks wanted cap sel m (c # cs) (c # ps)"
      unfolding diverse_picks_def eq using ps 3 cap full
      by (auto simp: diverse_picks_def)
    then show ?thesis by blast
  qed
qed

lemma pick_remaining_spec:
  "\<exists>rest. pick_remaining wanted sel cs = sel @ rest \<and> set rest \<subseteq> evc_node ` set cs - set sel \<and> distinct rest
     \<and> (length sel \<le> wanted \<longrightarrow> length sel + length rest \<le> wanted)
     \<and> (length sel + length rest < wanted \<longrightarrow> evc_node ` set cs \<subseteq> set sel \<union> set rest)"
proof (induction cs arbitrary: sel)
  case Nil
  then show ?case by simp
next
  case (Cons c cs)
  consider "wanted \<le> length sel" | "length sel < wanted" "evc_node c \<in> set sel"
    | "length sel < wanted" "evc_node c \<notin> set sel" by linarith
  then show ?case
  proof cases
    case 1
    then show ?thesis by simp
  next
    case 2
    then show ?thesis using Cons.IH [of sel] by auto
  next
    case 3
    from Cons.IH [of "sel @ [evc_node c]"] obtain rest where
      "pick_remaining wanted (sel @ [evc_node c]) cs = (sel @ [evc_node c]) @ rest"
      "set rest \<subseteq> evc_node ` set cs - set (sel @ [evc_node c])" "distinct rest"
      "length (sel @ [evc_node c]) + length rest \<le> wanted"
      "length (sel @ [evc_node c]) + length rest < wanted \<longrightarrow> evc_node ` set cs \<subseteq> set (sel @ [evc_node c]) \<union> set rest"
      using 3 by fastforce
    with 3 show ?thesis by (intro exI [of _ "evc_node c # rest"]) auto
  qed
qed

lemma length_by_group:
  assumes "finite G" "evc_source_group ` set cs \<subseteq> G"
  shows "length cs = (\<Sum>g\<in>G. group_count g cs)"
  using assms(2)
proof (induction cs)
  case (Cons c cs)
  have "(\<Sum>g\<in>G. group_count g (c # cs)) = (\<Sum>g\<in>G. if evc_source_group c = g then 1 else 0) + (\<Sum>g\<in>G. group_count g cs)"
    by (simp add: sum.distrib)
  also have "(\<Sum>g\<in>G. if evc_source_group c = g then 1 else 0 :: nat) = 1"
    using Cons.prems assms(1) by simp
  finally show ?case using Cons by simp
qed simp

lemma diverse_fills:
  assumes picks: "diverse_picks wanted cap [] bt_new cs ps" and nodes: "distinct (map evc_node cs)"
    and enough: "wanted \<le> (\<Sum>g\<in>evc_source_group ` set cs. min (max cap 1) (group_count g cs))"
  shows "length ps = wanted"
proof (rule ccontr)
  assume "length ps \<noteq> wanted"
  then have short: "length ps < wanted" using picks by (simp add: diverse_picks_def)
  have sub: "set ps \<subseteq> set cs" and distinct: "distinct ps"
    using picks nodes by (simp_all add: diverse_picks_def distinct_map)
  have "min (max cap 1) (group_count g cs) \<le> group_count g ps" if "g \<in> evc_source_group ` set cs" for g
  proof (cases "{c \<in> set cs. evc_source_group c = g} \<subseteq> set ps")
    case True
    then have "set (filter (\<lambda>c. evc_source_group c = g) cs) \<subseteq> set (filter (\<lambda>c. evc_source_group c = g) ps)" by auto
    then have "card (set (filter (\<lambda>c. evc_source_group c = g) cs)) \<le> card (set (filter (\<lambda>c. evc_source_group c = g) ps))"
      by (rule card_mono [OF finite_set])
    moreover have "distinct cs" using nodes by (simp add: distinct_map)
    ultimately have "group_count g cs \<le> group_count g ps"
      using distinct unfolding group_count_def by (metis distinct_card distinct_filter)
    then show ?thesis by simp
  next
    case False
    then obtain c where c: "c \<in> set cs - set ps" "evc_source_group c = g" by blast
    have "length ([] :: NodeId list) + length ps < wanted" using short by simp
    then have "max cap 1 \<le> tally bt_new (evc_source_group c) + group_count (evc_source_group c) ps"
      using picks c(1) unfolding diverse_picks_def by blast
    then have "max cap 1 \<le> group_count g ps" by (simp only: c(2) tally_simps add_0)
    then show ?thesis by (rule min.coboundedI1)
  qed
  then have "wanted \<le> (\<Sum>g\<in>evc_source_group ` set cs. group_count g ps)"
    using enough by (meson order_trans sum_mono)
  also have "\<dots> = length ps" using sub by (intro length_by_group [symmetric]) auto
  finally show False using short by simp
qed

abbreviation fit_candidates :: "EvaluatorCandidate list \<Rightarrow> EvaluatorCandidate list" where
  "fit_candidates candidates \<equiv> filter (\<lambda>c. \<not> unfit c) candidates"

lemma select_evaluators_parts:
  assumes nodes: "distinct (map evc_node candidates)"
  obtains ps rest where
    "evs_selected (select_evaluators blake3 candidates wanted seed cap) = map evc_node ps @ rest"
    "set ps \<subseteq> set (fit_candidates candidates)" "distinct (map evc_node ps)" "length ps \<le> wanted"
    "\<forall>g. group_count g ps \<le> max cap 1"
    "wanted \<le> (\<Sum>g\<in>evc_source_group ` set (fit_candidates candidates).
        min (max cap 1) (group_count g (fit_candidates candidates))) \<longrightarrow> length ps = wanted"
    "set rest \<subseteq> evc_node ` set (fit_candidates candidates) - set (map evc_node ps)" "distinct rest"
    "length ps + length rest \<le> wanted"
    "length ps + length rest < wanted \<longrightarrow> evc_node ` set (fit_candidates candidates) \<subseteq> set (map evc_node ps) \<union> set rest"
proof -
  let ?cs = "sort_key (evaluator_order blake3 seed) (fit_candidates candidates)"
  have set: "set ?cs = set (fit_candidates candidates)" by simp
  have distinct: "distinct (map evc_node ?cs)"
    using distinct_map_filter [OF nodes] by (simp add: distinct_map)
  have groups: "group_count g ?cs = group_count g (fit_candidates candidates)" for g
    unfolding group_count_def by (rule mset_eq_length) (simp only: mset_filter mset_sort)
  obtain ps where ps: "diverse_picks wanted cap [] bt_new ?cs ps" using pick_diverse_picks by blast
  then have first: "fst (pick_diverse wanted cap ([], bt_new) ?cs) = map evc_node ps" by (simp add: diverse_picks_def)
  obtain rest where rest: "pick_remaining wanted (map evc_node ps) ?cs = map evc_node ps @ rest"
    "set rest \<subseteq> evc_node ` set ?cs - set (map evc_node ps)" "distinct rest"
    "length (map evc_node ps) \<le> wanted \<longrightarrow> length (map evc_node ps) + length rest \<le> wanted"
    "length (map evc_node ps) + length rest < wanted \<longrightarrow> evc_node ` set ?cs \<subseteq> set (map evc_node ps) \<union> set rest"
    using pick_remaining_spec [of wanted "map evc_node ps" ?cs] by blast
  show thesis
  proof (rule that [of ps rest])
    show "evs_selected (select_evaluators blake3 candidates wanted seed cap) = map evc_node ps @ rest"
      by (simp add: select_evaluators_def Let_def case_prod_beta first rest(1))
    show "wanted \<le> (\<Sum>g\<in>evc_source_group ` set (fit_candidates candidates).
        min (max cap 1) (group_count g (fit_candidates candidates))) \<longrightarrow> length ps = wanted"
      using diverse_fills [OF ps distinct] unfolding set groups by blast
  qed (use ps rest distinct in \<open>auto simp: diverse_picks_def\<close>)
qed

text \<open>C33: evaluators are selected completely and diversely. Every selected node is a fit candidate, none is selected
  twice, as many are selected as are wanted and fit, and all others are reported as rejected. When the source groups
  offer enough candidates under the cap, no group exceeds the cap.\<close>

theorem evaluators_complete_and_diverse:
  assumes nodes: "distinct (map evc_node candidates)"
    and sel: "sel = select_evaluators blake3 candidates wanted seed cap"
  shows "distinct (evs_selected sel) \<and> set (evs_selected sel) \<subseteq> evc_node ` set (fit_candidates candidates)
    \<and> length (evs_selected sel) = min wanted (length (fit_candidates candidates))
    \<and> set (evs_rejected sel) = evc_node ` set candidates - set (evs_selected sel)
    \<and> (wanted \<le> (\<Sum>g\<in>evc_source_group ` set (fit_candidates candidates).
          min (max cap 1) (group_count g (fit_candidates candidates))) \<longrightarrow>
       (\<forall>g. group_count g (filter (\<lambda>c. evc_node c \<in> set (evs_selected sel)) candidates) \<le> max cap 1))"
proof -
  let ?fit = "fit_candidates candidates"
  have inj: "inj_on evc_node (set candidates)" and fit: "distinct ?fit" "distinct (map evc_node ?fit)"
    using nodes distinct_map_filter [OF nodes] by (auto simp: distinct_map)
  obtain ps rest where parts: "evs_selected sel = map evc_node ps @ rest"
    "set ps \<subseteq> set ?fit" "distinct (map evc_node ps)" "length ps \<le> wanted" "\<forall>g. group_count g ps \<le> max cap 1"
    "wanted \<le> (\<Sum>g\<in>evc_source_group ` set ?fit. min (max cap 1) (group_count g ?fit)) \<longrightarrow> length ps = wanted"
    "set rest \<subseteq> evc_node ` set ?fit - set (map evc_node ps)" "distinct rest"
    "length ps + length rest \<le> wanted"
    "length ps + length rest < wanted \<longrightarrow> evc_node ` set ?fit \<subseteq> set (map evc_node ps) \<union> set rest"
    unfolding sel by (rule select_evaluators_parts [OF nodes])
  have distinct: "distinct (evs_selected sel)" using parts(1,3,7,8) by auto
  have sub: "set (evs_selected sel) \<subseteq> evc_node ` set ?fit" using parts(1,2,7) by auto
  have fits: "card (evc_node ` set ?fit) = length ?fit" using fit by (metis distinct_card length_map set_map)
  have "length (evs_selected sel) \<le> length ?fit"
    using card_mono [OF _ sub] distinct_card [OF distinct] fits by simp
  moreover have "length ?fit \<le> length (evs_selected sel)" if "length (evs_selected sel) < wanted"
  proof -
    have "evc_node ` set ?fit \<subseteq> set (evs_selected sel)" using that parts(1,10) by auto
    then have "card (evc_node ` set ?fit) \<le> card (set (evs_selected sel))" by (rule card_mono [OF finite_set])
    then show ?thesis using distinct_card [OF distinct] fits by simp
  qed
  ultimately have len: "length (evs_selected sel) = min wanted (length ?fit)"
    using parts(1,9) by (cases "length (evs_selected sel) < wanted") (simp_all add: min_def)
  have "set (evs_rejected sel) = evc_node ` {c \<in> set candidates. unfit c} \<union> (evc_node ` set ?fit - set (evs_selected sel))"
    by (auto simp: sel select_evaluators_def Let_def case_prod_beta)
  also have "\<dots> = evc_node ` set candidates - set (evs_selected sel)"
  proof -
    have "evc_node ` {c \<in> set candidates. unfit c} \<inter> evc_node ` set ?fit = {}"
      using inj by (auto dest!: inj_onD)
    then show ?thesis using sub by auto
  qed
  finally have rejected: "set (evs_rejected sel) = evc_node ` set candidates - set (evs_selected sel)" .
  have "group_count g (filter (\<lambda>c. evc_node c \<in> set (evs_selected sel)) candidates) \<le> max cap 1"
    if "wanted \<le> (\<Sum>g\<in>evc_source_group ` set ?fit. min (max cap 1) (group_count g ?fit))" for g
  proof -
    have "rest = []" using mp [OF parts(6) that] parts(9) by simp
    then have "evs_selected sel = map evc_node ps" using parts(1) by simp
    then have "set (filter (\<lambda>c. evc_node c \<in> set (evs_selected sel)) candidates) = set ps"
      using parts(2) inj by (auto simp: inj_on_def)
    moreover have "distinct ps" "distinct candidates" using parts(3) nodes by (simp_all add: distinct_map)
    ultimately have "mset (filter (\<lambda>c. evc_node c \<in> set (evs_selected sel)) candidates) = mset ps"
      by (intro set_eq_iff_mset_eq_distinct [THEN iffD1]) simp_all
    then have "group_count g (filter (\<lambda>c. evc_node c \<in> set (evs_selected sel)) candidates) = group_count g ps"
      unfolding group_count_def by (metis mset_filter size_mset)
    then show ?thesis using parts(5) by simp
  qed
  with distinct sub len rejected show ?thesis by blast
qed

definition sample_candidate :: "u8 \<Rightarrow> u16 \<Rightarrow> IdentityMaturity \<Rightarrow> EvaluatorCandidate" where
  "sample_candidate n g maturity = \<lparr>evc_node = filled n, evc_maturity = maturity, evc_direct_successes = 1, evc_source_group = g\<rparr>"

theorem evaluators_complete_and_diverse_witness:
  "length (evs_selected (select_evaluators first_byte_hash [sample_candidate 1 1 IM_Observed, sample_candidate 2 1 IM_Observed,
     sample_candidate 3 2 IM_Established, sample_candidate 4 3 IM_Quarantined] 2 7 1)) = 2"
  using evaluators_complete_and_diverse [of "[sample_candidate 1 1 IM_Observed, sample_candidate 2 1 IM_Observed,
      sample_candidate 3 2 IM_Established, sample_candidate 4 3 IM_Quarantined]" _ first_byte_hash 2 7 1, OF _ refl]
  by (simp add: sample_candidate_def unfit_def)

end
