(* ===== verification/Node_Properties.thy ===== *)
theory Node_Properties
  imports Node_Control Security_Properties
begin

text \<open>
  What the node promises about the coordination of integrated jobs, over any run of messages, disconnections,
  failed writes and restarts, and where a candidacy or a state record breaks the promise.
\<close>

section \<open>A sample job\<close>

text \<open>Five workers; the first coordinates the job. The codec hashes everything to one identifier.\<close>

definition sample_codec :: v4_codec where
  "sample_codec = \<lparr>vc_blake3 = (\<lambda>_. filled 7), vc_hex = (\<lambda>_. ''''), vc_postcard_plan = (\<lambda>_. Some []),
     vc_json_training_state = (\<lambda>_. []), vc_json_optimizer_shard = (\<lambda>_. []), vc_json_optimizer_state = (\<lambda>_. []),
     vc_json_checkpoint = (\<lambda>_. []), vc_json_graph = (\<lambda>_. []), vc_json_integrated_state = (\<lambda>_. []),
     vc_json_election = (\<lambda>_. []), vc_json_tensor = (\<lambda>_. []), vc_json_pipeline = (\<lambda>_. []),
     vc_json_branch = (\<lambda>_. []), vc_json_branch_commit = (\<lambda>_. [])\<rparr>"

definition sample_shard :: V4ShardOwnership where
  "sample_shard = \<lparr>vso_shard_id = 0, vso_model_generation = 1, vso_owners = [filled 1], vso_replicas = [filled 2],
     vso_ownership_generation = 1, vso_content_hash = filled 7, vso_state_bytes = 1, vso_memory_bytes = 1,
     vso_runtime_requirement = '''', vso_lifecycle = LC_Active\<rparr>"

definition sample_job :: "u64 \<Rightarrow> V4ExecutionGraph" where
  "sample_job generation = \<lparr>vg_job_id = filled 5, vg_graph_generation = generation, vg_parent_graph_generation = None,
     vg_proposer = filled 1, vg_coordinator = filled 1, vg_reply_to = filled 1, vg_plan_hash = filled 7,
     vg_branch = filled 7, vg_training_epoch = 1, vg_membership_epoch = 1, vg_coordination_term = 1,
     vg_optimizer_generation = 1, vg_checkpoint_generation = 1, vg_workers = map filled [1, 2, 3, 4, 5],
     vg_retired_workers = [], vg_tensor_groups = [], vg_pipeline_stages = [],
     vg_aggregation_groups = [\<lparr>vag_group_id = 0, vag_members = map filled [1, 2, 3, 4, 5],
       vag_aggregator = filled 1, vag_parent = None\<rparr>],
     vg_shards = [sample_shard],
     vg_optimizer_shards = [\<lparr>vop_shard_id = 0, vop_owner = filled 1, vop_replicas = [], vop_generation = 1\<rparr>],
     vg_collective_generation = 1, vg_local_steps = 1, vg_max_staleness = 1, vg_checkpoint_replication = 1,
     vg_strategy = PS_LocalSgd, vg_election_certificate = [], vg_backend_assignments = [], vg_graph_hash = filled 7\<rparr>"

definition sample_job_state :: "u64 \<Rightarrow> V4IntegratedStateRecord" where
  "sample_job_state generation = \<lparr>vis_job_id = filled 5, vis_graph_generation = generation, vis_plan_hash = filled 7,
     vis_branch = filled 7, vis_coordinator = filled 1, vis_phase = IP_Running, vis_window = 1, vis_target_windows = 2,
     vis_initial_loss_micros = 0, vis_current_loss_micros = 0, vis_checkpoint_generation = 1, vis_model_generation = 1,
     vis_optimizer_generation = 1, vis_membership_epoch = 1, vis_collective_generation = 1, vis_recovery_count = 0,
     vis_state_hash = filled 7\<rparr>"

definition empty_disk :: V4Disk where
  "empty_disk = \<lparr>vd_data_shards = bt_new, vd_training_states = bt_new, vd_integrated_graphs = bt_new,
     vd_integrated_states = bt_new, vd_integrated_elections = bt_new, vd_plans = bt_new, vd_plan_proposals = bt_new,
     vd_optimizer_states = bt_new, vd_optimizer_shards = bt_new, vd_checkpoints = bt_new, vd_tensor_shards = bt_new,
     vd_pipeline_stages = bt_new, vd_integrated_branches = bt_new, vd_security = None\<rparr>"

abbreviation sample_files :: "V4Disk" where
  "sample_files \<equiv> empty_disk\<lparr>vd_integrated_graphs := bt_insert (filled 5) (sample_job 1) bt_new,
     vd_integrated_states := bt_insert (filled 5) (sample_job_state 1) bt_new\<rparr>"

text \<open>The node \<open>i\<close> started on a disk.\<close>

definition booted :: "u8 \<Rightarrow> V4Disk \<Rightarrow> V4Node" where
  "booted i disk = \<lparr>vn_node_id = filled i, vn_security = sample_state 2, vn_jobs = bt_new, vn_data_shards = bt_new,
     vn_tensor_shards = bt_new, vn_pipeline_stages = bt_new, vn_collectives = bt_new, vn_byzantine = bt_new,
     vn_training_states = bt_new, vn_integrated_states = vd_integrated_states disk,
     vn_integrated_graphs = vd_integrated_graphs disk, vn_integrated_elections = vd_integrated_elections disk,
     vn_optimizer_states = bt_new, vn_optimizer_shards = bt_new, vn_checkpoints = bt_new, vn_plans = bt_new,
     vn_plan_proposals = bt_new, vn_compute = \<lparr>br_backends = bt_new, br_evidence = bt_new, br_health_overrides = bt_new\<rparr>, vn_v5_challenge_windows = bt_new,
     vn_disk = disk, vn_outbox = []\<rparr>"

definition sample_env :: v4_env where
  "sample_env = \<lparr>ve_now = 1, ve_write_error = (\<lambda>_. None), ve_remove_error = (\<lambda>_. None), ve_send_error = (\<lambda>_. None),
     ve_elapsed = (\<lambda>_. 1), ve_challenge_elapsed = 1, ve_incoming = []\<rparr>"

definition sample_request :: "u8 \<Rightarrow> u64 \<Rightarrow> V4IntegratedElectionRequest" where
  "sample_request candidate trm = \<lparr>vier_request_id = filled 5, vier_job_id = filled 5, vier_graph_generation = 1,
     vier_graph_hash = filled 7, vier_branch = filled 7, vier_state_hash = filled 7, vier_term = trm,
     vier_candidate = filled candidate\<rparr>"

lemma sample_hash [simp]: "from_bytes_hashed (vc_blake3 sample_codec) bs = filled 7"
  by (simp add: sample_codec_def from_bytes_hashed_def)

lemma sample_job_simps [simp]:
  "vg_job_id (sample_job g) = filled 5" "vg_graph_generation (sample_job g) = g" "vg_graph_hash (sample_job g) = filled 7"
  "vg_branch (sample_job g) = filled 7" "vg_plan_hash (sample_job g) = filled 7" "vg_coordinator (sample_job g) = filled 1"
  "vg_coordination_term (sample_job g) = 1" "vg_workers (sample_job g) = map filled [1, 2, 3, 4, 5]"
  by (simp_all add: sample_job_def)

lemma sample_job_check: "g \<noteq> 0 \<Longrightarrow> v4_execution_graph_check (sample_job g) = Ok"
  by (simp add: v4_execution_graph_check_def sample_job_def sample_shard_def training_job_id_check_def node_id_check_def
      v4_hash_check_def artifact_id_check_def v4_node_list_check_def has_duplicates_def and_then_def err_if_def
      graph_group_step_def insert_step_def graph_shard_check_def optimizer_placement_check_def is_some_and_def
      MAX_V4_PLAN_WORKERS_def MAX_V4_GROUPS_def MAX_V4_STAGES_def MAX_TRAINING_SHARDS_def MAX_TRAINING_REPLICAS_def
      MAX_V5_ASSIGNMENTS_def insert_commute)

lemma sample_job_restored: "g \<noteq> 0 \<Longrightarrow> restored_graph sample_codec (sample_job g)"
  by (simp add: restored_graph_def execution_graph_hash_def sample_job_check)

lemma sample_files_ok: "control_ok sample_codec (control_view (booted i sample_files))"
  by (simp add: control_ok_def booted_def sample_job_restored empty_disk_def)

abbreviation asks :: "u8 \<Rightarrow> u64 \<Rightarrow> v4_event" where
  "asks candidate trm \<equiv> EV_Message sample_env (filled candidate) (V4_IntegratedElectionRequest (sample_request candidate trm))"

lemma sample_state_simps [simp]:
  "vis_job_id (sample_job_state g) = filled 5" "vis_phase (sample_job_state g) = IP_Running"
  "vis_state_hash (sample_job_state g) = filled 7"
  by (simp_all add: sample_job_state_def)

lemma sample_env_simps [simp]: "ve_write_error sample_env f = None" "ve_send_error sample_env peer = None"
  by (simp_all add: sample_env_def)

lemma sample_request_simps [simp]:
  "vier_job_id (sample_request c t) = filled 5" "vier_graph_generation (sample_request c t) = 1"
  "vier_graph_hash (sample_request c t) = filled 7" "vier_branch (sample_request c t) = filled 7"
  "vier_term (sample_request c t) = t" "vier_candidate (sample_request c t) = filled c"
  by (simp_all add: sample_request_def)

lemma sample_request_ok: "0 < c \<Longrightarrow> 0 < t \<Longrightarrow> v4_integrated_election_request_check (sample_request c t) = Ok"
  by (auto simp: v4_integrated_election_request_check_def sample_request_def training_job_id_check_def node_id_check_def
      v4_hash_check_def artifact_id_check_def err_if_def)

text \<open>The answer of a worker of the sample job to a candidate.\<close>

definition sample_vote :: "u8 \<Rightarrow> u64 \<Rightarrow> NodeId \<Rightarrow> bool \<Rightarrow> V4IntegratedElectionVote" where
  "sample_vote candidate trm voter granted = \<lparr>viev_job_id = filled 5, viev_graph_generation = 1, viev_graph_hash = filled 7,
     viev_term = trm, viev_candidate = filled candidate, viev_voter = voter, viev_granted = granted,
     viev_reason = (if granted then ''majority-election vote persisted'' else ''a different candidate already owns this election term'')\<rparr>"

lemma sample_vote_step:
  assumes "bt_get (vn_integrated_graphs s) (filled 5) = Some (sample_job 1)"
    and "bt_get (vn_integrated_states s) (filled 5) = Some (sample_job_state 1)"
    and "vn_node_id s \<noteq> filled 1" "c \<in> {1, 2, 3, 4, 5}" "1 < t"
    and "record = vote_record sample_codec (filled 5) 1 (filled 7) t (filled c)"
  shows "node_step crypto sample_codec (asks c t) s =
    (if can_replace (sample_request c t) (bt_get (vn_integrated_elections s) (filled 5))
     then s\<lparr>vn_integrated_elections := bt_insert (filled 5) record (vn_integrated_elections s),
        vn_disk := vd_integrated_elections_update (bt_insert (filled 5) record) (vn_disk s),
        vn_outbox := vn_outbox s @ [(filled c, M_TrainingV4 (V4_IntegratedElectionVote (sample_vote c t (vn_node_id s) True)))]\<rparr>
     else s\<lparr>vn_outbox := vn_outbox s @
        [(filled c, M_TrainingV4 (V4_IntegratedElectionVote (sample_vote c t (vn_node_id s) False)))]\<rparr>)"
proof -
  have pos: "0 < t" "0 < c" using assms(4,5) by (auto simp: word_gt_0 intro: less_trans)
  have "vote_refusal s (sample_job 1) (sample_job_state 1) (filled c) (sample_request c t) = None"
    using assms(3-5) by (auto simp: vote_refusal_def)
  then show ?thesis
    using assms(1,2,6) sample_request_ok [OF pos(2,1)]
    by (simp add: handle_message_def receive_integrated_election_request_def checked_def validated_def map_err_def
        cast_vote_def try_then_def persist_integrated_election_def write_json_def send_vote_def send_control_message_def
        send_to_def send_message_def sample_vote_def Let_def)
qed





lemma booted_simps [simp]:
  "vn_integrated_graphs (booted i d) = vd_integrated_graphs d" "vn_integrated_elections (booted i d) = vd_integrated_elections d"
  "vn_integrated_states (booted i d) = vd_integrated_states d" "vn_node_id (booted i d) = filled i"
  "vn_disk (booted i d) = d" "vn_outbox (booted i d) = []"
  by (simp_all add: booted_def)

lemma sample_vote_granted: "granted_vote (p, M_TrainingV4 (V4_IntegratedElectionVote (sample_vote c t v granted)))
    = (if granted then Some (sample_vote c t v granted) else None)"
  by (simp add: sample_vote_def)


section \<open>Coordination\<close>

text \<open>C3: every step of a node, a restart included, is a step of the abstract control state: it leaves graphs and votes
  alone, installs an offered valid graph behind the fence, stores and perhaps sends one vote that may succeed the
  stored one, or restores what is on disk.\<close>

theorem steps_refine_control:
  "control_step codec (offered_graphs ev) (control_view s) (control_view (node_step crypto codec ev s))"
  by (rule node_step_refines)







section \<open>Where the promise ends\<close>

definition sample_ballot :: "u8 \<Rightarrow> V4Inbound" where
  "sample_ballot voter = VI_Message (filled voter) (V4_IntegratedElectionVote (sample_vote 2 2 (filled voter) True))"

text \<open>C34: a node that has granted its vote of a term to another candidate and then stands for election itself votes a
  second time in the same term, overwrites the stored vote, and is certified with its own second vote.\<close>

theorem candidacy_votes_twice:
  "\<exists>s s' vote record. s = node_step sample_security_crypto sample_codec (asks 3 2) (booted 2 sample_files)
     \<and> vote \<in> set (ctl_votes (control_view s)) \<and> viev_candidate vote = filled 3 \<and> viev_voter vote = filled 2
     \<and> request_integrated_election sample_codec sample_env (sample_job 1) (sample_job_state 1) [filled 4, filled 5]
         [sample_ballot 4, sample_ballot 5] s = (s', Inr [filled 2, filled 4, filled 5])
     \<and> bt_get (vn_integrated_elections s') (viev_job_id vote) = Some record \<and> vel_candidate record = filled 2
     \<and> vel_term record = viev_term vote \<and> vel_graph_generation record = viev_graph_generation vote
     \<and> vel_graph_hash record = viev_graph_hash vote"
proof -
  let ?s = "node_step sample_security_crypto sample_codec (asks 3 2) (booted 2 sample_files)"
  have s: "bt_get (vn_integrated_graphs ?s) (filled 5) = Some (sample_job 1)" "vn_node_id ?s = filled 2"
    "bt_get (vn_integrated_states ?s) (filled 5) = Some (sample_job_state 1)"
    "bt_get (vn_integrated_elections ?s) (filled 5) = Some (vote_record sample_codec (filled 5) 1 (filled 7) 2 (filled 3))"
    "ctl_votes (control_view ?s) = [sample_vote 3 2 (filled 2) True]"
    by (simp_all add: sample_vote_step can_replace_def empty_disk_def List.map_filter_simps sample_vote_granted
        del: node_step.simps(1) granted_vote.simps)
  have "candidate_term ?s (sample_job 1) = 2"
    by (simp add: candidate_term_def s sat_add_def del: node_step.simps(1))
  then obtain s' where "request_integrated_election sample_codec sample_env (sample_job 1) (sample_job_state 1) [filled 4, filled 5]
      [sample_ballot 4, sample_ballot 5] ?s = (s', Inr [filled 2, filled 4, filled 5])"
    and "bt_get (vn_integrated_elections s') (filled 5) = Some (vote_record sample_codec (filled 5) 1 (filled 7) 2 (filled 2))"
    by (simp add: request_integrated_election_def checked_def s eligible_members_def vote_for_self_def try_then_def
        persist_integrated_election_def write_json_def send_control_message_def send_to_def send_message_def
        collect_votes.simps vote_matches_def sample_ballot_def sample_vote_def graph_quorum_def Let_def
        del: node_step.simps(1))
  then show ?thesis
    by (intro exI [of _ ?s] exI [of _ s'] exI [of _ "sample_vote 3 2 (filled 2) True"]
          exI [of _ "vote_record sample_codec (filled 5) 1 (filled 7) 2 (filled 2)"])
      (simp only: s, simp add: sample_vote_def)
qed

text \<open>C35: a worker that is not the coordinator of the graph commits the state of the job: the handler compares the
  sender with the coordinator the record itself names.\<close>

theorem worker_publishes_state:
  "\<exists>s peer state graph. control_ok sample_codec (control_view s)
     \<and> bt_get (vn_integrated_graphs s) (vis_job_id state) = Some graph \<and> peer \<noteq> vg_coordinator graph
     \<and> vis_phase state = IP_Committed \<and> bt_get (vn_integrated_states s) (vis_job_id state) \<noteq> Some state
     \<and> bt_get (vn_integrated_states (handle_message sample_security_crypto sample_codec sample_env peer
          (V4_IntegratedState state) s)) (vis_job_id state) = Some state"
proof -
  define state where "state = (sample_job_state 1)\<lparr>vis_coordinator := filled 3, vis_phase := IP_Committed\<rparr>"
  have "v4_integrated_state_check state = Ok"
    by (simp add: state_def v4_integrated_state_check_def sample_job_state_def training_job_id_check_def node_id_check_def
        v4_hash_check_def artifact_id_check_def err_if_def)
  then have "bt_get (vn_integrated_states (handle_message sample_security_crypto sample_codec sample_env (filled 3)
      (V4_IntegratedState state) (booted 4 sample_files))) (filled 5) = Some state"
    by (simp add: handle_message_def receive_integrated_state_def checked_def validated_def map_err_def try_then_def
        persist_integrated_state_def write_json_def send_control_message_def send_to_def send_message_def
        integrated_state_hash_def empty_disk_def state_progress_def state_def sample_job_state_def Let_def)
  moreover have "vis_job_id state = filled 5" "vis_phase state = IP_Committed" by (simp_all add: state_def)
  moreover have "bt_get (vn_integrated_graphs (booted 4 sample_files)) (filled 5) = Some (sample_job 1)"
    "bt_get (vn_integrated_states (booted 4 sample_files)) (filled 5) = Some (sample_job_state 1)"
    by (simp_all add: empty_disk_def)
  moreover have "sample_job_state 1 \<noteq> state" by (simp add: state_def sample_job_state_def)
  ultimately show ?thesis
    using sample_files_ok [of 4]
    by (intro exI [of _ "booted 4 sample_files"] exI [of _ "filled 3"] exI [of _ state] exI [of _ "sample_job 1"]) simp
qed

section \<open>Replicas\<close>

text \<open>C36: a replica that holds a newer verified state of a tensor shard keeps it in memory when an older payload of the
  same layout arrives, but writes the older payload over the newer state on disk.\<close>

theorem stale_replica_reaches_disk:
  assumes "v4_tensor_replica_check r = Ok" "valid_local_tensor_shard codec (replica_shard r)"
    and "bt_get (vn_plans s) (vtr_job_id r) = Some plan" "replica_authorized s peer r plan"
    and "bt_get (vn_tensor_shards s) (vtr_job_id r, vtr_shard_id r) = Some newer" "valid_local_tensor_shard codec newer"
    and "vlt_state_generation newer > vtr_state_generation r" "vlt_model_generation newer = vtr_model_generation r"
    and "vlt_rows newer = vtr_rows r" "vlt_cols newer = vtr_cols r" "vlt_row_offset newer = vtr_row_offset r"
    and "ve_write_error env (F_tensor_shard (vtr_job_id r) (vtr_shard_id r)) = None"
    and "s' = handle_message crypto codec env peer (V4_TensorReplica r) s"
  shows "bt_get (vn_tensor_shards s') (vtr_job_id r, vtr_shard_id r) = Some newer
    \<and> bt_get (vd_tensor_shards (vn_disk s')) (vtr_job_id r, vtr_shard_id r) = Some (replica_shard r)"
proof -
  have "tensor_hash codec (vtr_weights r) (vtr_rows r) (vtr_cols r) (vtr_row_offset r) = vtr_state_hash r"
    using assms(2) by (simp add: valid_local_tensor_shard_def replica_shard_def)
  moreover have "merge_replica codec (replica_shard r) (vn_tensor_shards s) = (vn_tensor_shards s, True)"
    using assms(5-11) by (simp add: merge_replica_def replica_shard_def)
  moreover have "vlt_job_id (replica_shard r) = vtr_job_id r" "vlt_shard_id (replica_shard r) = vtr_shard_id r"
    by (simp_all add: replica_shard_def)
  ultimately show ?thesis
    using assms(1-5,12,13)
    by (auto simp: handle_message_def receive_tensor_replica_def checked_def validated_def map_err_def try_then_def
        persist_tensor_shard_def write_json_def send_v4_control_message_def send_control_message_def send_to_def send_message_def
        Let_def split: option.splits)
qed

definition sample_plan :: V4TrainingPlan where
  "sample_plan = \<lparr>vp_job_id = filled 5, vp_proposer = filled 1, vp_plan_generation = 1, vp_model_generation = 1,
     vp_training_epoch = 1, vp_membership_epoch = 1, vp_coordination_term = 1, vp_branch = filled 7,
     vp_strategy = PS_TensorParallel, vp_support = SL_Supported, vp_workers = map filled [1, 2, 3, 4, 5], vp_groups = [],
     vp_shards = [sample_shard], vp_tensor_degree = 2, vp_pipeline_stages = 1, vp_local_steps = 1, vp_max_staleness = 1,
     vp_checkpoint_replication = 1, vp_data_locality = DL_LocalOnly, vp_accelerator = None, vp_worker_capabilities = [],
     vp_rationale = '''', vp_plan_hash = filled 7, vp_parent_plan_hash = None, vp_compute_requirements = [],
     vp_backend_assignments = []\<rparr>"

definition sample_replica :: V4TensorReplica where
  "sample_replica = \<lparr>vtr_job_id = filled 5, vtr_plan_generation = 1, vtr_model_generation = 1, vtr_shard_id = 0, vtr_rows = 1,
     vtr_cols = 2, vtr_row_offset = 0, vtr_weights = [3, 4], vtr_state_hash = filled 7, vtr_state_generation = 1,
     vtr_last_sequence = 1, vtr_ownership_generation = 1, vtr_source = filled 1\<rparr>"

definition sample_replica_node :: V4Node where
  "sample_replica_node = (booted 2 empty_disk)\<lparr>vn_plans := bt_insert (filled 5) sample_plan bt_new,
     vn_tensor_shards := bt_insert (filled 5, 0) ((replica_shard sample_replica)\<lparr>vlt_state_generation := 8\<rparr>) bt_new\<rparr>"

theorem stale_replica_reaches_disk_witness:
  "bt_get (vd_tensor_shards (vn_disk (handle_message sample_security_crypto sample_codec sample_env (filled 1)
     (V4_TensorReplica sample_replica) sample_replica_node))) (filled 5, 0) = Some (replica_shard sample_replica)"
proof -
  have "tensor_hash sample_codec w rs cs off = filled 7" for w rs cs off by (simp add: tensor_hash_def)
  then have valid: "valid_local_tensor_shard sample_codec (replica_shard sample_replica)"
    "valid_local_tensor_shard sample_codec ((replica_shard sample_replica)\<lparr>vlt_state_generation := 8\<rparr>)"
    by (simp_all add: valid_local_tensor_shard_def replica_shard_def sample_replica_def MAX_V4_VECTOR_def usat_def unsigned_abs_def usize_max_def)
  have "replica_authorized sample_replica_node (filled 1) sample_replica sample_plan"
    by (simp add: replica_authorized_def sample_plan_def sample_replica_def sample_shard_def sample_replica_node_def tensor_strategy_def)
  moreover have "v4_tensor_replica_check sample_replica = Ok"
    by (simp add: v4_tensor_replica_check_def sample_replica_def training_job_id_check_def node_id_check_def v4_hash_check_def
        artifact_id_check_def err_if_def MAX_V4_VECTOR_def unsigned_abs_def)
  moreover have keys: "vtr_job_id sample_replica = filled 5" "vtr_shard_id sample_replica = 0"
    by (simp_all add: sample_replica_def)
  ultimately show ?thesis
    using stale_replica_reaches_disk [of sample_replica sample_codec sample_replica_node sample_plan "filled 1"
        "(replica_shard sample_replica)\<lparr>vlt_state_generation := 8\<rparr>" sample_env _ sample_security_crypto, OF _ valid(1)] valid(2)
    by (simp add: sample_replica_node_def replica_shard_def) (simp add: sample_replica_def)
qed

end
