(* ===== verification/Collective_Properties.thy ===== *)
theory Collective_Properties
  imports Node_Collective "HOL-Library.Multiset"
begin

text \<open>
  What aggregation promises: the sum of a collective group is exact and does not depend on the order in which the
  contributions arrive. The result of a Byzantine aggregation that rejects nobody is one the protocol refuses to send.
\<close>

section \<open>Exact sums\<close>

definition vector_sum :: "nat \<Rightarrow> i64 list list \<Rightarrow> i64 list" where
  "vector_sum len vectors = map (\<lambda>i. \<Sum>v\<leftarrow>vectors. v ! i) [0..<len]"

definition bounded_vector :: "nat \<Rightarrow> i64 list \<Rightarrow> bool" where
  "bounded_vector len v \<longleftrightarrow> length v = len \<and> (\<forall>x\<in>set v. \<bar>x\<bar> \<le> 1000000000)"

lemma add_values_exact:
  assumes "length sums = len" "\<forall>i<len. \<bar>sums ! i\<bar> \<le> k * 1000000000" "bounded_vector len v" "0 \<le> k" "k \<le> 1000000"
  shows "add_values sums v = map (\<lambda>i. sums ! i + v ! i) [0..<len]"
proof (rule nth_equalityI)
  show "length (add_values sums v) = length (map (\<lambda>i. sums ! i + v ! i) [0..<len])"
    using assms(1,3) by (simp add: add_values_def bounded_vector_def)
next
  fix i assume "i < length (add_values sums v)"
  then have i: "i < len" using assms(1,3) by (simp add: add_values_def bounded_vector_def)
  then have "\<bar>v ! i\<bar> \<le> 1000000000" "\<bar>sums ! i\<bar> \<le> 1000000 * 1000000000"
    using assms by (auto simp: bounded_vector_def intro: order_trans)
  then have "in_i64 (sums ! i + v ! i)" by (auto simp: in_i64_def i64_min_def i64_max_def abs_le_iff)
  then show "add_values sums v ! i = map (\<lambda>i. sums ! i + v ! i) [0..<len] ! i"
    using i assms(1,3) by (simp add: add_values_def bounded_vector_def nth_append clamp_i64_id)
qed

lemma sum_values_exact:
  assumes "\<forall>v\<in>set vectors. bounded_vector len v" "vectors \<noteq> []" "length vectors \<le> 1000000"
  shows "sum_values vectors = vector_sum len vectors"
proof -
  have "fold (\<lambda>vals sums. add_values sums vals) vs (replicate len 0) = vector_sum len vs
      \<and> (\<forall>i<len. \<bar>vector_sum len vs ! i\<bar> \<le> int (length vs) * 1000000000)"
    if "\<forall>v\<in>set vs. bounded_vector len v" "length vs \<le> 1000000" for vs
    using that
  proof (induction vs rule: rev_induct)
    case Nil
    show ?case by (simp add: vector_sum_def map_replicate_const)
  next
    case (snoc v vs)
    then have IH: "fold (\<lambda>vals sums. add_values sums vals) vs (replicate len 0) = vector_sum len vs"
      "\<forall>i<len. \<bar>vector_sum len vs ! i\<bar> \<le> int (length vs) * 1000000000" and v: "bounded_vector len v"
      by simp_all
    have "add_values (vector_sum len vs) v = vector_sum len (vs @ [v])"
      using add_values_exact [OF _ IH(2) v] snoc.prems(2) by (simp add: vector_sum_def)
    moreover have "\<bar>vector_sum len (vs @ [v]) ! i\<bar> \<le> int (length (vs @ [v])) * 1000000000" if "i < len" for i
    proof -
      have "\<bar>v ! i\<bar> \<le> 1000000000" using v that by (auto simp: bounded_vector_def)
      then show ?thesis using IH(2) that by (auto simp: vector_sum_def algebra_simps)
    qed
    ultimately show ?case using IH(1) by simp
  qed
  moreover have "(case vectors of [] \<Rightarrow> 0 | first # _ \<Rightarrow> length first) = len"
    using assms(1,2) by (cases vectors) (auto simp: bounded_vector_def)
  ultimately show ?thesis using assms by (simp add: sum_values_def)
qed

lemma vector_sum_mset:
  assumes "mset vs = mset ws"
  shows "vector_sum len vs = vector_sum len ws"
proof -
  have "(\<Sum>v\<leftarrow>vs. v ! i) = (\<Sum>v\<leftarrow>ws. v ! i)" for i
    using sum_mset_sum_list [of "map (\<lambda>v. v ! i) vs"] sum_mset_sum_list [of "map (\<lambda>v. v ! i) ws"] assms by simp
  then show ?thesis by (simp add: vector_sum_def)
qed

section \<open>A group of contributions\<close>

lemma mset_bt_values_insert: "bt_get m k = None \<Longrightarrow> mset (bt_values (bt_insert k v m)) = add_mset v (mset (bt_values m))"
proof -
  assume "bt_get m k = None"
  then have "map_of (bt_entries m) k = None" by (simp add: bt_get.rep_eq)
  moreover have "map_of xs k = None \<Longrightarrow> mset (map snd (al_insert k v xs)) = add_mset v (mset (map snd xs))" for xs
    by (induction k v xs rule: al_insert.induct) (auto split: if_splits)
  ultimately show ?thesis by (simp add: bt_values_def bt_insert.rep_eq)
qed

definition gathered :: "V4CollectiveContribute list \<Rightarrow> (NodeId, i64 list) btree" where
  "gathered cs = fold (\<lambda>c. bt_insert (vcc_contributor c) (vcc_values c)) cs bt_new"

lemma gathered_facts:
  assumes "distinct (map vcc_contributor cs)"
  shows "mset (bt_values (gathered cs)) = mset (map vcc_values cs)" "bt_len (gathered cs) = length cs"
    "k \<notin> vcc_contributor ` set cs \<Longrightarrow> bt_get (gathered cs) k = None"
  using assms
proof (induction cs arbitrary: k rule: rev_induct)
  case Nil
  { case 1 show ?case by (simp add: gathered_def bt_values_def)
  next case 2 show ?case by (simp add: gathered_def)
  next case 3 show ?case by (simp add: gathered_def) }
next
  case (snoc c cs)
  have new: "bt_get (gathered cs) (vcc_contributor c) = None"
    and insert: "gathered (cs @ [c]) = bt_insert (vcc_contributor c) (vcc_values c) (gathered cs)"
    if "distinct (map vcc_contributor (cs @ [c]))"
    using snoc.IH(3) [of "vcc_contributor c"] that by (auto simp: gathered_def)
  { case 1 then show ?case using snoc.IH(1) new insert by (simp add: mset_bt_values_insert)
  next case 2 then show ?case using snoc.IH(2) new insert by (simp add: bt_len_insert)
  next case 3 then show ?case using snoc.IH(3) insert by simp }
qed

text \<open>What two contributions to one group of a request agree on.\<close>

definition same_group :: "V4CollectiveContribute \<Rightarrow> V4CollectiveContribute \<Rightarrow> bool" where
  "same_group c d \<longleftrightarrow> vcc_request_id c = vcc_request_id d \<and> contribution_state c = contribution_state d"

lemma same_group_state: "same_group c d \<Longrightarrow> contribution_state d = contribution_state c \<and> vcc_request_id d = vcc_request_id c"
  by (simp add: same_group_def)

lemma contribution_fits:
  "contribution_state d = contribution_state c \<Longrightarrow> \<not> contribution_conflicts d ((contribution_state c)\<lparr>vcs_contributions := m\<rparr>)"
  by (auto simp: contribution_conflicts_def contribution_state_def new_collective_def same_request_def)

lemma adopt_own: "contribution_state d = contribution_state c \<Longrightarrow>
    adopt_group d ((contribution_state c)\<lparr>vcs_contributions := m\<rparr>) = (contribution_state c)\<lparr>vcs_contributions := m\<rparr>"
  by (auto simp: adopt_group_def contribution_state_def new_collective_def)

definition gathering :: "V4CollectiveContribute \<Rightarrow> V4CollectiveContribute list \<Rightarrow> V4Node \<Rightarrow> bool" where
  "gathering c cs s \<longleftrightarrow> (if cs = [] then bt_get (vn_collectives s) (vcc_request_id c) = None
       \<and> bt_len (vn_collectives s) < V4_MAX_AGGREGATION_REQUESTS
     else bt_get (vn_collectives s) (vcc_request_id c) = Some ((contribution_state c)\<lparr>vcs_contributions := gathered cs\<rparr>))"

lemma insert_gathers:
  assumes "gathering c cs s" "same_group c d" "distinct (map vcc_contributor (cs @ [d]))"
  shows "insert_contribution d s = (let state = (contribution_state c)\<lparr>vcs_contributions := gathered (cs @ [d])\<rparr>
    in case complete_group state of (state, sums) \<Rightarrow>
      (s\<lparr>vn_collectives := bt_insert (vcc_request_id c) state (vn_collectives s)\<rparr>, Inr (state, sums)))"
proof -
  have state: "(case bt_get (vn_collectives s) (vcc_request_id d) of None \<Rightarrow> contribution_state d | Some state \<Rightarrow> state)
      = (contribution_state c)\<lparr>vcs_contributions := gathered cs\<rparr>"
    using assms(1,2) by (auto simp: gathering_def same_group_def gathered_def contribution_state_def new_collective_def split: if_splits)
  have "bt_get (gathered cs) (vcc_contributor d) = None"
    using assms(3) gathered_facts(3) [of cs "vcc_contributor d"] by auto
  moreover have "\<not> (bt_get (vn_collectives s) (vcc_request_id d) = None \<and> bt_len (vn_collectives s) \<ge> V4_MAX_AGGREGATION_REQUESTS)"
    using assms(1,2) by (auto simp: gathering_def same_group_def split: if_splits)
  moreover have "gathered (cs @ [d]) = bt_insert (vcc_contributor d) (vcc_values d) (gathered cs)"
    by (simp add: gathered_def)
  ultimately show ?thesis
    using same_group_state [OF assms(2)]
    unfolding insert_contribution_def Let_def state
    by (simp add: contribution_fits adopt_own split: prod.split)
qed

text \<open>What the arrival of each contribution completes.\<close>

fun completions :: "V4CollectiveContribute list \<Rightarrow> V4Node \<Rightarrow> i64 list option list" where
  "completions [] s = []"
| "completions (c # cs) s = (case insert_contribution c s of
     (s, Inl _) \<Rightarrow> completions cs s | (s, Inr (_, sums)) \<Rightarrow> sums # completions cs s)"

lemma complete_group_gathered:
  "complete_group ((contribution_state c)\<lparr>vcs_contributions := m\<rparr>) =
    (if bt_len m = unat (vcc_expected_contributors c)
     then ((contribution_state c)\<lparr>vcs_groups := bt_insert (vcc_group_id c) (sum_values (bt_values m), vcc_expected_contributors c) bt_new,
             vcs_contributions := bt_new\<rparr>, Some (sum_values (bt_values m)))
     else ((contribution_state c)\<lparr>vcs_contributions := m\<rparr>, None))"
  by (simp add: complete_group_def contribution_state_def new_collective_def Let_def)

lemma completions_gather:
  assumes "gathering c cs s" "\<forall>d\<in>set ds. same_group c d" "distinct (map vcc_contributor (cs @ ds))"
    and "unat (vcc_expected_contributors c) = length cs + length ds" "ds \<noteq> []"
  shows "completions ds s = replicate (length ds - 1) None @ [Some (sum_values (bt_values (gathered (cs @ ds))))]"
  using assms
proof (induction ds arbitrary: cs s)
  case (Cons d ds)
  have dist: "distinct (map vcc_contributor (cs @ [d]))" using Cons.prems(3) by auto
  note step = insert_gathers [OF Cons.prems(1) _ dist] gathered_facts(2) [OF dist]
  show ?case
  proof (cases "ds = []")
    case True
    then show ?thesis using step Cons.prems by (simp add: complete_group_gathered)
  next
    case False
    let ?s = "s\<lparr>vn_collectives := bt_insert (vcc_request_id c) ((contribution_state c)\<lparr>vcs_contributions := gathered (cs @ [d])\<rparr>)
        (vn_collectives s)\<rparr>"
    have "gathering c (cs @ [d]) ?s" by (simp add: gathering_def)
    then have "completions ds ?s = replicate (length ds - 1) None @ [Some (sum_values (bt_values (gathered ((cs @ [d]) @ ds))))]"
      using Cons.prems False by (intro Cons.IH) auto
    moreover have "insert_contribution d s = (?s, Inr ((contribution_state c)\<lparr>vcs_contributions := gathered (cs @ [d])\<rparr>, None))"
      using step Cons.prems False by (simp add: complete_group_gathered)
    ultimately show ?thesis using False by (cases ds) simp_all
  qed
qed simp

lemma same_group_length: "same_group c d \<Longrightarrow> length (vcc_values d) = length (vcc_values c)"
  by (simp add: same_group_def contribution_state_def new_collective_def)

lemma checked_contribution: "v4_collective_contribute_check d = Ok \<Longrightarrow> bounded_vector (length (vcc_values d)) (vcc_values d)"
  by (auto simp: v4_collective_contribute_check_def v4_vector_check_def bounded_vector_def result_simps unsigned_abs_def not_less
      simp del: all_ok.simps(2))

text \<open>C8: when the contributions of a group, each of them valid and from another worker, arrive in any order, the last
  one completes the group and none before it does, and the sum is the exact sum of the vectors: no addition saturates.\<close>

theorem group_sum_exact:
  assumes "\<forall>d\<in>set cs. same_group c d \<and> v4_collective_contribute_check d = Ok" "distinct (map vcc_contributor cs)" "cs \<noteq> []"
    and "unat (vcc_expected_contributors c) = length cs" "mset arrivals = mset cs"
    and "bt_get (vn_collectives s) (vcc_request_id c) = None" "bt_len (vn_collectives s) < V4_MAX_AGGREGATION_REQUESTS"
  shows "completions arrivals s = replicate (length cs - 1) None @ [Some (vector_sum (length (vcc_values c)) (map vcc_values cs))]"
proof -
  have arrivals: "set arrivals = set cs" "length arrivals = length cs" "distinct (map vcc_contributor arrivals)" "arrivals \<noteq> []"
    using assms(2,3,5) by (metis set_mset_mset, metis size_mset, metis mset_eq_imp_distinct_iff mset_map, auto)
  let ?vs = "bt_values (gathered arrivals)"
  have vs: "mset ?vs = mset (map vcc_values cs)"
    using gathered_facts(1) [OF arrivals(3)] assms(5) by simp
  have "\<forall>v\<in>set ?vs. bounded_vector (length (vcc_values c)) v"
    using assms(1) checked_contribution same_group_length mset_eq_setD [OF vs] by fastforce
  moreover have "length ?vs = length cs" using vs by (metis length_map size_mset)
  moreover have "unat (vcc_expected_contributors c) < 2 ^ LENGTH(16)" by (rule unsigned_less)
  then have "length cs < 65536" using assms(4) by simp
  ultimately have "sum_values ?vs = vector_sum (length (vcc_values c)) ?vs"
    using assms(3) by (intro sum_values_exact) auto
  moreover have "completions arrivals s = replicate (length arrivals - 1) None @ [Some (sum_values (bt_values (gathered ([] @ arrivals))))]"
    using assms arrivals by (intro completions_gather [where c = c]) (auto simp: gathering_def)
  ultimately show ?thesis
    using vector_sum_mset [OF vs] arrivals(2) by simp
qed

definition sample_part :: "u8 \<Rightarrow> i64 list \<Rightarrow> V4CollectiveContribute" where
  "sample_part worker vals = \<lparr>vcc_request_id = filled 6, vcc_job_id = filled 5, vcc_plan_generation = 1, vcc_generation = 1,
     vcc_group_id = 0, vcc_contributor = filled worker, vcc_aggregator = filled 1, vcc_parent = None,
     vcc_expected_contributors = 2, vcc_expected_groups = 1, vcc_values = vals, vcc_reply_to = filled 9\<rparr>"

theorem group_sum_exact_witness:
  "\<exists>s. completions [sample_part 3 [20, - 7], sample_part 2 [5, 1000]] s = [None, Some [25, 993]]"
proof -
  obtain s :: V4Node where s: "vn_collectives s = bt_new"
    by (metis V4Node.select_convs(7) V4Node.surjective)
  have "completions [sample_part 3 [20, - 7], sample_part 2 [5, 1000]] s =
      replicate (length [sample_part 2 [5, 1000], sample_part 3 [20, - 7]] - 1) None
      @ [Some (vector_sum (length (vcc_values (sample_part 2 [5, 1000]))) (map vcc_values [sample_part 2 [5, 1000], sample_part 3 [20, - 7]]))]"
    by (rule group_sum_exact [where c = "sample_part 2 [5, 1000]"])
      (simp_all add: s sample_part_def same_group_def contribution_state_def v4_collective_contribute_check_def v4_vector_check_def
        training_job_id_check_def node_id_check_def if_some_def err_if_def MAX_V4_VECTOR_def MAX_V4_PLAN_WORKERS_def
        MAX_V4_GROUPS_def unsigned_abs_def V4_MAX_AGGREGATION_REQUESTS_def add_mset_commute)
  then show ?thesis by (auto simp: sample_part_def vector_sum_def upt_rec)
qed

section \<open>Results that reject nobody\<close>

text \<open>C37: a Byzantine aggregation without outliers rejects no worker, and its result, with an empty list of rejected
  workers, does not pass the validation of the messages a node may send.\<close>

theorem clean_aggregate_unsendable:
  assumes "byzantine_result u state = Inr result" "\<forall>(worker, sequence, vals)\<in>set (bt_entries (vbs_updates state)). \<not> outlier vals"
  shows "vbr_rejected_workers result = [] \<and> is_err (training_v4_message_check (V4_ByzantineResult result))"
proof -
  have rejected: "vbr_rejected_workers result = []"
    using assms by (auto simp: byzantine_result_def result_simps Let_def filter_empty_conv)
  then have "v4_byzantine_result_check result \<noteq> Ok"
    by (simp add: v4_byzantine_result_check_def v4_node_list_check_def result_simps del: all_ok.simps(2))
  then show ?thesis
    using rejected by (cases "v4_byzantine_result_check result") simp_all
qed

definition sample_update :: V4ByzantineUpdate where
  "sample_update = \<lparr>vbu_request_id = filled 6, vbu_job_id = filled 5, vbu_plan_generation = 1, vbu_generation = 1,
     vbu_worker = filled 3, vbu_aggregator = filled 1, vbu_sequence = 1, vbu_values = [4], vbu_policy = BP_Mean,
     vbu_expected_updates = 2, vbu_reply_to = filled 9\<rparr>"

theorem clean_aggregate_unsendable_witness:
  "\<exists>result. byzantine_result sample_update ((byzantine_state sample_update)\<lparr>vbs_updates :=
       bt_insert (filled 2) (1, [6]) (bt_insert (filled 3) (1, [4]) bt_new)\<rparr>) = Inr result
     \<and> vbr_aggregate result = [5] \<and> is_err (training_v4_message_check (V4_ByzantineResult result))"
proof -
  let ?state = "(byzantine_state sample_update)\<lparr>vbs_updates :=
       bt_insert (filled 2) (1, [6]) (bt_insert (filled 3) (1, [4]) bt_new)\<rparr>"
  have entries: "bt_entries (vbs_updates ?state) = [(filled 2, 1, [6]), (filled 3, 1, [4])]"
    by (simp add: bt_insert.rep_eq)
  have "aggregate_updates BP_Mean [[6], [4]] 100 = Inr \<lparr>vbp_policy = BP_Mean, vbp_aggregate = [5], vbp_accepted_updates = 2,
      vbp_rejected_updates = 0, vbp_coordinate_count = 1\<rparr>"
    by code_simp
  with entries obtain result where result: "byzantine_result sample_update ?state = Inr result" "vbr_aggregate result = [5]"
    by (simp add: byzantine_result_def map_err_def and_then_def bt_values_def byzantine_state_def sample_update_def Let_def)
  moreover have "\<forall>(worker, sequence, vals)\<in>set (bt_entries (vbs_updates ?state)). \<not> outlier vals"
    unfolding entries by (simp add: outlier_def unsigned_abs_def)
  ultimately show ?thesis using clean_aggregate_unsendable by blast
qed

end
