(* ===== verification/Float32.thy ===== *)
theory Float32
  imports Number_Format "HOL-Library.Log_Nat"
begin

text \<open>
  The \<^verbatim>\<open>f32\<close> of the planners: a value is the rational number it denotes, an infinity or not a number, and the result of
  an operation is rounded to the nearest value with 24 bits of precision, ties to the even one. The sign of a zero is
  left out: the planners divide by positive numbers only and print and compare by value.
\<close>

section \<open>Values and rounding\<close>

datatype f32 = F_NaN | F_Inf bool | F_Fin rat

definition round_half_even :: "rat \<Rightarrow> int" where
  "round_half_even x = (let n = \<lfloor>x\<rfloor>; d = x - of_int n in
     if d < 1 / 2 then n else if d > 1 / 2 then n + 1 else if even n then n else n + 1)"

text \<open>The exponent of the leading bit of a positive number.\<close>

definition log2_floor :: "rat \<Rightarrow> int" where
  "log2_floor x = (case quotient_of x of (a, b) \<Rightarrow>
     let k = bitlen a - bitlen b in if 2 powi k \<le> x then k else k - 1)"

definition f32_round :: "rat \<Rightarrow> f32" where
  "f32_round x =
    (if x = 0 then F_Fin 0
     else let e = max (log2_floor \<bar>x\<bar> - 23) (- 149);
              y = of_int (round_half_even (x / 2 powi e)) * 2 powi e
       in if \<bar>y\<bar> \<ge> 2 ^ 128 then F_Inf (x < 0) else F_Fin y)"

definition f32_of_nat :: "nat \<Rightarrow> f32" where
  "f32_of_nat n = f32_round (of_nat n)"

section \<open>Operations\<close>

fun is_finite :: "f32 \<Rightarrow> bool" where
  "is_finite (F_Fin _) = True"
| "is_finite _ = False"

fun f32_neg :: "f32 \<Rightarrow> f32" where
  "f32_neg F_NaN = F_NaN"
| "f32_neg (F_Inf s) = F_Inf (\<not> s)"
| "f32_neg (F_Fin x) = F_Fin (- x)"

fun f32_add :: "f32 \<Rightarrow> f32 \<Rightarrow> f32" where
  "f32_add (F_Fin x) (F_Fin y) = f32_round (x + y)"
| "f32_add (F_Inf s) (F_Inf t) = (if s = t then F_Inf s else F_NaN)"
| "f32_add (F_Inf s) (F_Fin _) = F_Inf s"
| "f32_add (F_Fin _) (F_Inf s) = F_Inf s"
| "f32_add _ _ = F_NaN"

definition f32_sub :: "f32 \<Rightarrow> f32 \<Rightarrow> f32" where
  "f32_sub a b = f32_add a (f32_neg b)"

fun f32_mul :: "f32 \<Rightarrow> f32 \<Rightarrow> f32" where
  "f32_mul (F_Fin x) (F_Fin y) = f32_round (x * y)"
| "f32_mul (F_Inf s) (F_Inf t) = F_Inf (s \<noteq> t)"
| "f32_mul (F_Inf s) (F_Fin y) = (if y = 0 then F_NaN else F_Inf (s \<noteq> (y < 0)))"
| "f32_mul (F_Fin x) (F_Inf t) = (if x = 0 then F_NaN else F_Inf (t \<noteq> (x < 0)))"
| "f32_mul _ _ = F_NaN"

text \<open>The quotient of a finite number and a positive one.\<close>

fun f32_div_pos :: "f32 \<Rightarrow> f32 \<Rightarrow> f32" where
  "f32_div_pos (F_Fin x) (F_Fin y) = f32_round (x / y)"
| "f32_div_pos (F_Fin _) (F_Inf _) = F_Fin 0"
| "f32_div_pos _ _ = F_NaN"

fun f32_less :: "f32 \<Rightarrow> f32 \<Rightarrow> bool" where
  "f32_less (F_Fin x) (F_Fin y) = (x < y)"
| "f32_less (F_Inf s) (F_Fin _) = s"
| "f32_less (F_Fin _) (F_Inf t) = (\<not> t)"
| "f32_less (F_Inf s) (F_Inf t) = (s \<and> \<not> t)"
| "f32_less _ _ = False"

fun f32_le :: "f32 \<Rightarrow> f32 \<Rightarrow> bool" where
  "f32_le (F_Fin x) (F_Fin y) = (x \<le> y)"
| "f32_le (F_Inf s) (F_Fin _) = s"
| "f32_le (F_Fin _) (F_Inf t) = (\<not> t)"
| "f32_le (F_Inf s) (F_Inf t) = (s \<or> \<not> t)"
| "f32_le _ _ = False"

definition f32_clamp :: "f32 \<Rightarrow> f32 \<Rightarrow> f32 \<Rightarrow> f32" where
  "f32_clamp lo hi v = (let v = (if f32_less v lo then lo else v) in if f32_less hi v then hi else v)"

text \<open>\<^verbatim>\<open>f32::min\<close> returns the other number when one is not a number.\<close>

definition f32_min :: "f32 \<Rightarrow> f32 \<Rightarrow> f32" where
  "f32_min a b = (if a = F_NaN then b else if b = F_NaN then a else if f32_less b a then b else a)"

text \<open>\<^verbatim>\<open>round\<close>, with ties away from zero, and the cast to an unsigned integer below \<open>limit\<close>, which saturates.\<close>

definition round_half_away :: "rat \<Rightarrow> int" where
  "round_half_away x = (if x < 0 then - \<lfloor>- x + 1 / 2\<rfloor> else \<lfloor>x + 1 / 2\<rfloor>)"

fun rounded_as :: "nat \<Rightarrow> f32 \<Rightarrow> nat" where
  "rounded_as limit F_NaN = 0"
| "rounded_as limit (F_Inf s) = (if s then 0 else limit - 1)"
| "rounded_as limit (F_Fin x) = min (nat (round_half_away x)) (limit - 1)"

text \<open>The bits of a number, as far as they are determined by its value.\<close>

fun f32_to_bits :: "f32 \<Rightarrow> nat" where
  "f32_to_bits F_NaN = 2143289344"
| "f32_to_bits (F_Inf s) = 2139095040 + (if s then 2 ^ 31 else 0)"
| "f32_to_bits (F_Fin x) =
    (let sign = (if x < 0 then 2 ^ 31 else 0); m = \<bar>x\<bar> in
     if m < 2 powi (- 126) then sign + nat \<lfloor>m * 2 ^ 149\<rfloor>
     else let e = log2_floor m in sign + nat (e + 126) * 2 ^ 23 + nat \<lfloor>m / 2 powi e * 2 ^ 23\<rfloor>)"

text \<open>\<^verbatim>\<open>{:.2}\<close> prints two decimals of the exact value, ties to the even digit.\<close>

definition two_decimals :: "f32 \<Rightarrow> string" where
  "two_decimals v = (case v of F_NaN \<Rightarrow> ''NaN'' | F_Inf s \<Rightarrow> (if s then ''-inf'' else ''inf'')
   | F_Fin x \<Rightarrow> let n = nat (round_half_even (\<bar>x\<bar> * 100)) in
       (if x < 0 then ''-'' else []) @ decimal (n div 100) @ ''.'' @ decimal (n div 10 mod 10) @ decimal (n mod 10))"

section \<open>What rounding keeps\<close>

lemma round_half_even_le: "x \<le> of_int n \<Longrightarrow> round_half_even x \<le> n"
  unfolding round_half_even_def Let_def by (auto split: if_splits) linarith+

lemma round_half_even_of_int [simp]: "round_half_even (of_int n) = n"
  by (simp add: round_half_even_def)

lemma log2_floor_le:
  assumes "0 < x"
  shows "2 powi log2_floor x \<le> x"
proof -
  obtain a b where ab: "quotient_of x = (a, b)" by fastforce
  then have b: "0 < b" and x: "x = of_int a / of_int b" using quotient_of_denom_pos quotient_of_div by blast+
  then have a: "0 < a" using assms by (simp add: zero_less_divide_iff)
  have "(2::rat) powi (bitlen a - 1) \<le> of_int a"
  proof -
    have "2 ^ nat (bitlen a - 1) \<le> a" using bitlen_bounds [OF a] by simp
    then have "(2::rat) ^ nat (bitlen a - 1) \<le> of_int a" by (metis of_int_le_iff of_int_numeral of_int_power)
    moreover have "0 \<le> bitlen a - 1" using bitlen_ge_iff_power [of 1 a] a by simp
    ultimately show ?thesis by (simp add: power_int_def)
  qed
  moreover have "of_int b \<le> (2::rat) powi bitlen b"
  proof -
    have "b \<le> 2 ^ nat (bitlen b)" using bitlen_bounds [OF b] by simp
    then have "of_int b \<le> (2::rat) ^ nat (bitlen b)" by (metis of_int_le_iff of_int_numeral of_int_power)
    then show ?thesis by (simp add: power_int_def bitlen_nonneg)
  qed
  ultimately have "(2::rat) powi (bitlen a - 1) / 2 powi bitlen b \<le> of_int a / of_int b"
    using b a by (intro frac_le) (simp_all add: less_imp_le)
  then have "2 powi (bitlen a - bitlen b - 1) \<le> x" by (simp add: x power_int_diff power_int_add algebra_simps)
  then show ?thesis by (simp add: log2_floor_def ab Let_def)
qed

lemma log2_floor_less:
  assumes "0 < x" "x < 2 ^ n"
  shows "log2_floor x < int n"
proof (rule ccontr)
  assume "\<not> ?thesis"
  then have "(2::rat) powi int n \<le> 2 powi log2_floor x" by (intro power_int_increasing) auto
  then show False using log2_floor_le [OF assms(1)] assms(2) by simp
qed

text \<open>Below 24 bits the grid of the numbers contains the integers.\<close>

lemma grid_int:
  assumes "e \<le> 0"
  shows "(of_int n :: rat) / 2 powi e = of_int (n * 2 ^ nat (- e))" "of_int (n * 2 ^ nat (- e)) * 2 powi e = (of_int n :: rat)"
proof -
  have "2 powi e = inverse ((2::rat) ^ nat (- e))" using assms by (cases "e = 0") (simp_all add: power_int_def power_one_over inverse_eq_divide)
  then show "(of_int n :: rat) / 2 powi e = of_int (n * 2 ^ nat (- e))" "of_int (n * 2 ^ nat (- e)) * 2 powi e = (of_int n :: rat)"
    by (simp_all add: field_simps)
qed

lemma round_half_even_nonneg: "0 \<le> x \<Longrightarrow> 0 \<le> round_half_even x"
  unfolding round_half_even_def Let_def by auto

lemma f32_round_between:
  assumes "0 \<le> x" "x \<le> of_int n" "n < 2 ^ 24"
  shows "\<exists>y. f32_round x = F_Fin y \<and> 0 \<le> y \<and> y \<le> of_int n"
proof (cases "x = 0")
  case True
  then show ?thesis using assms by (simp add: f32_round_def)
next
  case False
  define e where "e = max (log2_floor x - 23) (- 149)"
  define y :: rat where "y = of_int (round_half_even (x / 2 powi e)) * 2 powi e"
  have "(of_int n :: rat) < 2 ^ 24" using assms(3) by (metis of_int_less_iff of_int_numeral of_int_power)
  then have "log2_floor x < 24" using log2_floor_less [of x 24] assms False by simp
  then have e: "e \<le> 0" by (simp add: e_def)
  have pos: "0 < (2::rat) powi e" by simp
  have "x / 2 powi e \<le> of_int (n * 2 ^ nat (- e))"
    unfolding grid_int(1) [OF e, symmetric] using assms(2) pos by (intro divide_right_mono) simp_all
  then have "round_half_even (x / 2 powi e) \<le> n * 2 ^ nat (- e)" by (rule round_half_even_le)
  then have "(of_int (round_half_even (x / 2 powi e)) :: rat) \<le> of_int (n * 2 ^ nat (- e))" by (simp only: of_int_le_iff)
  then have "y \<le> of_int (n * 2 ^ nat (- e)) * 2 powi e" unfolding y_def using pos by (intro mult_right_mono) simp_all
  then have y: "y \<le> of_int n" by (simp only: grid_int(2) [OF e])
  moreover have "0 \<le> y" unfolding y_def using assms(1) pos by (intro mult_nonneg_nonneg) (simp_all add: round_half_even_nonneg)
  moreover have "\<not> 2 ^ 128 \<le> \<bar>y\<bar>" using y \<open>0 \<le> y\<close> \<open>of_int n < 2 ^ 24\<close> by simp
  ultimately show ?thesis using False assms(1) by (simp add: f32_round_def Let_def e_def [symmetric] y_def [symmetric])
qed

lemma f32_round_int:
  assumes "0 \<le> n" "n < 2 ^ 24"
  shows "f32_round (of_int n) = F_Fin (of_int n)"
proof (cases "n = 0")
  case False
  define e where "e = max (log2_floor (of_int n) - 23) (- 149)"
  have n: "(of_int n :: rat) < 2 ^ 24" using assms(2) by (metis of_int_less_iff of_int_numeral of_int_power)
  then have "log2_floor (of_int n) < 24" using log2_floor_less [of "of_int n" 24] assms False by simp
  then have e: "e \<le> 0" by (simp add: e_def)
  have "of_int (round_half_even (of_int n / 2 powi e)) * 2 powi e = (of_int n :: rat)"
    by (simp only: grid_int(1) [OF e] round_half_even_of_int grid_int(2) [OF e])
  then show ?thesis using assms False n by (simp add: f32_round_def Let_def e_def [symmetric])
qed (simp add: f32_round_def)

lemma rounded_as_le:
  assumes "v = F_Fin y" "0 \<le> y" "y \<le> of_nat n"
  shows "rounded_as limit v \<le> n"
proof -
  have "round_half_away y \<le> int n" using assms by (simp add: round_half_away_def floor_le_iff)
  then show ?thesis using assms(1) by simp
qed

lemma round_half_even_upper: "of_int (round_half_even x) \<le> x + 1 / 2"
  unfolding round_half_even_def Let_def by (auto split: if_splits) linarith+

text \<open>Numbers well below the greatest one stay finite.\<close>

lemma f32_round_finite:
  assumes "0 \<le> x" "x \<le> 2 ^ 100"
  shows "\<exists>y. f32_round x = F_Fin y \<and> 0 \<le> y \<and> y \<le> 2 * x + 1"
proof (cases "x = 0")
  case True
  then show ?thesis by (simp add: f32_round_def)
next
  case False
  define e where "e = max (log2_floor x - 23) (- 149)"
  define y :: rat where "y = of_int (round_half_even (x / 2 powi e)) * 2 powi e"
  have pos: "0 < (2::rat) powi e" by simp
  have "2 powi e \<le> 2 * x + 2"
  proof (cases "log2_floor x - 23 \<le> - 149")
    case True
    have "(2::rat) powi - 149 \<le> 2 powi 0" by (intro power_int_increasing) simp_all
    then show ?thesis using True assms(1) by (simp add: e_def max_def)
  next
    case high: False
    have "(2::rat) powi e \<le> 2 powi log2_floor x" using high by (intro power_int_increasing) (simp_all add: e_def)
    then show ?thesis using log2_floor_le [of x] assms(1) False by simp
  qed
  moreover have "y \<le> (x / 2 powi e + 1 / 2) * 2 powi e" unfolding y_def using round_half_even_upper pos by (intro mult_right_mono) simp_all
  then have "y \<le> x + 2 powi e / 2" using pos by (simp add: distrib_right)
  ultimately have y: "y \<le> 2 * x + 1" by linarith
  moreover have "0 \<le> y" unfolding y_def using assms(1) pos by (intro mult_nonneg_nonneg) (simp_all add: round_half_even_nonneg)
  moreover have "\<not> 2 ^ 128 \<le> \<bar>y\<bar>"
  proof -
    have "2 * x + 1 \<le> 2 * 2 ^ 100 + 1" using assms(2) by simp
    then show ?thesis using y \<open>0 \<le> y\<close> by simp
  qed
  ultimately show ?thesis using False assms(1) by (simp add: f32_round_def Let_def e_def [symmetric] y_def [symmetric])
qed

lemma round_half_even_lower: "x - 1 / 2 \<le> of_int (round_half_even x)"
  unfolding round_half_even_def Let_def by (auto split: if_splits) linarith+

lemma f32_round_lower:
  assumes "1 \<le> x" "f32_round x = F_Fin y"
  shows "x / 2 \<le> y"
proof -
  define e where "e = max (log2_floor x - 23) (- 149)"
  have pos: "0 < (2::rat) powi e" by simp
  have "y = of_int (round_half_even (x / 2 powi e)) * 2 powi e"
    using assms by (auto simp: f32_round_def Let_def e_def split: if_splits)
  moreover have "(x / 2 powi e - 1 / 2) * 2 powi e \<le> of_int (round_half_even (x / 2 powi e)) * 2 powi e"
    using round_half_even_lower pos by (intro mult_right_mono) simp_all
  ultimately have "x - 2 powi e / 2 \<le> y" using pos by (simp add: left_diff_distrib)
  moreover have "(2::rat) powi e \<le> x"
  proof (cases "log2_floor x - 23 \<le> - 149")
    case True
    have "(2::rat) powi - 149 \<le> 2 powi 0" by (intro power_int_increasing) simp_all
    then show ?thesis using True assms(1) by (simp add: e_def max_def)
  next
    case False
    have "(2::rat) powi e \<le> 2 powi log2_floor x" using False by (intro power_int_increasing) (simp_all add: e_def)
    then show ?thesis using log2_floor_le [of x] assms(1) by simp
  qed
  ultimately show ?thesis by linarith
qed

definition small :: "rat \<Rightarrow> f32 \<Rightarrow> bool" where
  "small b v \<longleftrightarrow> (\<exists>x. v = F_Fin x \<and> 0 \<le> x \<and> x \<le> b)"

lemma small_of_nat: "of_nat n \<le> b \<Longrightarrow> b \<le> 2 ^ 100 \<Longrightarrow> small (2 * b + 1) (f32_of_nat n)"
  unfolding small_def f32_of_nat_def using f32_round_finite [of "of_nat n"] by fastforce

lemma small_add:
  assumes "small a v" "small b w" "a + b \<le> 2 ^ 100"
  shows "small (2 * (a + b) + 1) (f32_add v w)"
proof -
  obtain x y where xy: "v = F_Fin x" "w = F_Fin y" "0 \<le> x" "0 \<le> y" "x \<le> a" "y \<le> b" using assms(1,2) unfolding small_def by blast
  then have "x + y \<le> a + b" by simp
  then show ?thesis using f32_round_finite [of "x + y"] xy assms(3) unfolding small_def by fastforce
qed

lemma small_mul:
  assumes "small a v" "small b w" "a * b \<le> 2 ^ 100"
  shows "small (2 * (a * b) + 1) (f32_mul v w)"
proof -
  obtain x y where xy: "v = F_Fin x" "w = F_Fin y" "0 \<le> x" "0 \<le> y" "x \<le> a" "y \<le> b" using assms(1,2) unfolding small_def by blast
  then have "x * y \<le> a * b" by (intro mult_mono) simp_all
  then show ?thesis using f32_round_finite [of "x * y"] xy assms(3) unfolding small_def by fastforce
qed

lemma small_inverse:
  assumes "1 \<le> n" "of_nat n \<le> (2::rat) ^ 100"
  shows "small 5 (f32_div_pos (F_Fin 1) (f32_of_nat n))"
proof -
  obtain y where y: "f32_round (of_nat n) = F_Fin y" using f32_round_finite [of "of_nat n"] assms(2) by auto
  have "1 / 2 \<le> y" using f32_round_lower [OF _ y] assms(1) by simp
  then have "1 / y \<le> 2" "0 \<le> 1 / y" by (simp_all add: field_simps)
  then show ?thesis using f32_round_finite [of "1 / y"] unfolding small_def f32_of_nat_def y by fastforce
qed

lemma small_finite: "small b v \<Longrightarrow> is_finite v"
  by (auto simp: small_def)

end
