(* ===== verification/Planner.thy ===== *)
theory Planner
  imports Float32 Node_State
begin

text \<open>
  Placement of training jobs: \<^verbatim>\<open>plan_v4\<close> and \<^verbatim>\<open>rebalance_shard\<close> of \<^verbatim>\<open>intelligence/src/training_fabric.rs\<close> with the worker
  scores, the grouping by topology and the capabilities a plan advertises, and \<^verbatim>\<open>plan_training\<close> of \<^verbatim>\<open>training.rs\<close>.
\<close>

section \<open>Requests and decisions\<close>

datatype HardwareKind = HK_Cpu | HK_AppleSilicon | HK_AmdGpu | HK_NvidiaConsumer | HK_A100 | HK_H100 | HK_B200 | HK_Unknown

record WorkerProfile =
  wp_node :: NodeId
  wp_hardware :: HardwareKind
  wp_memory_bytes :: u64
  wp_compute_units :: u32
  wp_rtt_ms :: u32
  wp_throughput_mbps :: u32
  wp_reliability :: f32
  wp_dataset_available :: bool
  wp_backends :: "BackendCapabilities list"

record V4PlannerObjective =
  vpo_throughput_weight :: u16
  vpo_bandwidth_weight :: u16
  vpo_fault_tolerance_weight :: u16
  vpo_locality_weight :: u16

record V4TopologyLink =
  vtl_from :: NodeId
  vtl_to :: NodeId
  vtl_rtt_ms :: u32
  vtl_bandwidth_mbps :: u32
  vtl_reliability :: f32

record V4PlanRequest =
  vpq_job_id :: JobId
  vpq_proposer :: NodeId
  vpq_model_bytes :: u64
  vpq_requested_workers :: usize
  vpq_strategy :: V4ParallelismStrategy
  vpq_tensor_degree :: u16
  vpq_pipeline_stages :: u16
  vpq_local_steps :: u16
  vpq_max_staleness :: u16
  vpq_checkpoint_replication :: u16
  vpq_data_locality :: DataLocality
  vpq_workers :: "WorkerProfile list"
  vpq_links :: "V4TopologyLink list"
  vpq_objective :: V4PlannerObjective
  vpq_backend_requirements :: "ComputeRequirements list"

record V4PlanDecision =
  vpd_plan :: V4TrainingPlan
  vpd_selected_workers :: "NodeId list"
  vpd_rejected_workers :: "NodeId list"
  vpd_explanations :: "string list"

record V4RebalanceDecision =
  vrd_shard_id :: u16
  vrd_from :: NodeId
  vrd_to :: NodeId
  vrd_accepted :: bool
  vrd_reason :: string
  vrd_next_ownership_generation :: u64

definition MAX_PLANNER_WORKERS :: usize where "MAX_PLANNER_WORKERS = 64"
definition MAX_GROUP_SIZE :: usize where "MAX_GROUP_SIZE = 4"
definition MAX_TENSOR_DEGREE :: u16 where "MAX_TENSOR_DEGREE = 8"
definition MAX_PIPELINE_STAGES :: u16 where "MAX_PIPELINE_STAGES = 16"

section \<open>Scores\<close>

definition worker_score :: "WorkerProfile \<Rightarrow> V4PlannerObjective \<Rightarrow> f32" where
  "worker_score worker objective =
    (let weight = (\<lambda>w :: u16. f32_of_nat (unat (max w 1)));
         throughput = f32_of_nat (unat (max (wp_throughput_mbps worker) 1));
         latency = f32_div_pos (F_Fin 1) (f32_of_nat (unat (max (wp_rtt_ms worker) 1)))
     in f32_add (f32_add (f32_add
          (f32_mul throughput (weight (vpo_throughput_weight objective)))
          (f32_mul (f32_mul latency (weight (vpo_bandwidth_weight objective))) (F_Fin 100)))
          (f32_mul (wp_reliability worker) (weight (vpo_fault_tolerance_weight objective))))
          (f32_mul (f32_of_nat (if wp_dataset_available worker then 1 else 0)) (weight (vpo_locality_weight objective))))"

definition reliability_permille :: "nat \<Rightarrow> f32 \<Rightarrow> nat" where
  "reliability_permille limit v = rounded_as limit (f32_mul v (F_Fin 1000))"

definition link_value :: "V4TopologyLink \<Rightarrow> u64" where
  "link_value link = sat_mul (ucast (vtl_bandwidth_mbps link)) (of_nat (reliability_permille (2 ^ 64) (vtl_reliability link)))
     div ucast (max (vtl_rtt_ms link) 1)"

definition topology_score :: "NodeId \<Rightarrow> V4TopologyLink list \<Rightarrow> u64" where
  "topology_score node links = sum_list (map link_value (filter (\<lambda>link. vtl_from link = node \<or> vtl_to link = node) links))"

definition link_quality :: "NodeId \<Rightarrow> NodeId \<Rightarrow> V4TopologyLink list \<Rightarrow> u64" where
  "link_quality left right links = (case find (\<lambda>link. (vtl_from link = left \<and> vtl_to link = right)
       \<or> (vtl_from link = right \<and> vtl_to link = left)) links of
     None \<Rightarrow> 0 | Some link \<Rightarrow> link_value link)"

section \<open>Groups\<close>

definition group_quality :: "V4TopologyLink list \<Rightarrow> NodeId list \<Rightarrow> NodeId \<Rightarrow> u64" where
  "group_quality links members candidate = sum_list (map (\<lambda>member. link_quality member candidate links) members)"

text \<open>The comparison of \<^verbatim>\<open>max_by\<close>: greater by quality, then by the smaller node.\<close>

definition better_candidate :: "V4TopologyLink list \<Rightarrow> NodeId list \<Rightarrow> NodeId \<Rightarrow> NodeId \<Rightarrow> bool" where
  "better_candidate links members left right \<longleftrightarrow> group_quality links members left > group_quality links members right
     \<or> (group_quality links members left = group_quality links members right \<and> left < right)"

text \<open>The index \<^verbatim>\<open>max_by\<close> finds: the last of several maximal elements.\<close>

definition max_index :: "('a \<Rightarrow> 'a \<Rightarrow> bool) \<Rightarrow> 'a list \<Rightarrow> nat" where
  "max_index better xs = fold (\<lambda>i best. if better (xs ! best) (xs ! i) then best else i) [1..<length xs] 0"

lemma max_index_less: "xs \<noteq> [] \<Longrightarrow> max_index better xs < length xs"
proof -
  have "\<forall>i\<in>set is. i < n \<Longrightarrow> best < n \<Longrightarrow> fold (\<lambda>i best. if better (xs ! best) (xs ! i) then best else i) is best < n" for "is" best n
    by (induction "is" arbitrary: best) auto
  then show "xs \<noteq> [] \<Longrightarrow> max_index better xs < length xs" unfolding max_index_def by simp
qed

function grow_group :: "V4TopologyLink list \<Rightarrow> NodeId list \<Rightarrow> NodeId list \<Rightarrow> NodeId list \<times> NodeId list" where
  "grow_group links members remaining =
    (if length members < MAX_GROUP_SIZE \<and> remaining \<noteq> []
     then let i = max_index (better_candidate links members) remaining
       in grow_group links (members @ [remaining ! i]) (remove_at i remaining)
     else (members, remaining))"
  by pat_completeness auto
termination
  by (relation "measure (\<lambda>(_, _, remaining). length remaining)") (simp_all add: length_remove_at max_index_less)

declare grow_group.simps [simp del]

lemma grow_group_length: "length (snd (grow_group links members remaining)) \<le> length remaining"
proof (induction links members remaining rule: grow_group.induct)
  case (1 links members remaining)
  then show ?case
    using length_remove_at [OF max_index_less, of remaining "better_candidate links members"]
    by (subst grow_group.simps) (auto simp: Let_def)
qed

lemma grow_group_rest: "(members', rest) = grow_group links members remaining \<Longrightarrow> length rest < Suc (length remaining)"
  using grow_group_length [of links members remaining] by (metis le_imp_less_Suc snd_conv)

function topology_groups :: "V4TopologyLink list \<Rightarrow> NodeId list \<Rightarrow> NodeId list list" where
  "topology_groups links [] = []"
| "topology_groups links (first # remaining) =
    (case grow_group links [first] remaining of (members, remaining) \<Rightarrow> members # topology_groups links remaining)"
  by pat_completeness auto
termination
  by (relation "measure (\<lambda>(_, remaining). length remaining)") (auto dest: grow_group_rest)

section \<open>Plans\<close>

fun hardware_debug :: "HardwareKind \<Rightarrow> string" where
  "hardware_debug HK_Cpu = ''Cpu''"
| "hardware_debug HK_AppleSilicon = ''AppleSilicon''"
| "hardware_debug HK_AmdGpu = ''AmdGpu''"
| "hardware_debug HK_NvidiaConsumer = ''NvidiaConsumer''"
| "hardware_debug HK_A100 = ''A100''"
| "hardware_debug HK_H100 = ''H100''"
| "hardware_debug HK_B200 = ''B200''"
| "hardware_debug HK_Unknown = ''Unknown''"

fun task_kind_debug :: "ComputeTaskKind \<Rightarrow> string" where
  "task_kind_debug CT_TensorForward = ''TensorForward''"
| "task_kind_debug CT_TensorBackward = ''TensorBackward''"
| "task_kind_debug CT_PipelineForward = ''PipelineForward''"
| "task_kind_debug CT_PipelineBackward = ''PipelineBackward''"
| "task_kind_debug CT_TrainingStep = ''TrainingStep''"
| "task_kind_debug CT_CapabilityChallenge = ''CapabilityChallenge''"

fun accelerator_family :: "HardwareKind \<Rightarrow> V4AcceleratorFamily" where
  "accelerator_family HK_Cpu = AF_Cpu"
| "accelerator_family HK_AppleSilicon = AF_Metal"
| "accelerator_family HK_AmdGpu = AF_Rocm"
| "accelerator_family HK_Unknown = AF_Cpu"
| "accelerator_family _ = AF_Cuda"

definition worker_capability :: "WorkerProfile \<Rightarrow> V4WorkerCapability" where
  "worker_capability worker = \<lparr>vwc_node = wp_node worker,
     vwc_accelerator = \<lparr>vac_family = accelerator_family (wp_hardware worker), vac_device_model = hardware_debug (wp_hardware worker),
       vac_device_count = 1, vac_memory_bytes = wp_memory_bytes worker, vac_formats = [VF_I8, VF_F32], vac_runtime = ''reference'',
       vac_runtime_version = ''v4'', vac_physical_verified = (wp_hardware worker = HK_Cpu)\<rparr>,
     vwc_memory_bytes = wp_memory_bytes worker, vwc_compute_units = wp_compute_units worker, vwc_rtt_ms = wp_rtt_ms worker,
     vwc_bandwidth_mbps = wp_throughput_mbps worker,
     vwc_reliability_permille = of_nat (reliability_permille (2 ^ 16) (f32_clamp (F_Fin 0) (F_Fin 1) (wp_reliability worker))),
     vwc_backends = (if wp_backends worker = [] then [reference_backend_capability BK_Cpu (wp_memory_bytes worker) True]
       else wp_backends worker)\<rparr>"

definition can_serve :: "WorkerProfile \<Rightarrow> ComputeRequirements \<Rightarrow> bool" where
  "can_serve worker requirement \<longleftrightarrow>
     (\<exists>backend\<in>set (vwc_backends (worker_capability worker)). backend_satisfies_requirements backend requirement)"

definition unit_reliability :: "f32 \<Rightarrow> bool" where
  "unit_reliability v \<longleftrightarrow> is_finite v \<and> f32_le (F_Fin 0) v \<and> f32_le v (F_Fin 1)"

definition plan_request_check :: "V4PlanRequest \<Rightarrow> V4PlannerError + unit" where
  "plan_request_check r =
    (let worker_ids = map wp_node (vpq_workers r) in all_ok [
     err_if (vpq_model_bytes r = 0) PE_InvalidModelSize,
     err_if (\<not> (2 \<le> vpq_requested_workers r \<and> vpq_requested_workers r \<le> MAX_PLANNER_WORKERS))
       (PE_InvalidWorkerCount MAX_PLANNER_WORKERS),
     err_if (vpq_tensor_degree r > MAX_TENSOR_DEGREE) PE_InvalidTensorDegree,
     err_if (vpq_pipeline_stages r > MAX_PIPELINE_STAGES) PE_InvalidPipelineStages,
     err_if (vpq_local_steps r = 0) PE_InvalidLocalSteps,
     err_if (vpq_checkpoint_replication r = 0 \<or> vpq_checkpoint_replication r > 16) PE_InvalidReplication,
     err_if (vpq_workers r = []) PE_InsufficientWorkers,
     err_if (length (vpq_backend_requirements r) > MAX_V5_REQUIREMENTS)
       (PE_UnsupportedBackendAssignment ''backend requirement list exceeds the bounded planner limit''),
     err_if (card (set worker_ids) \<noteq> length (vpq_workers r) \<or> (\<exists>worker\<in>set (vpq_workers r).
         \<not> unit_reliability (wp_reliability worker) \<or> wp_memory_bytes worker = 0 \<or> wp_compute_units worker = 0))
       PE_InvalidWorkerProfile,
     err_if (length (vpq_links r) > usat (MAX_PLANNER_WORKERS * MAX_PLANNER_WORKERS) \<or> (\<exists>link\<in>set (vpq_links r).
         vtl_from link = vtl_to link \<or> vtl_from link \<notin> set worker_ids \<or> vtl_to link \<notin> set worker_ids
         \<or> vtl_rtt_ms link = 0 \<or> vtl_bandwidth_mbps link = 0 \<or> \<not> unit_reliability (vtl_reliability link)))
       PE_InvalidTopology,
     all_ok (map (\<lambda>requirement. err_if (\<not> (\<exists>worker\<in>set (vpq_workers r). can_serve worker requirement))
       (PE_UnsupportedBackendAssignment (''no advertised worker satisfies '' @ task_kind_debug (cr_task_kind requirement)
          @ '' / kernel '' @ cr_kernel_id requirement))) (vpq_backend_requirements r))])"

definition div_ceil :: "u64 \<Rightarrow> u64 \<Rightarrow> u64" where
  "div_ceil a b = (if a mod b = 0 then a div b else a div b + 1)"

definition shard_memory :: "V4PlanRequest \<Rightarrow> u64" where
  "shard_memory r = sat_mul (div_ceil (vpq_model_bytes r)
     (of_nat (max (min (vpq_requested_workers r) (length (vpq_workers r))) 2))) 2"

definition eligible_workers :: "V4PlanRequest \<Rightarrow> WorkerProfile list" where
  "eligible_workers r = filter (\<lambda>worker. wp_memory_bytes worker \<ge> shard_memory r \<and> wp_compute_units worker > 0
     \<and> is_finite (wp_reliability worker) \<and> f32_le (F_Fin (1 / 2)) (wp_reliability worker)
     \<and> (vpq_data_locality r \<noteq> DL_LocalOnly \<or> wp_dataset_available worker)) (vpq_workers r)"

text \<open>
  Best score first, then best topology, then smallest node. The scores of eligible workers are finite, so that their
  comparison is the one of the numbers they denote.
\<close>

fun f32_value :: "f32 \<Rightarrow> rat" where
  "f32_value (F_Fin x) = x"
| "f32_value _ = 0"

definition rank_workers :: "V4PlanRequest \<Rightarrow> WorkerProfile list \<Rightarrow> WorkerProfile list" where
  "rank_workers r = sort_key (\<lambda>worker. (- f32_value (worker_score worker (vpq_objective r)),
     - uint (topology_score (wp_node worker) (vpq_links r)), wp_node worker))"

definition plan_groups :: "V4TopologyLink list \<Rightarrow> NodeId list \<Rightarrow> V4AggregationGroup list" where
  "plan_groups links selected = map (\<lambda>(group_index, members). \<lparr>vag_group_id = of_nat group_index, vag_members = members,
     vag_aggregator = members ! 0, vag_parent = (if group_index > 0 then Some (selected ! 0) else None)\<rparr>)
     (enumerate 0 (topology_groups links selected))"

definition plan_shard :: "v4_codec \<Rightarrow> V4PlanRequest \<Rightarrow> NodeId list \<Rightarrow> nat \<times> NodeId \<Rightarrow> V4ShardOwnership" where
  "plan_shard codec r selected = (\<lambda>(index, owner).
     let state_bytes = div_ceil (vpq_model_bytes r) (of_nat (length selected)) in
     \<lparr>vso_shard_id = of_nat index, vso_model_generation = 1, vso_owners = [owner],
      vso_replicas = (case find (\<lambda>candidate. candidate \<noteq> owner) selected of None \<Rightarrow> [] | Some replica \<Rightarrow> [replica]),
      vso_ownership_generation = 1,
      vso_content_hash = from_bytes_hashed (vc_blake3 codec) (ascii_bytes (''v4:'' @ vc_hex codec (as_bytes (vpq_job_id r))
        @ '':'' @ decimal index @ '':'' @ decimal (unat (vpq_model_bytes r)))),
      vso_state_bytes = max state_bytes 1, vso_memory_bytes = max (sat_mul state_bytes 2) 1,
      vso_runtime_requirement = ''reference.cpu.i64'', vso_lifecycle = LC_Active\<rparr>)"

definition assign_backend :: "WorkerProfile list \<Rightarrow> ComputeRequirements \<Rightarrow> V4PlannerError + BackendAssignment" where
  "assign_backend eligible requirement =
    (case min_by_key (\<lambda>(worker, _). (wp_rtt_ms worker, wp_node worker)) (List.map_filter (\<lambda>worker.
        map_option (\<lambda>backend. (worker, bc_kind backend)) (find (\<lambda>backend. backend_satisfies_requirements backend requirement)
          (vwc_backends (worker_capability worker)))) eligible) of
      None \<Rightarrow> Inl (PE_UnsupportedBackendAssignment (''selected workers cannot execute kernel '' @ cr_kernel_id requirement))
    | Some (worker, backend) \<Rightarrow> Inr \<lparr>ba_task_kind = cr_task_kind requirement, ba_worker = wp_node worker, ba_backend = backend,
        ba_device_index = 0, ba_requirements = requirement\<rparr>)"

fun strategy_support :: "V4ParallelismStrategy \<Rightarrow> u16 \<Rightarrow> u16 \<Rightarrow> V4SupportLevel" where
  "strategy_support PS_LocalSgd tensor_degree pipeline_stages = SL_Supported"
| "strategy_support PS_TensorParallel tensor_degree pipeline_stages = (if tensor_degree = 2 then SL_Supported else SL_Unsupported)"
| "strategy_support PS_PipelineParallel tensor_degree pipeline_stages = (if pipeline_stages = 2 then SL_Supported else SL_Unsupported)"
| "strategy_support PS_Hybrid tensor_degree pipeline_stages =
     (if tensor_degree = 2 \<and> pipeline_stages = 2 then SL_Experimental else SL_Unsupported)"

definition select_workers :: "V4PlanRequest \<Rightarrow> V4PlannerError + WorkerProfile list" where
  "select_workers r =
    (let eligible = eligible_workers r in
     if length eligible < 2 then Inl PE_InsufficientWorkers
     else let eligible = take (vpq_requested_workers r) (rank_workers r eligible) in
       if length eligible < 2 then Inl PE_InsufficientWorkers
       else and_then (all_ok (map (\<lambda>requirement. err_if (\<not> (\<exists>worker\<in>set eligible. can_serve worker requirement))
              (PE_UnsupportedBackendAssignment (''selected workers cannot execute kernel '' @ cr_kernel_id requirement)))
              (vpq_backend_requirements r)))
            (\<lambda>_. Inr eligible))"

text \<open>The first error of a list of results, or all of their values, as \<^verbatim>\<open>collect\<close> into a result has it.\<close>

fun collect :: "('e + 'a) list \<Rightarrow> 'e + 'a list" where
  "collect [] = Inr []"
| "collect (r # rs) = and_then r (\<lambda>x. and_then (collect rs) (\<lambda>xs. Inr (x # xs)))"

definition plan_rationale :: "V4PlanRequest \<Rightarrow> NodeId list \<Rightarrow> string" where
  "plan_rationale r selected = ''selected '' @ decimal (length selected) @ '' workers with shard memory >= ''
     @ decimal (unat (shard_memory r)) @ '' bytes; groups use <= '' @ decimal MAX_GROUP_SIZE
     @ '' members; local SGD and bounded generation transitions avoid a global per-step barrier''"

definition explanation :: "v4_codec \<Rightarrow> V4PlanRequest \<Rightarrow> WorkerProfile \<Rightarrow> string" where
  "explanation codec r worker = vc_hex codec (as_bytes (wp_node worker)) @ '' selected: memory='' @ decimal (unat (wp_memory_bytes worker))
     @ '' >= shard_memory='' @ decimal (unat (shard_memory r)) @ '', hardware='' @ hardware_debug (wp_hardware worker)
     @ '', RTT='' @ decimal (unat (wp_rtt_ms worker)) @ ''ms, bandwidth='' @ decimal (unat (wp_throughput_mbps worker))
     @ ''Mbps, reliability='' @ two_decimals (wp_reliability worker)
     @ '', topology_score='' @ decimal (unat (topology_score (wp_node worker) (vpq_links r)))"

definition unsigned_plan :: "v4_codec \<Rightarrow> V4PlanRequest \<Rightarrow> WorkerProfile list \<Rightarrow> BackendAssignment list \<Rightarrow> V4TrainingPlan" where
  "unsigned_plan codec r eligible assignments =
    (let selected = map wp_node eligible in
     \<lparr>vp_job_id = vpq_job_id r, vp_proposer = vpq_proposer r, vp_plan_generation = 1, vp_model_generation = 1,
      vp_training_epoch = 1, vp_membership_epoch = 1, vp_coordination_term = 1,
      vp_branch = from_bytes_hashed (vc_blake3 codec) (ascii_bytes (''v4-branch:'' @ vc_hex codec (as_bytes (vpq_job_id r)) @ '':1'')),
      vp_strategy = vpq_strategy r,
      vp_support = strategy_support (vpq_strategy r) (vpq_tensor_degree r) (vpq_pipeline_stages r),
      vp_workers = selected, vp_groups = plan_groups (vpq_links r) selected,
      vp_shards = map (plan_shard codec r selected) (enumerate 0 selected),
      vp_tensor_degree = vpq_tensor_degree r, vp_pipeline_stages = vpq_pipeline_stages r, vp_local_steps = vpq_local_steps r,
      vp_max_staleness = vpq_max_staleness r,
      vp_checkpoint_replication = min (vpq_checkpoint_replication r) (of_nat (length selected)),
      vp_data_locality = vpq_data_locality r, vp_accelerator = None, vp_worker_capabilities = map worker_capability eligible,
      vp_rationale = plan_rationale r selected, vp_plan_hash = filled 0, vp_parent_plan_hash = None,
      vp_compute_requirements = vpq_backend_requirements r, vp_backend_assignments = assignments\<rparr>)"

definition plan_v4 :: "v4_codec \<Rightarrow> V4PlanRequest \<Rightarrow> V4PlannerError + V4PlanDecision" where
  "plan_v4 codec r =
     and_then (plan_request_check r) (\<lambda>_.
     and_then (select_workers r) (\<lambda>eligible.
     and_then (collect (map (assign_backend eligible) (vpq_backend_requirements r))) (\<lambda>assignments.
     if strategy_support (vpq_strategy r) (vpq_tensor_degree r) (vpq_pipeline_stages r) = SL_Unsupported
     then Inl PE_UnsupportedStrategy
     else let plan = unsigned_plan codec r eligible assignments; selected = map wp_node eligible in
       Inr \<lparr>vpd_plan = plan\<lparr>vp_plan_hash := hash_plan codec plan\<rparr>, vpd_selected_workers = selected,
         vpd_rejected_workers = map wp_node (filter (\<lambda>worker. wp_node worker \<notin> set selected) (vpq_workers r)),
         vpd_explanations = map (explanation codec r) eligible\<rparr>)))"

section \<open>Rebalancing\<close>

definition rebalance_reason :: "V4ShardOwnership \<Rightarrow> WorkerProfile \<Rightarrow> u64 \<Rightarrow> u64 option \<Rightarrow> u64 \<Rightarrow> f32 \<Rightarrow> f32 \<Rightarrow> f32 \<Rightarrow> string" where
  "rebalance_reason shard candidate now_ms last_migration_ms cooldown_ms minimum_gain source_score candidate_score =
    (if vso_lifecycle shard \<noteq> LC_Active then ''shard is not active''
     else if vso_owners shard = [] then ''active shard has no current owner''
     else if wp_node candidate \<in> set (vso_owners shard) \<or> wp_node candidate \<in> set (vso_replicas shard)
     then ''candidate already stores the shard''
     else if wp_memory_bytes candidate < vso_memory_bytes shard then ''candidate cannot fit shard memory requirement''
     else if is_some_and last_migration_ms (\<lambda>last. sat_sub now_ms last < cooldown_ms) then ''migration cooldown has not elapsed''
     else if f32_less (f32_sub source_score candidate_score) minimum_gain
     then ''candidate does not provide the configured hysteresis gain''
     else [])"

definition rebalance_shard :: "V4ShardOwnership \<Rightarrow> WorkerProfile \<Rightarrow> u64 \<Rightarrow> u64 option \<Rightarrow> u64 \<Rightarrow> f32 \<Rightarrow> f32 \<Rightarrow> f32 \<Rightarrow> V4RebalanceDecision" where
  "rebalance_shard shard candidate now_ms last_migration_ms cooldown_ms minimum_gain source_score candidate_score =
    (let reason = rebalance_reason shard candidate now_ms last_migration_ms cooldown_ms minimum_gain source_score candidate_score in
     \<lparr>vrd_shard_id = vso_shard_id shard, vrd_from = (case vso_owners shard of [] \<Rightarrow> filled 0 | owner # _ \<Rightarrow> owner),
      vrd_to = wp_node candidate, vrd_accepted = (reason = []),
      vrd_reason = (if reason = [] then ''candidate improves placement under current topology and policy'' else reason),
      vrd_next_ownership_generation = sat_add (vso_ownership_generation shard) 1\<rparr>)"

section \<open>Protocol 1.3 training\<close>

datatype TrainingStrategy = TS_SynchronousDataParallel | TS_BoundedStaleness | TS_LocalSgd | TS_Unsupported
datatype StrategySupport = SS_Supported | SS_Experimental | SS_Unsupported
datatype PlannerError = PR_InsufficientWorkers | PR_InvalidModelSize | PR_LocalityViolation

record TrainingPlanDecision =
  tpd_strategy :: TrainingStrategy
  tpd_support :: StrategySupport
  tpd_selected_workers :: "NodeId list"
  tpd_rejected_workers :: "NodeId list"
  tpd_synchronization_timeout_ms :: u64
  tpd_checkpoint_replicas :: usize
  tpd_data_locality :: DataLocality
  tpd_rationale :: string

text \<open>\<^verbatim>\<open>Reverse\<close> of the bits of a reliability is their distance from the top of the range.\<close>

definition training_eligible :: "u64 \<Rightarrow> DataLocality \<Rightarrow> usize \<Rightarrow> WorkerProfile list \<Rightarrow> WorkerProfile list" where
  "training_eligible required_memory data_locality requested_workers workers = take (max requested_workers 2)
     (sort_key (\<lambda>worker. (wp_rtt_ms worker, 2 ^ 32 - f32_to_bits (wp_reliability worker)))
       (filter (\<lambda>worker. wp_memory_bytes worker \<ge> required_memory \<and> wp_compute_units worker > 0
          \<and> is_finite (wp_reliability worker) \<and> f32_le (F_Fin (1 / 2)) (wp_reliability worker)
          \<and> (data_locality \<noteq> DL_LocalOnly \<or> wp_dataset_available worker)) workers))"

definition training_mode :: "u32 \<Rightarrow> f32 \<Rightarrow> TrainingStrategy \<times> StrategySupport \<times> u64 \<times> string" where
  "training_mode max_rtt min_reliability =
    (if max_rtt \<le> 200 \<and> f32_le (f32_round (8 / 10)) min_reliability
     then (TS_SynchronousDataParallel, SS_Supported, max (sat_mul (ucast max_rtt) 4) 1000,
       ''bounded synchronous data parallelism fits measured RTT and reliability'')
     else (TS_BoundedStaleness, SS_Experimental, max (sat_mul (ucast max_rtt) 6) 2000,
       ''slow or unreliable workers require timeout and bounded staleness; replanning remains enabled''))"

definition plan_training :: "u64 \<Rightarrow> DataLocality \<Rightarrow> usize \<Rightarrow> WorkerProfile list \<Rightarrow> PlannerError + TrainingPlanDecision" where
  "plan_training model_bytes data_locality requested_workers workers =
    (if model_bytes = 0 then Inl PR_InvalidModelSize
     else let required_memory = sat_mul model_bytes 2;
              eligible = training_eligible required_memory data_locality requested_workers workers;
              selected = map wp_node eligible
       in if length eligible < 2
          then Inl (if data_locality = DL_LocalOnly \<and> length (filter (\<lambda>worker. wp_memory_bytes worker \<ge> required_memory) workers) \<ge> 2
                    then PR_LocalityViolation else PR_InsufficientWorkers)
          else case training_mode (fold max (map wp_rtt_ms eligible) 0) (fold (\<lambda>v low. f32_min low v) (map wp_reliability eligible) (F_Fin 1)) of
            (strategy, support, timeout, rationale) \<Rightarrow> Inr \<lparr>tpd_strategy = strategy, tpd_support = support,
              tpd_selected_workers = selected,
              tpd_rejected_workers = map wp_node (filter (\<lambda>worker. wp_node worker \<notin> set selected) workers),
              tpd_synchronization_timeout_ms = timeout, tpd_checkpoint_replicas = min (length eligible) 3,
              tpd_data_locality = data_locality, tpd_rationale = rationale\<rparr>)"

end
