(* ===== verification/Planner_Properties.thy ===== *)
theory Planner_Properties
  imports Planner "HOL-Library.Multiset"
begin

text \<open>
  What a plan promises: its groups partition the selected workers, no better worker was left out, and the plan of a
  request within the limits of the protocol passes the validation every receiver applies to it.
\<close>

section \<open>Groups\<close>

lemma mset_remove_at: "i < length xs \<Longrightarrow> mset xs = add_mset (xs ! i) (mset (remove_at i xs))"
  unfolding remove_at_def by (metis add_mset_add_single append_take_drop_id id_take_nth_drop mset_append mset.simps(2) union_mset_add_mset_right)

lemma grow_group_props:
  assumes "grow_group links members remaining = (grown, rest)"
  shows "mset grown + mset rest = mset members + mset remaining" "\<exists>more. grown = members @ more"
    "length members \<le> MAX_GROUP_SIZE \<Longrightarrow> length grown \<le> MAX_GROUP_SIZE" "rest = [] \<or> MAX_GROUP_SIZE \<le> length grown"
proof -
  have "mset grown + mset rest = mset members + mset remaining \<and> (\<exists>more. grown = members @ more)
    \<and> (length members \<le> MAX_GROUP_SIZE \<longrightarrow> length grown \<le> MAX_GROUP_SIZE) \<and> (rest = [] \<or> MAX_GROUP_SIZE \<le> length grown)"
    using assms
  proof (induction links members remaining rule: grow_group.induct)
    case (1 links members remaining)
    show ?case
    proof (cases "length members < MAX_GROUP_SIZE \<and> remaining \<noteq> []")
      case True
      define i where "i = max_index (better_candidate links members) remaining"
      have i: "i < length remaining" unfolding i_def using True by (intro max_index_less) simp
      have "grow_group links (members @ [remaining ! i]) (remove_at i remaining) = (grown, rest)"
        using 1(2) True by (subst (asm) grow_group.simps) (simp add: Let_def i_def)
      from 1(1) [OF True i_def this] show ?thesis using mset_remove_at [OF i] True by auto
    next
      case False
      then show ?thesis using 1(2) by (subst (asm) grow_group.simps) auto
    qed
  qed
  then show "mset grown + mset rest = mset members + mset remaining" "\<exists>more. grown = members @ more"
    "length members \<le> MAX_GROUP_SIZE \<Longrightarrow> length grown \<le> MAX_GROUP_SIZE" "rest = [] \<or> MAX_GROUP_SIZE \<le> length grown" by auto
qed

lemma topology_groups_mset: "mset (concat (topology_groups links selected)) = mset selected"
proof (induction links selected rule: topology_groups.induct)
  case (2 links first remaining)
  obtain grown rest where g: "grow_group links [first] remaining = (grown, rest)" by fastforce
  show ?case using 2 [OF g [symmetric]] grow_group_props(1) [OF g] by (simp add: g)
qed simp

lemma topology_groups_sizes: "\<forall>g\<in>set (topology_groups links selected). g \<noteq> [] \<and> length g \<le> MAX_GROUP_SIZE"
proof (induction links selected rule: topology_groups.induct)
  case (2 links first remaining)
  obtain grown rest where g: "grow_group links [first] remaining = (grown, rest)" by fastforce
  show ?case using 2 [OF g [symmetric]] grow_group_props(2,3) [OF g] by (auto simp: g MAX_GROUP_SIZE_def)
qed simp

lemma topology_groups_count: "MAX_GROUP_SIZE * length (topology_groups links selected) < length selected + MAX_GROUP_SIZE"
proof (induction links selected rule: topology_groups.induct)
  case (2 links first remaining)
  obtain grown rest where g: "grow_group links [first] remaining = (grown, rest)" by fastforce
  have "length grown + length rest = Suc (length remaining)"
    using arg_cong [OF grow_group_props(1) [OF g], of size] by simp
  then show ?case using 2 [OF g [symmetric]] grow_group_props(4) [OF g] by (auto simp: g)
qed (simp add: MAX_GROUP_SIZE_def)

lemma topology_groups_first:
  "topology_groups links (first # remaining) = g # gs \<Longrightarrow> \<exists>more. g = first # more"
  using grow_group_props(2) [of links "[first]" remaining] by (auto split: prod.splits)

lemma plan_groups_members: "map vag_members (plan_groups links selected) = topology_groups links selected"
  by (simp add: plan_groups_def comp_def case_prod_unfold)

lemma map_enumerate_fst: "map (\<lambda>p. f (fst p)) (enumerate n xs) = map f [n..<n + length xs]"
  using map_map [of f fst "enumerate n xs"] by (simp add: comp_def)

lemma plan_groups_ids: "map vag_group_id (plan_groups links selected) = map of_nat [0..<length (topology_groups links selected)]"
  by (simp add: plan_groups_def comp_def case_prod_unfold map_enumerate_fst)

lemma in_plan_groups:
  assumes "g \<in> set (plan_groups links selected)"
  shows "vag_members g \<in> set (topology_groups links selected)" "vag_aggregator g = vag_members g ! 0"
    "vag_parent g = None \<or> (vag_parent g = Some (selected ! 0) \<and> (\<exists>i. 0 < i \<and> i < length (topology_groups links selected)
       \<and> vag_members g = topology_groups links selected ! i))"
  using assms by (auto simp: plan_groups_def enumerate_eq_zip in_set_zip split: if_splits)

text \<open>The groups but the first one do not contain the first worker.\<close>

lemma first_in_first_group:
  assumes "distinct selected" "selected \<noteq> []" "0 < i" "i < length (topology_groups links selected)"
  shows "selected ! 0 \<notin> set (topology_groups links selected ! i)"
proof -
  obtain first rest where sel: "selected = first # rest" using assms(2) by (cases selected) auto
  obtain g gs where gs: "topology_groups links selected = g # gs" using assms(4) by (cases "topology_groups links selected") auto
  have "distinct (concat (g # gs))"
    using topology_groups_mset [of links selected] assms(1) by (metis gs mset_eq_imp_distinct_iff)
  moreover have "first \<in> set g" using topology_groups_first [of links first rest g gs] gs sel by auto
  moreover have "set (topology_groups links selected ! i) \<subseteq> set (concat gs)"
    using assms(3,4) gs by (cases i) (auto intro: nth_mem)
  ultimately show ?thesis using sel by auto
qed

definition group_fine :: "V4TrainingPlan \<Rightarrow> V4AggregationGroup \<Rightarrow> bool" where
  "group_fine v g \<longleftrightarrow> vag_members g \<noteq> [] \<and> length (vag_members g) \<le> MAX_V4_PLAN_WORKERS \<and> distinct (vag_members g)
     \<and> filled 0 \<notin> set (vag_members g) \<and> set (vag_members g) \<subseteq> set (vp_workers v) \<and> vag_aggregator g \<in> set (vag_members g)
     \<and> (\<forall>parent. vag_parent g = Some parent \<longrightarrow> parent \<in> set (vp_workers v) \<and> parent \<notin> set (vag_members g))"

lemma plan_group_step_fine:
  assumes "group_fine v g" "vag_group_id g \<notin> ids" "set (vag_members g) \<inter> grouped = {}"
  shows "plan_group_step v (ids, grouped) g = Inr (insert (vag_group_id g) ids, grouped \<union> set (vag_members g))"
proof -
  have "insert_fresh grouped (vag_members g) = Some (grouped \<union> set (vag_members g))"
    using assms by (auto simp: insert_fresh_Some_iff group_fine_def)
  moreover have "all_ok [err_if (vag_members g = [] \<or> length (vag_members g) > MAX_V4_PLAN_WORKERS)
         (TooMany ''v4.plan.group.members'' MAX_V4_PLAN_WORKERS),
       v4_node_list_check (vag_members g) ''v4.plan.group.members'' MAX_V4_PLAN_WORKERS,
       err_if (vag_group_id g \<in> ids \<or> (\<exists>m \<in> set (vag_members g). m \<notin> set (vp_workers v)))
         (Invalid ''v4.plan.group.topology'')] = Ok"
    unfolding result_simps using assms by (auto simp: group_fine_def)
  ultimately show ?thesis using assms(1)
    by (auto simp: plan_group_step_def and_then_def group_fine_def is_some_and_def split: option.splits)
qed

lemma plan_groups_fold:
  "\<forall>g\<in>set gs. group_fine v g \<Longrightarrow> distinct (map vag_group_id gs) \<Longrightarrow> vag_group_id ` set gs \<inter> ids = {} \<Longrightarrow>
   distinct (concat (map vag_members gs)) \<Longrightarrow> set (concat (map vag_members gs)) \<inter> grouped = {} \<Longrightarrow>
   try_fold (plan_group_step v) (ids, grouped) gs
     = Inr (ids \<union> vag_group_id ` set gs, grouped \<union> set (concat (map vag_members gs)))"
proof (induction gs arbitrary: ids grouped)
  case (Cons g gs)
  have step: "plan_group_step v (ids, grouped) g = Inr (insert (vag_group_id g) ids, grouped \<union> set (vag_members g))"
    using Cons.prems by (intro plan_group_step_fine) auto
  have "try_fold (plan_group_step v) (insert (vag_group_id g) ids, grouped \<union> set (vag_members g)) gs
    = Inr (insert (vag_group_id g) ids \<union> vag_group_id ` set gs, grouped \<union> set (vag_members g) \<union> set (concat (map vag_members gs)))"
    using Cons.prems by (intro Cons.IH) auto
  then show ?case by (simp add: step and_then_def Un_assoc)
qed simp

lemma distinct_of_nat_u16: "n \<le> 2 ^ 16 \<Longrightarrow> distinct (map (of_nat :: nat \<Rightarrow> u16) [0..<n])"
  by (auto simp: distinct_map inj_on_def word_of_nat_eq_iff take_bit_nat_eq_self)

lemma plan_groups_ok:
  assumes "distinct selected" "selected \<noteq> []" "length selected \<le> MAX_V4_PLAN_WORKERS" "filled 0 \<notin> set selected" "vp_workers v = selected"
  shows "plan_groups links selected \<noteq> []" "length (plan_groups links selected) \<le> MAX_V4_GROUPS"
    "\<exists>ids. try_fold (plan_group_step v) ({}, {}) (plan_groups links selected) = Inr (ids, set selected)"
proof -
  let ?gs = "topology_groups links selected"
  have len: "length (plan_groups links selected) = length ?gs" by (simp add: plan_groups_def)
  have count: "length ?gs \<le> 16" using topology_groups_count [of links selected] assms(3) by (simp add: MAX_GROUP_SIZE_def MAX_V4_PLAN_WORKERS_def)
  then show "length (plan_groups links selected) \<le> MAX_V4_GROUPS" using len by (simp add: MAX_V4_GROUPS_def)
  have all: "mset (concat ?gs) = mset selected" by (rule topology_groups_mset)
  then have sets: "set (concat ?gs) = set selected" and dist: "distinct (concat ?gs)"
    using assms(1) by (metis mset_eq_setD, metis mset_eq_imp_distinct_iff)
  show "plan_groups links selected \<noteq> []" using sets assms(2) len by (metis concat.simps(1) length_0_conv list.set(1) set_empty)
  have fine: "group_fine v g" if g: "g \<in> set (plan_groups links selected)" for g
  proof -
    note m = in_plan_groups [OF g]
    have size: "vag_members g \<noteq> []" "length (vag_members g) \<le> MAX_GROUP_SIZE"
      using topology_groups_sizes [of links selected] m(1) by auto
    have sub: "set (vag_members g) \<subseteq> set selected" using m(1) sets by auto
    moreover have "distinct (vag_members g)" using dist m(1) by (simp add: distinct_concat_iff)
    moreover have "vag_aggregator g \<in> set (vag_members g)" using m(2) size(1) by simp
    moreover have "parent \<in> set selected \<and> parent \<notin> set (vag_members g)" if "vag_parent g = Some parent" for parent
      using m(3) that first_in_first_group [OF assms(1,2)] assms(2) by auto
    ultimately show ?thesis using size assms by (auto simp: group_fine_def MAX_GROUP_SIZE_def MAX_V4_PLAN_WORKERS_def)
  qed
  have "distinct (map vag_group_id (plan_groups links selected))"
    unfolding plan_groups_ids using count by (intro distinct_of_nat_u16) simp
  then have "try_fold (plan_group_step v) ({}, {}) (plan_groups links selected)
    = Inr ({} \<union> vag_group_id ` set (plan_groups links selected), {} \<union> set (concat (map vag_members (plan_groups links selected))))"
    using fine dist by (intro plan_groups_fold) (simp_all add: plan_groups_members)
  then show "\<exists>ids. try_fold (plan_group_step v) ({}, {}) (plan_groups links selected) = Inr (ids, set selected)"
    using sets by (simp add: plan_groups_members)
qed

section \<open>Shards and capabilities\<close>

lemma div_ceil_le:
  assumes "2 \<le> unat b" "unat a \<le> 2 * n"
  shows "unat (div_ceil a b) \<le> n"
proof -
  have half: "unat a div unat b \<le> unat a div 2" using assms(1) by (rule div_le_mono2 [rotated]) simp
  then have small: "unat a div unat b \<le> n" using assms(2) by linarith
  show ?thesis
  proof (cases "a mod b = 0")
    case True
    then show ?thesis using small by (simp add: div_ceil_def unat_div)
  next
    case False
    then have "unat a mod unat b \<noteq> 0" by (metis unat_eq_zero unat_mod)
    then have "unat b * (unat a div unat b) < unat a" by (metis add_diff_cancel_left' gr0I less_numeral_extra(3) mult_div_mod_eq zero_less_diff)
    moreover have "2 * (unat a div unat b) \<le> unat b * (unat a div unat b)" using assms(1) by (rule mult_le_mono1)
    ultimately have less: "unat a div unat b < n" using assms(2) by linarith
    have "unat (a div b + 1) = Suc (unat a div unat b)"
    proof -
      have "unat a < 2 ^ LENGTH(64)" by (rule unsigned_less)
      then have "unat (a div b) < 2 ^ 64 - 1" using half by (simp add: unat_div)
      then have "unat (a div b + 1) = Suc (unat (a div b))" by (simp add: unat_word_ariths(1))
      then show ?thesis by (simp add: unat_div)
    qed
    then show ?thesis using False less by (simp add: div_ceil_def)
  qed
qed

lemma plan_shard_ok:
  assumes "vp_workers v = selected" "2 \<le> length selected" "length selected \<le> 64" "filled 0 \<notin> set selected" "owner \<in> set selected"
    "vpq_model_bytes r \<le> MAX_TRAINING_STATE_BYTES" "\<forall>bs. vc_blake3 codec bs \<noteq> filled 0"
  shows "plan_shard_check v (plan_shard codec r selected (index, owner)) = Ok"
proof -
  define state where "state = div_ceil (vpq_model_bytes r) (of_nat (length selected))"
  have "unat (of_nat (length selected) :: u64) = length selected" using assms(3) by (simp add: unsigned_of_nat take_bit_nat_eq_self)
  then have bound: "unat state \<le> 2 ^ 39" unfolding state_def
    using assms(2,6) by (intro div_ceil_le) (simp_all add: word_le_nat_alt MAX_TRAINING_STATE_BYTES_def)
  then have sizes: "max state 1 \<le> MAX_TRAINING_STATE_BYTES" "max (sat_mul state 2) 1 \<le> MAX_TRAINING_STATE_BYTES"
    by (auto simp: word_le_nat_alt MAX_TRAINING_STATE_BYTES_def max_def unat_sat_mul)
  have pos: "max x 1 \<noteq> 0" for x :: u64 by (auto simp: max_def word_le_nat_alt)
  have replicas: "set rs \<subseteq> set selected \<and> owner \<notin> set rs \<and> length rs \<le> 1 \<and> distinct rs"
    if "rs = (case find (\<lambda>candidate. candidate \<noteq> owner) selected of None \<Rightarrow> [] | Some replica \<Rightarrow> [replica])" for rs
  proof (cases "find (\<lambda>candidate. candidate \<noteq> owner) selected")
    case (Some x)
    then have "x \<in> set selected" "x \<noteq> owner" by (auto simp: find_Some_iff)
    then show ?thesis using Some that by simp
  qed (use that in simp)
  define rs where "rs = (case find (\<lambda>candidate. candidate \<noteq> owner) selected of None \<Rightarrow> [] | Some replica \<Rightarrow> [replica])"
  show ?thesis
    using replicas [OF rs_def] sizes assms pos
    unfolding plan_shard_check_def plan_shard_def Let_def prod.case rs_def [symmetric] state_def [symmetric] result_simps
    by (auto simp: MAX_V4_PLAN_WORKERS_def MAX_TRAINING_REPLICAS_def MAX_STRING_LEN_def string_check_def from_bytes_hashed_def not_less result_simps)
qed

lemma permille_bound:
  assumes "unit_reliability v"
  shows "reliability_permille limit (f32_clamp (F_Fin 0) (F_Fin 1) v) \<le> 1000"
proof -
  obtain x where x: "v = F_Fin x" "0 \<le> x" "x \<le> 1" using assms unfolding unit_reliability_def by (cases v) auto
  then obtain y where "f32_round (x * 1000) = F_Fin y" "0 \<le> y" "y \<le> of_int 1000"
    using f32_round_between [of "x * 1000" 1000] by auto
  then have "rounded_as limit (f32_round (x * 1000)) \<le> 1000" by (intro rounded_as_le) auto
  then show ?thesis using x by (simp add: reliability_permille_def f32_clamp_def)
qed

lemma capabilities_field: "backend_capabilities_check b f = Ok \<Longrightarrow> backend_capabilities_check b g = Ok"
  by (auto simp: backend_capabilities_check_def result_simps simp del: all_ok.simps)

lemma requirements_field: "compute_requirements_check b f = Ok \<Longrightarrow> compute_requirements_check b g = Ok"
  by (auto simp: compute_requirements_check_def result_simps simp del: all_ok.simps)

lemma reference_capability_ok: "backend_capabilities_check (reference_backend_capability BK_Cpu memory True) f = Ok"
proof -
  have pos: "max memory 1 \<noteq> 0" by (auto simp: max_def word_le_nat_alt)
  have "unat (max memory 1) < 2 ^ LENGTH(64)" by (rule unsigned_less)
  then have "sat_mul (max memory 1) 1 = max memory 1" by (simp add: sat_mul_def)
  then show ?thesis using pos unfolding backend_capabilities_check_def result_simps
    by (simp add: reference_backend_capability_def Let_def MAX_V5_FORMATS_def MAX_V5_FEATURES_def MAX_STRING_LEN_def MAX_TASK_ELEMENTS_def
        has_duplicates_def)
qed

text \<open>What a worker of a request must advertise to be part of a valid plan.\<close>

definition worker_fits :: "WorkerProfile \<Rightarrow> bool" where
  "worker_fits worker \<longleftrightarrow> wp_node worker \<noteq> filled 0 \<and> length (wp_backends worker) \<le> MAX_V5_BACKENDS
     \<and> distinct (map bc_kind (wp_backends worker))
     \<and> (\<forall>backend\<in>set (wp_backends worker). backend_capabilities_check backend ''v5.plan.backend_capabilities'' = Ok)"

lemma capability_ok:
  assumes "worker_fits worker" "unit_reliability (wp_reliability worker)" "wp_memory_bytes worker \<noteq> 0" "wp_compute_units worker \<noteq> 0"
  shows "vwc_node (worker_capability worker) = wp_node worker"
    "vwc_memory_bytes (worker_capability worker) \<noteq> 0" "vwc_compute_units (worker_capability worker) \<noteq> 0"
    "vwc_reliability_permille (worker_capability worker) \<le> 1000"
    "vac_device_count (vwc_accelerator (worker_capability worker)) \<noteq> 0" "vac_memory_bytes (vwc_accelerator (worker_capability worker)) \<noteq> 0"
    "vac_formats (vwc_accelerator (worker_capability worker)) \<noteq> []" "length (vwc_backends (worker_capability worker)) \<le> MAX_V5_BACKENDS"
    "\<forall>backend\<in>set (vwc_backends (worker_capability worker)). backend_capabilities_check backend ''v5.plan.backend_capabilities'' = Ok"
    "distinct (map bc_kind (vwc_backends (worker_capability worker)))"
proof -
  have "reliability_permille (2 ^ 16) (f32_clamp (F_Fin 0) (F_Fin 1) (wp_reliability worker)) \<le> 1000"
    using assms(2) by (rule permille_bound)
  then show "vwc_reliability_permille (worker_capability worker) \<le> 1000"
    by (simp add: worker_capability_def word_le_nat_alt unsigned_of_nat take_bit_nat_eq_self)
qed (use assms reference_capability_ok in \<open>auto simp: worker_capability_def worker_fits_def MAX_V5_BACKENDS_def\<close>)

section \<open>Selection\<close>

lemma select_workers_eq:
  assumes "select_workers r = Inr eligible"
  shows "eligible = take (vpq_requested_workers r) (rank_workers r (eligible_workers r))" "2 \<le> length eligible"
  using assms by (auto simp: select_workers_def Let_def and_then_def split: if_splits sum.splits)

lemma set_rank_workers [simp]: "set (rank_workers r ws) = set ws"
  by (simp add: rank_workers_def)

lemma distinct_rank_workers: "distinct (map f (rank_workers r ws)) = distinct (map f ws)"
  by (simp add: rank_workers_def distinct_map distinct_sort)

lemma selected_props:
  assumes "plan_request_check r = Ok" "select_workers r = Inr eligible"
  shows "set eligible \<subseteq> set (vpq_workers r)" "distinct (map wp_node eligible)" "2 \<le> length eligible" "length eligible \<le> 64"
proof -
  have request: "distinct (map wp_node (vpq_workers r))" "vpq_requested_workers r \<le> 64"
    using assms(1) unfolding plan_request_check_def Let_def result_simps
    by (auto simp: MAX_PLANNER_WORKERS_def intro: card_distinct)
  note eligible = select_workers_eq [OF assms(2)]
  show "2 \<le> length eligible" by (rule eligible(2))
  show "length eligible \<le> 64" using eligible(1) request(2) by simp
  show "set eligible \<subseteq> set (vpq_workers r)" using eligible(1) set_take_subset [of _ "rank_workers r (eligible_workers r)"]
    by (auto simp: eligible_workers_def)
  have "distinct (map wp_node (eligible_workers r))" unfolding eligible_workers_def using request(1) by (rule distinct_map_filter)
  then have "distinct (map wp_node (rank_workers r (eligible_workers r)))" by (simp add: distinct_rank_workers)
  then show "distinct (map wp_node eligible)" unfolding eligible(1) by (metis distinct_take take_map)
qed

lemma request_workers:
  assumes "plan_request_check r = Ok" "worker \<in> set (vpq_workers r)"
  shows "unit_reliability (wp_reliability worker)" "wp_memory_bytes worker \<noteq> 0" "wp_compute_units worker \<noteq> 0"
  using assms unfolding plan_request_check_def Let_def result_simps by auto

lemma find_distinct: "distinct (map key xs) \<Longrightarrow> x \<in> set xs \<Longrightarrow> find (\<lambda>y. key y = key x) xs = Some x"
  by (induction xs) (auto simp: rev_image_eqI)

lemma collect_Inr: "collect rs = Inr xs \<Longrightarrow> length xs = length rs \<and> Inr ` set xs \<subseteq> set rs"
proof (induction rs arbitrary: xs)
  case (Cons r rs)
  then obtain x ys where "r = Inr x" "collect rs = Inr ys" "xs = x # ys" by (auto simp: and_then_ok)
  then show ?case using Cons.IH [of ys] by auto
qed simp

lemma assign_backend_Inr:
  assumes "assign_backend eligible requirement = Inr a"
  shows "\<exists>worker backend. worker \<in> set eligible \<and> backend \<in> set (vwc_backends (worker_capability worker))
    \<and> backend_satisfies_requirements backend requirement
    \<and> a = \<lparr>ba_task_kind = cr_task_kind requirement, ba_worker = wp_node worker, ba_backend = bc_kind backend, ba_device_index = 0,
         ba_requirements = requirement\<rparr>"
proof -
  obtain worker which where pick: "min_by_key (\<lambda>(worker, _). (wp_rtt_ms worker, wp_node worker)) (List.map_filter (\<lambda>worker.
        map_option (\<lambda>backend. (worker, bc_kind backend)) (find (\<lambda>backend. backend_satisfies_requirements backend requirement)
          (vwc_backends (worker_capability worker)))) eligible) = Some (worker, which)"
    and a: "a = \<lparr>ba_task_kind = cr_task_kind requirement, ba_worker = wp_node worker, ba_backend = which, ba_device_index = 0,
         ba_requirements = requirement\<rparr>"
    using assms unfolding assign_backend_def by (auto split: option.splits prod.splits)
  then obtain backend where "worker \<in> set eligible" "bc_kind backend = which"
    "find (\<lambda>backend. backend_satisfies_requirements backend requirement) (vwc_backends (worker_capability worker)) = Some backend"
    using min_by_key_SomeD [OF pick] by (auto simp: List.map_filter_def)
  moreover from this have "backend \<in> set (vwc_backends (worker_capability worker))" "backend_satisfies_requirements backend requirement"
    by (auto simp: find_Some_iff)
  ultimately show ?thesis using a by blast
qed

lemma assignment_ok:
  assumes "assign_backend eligible requirement = Inr a" "distinct (map wp_node eligible)"
    "\<forall>worker\<in>set eligible. worker_fits worker \<and> unit_reliability (wp_reliability worker) \<and> wp_memory_bytes worker \<noteq> 0 \<and> wp_compute_units worker \<noteq> 0"
    "compute_requirements_check requirement field = Ok"
  shows "backend_assignment_check a (wp_node ` set eligible) (map worker_capability eligible) field = Ok"
proof -
  obtain worker backend where w: "worker \<in> set eligible" "backend \<in> set (vwc_backends (worker_capability worker))"
    "backend_satisfies_requirements backend requirement"
    "a = \<lparr>ba_task_kind = cr_task_kind requirement, ba_worker = wp_node worker, ba_backend = bc_kind backend, ba_device_index = 0,
       ba_requirements = requirement\<rparr>"
    using assign_backend_Inr [OF assms(1)] by auto
  note c = capability_ok [of worker]
  have node: "vwc_node (worker_capability x) = wp_node x" for x by (simp add: worker_capability_def)
  have worker: "find (\<lambda>c. vwc_node c = wp_node worker) (map worker_capability eligible) = Some (worker_capability worker)"
    using find_distinct [of vwc_node "map worker_capability eligible" "worker_capability worker"] assms(2) w(1) by (simp add: node comp_def)
  have fits: "worker_fits worker" "unit_reliability (wp_reliability worker)" "wp_memory_bytes worker \<noteq> 0" "wp_compute_units worker \<noteq> 0"
    using assms(3) w(1) by auto
  have "find (\<lambda>b. bc_kind b = bc_kind backend) (vwc_backends (worker_capability worker)) = Some backend"
    using find_distinct [OF c(10) [OF fits] w(2)] .
  moreover have "bc_device_count backend \<noteq> 0"
    using bspec [OF c(9) [OF fits] w(2)] unfolding backend_capabilities_check_def result_simps by simp
  ultimately show ?thesis
    using w(1,3) worker fits assms(4) unfolding backend_assignment_check_def result_simps
    by (auto simp: w(4) worker_fits_def backend_satisfies_requirements_def safe_memory_def not_less word_greater_zero_iff split: if_splits)
qed

section \<open>Validity\<close>

lemma length_decimal: "n < 10 ^ Suc k \<Longrightarrow> length (decimal n) \<le> Suc k"
proof (induction k arbitrary: n)
  case (Suc k)
  then show ?case using Suc.IH [of "n div 10"] by (subst decimal.simps) auto
qed (subst decimal.simps, simp)

lemma rationale_ok:
  assumes "length selected \<le> 64"
  shows "plan_rationale r selected \<noteq> []" "length (plan_rationale r selected) \<le> MAX_STRING_LEN"
proof -
  have "unat (shard_memory r) < 2 ^ LENGTH(64)" by (rule unsigned_less)
  then have "length (decimal (unat (shard_memory r))) \<le> Suc 19" by (intro length_decimal) simp
  moreover have "length (decimal (length selected)) \<le> Suc 1" using assms by (intro length_decimal) simp
  moreover have "length (decimal MAX_GROUP_SIZE) \<le> Suc 0" by (intro length_decimal) (simp add: MAX_GROUP_SIZE_def)
  ultimately show "length (plan_rationale r selected) \<le> MAX_STRING_LEN"
    by (simp add: plan_rationale_def MAX_STRING_LEN_def)
  show "plan_rationale r selected \<noteq> []" by (simp add: plan_rationale_def)
qed

definition shape_fits :: "V4PlanRequest \<Rightarrow> bool" where
  "shape_fits r \<longleftrightarrow> (case vpq_strategy r of
       PS_LocalSgd \<Rightarrow> vpq_tensor_degree r = 0 \<and> vpq_pipeline_stages r = 0
     | PS_TensorParallel \<Rightarrow> vpq_pipeline_stages r = 0
     | PS_PipelineParallel \<Rightarrow> vpq_tensor_degree r = 0
     | PS_Hybrid \<Rightarrow> True)"

text \<open>The limits of the protocol that the planner leaves to the validation of its plan.\<close>

definition request_fits :: "V4PlanRequest \<Rightarrow> bool" where
  "request_fits r \<longleftrightarrow> vpq_job_id r \<noteq> filled 0 \<and> vpq_proposer r \<noteq> filled 0 \<and> shape_fits r
     \<and> vpq_model_bytes r \<le> MAX_TRAINING_STATE_BYTES \<and> vpq_local_steps r \<le> 1024 \<and> vpq_max_staleness r \<le> 1024
     \<and> (\<forall>worker\<in>set (vpq_workers r). worker_fits worker)
     \<and> (\<forall>requirement\<in>set (vpq_backend_requirements r). compute_requirements_check requirement ''v5.plan.compute_requirement'' = Ok)"

lemma plan_v4_Inr:
  assumes "plan_v4 codec r = Inr d"
  obtains eligible assignments where "plan_request_check r = Ok" "select_workers r = Inr eligible"
    "collect (map (assign_backend eligible) (vpq_backend_requirements r)) = Inr assignments"
    "strategy_support (vpq_strategy r) (vpq_tensor_degree r) (vpq_pipeline_stages r) \<noteq> SL_Unsupported"
    "vpd_plan d = (unsigned_plan codec r eligible assignments)\<lparr>vp_plan_hash := hash_plan codec (unsigned_plan codec r eligible assignments)\<rparr>"
    "vpd_selected_workers d = map wp_node eligible"
    "vpd_rejected_workers d = map wp_node (filter (\<lambda>worker. wp_node worker \<notin> set (map wp_node eligible)) (vpq_workers r))"
proof -
  obtain eligible assignments where "plan_request_check r = Ok" "select_workers r = Inr eligible"
    "collect (map (assign_backend eligible) (vpq_backend_requirements r)) = Inr assignments"
    "(if strategy_support (vpq_strategy r) (vpq_tensor_degree r) (vpq_pipeline_stages r) = SL_Unsupported then Inl PE_UnsupportedStrategy
      else let plan = unsigned_plan codec r eligible assignments; selected = map wp_node eligible in
       Inr \<lparr>vpd_plan = plan\<lparr>vp_plan_hash := hash_plan codec plan\<rparr>, vpd_selected_workers = selected,
         vpd_rejected_workers = map wp_node (filter (\<lambda>worker. wp_node worker \<notin> set selected) (vpq_workers r)),
         vpd_explanations = map (explanation codec r) eligible\<rparr>) = Inr d"
    using assms unfolding plan_v4_def and_then_ok by auto
  then show ?thesis using that by (auto simp: Let_def split: if_splits)
qed

lemma hash_plan_self [simp]: "hash_plan codec (plan\<lparr>vp_plan_hash := h\<rparr>) = hash_plan codec plan"
  by (simp add: hash_plan_def)

lemma unsigned_plan_simps [simp]:
  "vp_job_id (unsigned_plan codec r ws as) = vpq_job_id r" "vp_proposer (unsigned_plan codec r ws as) = vpq_proposer r"
  "vp_strategy (unsigned_plan codec r ws as) = vpq_strategy r"
  "vp_support (unsigned_plan codec r ws as) = strategy_support (vpq_strategy r) (vpq_tensor_degree r) (vpq_pipeline_stages r)"
  "vp_workers (unsigned_plan codec r ws as) = map wp_node ws"
  "vp_groups (unsigned_plan codec r ws as) = plan_groups (vpq_links r) (map wp_node ws)"
  "vp_shards (unsigned_plan codec r ws as) = map (plan_shard codec r (map wp_node ws)) (enumerate 0 (map wp_node ws))"
  "vp_worker_capabilities (unsigned_plan codec r ws as) = map worker_capability ws"
  "vp_tensor_degree (unsigned_plan codec r ws as) = vpq_tensor_degree r" "vp_pipeline_stages (unsigned_plan codec r ws as) = vpq_pipeline_stages r"
  "vp_local_steps (unsigned_plan codec r ws as) = vpq_local_steps r" "vp_max_staleness (unsigned_plan codec r ws as) = vpq_max_staleness r"
  "vp_checkpoint_replication (unsigned_plan codec r ws as) = min (vpq_checkpoint_replication r) (of_nat (length ws))"
  "vp_accelerator (unsigned_plan codec r ws as) = None" "vp_parent_plan_hash (unsigned_plan codec r ws as) = None"
  "vp_compute_requirements (unsigned_plan codec r ws as) = vpq_backend_requirements r" "vp_backend_assignments (unsigned_plan codec r ws as) = as"
  "vp_rationale (unsigned_plan codec r ws as) = plan_rationale r (map wp_node ws)"
  "vp_plan_generation (unsigned_plan codec r ws as) = 1" "vp_model_generation (unsigned_plan codec r ws as) = 1"
  "vp_training_epoch (unsigned_plan codec r ws as) = 1" "vp_membership_epoch (unsigned_plan codec r ws as) = 1"
  "vp_coordination_term (unsigned_plan codec r ws as) = 1"
  by (simp_all add: unsigned_plan_def Let_def)

lemma plan_capabilities_ok:
  assumes "vp_workers v = map wp_node eligible" "distinct (map wp_node eligible)"
    "\<forall>worker\<in>set eligible. worker_fits worker \<and> unit_reliability (wp_reliability worker) \<and> wp_memory_bytes worker \<noteq> 0 \<and> wp_compute_units worker \<noteq> 0"
  shows "\<exists>seen. try_fold (plan_capability_step v) {} (map worker_capability eligible) = Inr seen"
proof -
  have node: "vwc_node (worker_capability x) = wp_node x" for x by (simp add: worker_capability_def)
  have step: "plan_capability_step v = insert_step
     (\<lambda>c. all_ok [
        node_id_check (vwc_node c) ''v4.plan.worker_capability.node'',
        err_if (vwc_node c \<notin> set (vp_workers v)) (Invalid ''v4.plan.worker_capability'')])
     vwc_node (Invalid ''v4.plan.worker_capability'')
     (\<lambda>c. all_ok [
        err_if (vwc_memory_bytes c = 0 \<or> vwc_compute_units c = 0 \<or> vwc_reliability_permille c > 1000)
          (Invalid ''v4.plan.worker_capability''),
        err_if (vac_device_count (vwc_accelerator c) = 0 \<or> vac_memory_bytes (vwc_accelerator c) = 0
          \<or> vac_formats (vwc_accelerator c) = []) (Invalid ''v4.plan.worker_accelerator''),
        err_if (length (vwc_backends c) > MAX_V5_BACKENDS)
          (TooMany ''v5.plan.worker_backends'' MAX_V5_BACKENDS),
        all_ok (map (\<lambda>b. backend_capabilities_check b ''v5.plan.backend_capabilities'') (vwc_backends c))])"
    by (intro ext) (simp add: plan_capability_step_def)
  have each: "wp_node w \<noteq> filled 0 \<and> vwc_memory_bytes (worker_capability w) \<noteq> 0 \<and> vwc_compute_units (worker_capability w) \<noteq> 0
      \<and> \<not> 1000 < vwc_reliability_permille (worker_capability w) \<and> vac_device_count (vwc_accelerator (worker_capability w)) \<noteq> 0
      \<and> vac_memory_bytes (vwc_accelerator (worker_capability w)) \<noteq> 0 \<and> vac_formats (vwc_accelerator (worker_capability w)) \<noteq> []
      \<and> \<not> MAX_V5_BACKENDS < length (vwc_backends (worker_capability w))
      \<and> (\<forall>b\<in>set (vwc_backends (worker_capability w)). backend_capabilities_check b ''v5.plan.backend_capabilities'' = Ok)"
    if "w \<in> set eligible" for w
  proof -
    have w: "worker_fits w" "unit_reliability (wp_reliability w)" "wp_memory_bytes w \<noteq> 0" "wp_compute_units w \<noteq> 0"
      using assms(3) that by blast+
    show ?thesis using capability_ok [OF w] w(1) unfolding worker_fits_def not_less by blast
  qed
  show ?thesis unfolding step result_simps
    using assms(2) each by (simp add: node comp_def assms(1) del: not_less)
qed

lemma plan_shards_ok:
  assumes "vp_workers v = selected" "2 \<le> length selected" "length selected \<le> 64" "filled 0 \<notin> set selected"
    "vpq_model_bytes r \<le> MAX_TRAINING_STATE_BYTES" "\<forall>bs. vc_blake3 codec bs \<noteq> filled 0"
  shows "\<exists>seen. try_fold (insert_step (\<lambda>_. Ok) vso_shard_id (Invalid ''v4.plan.shard.id'') (plan_shard_check v)) {}
    (map (plan_shard codec r selected) (enumerate 0 selected)) = Inr seen"
proof -
  have "vso_shard_id (plan_shard codec r selected p) = of_nat (fst p)" for p by (simp add: plan_shard_def Let_def case_prod_unfold)
  then have "map vso_shard_id (map (plan_shard codec r selected) (enumerate 0 selected)) = map of_nat [0..<length selected]"
    by (simp add: comp_def map_enumerate_fst)
  then have "distinct (map vso_shard_id (map (plan_shard codec r selected) (enumerate 0 selected)))"
    using assms(3) by (simp add: distinct_of_nat_u16 del: map_map)
  moreover have "plan_shard_check v (plan_shard codec r selected p) = Ok" if "p \<in> set (enumerate 0 selected)" for p
  proof -
    have "snd p \<in> set selected" using that by (auto simp: in_set_enumerate_eq) (metis nth_mem)
    then show ?thesis using plan_shard_ok [of v selected "snd p" r codec "fst p"] assms by simp
  qed
  ultimately show ?thesis unfolding result_simps by auto
qed

text \<open>A request whose workers are selected, and that keeps the limits of the protocol.\<close>

definition planned :: "V4PlanRequest \<Rightarrow> WorkerProfile list \<Rightarrow> bool" where
  "planned r ws \<longleftrightarrow> plan_request_check r = Ok \<and> select_workers r = Inr ws \<and> request_fits r"

lemma planned_workers:
  assumes "planned r ws"
  shows "\<forall>w\<in>set ws. worker_fits w \<and> unit_reliability (wp_reliability w) \<and> wp_memory_bytes w \<noteq> 0 \<and> wp_compute_units w \<noteq> 0"
    "distinct (map wp_node ws)" "2 \<le> length ws" "length ws \<le> 64" "filled 0 \<notin> set (map wp_node ws)" "map wp_node ws \<noteq> []"
proof -
  have p: "plan_request_check r = Ok" "select_workers r = Inr ws" "request_fits r" using assms by (simp_all add: planned_def)
  note sel = selected_props [OF p(1,2)]
  show ws: "\<forall>w\<in>set ws. worker_fits w \<and> unit_reliability (wp_reliability w) \<and> wp_memory_bytes w \<noteq> 0 \<and> wp_compute_units w \<noteq> 0"
    using sel(1) request_workers [OF p(1)] p(3) unfolding request_fits_def by blast
  show "filled 0 \<notin> set (map wp_node ws)" using ws unfolding worker_fits_def by auto
  show "distinct (map wp_node ws)" "2 \<le> length ws" "length ws \<le> 64" "map wp_node ws \<noteq> []" using sel(2-4) by auto
qed

lemma planned_limits:
  assumes "planned r ws"
  shows "\<not> (vpq_local_steps r = 0 \<or> vpq_local_steps r > 1024 \<or> vpq_max_staleness r > 1024
      \<or> min (vpq_checkpoint_replication r) (of_nat (length ws)) = 0 \<or> min (vpq_checkpoint_replication r) (of_nat (length ws)) > 16
      \<or> vpq_tensor_degree r > of_nat MAX_V4_STAGES \<or> vpq_pipeline_stages r > of_nat MAX_V4_STAGES)"
    "length (vpq_backend_requirements r) \<le> 64"
proof -
  have "vpq_tensor_degree r \<le> 8" "vpq_pipeline_stages r \<le> 16" "vpq_local_steps r \<noteq> 0" "vpq_checkpoint_replication r \<noteq> 0"
      "vpq_checkpoint_replication r \<le> 16" "length (vpq_backend_requirements r) \<le> 64"
    using assms unfolding planned_def plan_request_check_def Let_def result_simps
    by (auto simp: MAX_TENSOR_DEGREE_def MAX_PIPELINE_STAGES_def MAX_V5_REQUIREMENTS_def)
  moreover from this have "min (vpq_checkpoint_replication r) (of_nat (length ws)) \<noteq> 0" "min (vpq_checkpoint_replication r) (of_nat (length ws)) \<le> 16"
    using planned_workers(3,4) [OF assms]
    by (auto simp: min_def word_le_nat_alt unsigned_of_nat take_bit_nat_eq_self of_nat_eq_0_iff word_of_nat_eq_0_iff)
  ultimately show "length (vpq_backend_requirements r) \<le> 64" "\<not> (vpq_local_steps r = 0 \<or> vpq_local_steps r > 1024 \<or> vpq_max_staleness r > 1024
      \<or> min (vpq_checkpoint_replication r) (of_nat (length ws)) = 0 \<or> min (vpq_checkpoint_replication r) (of_nat (length ws)) > 16
      \<or> vpq_tensor_degree r > of_nat MAX_V4_STAGES \<or> vpq_pipeline_stages r > of_nat MAX_V4_STAGES)"
    using assms unfolding planned_def request_fits_def MAX_V4_STAGES_def not_less by (auto simp: not_less word_le_nat_alt)
qed

lemma planned_assignments:
  assumes "planned r ws" "collect (map (assign_backend ws) (vpq_backend_requirements r)) = Inr as"
  shows "length as \<le> 64"
    "\<forall>a\<in>set as. backend_assignment_check a (set (map wp_node ws)) (map worker_capability ws) ''v5.plan.backend_assignment'' = Ok"
proof -
  show "length as \<le> 64" using collect_Inr [OF assms(2)] planned_limits(2) [OF assms(1)] by simp
  show "\<forall>a\<in>set as. backend_assignment_check a (set (map wp_node ws)) (map worker_capability ws) ''v5.plan.backend_assignment'' = Ok"
  proof
    fix a assume a: "a \<in> set as"
    obtain requirement where req: "requirement \<in> set (vpq_backend_requirements r)" "assign_backend ws requirement = Inr a"
      using collect_Inr [OF assms(2)] a by (metis image_eqI image_set imageE subsetD)
    then have "compute_requirements_check requirement ''v5.plan.backend_assignment'' = Ok"
      using assms(1) requirements_field unfolding planned_def request_fits_def by blast
    from assignment_ok [OF req(2) planned_workers(2,1) [OF assms(1)] this]
    show "backend_assignment_check a (set (map wp_node ws)) (map worker_capability ws) ''v5.plan.backend_assignment'' = Ok" by simp
  qed
qed

lemma planned_shape:
  assumes "shape_fits r" "strategy_support (vpq_strategy r) (vpq_tensor_degree r) (vpq_pipeline_stages r) \<noteq> SL_Unsupported"
  shows "strategy_shape_valid (unsigned_plan codec r ws as\<lparr>vp_plan_hash := h\<rparr>) \<and> support_matches_strategy (unsigned_plan codec r ws as\<lparr>vp_plan_hash := h\<rparr>)"
  using assms by (cases "vpq_strategy r") (auto simp: shape_fits_def split: if_splits)

lemma planned_valid:
  assumes planned: "planned r ws" and assigned: "collect (map (assign_backend ws) (vpq_backend_requirements r)) = Inr as"
    and support: "strategy_support (vpq_strategy r) (vpq_tensor_degree r) (vpq_pipeline_stages r) \<noteq> SL_Unsupported"
    and hash: "\<forall>bs. vc_blake3 codec bs \<noteq> filled 0" "h \<noteq> filled 0"
  shows "v4_plan_check (unsigned_plan codec r ws as\<lparr>vp_plan_hash := h\<rparr>) = Ok"
proof -
  let ?plan = "unsigned_plan codec r ws as\<lparr>vp_plan_hash := h\<rparr>" and ?ids = "map wp_node ws"
  note ws = planned_workers [OF planned]
  have len: "2 \<le> length ?ids" "length ?ids \<le> 64" using ws by simp_all
  have fits: "request_fits r" using planned by (simp add: planned_def)
  note groups = plan_groups_ok [of ?ids ?plan "vpq_links r", OF ws(2,6) _ ws(5)]
  have group_fold: "\<exists>x. try_fold (plan_group_step ?plan) ({}, {}) (vp_groups ?plan) = Inr x
      \<and> (case x of (_, grouped) \<Rightarrow> err_if (grouped \<noteq> set (vp_workers ?plan)) (Invalid ''v4.plan.group.coverage'')) = Ok"
    "\<not> (vp_groups ?plan = [] \<or> length (vp_groups ?plan) > MAX_V4_GROUPS)"
    using groups len by (auto simp: MAX_V4_PLAN_WORKERS_def)
  have caps: "\<exists>x. try_fold (plan_capability_step ?plan) {} (vp_worker_capabilities ?plan) = Inr x \<and> Ok = (Ok :: check)"
    using plan_capabilities_ok [of ?plan ws, OF _ ws(2,1)] by simp
  have shards: "\<exists>x. try_fold (insert_step (\<lambda>_. Ok) vso_shard_id (Invalid ''v4.plan.shard.id'') (plan_shard_check ?plan)) {} (vp_shards ?plan) = Inr x
      \<and> Ok = (Ok :: check)"
    using plan_shards_ok [of ?plan ?ids r codec, OF _ len ws(5) _ hash(1)] fits by (simp add: request_fits_def)
  have count: "length (vp_shards ?plan) = length ws" by simp
  then have "vp_shards ?plan \<noteq> []" using ws(3) by (metis list.size(3) not_numeral_le_zero)
  then have some_shards: "\<not> (vp_shards ?plan = [] \<or> MAX_TRAINING_SHARDS < length (vp_shards ?plan))"
    using ws(4) count by (metis MAX_TRAINING_SHARDS_def not_less)
  have branch: "vp_branch ?plan \<noteq> filled 0" using hash(1) by (simp add: unsigned_plan_def Let_def from_bytes_hashed_def)
  have shape: "\<not> (\<not> strategy_shape_valid ?plan \<or> \<not> support_matches_strategy ?plan)"
    using planned_shape [OF _ support] fits unfolding request_fits_def by blast
  show ?thesis
    unfolding v4_plan_check_def all_ok_Cons_iff all_ok_Nil_iff if_some_ok and_then_ok all_ok_map elementary_checks v4_list_checks err_if_ok
    by (intro conjI; (rule group_fold caps shards some_shards branch shape
        | use planned_limits [OF planned] planned_assignments [OF planned assigned] ws len fits hash(2) rationale_ok [OF len(2), of r] in
            \<open>simp add: request_fits_def MAX_V4_PLAN_WORKERS_def MAX_V5_REQUIREMENTS_def MAX_V5_ASSIGNMENTS_def\<close>))
qed

lemma plan_v4_planned:
  assumes "plan_v4 codec r = Inr d" "request_fits r" "\<forall>bs. vc_blake3 codec bs \<noteq> filled 0"
  shows "v4_plan_check (vpd_plan d) = Ok" "vp_plan_hash (vpd_plan d) = hash_plan codec (vpd_plan d)"
proof -
  obtain ws as where *: "plan_request_check r = Ok" "select_workers r = Inr ws" "collect (map (assign_backend ws) (vpq_backend_requirements r)) = Inr as"
    "strategy_support (vpq_strategy r) (vpq_tensor_degree r) (vpq_pipeline_stages r) \<noteq> SL_Unsupported"
    "vpd_plan d = (unsigned_plan codec r ws as)\<lparr>vp_plan_hash := hash_plan codec (unsigned_plan codec r ws as)\<rparr>"
    using assms(1) by (rule plan_v4_Inr)
  have "planned r ws" using *(1,2) assms(2) by (simp add: planned_def)
  then show "v4_plan_check (vpd_plan d) = Ok"
    unfolding *(5) using *(3,4) assms(3) by (intro planned_valid) (simp_all add: hash_plan_def from_bytes_hashed_def)
  show "vp_plan_hash (vpd_plan d) = hash_plan codec (vpd_plan d)" by (simp add: *(5))
qed

text \<open>C18: the plan of a request that keeps the limits of the protocol carries its own hash and passes the validation that
  every receiver applies: shapes, generations, workers, capabilities, groups, shards, requirements and assignments.\<close>

theorem planned_plan_accepted:
  assumes "plan_v4 codec r = Inr d" "request_fits r" "\<forall>bs. vc_blake3 codec bs \<noteq> filled 0"
  shows "v4_plan_check (vpd_plan d) = Ok \<and> vp_plan_hash (vpd_plan d) = hash_plan codec (vpd_plan d)"
  using plan_v4_planned [OF assms] by simp

definition sample_worker :: "u8 \<Rightarrow> WorkerProfile" where
  "sample_worker i = \<lparr>wp_node = filled i, wp_hardware = HK_Cpu, wp_memory_bytes = 4096, wp_compute_units = 4, wp_rtt_ms = 5,
     wp_throughput_mbps = 100, wp_reliability = F_Fin (3 / 4), wp_dataset_available = True, wp_backends = []\<rparr>"

definition sample_plan_request :: V4PlanRequest where
  "sample_plan_request = \<lparr>vpq_job_id = filled 5, vpq_proposer = filled 1, vpq_model_bytes = 1024, vpq_requested_workers = 2,
     vpq_strategy = PS_TensorParallel, vpq_tensor_degree = 2, vpq_pipeline_stages = 0, vpq_local_steps = 2, vpq_max_staleness = 2,
     vpq_checkpoint_replication = 2, vpq_data_locality = DL_Selective, vpq_workers = [sample_worker 1, sample_worker 2, sample_worker 3],
     vpq_links = [], vpq_objective = \<lparr>vpo_throughput_weight = 2, vpo_bandwidth_weight = 2, vpo_fault_tolerance_weight = 3,
       vpo_locality_weight = 1\<rparr>, vpq_backend_requirements = []\<rparr>"

definition planner_codec :: v4_codec where
  "planner_codec = \<lparr>vc_blake3 = (\<lambda>_. filled 9), vc_hex = (\<lambda>_. []), vc_postcard_plan = (\<lambda>_. None), vc_json_training_state = (\<lambda>_. []),
     vc_json_optimizer_shard = (\<lambda>_. []), vc_json_optimizer_state = (\<lambda>_. []), vc_json_checkpoint = (\<lambda>_. []), vc_json_graph = (\<lambda>_. []),
     vc_json_integrated_state = (\<lambda>_. []), vc_json_election = (\<lambda>_. []), vc_json_tensor = (\<lambda>_. []), vc_json_pipeline = (\<lambda>_. []),
     vc_json_branch = (\<lambda>_. []), vc_json_branch_commit = (\<lambda>_. [])\<rparr>"

lemma length_rank_workers [simp]: "length (rank_workers r ws) = length ws"
  by (simp add: rank_workers_def)

lemma sample_eligible: "eligible_workers sample_plan_request = [sample_worker 1, sample_worker 2, sample_worker 3]"
proof -
  have "shard_memory sample_plan_request = 1024"
    by (simp add: shard_memory_def sample_plan_request_def div_ceil_def sat_mul_def)
  then show ?thesis by (simp add: eligible_workers_def) (simp add: sample_plan_request_def sample_worker_def)
qed

lemma sample_planned: "\<exists>d. plan_v4 planner_codec sample_plan_request = Inr d"
proof -
  have check: "plan_request_check sample_plan_request = Ok"
    unfolding plan_request_check_def Let_def result_simps
    by (simp add: sample_plan_request_def sample_worker_def MAX_PLANNER_WORKERS_def MAX_TENSOR_DEGREE_def MAX_PIPELINE_STAGES_def
        MAX_V5_REQUIREMENTS_def unit_reliability_def card_insert_if)
  have "\<exists>ws. select_workers sample_plan_request = Inr ws"
    by (simp add: select_workers_def Let_def sample_eligible) (simp add: sample_plan_request_def and_then_def)
  then show ?thesis using check by (auto simp: plan_v4_def and_then_def) (auto simp: sample_plan_request_def Let_def)
qed

theorem planned_plan_accepted_witness:
  "\<exists>d. plan_v4 planner_codec sample_plan_request = Inr d \<and> v4_plan_check (vpd_plan d) = Ok"
proof -
  obtain d where d: "plan_v4 planner_codec sample_plan_request = Inr d" using sample_planned ..
  have "request_fits sample_plan_request"
    by (simp add: request_fits_def shape_fits_def sample_plan_request_def sample_worker_def worker_fits_def MAX_TRAINING_STATE_BYTES_def)
  then show ?thesis using planned_plan_accepted [OF d] d by (simp add: planner_codec_def)
qed

section \<open>The best workers\<close>


lemma sort_key_split:
  assumes "s \<in> set (take n (sort_key key xs))" "w \<in> set xs" "w \<notin> set (take n (sort_key key xs))"
  shows "key s \<le> key w"
proof -
  let ?ys = "sort_key key xs"
  have "w \<in> set (take n ?ys @ drop n ?ys)" using assms(2) by (simp only: append_take_drop_id set_sort)
  then have w: "w \<in> set (drop n ?ys)" using assms(3) unfolding set_append by blast
  have "sorted (map key (take n ?ys @ drop n ?ys))" by (simp only: append_take_drop_id sorted_sort_key)
  then show ?thesis using assms(1) w unfolding map_append sorted_append by auto
qed


lemma worker_nodes_inj:
  assumes "plan_request_check r = Ok"
  shows "inj_on wp_node (set (vpq_workers r))"
proof -
  have "distinct (map wp_node (vpq_workers r))"
    using assms unfolding plan_request_check_def Let_def result_simps by (auto intro: card_distinct)
  then show ?thesis by (simp add: distinct_map)
qed



lemma same_ranks: "worker_score (sample_worker i) objective = worker_score (sample_worker 1) objective"
  "topology_score (wp_node (sample_worker i)) [] = 0"
  by (simp_all add: worker_score_def sample_worker_def topology_score_def)

lemma sample_selected: "select_workers sample_plan_request = Inr [sample_worker 1, sample_worker 2]"
proof -
  have "rank_workers sample_plan_request [sample_worker 1, sample_worker 2, sample_worker 3] = [sample_worker 1, sample_worker 2, sample_worker 3]"
    unfolding rank_workers_def
    by (rule sort_key_id_if_sorted) (simp add: same_ranks [of 2] same_ranks [of 3] sample_plan_request_def less_eq_prod_def; simp add: sample_worker_def)
  then show ?thesis by (simp add: select_workers_def sample_eligible Let_def) (simp add: sample_plan_request_def and_then_def)
qed


lemma plan_groups_parent:
  assumes "ids \<noteq> []" "i < length (plan_groups links ids)"
  shows "vag_parent (plan_groups links ids ! i) = (if i = 0 then None else Some (vag_aggregator (plan_groups links ids ! 0)))"
proof -
  obtain first rest where ids: "ids = first # rest" using assms(1) by (cases ids) auto
  obtain g gs where gs: "topology_groups links ids = g # gs" by (cases "grow_group links [first] rest") (simp add: ids)
  have "g ! 0 = first" using topology_groups_first [of links first rest g gs] gs unfolding ids by auto
  then show ?thesis using assms(2) gs by (auto simp: plan_groups_def nth_enumerate_eq ids)
qed

text \<open>The groups of a plan partition its workers, each has between one and four members of which the first
  aggregates, and the groups but the first report to the aggregator of the first.\<close>

lemma plan_groups_partition:
  assumes "plan_v4 codec r = Inr d"
  shows "mset (concat (map vag_members (vp_groups (vpd_plan d)))) = mset (vp_workers (vpd_plan d))
    \<and> (\<forall>g\<in>set (vp_groups (vpd_plan d)). vag_members g \<noteq> [] \<and> length (vag_members g) \<le> 4 \<and> vag_aggregator g = hd (vag_members g))
    \<and> (\<forall>i<length (vp_groups (vpd_plan d)). vag_parent (vp_groups (vpd_plan d) ! i)
         = (if i = 0 then None else Some (vag_aggregator (vp_groups (vpd_plan d) ! 0))))"
proof -
  obtain ws as where p: "select_workers r = Inr ws"
    "vpd_plan d = (unsigned_plan codec r ws as)\<lparr>vp_plan_hash := hash_plan codec (unsigned_plan codec r ws as)\<rparr>"
    using assms by (rule plan_v4_Inr)
  let ?ids = "map wp_node ws" let ?groups = "plan_groups (vpq_links r) ?ids"
  have "ws \<noteq> []" using select_workers_eq(2) [OF p(1)] by auto
  then have parent: "vag_parent (?groups ! i) = (if i = 0 then None else Some (vag_aggregator (?groups ! 0)))" if "i < length ?groups" for i
    using that plan_groups_parent [of ?ids i "vpq_links r"] by simp
  have "vag_members x \<noteq> [] \<and> length (vag_members x) \<le> 4 \<and> vag_aggregator x = hd (vag_members x)" if "x \<in> set ?groups" for x
    using in_plan_groups [OF that] topology_groups_sizes [of "vpq_links r" ?ids] by (auto simp: hd_conv_nth MAX_GROUP_SIZE_def)
  then show ?thesis using topology_groups_mset [of "vpq_links r" ?ids] parent by (simp add: p(2) plan_groups_members)
qed

section \<open>The memory of shards\<close>

lemma shard_of_plan:
  assumes "shard \<in> set (map (plan_shard codec r ids) (enumerate 0 ids))"
  shows "\<exists>owner\<in>set ids. vso_owners shard = [owner]"
    "vso_memory_bytes shard = max (sat_mul (div_ceil (vpq_model_bytes r) (of_nat (length ids))) 2) 1"
  using assms by (auto simp: plan_shard_def Let_def enumerate_eq_zip dest: set_zip_rightD)

text \<open>C20: when a plan has as many workers as the request wants and offers, every shard fits the memory of its owner.\<close>

theorem shards_fit_owners:
  assumes "plan_v4 codec r = Inr d" "length (vp_workers (vpd_plan d)) = min (vpq_requested_workers r) (length (vpq_workers r))"
    "shard \<in> set (vp_shards (vpd_plan d))" "w \<in> set (vpq_workers r)" "wp_node w \<in> set (vso_owners shard)"
  shows "vso_memory_bytes shard \<le> wp_memory_bytes w"
proof -
  obtain ws as where p: "plan_request_check r = Ok" "select_workers r = Inr ws"
    "vpd_plan d = (unsigned_plan codec r ws as)\<lparr>vp_plan_hash := hash_plan codec (unsigned_plan codec r ws as)\<rparr>"
    using assms(1) by (rule plan_v4_Inr)
  note ws = select_workers_eq [OF p(2)]
  have len: "length ws = min (vpq_requested_workers r) (length (vpq_workers r))" using assms(2) by (simp add: p(3))
  have shard: "shard \<in> set (map (plan_shard codec r (map wp_node ws)) (enumerate 0 (map wp_node ws)))" using assms(3) by (simp add: p(3))
  have "wp_node w \<in> set (map wp_node ws)" using shard_of_plan(1) [OF shard] assms(5) by auto
  then have "w \<in> set ws" using assms(4) selected_props(1) [OF p(1,2)] worker_nodes_inj [OF p(1)] by (auto simp: inj_on_def)
  then have "w \<in> set (eligible_workers r)" using set_take_subset [of "vpq_requested_workers r"] by (force simp: ws(1))
  then have "shard_memory r \<le> wp_memory_bytes w" by (simp add: eligible_workers_def)
  moreover have "max (length ws) 2 = length ws" using ws(2) by simp
  then have "shard_memory r = sat_mul (div_ceil (vpq_model_bytes r) (of_nat (length ws))) 2"
    unfolding shard_memory_def len [symmetric] by simp
  moreover have "1 \<le> wp_memory_bytes w" using request_workers(2) [OF p(1) assms(4)] by (simp add: word_le_nat_alt Suc_le_eq unat_gt_0)
  ultimately show ?thesis using shard_of_plan(2) [OF shard] by simp
qed

theorem shards_fit_owners_witness:
  "\<exists>d. plan_v4 planner_codec sample_plan_request = Inr d \<and> vso_memory_bytes (vp_shards (vpd_plan d) ! 0) \<le> 4096"
proof -
  obtain d where d: "plan_v4 planner_codec sample_plan_request = Inr d" using sample_planned ..
  then obtain ws as where p: "select_workers sample_plan_request = Inr ws"
    "vpd_plan d = (unsigned_plan planner_codec sample_plan_request ws as)\<lparr>vp_plan_hash := hash_plan planner_codec (unsigned_plan planner_codec sample_plan_request ws as)\<rparr>"
    by (rule plan_v4_Inr)
  have ws: "ws = [sample_worker 1, sample_worker 2]" using p(1) sample_selected by simp
  show ?thesis using shards_fit_owners [OF d, of "vp_shards (vpd_plan d) ! 0" "sample_worker 1"] d
    by (simp add: p(2) ws plan_shard_def Let_def) (simp add: sample_plan_request_def sample_worker_def)
qed

definition unreliable_request :: V4PlanRequest where
  "unreliable_request = sample_plan_request\<lparr>vpq_model_bytes := 6144, vpq_requested_workers := 3,
     vpq_workers := [sample_worker 1, sample_worker 2, (sample_worker 3)\<lparr>wp_reliability := F_Fin (1 / 4)\<rparr>]\<rparr>"

text \<open>C21: a worker is eligible by the size a shard has when all wanted workers take part. When some of them are not
  eligible the shards grow, and a plan that passes validation gives every worker a shard that does not fit its memory.\<close>

theorem plan_overcommits_memory:
  "\<exists>d. plan_v4 planner_codec unreliable_request = Inr d \<and> v4_plan_check (vpd_plan d) = Ok
     \<and> list_all2 (\<lambda>shard capability. vso_owners shard = [vwc_node capability] \<and> vwc_memory_bytes capability < vso_memory_bytes shard)
         (vp_shards (vpd_plan d)) (vp_worker_capabilities (vpd_plan d)) \<and> length (vp_shards (vpd_plan d)) = 2"
proof -
  have check: "plan_request_check unreliable_request = Ok"
    unfolding plan_request_check_def Let_def result_simps
    by (simp add: unreliable_request_def sample_plan_request_def sample_worker_def MAX_PLANNER_WORKERS_def MAX_TENSOR_DEGREE_def
        MAX_PIPELINE_STAGES_def MAX_V5_REQUIREMENTS_def unit_reliability_def card_insert_if)
  have "shard_memory unreliable_request = 4096"
    by (simp add: shard_memory_def unreliable_request_def div_ceil_def sat_mul_def)
  then have eligible: "eligible_workers unreliable_request = [sample_worker 1, sample_worker 2]"
    by (simp add: eligible_workers_def) (simp add: unreliable_request_def sample_plan_request_def sample_worker_def)
  have "rank_workers unreliable_request [sample_worker 1, sample_worker 2] = [sample_worker 1, sample_worker 2]"
    unfolding rank_workers_def
    by (rule sort_key_id_if_sorted) (simp add: same_ranks [of 2] unreliable_request_def sample_plan_request_def less_eq_prod_def; simp add: sample_worker_def)
  then have select: "select_workers unreliable_request = Inr [sample_worker 1, sample_worker 2]"
    by (simp add: select_workers_def eligible Let_def) (simp add: unreliable_request_def sample_plan_request_def and_then_def)
  obtain d where d: "plan_v4 planner_codec unreliable_request = Inr d"
    using check select by (auto simp: plan_v4_def and_then_def) (auto simp: unreliable_request_def sample_plan_request_def Let_def)
  then obtain as where p: "vpd_plan d = (unsigned_plan planner_codec unreliable_request [sample_worker 1, sample_worker 2] as)
      \<lparr>vp_plan_hash := hash_plan planner_codec (unsigned_plan planner_codec unreliable_request [sample_worker 1, sample_worker 2] as)\<rparr>"
    using select by (auto elim: plan_v4_Inr)
  have "request_fits unreliable_request"
    by (simp add: request_fits_def shape_fits_def unreliable_request_def sample_plan_request_def sample_worker_def worker_fits_def MAX_TRAINING_STATE_BYTES_def)
  then have "v4_plan_check (vpd_plan d) = Ok" using plan_v4_planned(1) [OF d] by (simp add: planner_codec_def)
  then show ?thesis using d
    by (simp add: p plan_shard_def worker_capability_def) (simp add: unreliable_request_def sample_worker_def div_ceil_def sat_mul_def)
qed

section \<open>Protocol 1.3 training\<close>

text \<open>The workers of a protocol 1.3 plan are the nearest ones that are fit, and its timeout leaves four round trips to
  each of them.\<close>

lemma training_selects_nearest:
  assumes "s \<in> set (training_eligible memory locality n workers)" "w \<in> set workers" "w \<notin> set (training_eligible memory locality n workers)"
    "memory \<le> wp_memory_bytes w" "0 < wp_compute_units w" "is_finite (wp_reliability w)" "f32_le (F_Fin (1 / 2)) (wp_reliability w)"
    "locality = DL_LocalOnly \<Longrightarrow> wp_dataset_available w"
  shows "wp_rtt_ms s \<le> wp_rtt_ms w"
proof -
  let ?fit = "filter (\<lambda>worker. wp_memory_bytes worker \<ge> memory \<and> wp_compute_units worker > 0 \<and> is_finite (wp_reliability worker)
    \<and> f32_le (F_Fin (1 / 2)) (wp_reliability worker) \<and> (locality \<noteq> DL_LocalOnly \<or> wp_dataset_available worker)) workers"
  have "w \<in> set ?fit" using assms by auto
  then show ?thesis using sort_key_split [OF assms(1) [unfolded training_eligible_def] _ assms(3) [unfolded training_eligible_def]]
    by (auto simp: less_eq_prod_def)
qed

lemma fold_max_ge: "x \<in> set xs \<Longrightarrow> x \<le> fold max xs m" for x :: "'a :: linorder"
proof -
  have "fold max xs m = Max (insert m (set xs))" by (metis Max.set_eq_fold list.simps(15))
  then show "x \<in> set xs \<Longrightarrow> x \<le> fold max xs m" by simp
qed

lemma training_timeout:
  assumes "plan_training model_bytes locality n workers = Inr d" "s \<in> set (training_eligible (sat_mul model_bytes 2) locality n workers)"
  shows "4 * unat (wp_rtt_ms s) \<le> unat (tpd_synchronization_timeout_ms d)"
proof -
  define rtt where "rtt = fold max (map wp_rtt_ms (training_eligible (sat_mul model_bytes 2) locality n workers)) 0"
  have "wp_rtt_ms s \<le> rtt" unfolding rtt_def using assms(2) by (intro fold_max_ge) simp
  then have le: "unat (wp_rtt_ms s) \<le> unat rtt" by (simp add: word_le_nat_alt)
  have bound: "unat rtt < 2 ^ LENGTH(32)" by (rule unsigned_less)
  have "unat (sat_mul (ucast rtt :: u64) k) = unat rtt * unat k" if "unat k \<le> 6" for k
  proof -
    have "unat rtt * unat k \<le> unat rtt * 6" using that by (rule mult_left_mono) simp
    also have "\<dots> \<le> 2 ^ LENGTH(64) - 1" using bound by simp
    finally have "unat rtt * unat k \<le> 2 ^ LENGTH(64) - 1" .
    then show ?thesis by (simp add: unat_sat_mul unsigned_ucast_eq take_bit_nat_eq_self less_trans [OF bound])
  qed
  from this [of 4] this [of 6] have "4 * unat rtt \<le> unat (max (sat_mul (ucast rtt) 4) 1000 :: u64)"
    "4 * unat rtt \<le> unat (max (sat_mul (ucast rtt) 6) 2000 :: u64)"
    by (auto simp: max_def word_le_nat_alt)
  moreover have "tpd_synchronization_timeout_ms d = max (sat_mul (ucast rtt) 4) 1000 \<or> tpd_synchronization_timeout_ms d = max (sat_mul (ucast rtt) 6) 2000"
    using assms(1) unfolding plan_training_def Let_def rtt_def [symmetric] training_mode_def by (auto split: if_splits)
  ultimately show ?thesis using le by auto
qed

end
