(* ===== verification/Spec2Isabelle.thy ===== *)
theory Spec2Isabelle
  imports Codec Connection_Properties Node_Properties Compute_Properties Collective_Properties
    Planner_Properties
begin

text \<open>
  A verification library for the Intelligence Network, a Rust workspace of peers that find each other in a
  distributed hash table, exchange signed messages over QUIC and train models together.

  \<^bold>\<open>The program.\<close> A node decodes frames into messages and validates them (\<^verbatim>\<open>crates/protocol\<close>). Its network handle
  (\<^verbatim>\<open>crates/network\<close>) keeps the peer table, connections, relay sessions and the DHT, and hands the messages of
  authenticated peers to the node. The node (\<^verbatim>\<open>crates/node\<close>) runs the handlers of the training fabric over its job
  maps and their files, calls the compute backends, the aggregation algorithms and the local security state
  (\<^verbatim>\<open>crates/intelligence\<close>), and answers through the handle.

  \<^bold>\<open>How the code is modelled.\<close> A struct is a record with a prefix on its fields, an enum a datatype, a Rust result a
  sum whose left side is the error, the operator \<^verbatim>\<open>?\<close> one of \<open>and_then\<close>, \<open>all_ok\<close>, \<open>checked\<close> and \<open>try_then\<close>. Unsigned
  integers are words of their width, \<^verbatim>\<open>usize\<close> is a natural number that saturates where the code saturates, \<^verbatim>\<open>i64\<close> an
  integer with its clamps and wraps written out, \<^verbatim>\<open>f32\<close> the rational number it denotes, an infinity or not a number. \<^verbatim>\<open>BTreeMap\<close> and \<^verbatim>\<open>HashMap\<close> are the ordered map of \<open>BTree_Map\<close>; where the
  code iterates over a \<^verbatim>\<open>HashMap\<close> the model takes the order of the keys. A method with \<^verbatim>\<open>&mut self\<close> returns the new
  state beside its result, so that what an early return leaves behind is part of the model. What happens outside a
  component (the clock, failing writes, full channels, random identifiers, the answers of peers) is an argument of its
  operations, and the theorems hold for all of it. Third-party code (postcard, serde_json, BLAKE3, Ed25519) is a record
  of parameters; a theorem that needs a law of it names the law as a hypothesis.

  \<^bold>\<open>Theories.\<close>
  \<^item> \<open>Prelude\<close>, \<open>Number_Format\<close>, \<open>BTree_Map\<close>, \<open>Socket_Addr\<close>, \<open>Effects\<close>, \<open>Step_System\<close>: integers, byte arrays, results and
    iterators, decimal text, the ordered map with the interface \<open>map_interface\<close> it provides, the parser of socket
    addresses, the composition of fallible steps with the rules \<open>post_intros\<close>, and the contracts \<open>guarded_system\<close>,
    \<open>step_system\<close> and \<open>monotone_system\<close> that every stateful component interprets.
  \<^item> \<open>Compute_Types\<close>, \<open>Protocol_Types\<close>, \<open>Training_Types\<close>, \<open>Fabric_Types\<close>, \<open>Fabric_Data_Types\<close>, \<open>Messages\<close>: the wire types of
    \<^verbatim>\<open>protocol/src/types.rs\<close>.
  \<^item> \<open>Validation\<close>, \<open>Training_Validation\<close>, \<open>Fabric_Validation\<close>, \<open>Message_Validation\<close>, \<open>Validation_Text\<close>: the checks of
    \<^verbatim>\<open>protocol/src/validation.rs\<close> in the order of the source, with the texts of their errors.
  \<^item> \<open>Codec\<close>: \<^verbatim>\<open>protocol/src/codec.rs\<close>. An encoded frame decodes to its message, and only valid messages are decoded.
  \<^item> \<open>Dht_Table\<close>, \<open>Dht_Store\<close>: \<^verbatim>\<open>network/src/dht.rs\<close>. The table and the store stay within their bounds under any
    operations; lookups return the nearest contacts and spread over source prefixes; below its bounds the store
    refines the update of a map by sequence numbers.
  \<^item> \<open>Network_State\<close>, \<open>Network_Peers\<close>, \<open>Network_Dht\<close>, \<open>Network_Connection\<close>: \<^verbatim>\<open>network/src/lib.rs\<close>, that is the handle, what
    it believes of peers, its DHT requests and lookups, connections, their readers and relays. \<open>Network_Invariant\<close>
    shows that every operation keeps the bounds of a handle. \<open>Network_Properties\<close> has the end of a lookup, the bounds
    over runs, the judgement of repeated and excessive requests and the leak of unanswered pings;
    \<open>Connection_Properties\<close> the agreement of simultaneous dials, the way of a message through a relay, the authenticity
    of delivered messages and the reader that can be silenced.
  \<^item> \<open>Trust\<close>, \<open>Security_Types\<close>, \<open>Security_State\<close>, \<open>Security_Properties\<close>: \<^verbatim>\<open>intelligence/src/trust.rs\<close> and \<^verbatim>\<open>security.rs\<close>. The
    evidence graph is bounded and hearsay cannot quarantine; the security state stays valid for a restart, admits a
    position once within its window, never moves back and locks out equivocators.
  \<^item> \<open>Fabric_Algorithms\<close>: the aggregation and reconciliation of \<^verbatim>\<open>intelligence/src/training_fabric.rs\<close>, which tolerate as
    many outliers as their policy says and do not depend on the order of the updates.
  \<^item> \<open>Float32\<close>, \<open>Planner\<close>, \<open>Planner_Properties\<close>: the planners of \<^verbatim>\<open>intelligence/src/training_fabric.rs\<close> and \<^verbatim>\<open>training.rs\<close>
    over a model of \<^verbatim>\<open>f32\<close> that rounds to 24 bits, ties to even. A plan passes the validation of its receivers, takes
    the best eligible workers, groups them without loss and places shards that fit, as long as all wanted workers are
    eligible; otherwise it may exceed their memory.
  \<^item> \<open>Compute\<close>, \<open>Compute_Properties\<close>: \<^verbatim>\<open>intelligence/src/compute.rs\<close>. Reservations are released on every path and an honest
    backend passes its challenges; the sum of a transposed product wraps.
  \<^item> \<open>Node_State\<close>, \<open>Node_Jobs\<close>, \<open>Node_Replication\<close>, \<open>Node_Collective\<close>, \<open>Node_Dataplane\<close>, \<open>Node_Handler\<close>, \<open>Election\<close>: the
    job maps of \<^verbatim>\<open>node/src/lib.rs\<close> with their files, and the handlers of \<^verbatim>\<open>node/src/frontier_training.rs\<close> with the
    dispatch over them, probes, elections and the decision to take over.
  \<^item> \<open>Node_Frame\<close>, \<open>Node_Control\<close>, \<open>Node_Properties\<close>, \<open>Collective_Properties\<close>: the locale \<open>control_frame\<close> says which parts
    of a node the handlers leave alone; by it every step of a node refines a small transition system of graphs and
    votes (\<open>control_step\<close>), from which follow one vote per term, graphs that only move forward, and restarts that
    lose nothing. The sum of a collective group is exact in any order of arrival.

  \<^bold>\<open>Bounds and fuel.\<close> Every function of the model is total. A lookup has at most the eight rounds of the source, and an
  argument that lets the deadline of five seconds cut it earlier; the theorem on its end holds for every such cut.
  Loops that wait for messages run over the list of frames that arrive before their deadline.

  \<^bold>\<open>Granularity.\<close> A handler is one atomic step. In the code a handler gives up its locks at its awaits, so other
  tasks may run between two critical sections of it; properties of runs speak of every order of whole handlers. The
  parallel requests of one lookup round are a sequence. A ping whose future is dropped is a case of its own
  (\<open>RPC_Dropped\<close>), since the entry it leaves behind is what a later request meets.

  \<^bold>\<open>Not modelled.\<close> QUIC endpoints, TLS, the accept and writer tasks, dialling with its backoff and the greeting messages of
  a connection are calls into quinn and tokio. The drivers of training jobs (the integrated training loop,
  reconfiguration of a graph, the demos and the coordinator of protocol 1.3 training) are long sequences of awaits whose
  effects on other nodes are the handlers that are modelled. The CUDA and other accelerator backends call native
  libraries; a registry of the model holds CPU backends. The executors of \<^verbatim>\<open>crates/runtime\<close> start processes;
  \<^verbatim>\<open>crates/storage\<close> is files and permissions, and appears as maps with failing writes. Capability observations and the
  built-in jobs of \<^verbatim>\<open>intelligence/src/lib.rs\<close> are glue over other crates. The sign of a floating point zero is left out.
  The emulator, the command line, scripts and deployment files are harnesses around the node.
\<close>

end
